(* ===== verification/Prelude.thy ===== *)
theory Prelude
  imports Complex_Main "HOL-Library.AList" "HOL-Library.Product_Lexorder"
begin

text \<open>
  What every other theory of the development shares.

  \<^item> The exception-and-state monad \<open>('e, 's, 'a) op\<close>: a Python coroutine that reads and
    writes a state of type \<open>'s\<close> and either returns an \<open>'a\<close> or raises an \<open>'e\<close>. A raise
    keeps the state reached so far, as a Python exception keeps the mutations made before it.
  \<^item> Two ways to reason about it: triples \<open>hoare P m Q E\<close> with one rule per combinator,
    collected in \<open>hoare_rules\<close>, and direct evaluation with the equations in
    \<open>run_simps\<close>.
  \<^item> Database tables: lists of (primary key, row) pairs in row-id order, with SQLite's
    choice of the next key.
  \<^item> The parts of Python's standard library the code relies on: truthiness of optional
    integers and strings, \<open>str(int)\<close>, \<open>str.strip\<close>, decimal rounding.
\<close>

named_theorems run_simps and hoare_rules and row_simps

section \<open>The exception-and-state monad\<close>

type_synonym ('e, 's, 'a) op = "'s \<Rightarrow> ('e + 'a) \<times> 's"

definition ret :: "'a \<Rightarrow> ('e, 's, 'a) op" where
  "ret x = (\<lambda>s. (Inr x, s))"

definition raise :: "'e \<Rightarrow> ('e, 's, 'a) op" where
  "raise e = (\<lambda>s. (Inl e, s))"

definition bind :: "('e, 's, 'a) op \<Rightarrow> ('a \<Rightarrow> ('e, 's, 'b) op) \<Rightarrow> ('e, 's, 'b) op" where
  "bind m f = (\<lambda>s. case m s of (Inl e, s') \<Rightarrow> (Inl e, s') | (Inr x, s') \<Rightarrow> f x s')"

definition andthen :: "('e, 's, unit) op \<Rightarrow> ('e, 's, 'b) op \<Rightarrow> ('e, 's, 'b) op" where
  "andthen m k = bind m (\<lambda>_. k)"

definition gets :: "('s \<Rightarrow> 'a) \<Rightarrow> ('e, 's, 'a) op" where
  "gets f = (\<lambda>s. (Inr (f s), s))"

definition modify :: "('s \<Rightarrow> 's) \<Rightarrow> ('e, 's, unit) op" where
  "modify f = (\<lambda>s. (Inr (), f s))"

definition on_cond :: "bool \<Rightarrow> ('e, 's, unit) op \<Rightarrow> ('e, 's, unit) op" where
  "on_cond b m = (if b then m else ret ())"

text \<open>\<open>try: m except Exception as e: h e\<close>: the handler starts in the state of the raise.\<close>

definition catch :: "('e, 's, 'a) op \<Rightarrow> ('e \<Rightarrow> ('e, 's, 'a) op) \<Rightarrow> ('e, 's, 'a) op" where
  "catch m h = (\<lambda>s. case m s of (Inl e, s') \<Rightarrow> h e s' | (Inr x, s') \<Rightarrow> (Inr x, s'))"

text \<open>\<open>attempt m\<close> hands the outcome of \<open>m\<close>, a raise included, to what follows.\<close>

definition attempt :: "('e, 's, 'a) op \<Rightarrow> ('e, 's, 'e + 'a) op" where
  "attempt m = (\<lambda>s. case m s of (r, s') \<Rightarrow> (Inr r, s'))"

text \<open>A \<open>for\<close> loop that collects the results of its body.\<close>

fun for_each :: "('x \<Rightarrow> ('e, 's, 'a) op) \<Rightarrow> 'x list \<Rightarrow> ('e, 's, 'a list) op" where
  "for_each f [] = ret []"
| "for_each f (x # xs) = bind (f x) (\<lambda>y. bind (for_each f xs) (\<lambda>ys. ret (y # ys)))"

subsection \<open>Evaluation\<close>

lemma ret_run [run_simps]: "ret x s = (Inr x, s)"
  by (simp add: ret_def)

lemma raise_run [run_simps]: "raise e s = (Inl e, s)"
  by (simp add: raise_def)

lemma gets_run [run_simps]: "gets f s = (Inr (f s), s)"
  by (simp add: gets_def)

lemma modify_run [run_simps]: "modify f s = (Inr (), f s)"
  by (simp add: modify_def)

lemma bind_run [run_simps]:
  "bind m f s = (case m s of (Inl e, s') \<Rightarrow> (Inl e, s') | (Inr x, s') \<Rightarrow> f x s')"
  by (simp add: bind_def)

lemma andthen_run [run_simps]:
  "andthen m k s = (case m s of (Inl e, s') \<Rightarrow> (Inl e, s') | (Inr _, s') \<Rightarrow> k s')"
  by (simp add: andthen_def bind_def)

lemma on_cond_run [run_simps]: "on_cond b m s = (if b then m s else (Inr (), s))"
  by (simp add: on_cond_def ret_def)

lemma catch_run [run_simps]:
  "catch m h s = (case m s of (Inl e, s') \<Rightarrow> h e s' | (Inr x, s') \<Rightarrow> (Inr x, s'))"
  by (simp add: catch_def)

lemma attempt_run [run_simps]: "attempt m s = (case m s of (r, s') \<Rightarrow> (Inr r, s'))"
  by (simp add: attempt_def)

lemma bind_Inr: "m s = (Inr x, s') \<Longrightarrow> bind m f s = f x s'"
  by (simp add: bind_def)

lemma bind_Inl: "m s = (Inl e, s') \<Longrightarrow> bind m f s = (Inl e, s')"
  by (simp add: bind_def)

lemma bind_InrE:
  assumes "bind m f s = (Inr y, t)"
  obtains x s' where "m s = (Inr x, s')" and "f x s' = (Inr y, t)"
  using assms by (auto simp: bind_def split: prod.splits sum.splits)

subsection \<open>Triples\<close>

text \<open>
  \<open>hoare P m Q E\<close>: from a state satisfying \<open>P\<close>, a normal return of \<open>m\<close> satisfies
  \<open>Q\<close> of the value and the state, and a raise satisfies \<open>E\<close>. One rule per combinator,
  in \<open>hoare_rules\<close>; the case rules hand the branch condition to the branch.
\<close>

definition hoare ::
  "('s \<Rightarrow> bool) \<Rightarrow> ('e, 's, 'a) op \<Rightarrow> ('a \<Rightarrow> 's \<Rightarrow> bool) \<Rightarrow> ('e \<Rightarrow> 's \<Rightarrow> bool) \<Rightarrow> bool" where
  "hoare P m Q E \<longleftrightarrow>
     (\<forall>s. P s \<longrightarrow> (case m s of (Inl e, s') \<Rightarrow> E e s' | (Inr x, s') \<Rightarrow> Q x s'))"

lemma hoareI:
  "(\<And>s. P s \<Longrightarrow> case m s of (Inl e, s') \<Rightarrow> E e s' | (Inr x, s') \<Rightarrow> Q x s') \<Longrightarrow> hoare P m Q E"
  by (simp add: hoare_def)

lemma hoareD: "hoare P m Q E \<Longrightarrow> P s \<Longrightarrow> m s = (Inr x, s') \<Longrightarrow> Q x s'"
  by (auto simp: hoare_def)

lemma hoareE: "hoare P m Q E \<Longrightarrow> P s \<Longrightarrow> m s = (Inl e, s') \<Longrightarrow> E e s'"
  by (auto simp: hoare_def)

lemma hoare_ret [hoare_rules]: "(\<And>s. P s \<Longrightarrow> Q x s) \<Longrightarrow> hoare P (ret x) Q E"
  by (simp add: hoare_def ret_def)

lemma hoare_raise [hoare_rules]: "(\<And>s. P s \<Longrightarrow> E e s) \<Longrightarrow> hoare P (raise e) Q E"
  by (simp add: hoare_def raise_def)

lemma hoare_gets: "(\<And>s. P s \<Longrightarrow> Q (f s) s) \<Longrightarrow> hoare P (gets f) Q E"
  by (simp add: hoare_def gets_def)

lemma hoare_modify: "(\<And>s. P s \<Longrightarrow> Q () (f s)) \<Longrightarrow> hoare P (modify f) Q E"
  by (simp add: hoare_def modify_def)

lemma hoare_run:
  "hoare P m Q E \<Longrightarrow> P s \<Longrightarrow> case m s of (Inl e, s') \<Rightarrow> E e s' | (Inr x, s') \<Rightarrow> Q x s'"
  by (simp add: hoare_def)

lemma hoare_bind [hoare_rules]:
  assumes "hoare P m R E" and "\<And>x. hoare (R x) (f x) Q E"
  shows "hoare P (bind m f) Q E"
proof (rule hoareI)
  fix s assume "P s"
  note first = hoare_run [OF assms(1) this]
  obtain r t where m: "m s = (r, t)" by fastforce
  show "case bind m f s of (Inl e, s') \<Rightarrow> E e s' | (Inr x, s') \<Rightarrow> Q x s'"
  proof (cases r)
    case (Inl e)
    with first m show ?thesis by (simp add: bind_def)
  next
    case (Inr x)
    with first m have "R x t" by simp
    from hoare_run [OF assms(2) this] m Inr show ?thesis by (simp add: bind_def)
  qed
qed

lemma hoare_andthen [hoare_rules]:
  "hoare P m R E \<Longrightarrow> hoare (R ()) k Q E \<Longrightarrow> hoare P (andthen m k) Q E"
  unfolding andthen_def by (rule hoare_bind) simp_all

lemma hoare_on_cond [hoare_rules]:
  "(b \<Longrightarrow> hoare P m Q E) \<Longrightarrow> (\<And>s. \<not> b \<Longrightarrow> P s \<Longrightarrow> Q () s) \<Longrightarrow> hoare P (on_cond b m) Q E"
  by (simp add: on_cond_def hoare_ret)

lemma hoare_catch [hoare_rules]:
  assumes "hoare P m Q R" and "\<And>e. hoare (R e) (h e) Q E"
  shows "hoare P (catch m h) Q E"
proof (rule hoareI)
  fix s assume "P s"
  note first = hoare_run [OF assms(1) this]
  obtain r t where m: "m s = (r, t)" by fastforce
  show "case catch m h s of (Inl e, s') \<Rightarrow> E e s' | (Inr x, s') \<Rightarrow> Q x s'"
  proof (cases r)
    case (Inl e)
    with first m have "R e t" by simp
    from hoare_run [OF assms(2) this] m Inl show ?thesis by (simp add: catch_def)
  next
    case (Inr x)
    with first m show ?thesis by (simp add: catch_def)
  qed
qed

lemma hoare_attempt [hoare_rules]:
  assumes "hoare P m (\<lambda>x. Q (Inr x)) (\<lambda>e. Q (Inl e))"
  shows "hoare P (attempt m) Q E"
proof (rule hoareI)
  fix s assume "P s"
  note first = hoare_run [OF assms this]
  obtain r t where m: "m s = (r, t)" by fastforce
  with first show "case attempt m s of (Inl e, s') \<Rightarrow> E e s' | (Inr x, s') \<Rightarrow> Q x s'"
    by (cases r) (simp_all add: attempt_def)
qed

lemma hoare_if [hoare_rules]:
  "(b \<Longrightarrow> hoare P m Q E) \<Longrightarrow> (\<not> b \<Longrightarrow> hoare P k Q E) \<Longrightarrow> hoare P (if b then m else k) Q E"
  by simp

lemma hoare_option [hoare_rules]:
  "(x = None \<Longrightarrow> hoare P m Q E) \<Longrightarrow> (\<And>y. x = Some y \<Longrightarrow> hoare P (f y) Q E) \<Longrightarrow>
    hoare P (case x of None \<Rightarrow> m | Some y \<Rightarrow> f y) Q E"
  by (cases x) simp_all

lemma hoare_prod [hoare_rules]:
  "(\<And>a b. x = (a, b) \<Longrightarrow> hoare P (f a b) Q E) \<Longrightarrow> hoare P (case x of (a, b) \<Rightarrow> f a b) Q E"
  by (cases x) simp_all

lemma hoare_sum [hoare_rules]:
  "(\<And>a. x = Inl a \<Longrightarrow> hoare P (f a) Q E) \<Longrightarrow> (\<And>b. x = Inr b \<Longrightarrow> hoare P (g b) Q E) \<Longrightarrow>
    hoare P (case x of Inl a \<Rightarrow> f a | Inr b \<Rightarrow> g b) Q E"
  by (cases x) simp_all

lemma hoare_let [hoare_rules]: "(\<And>y. y = x \<Longrightarrow> hoare P (f y) Q E) \<Longrightarrow> hoare P (let y = x in f y) Q E"
  by simp

lemma hoare_pre: "hoare P' m Q E \<Longrightarrow> (\<And>s. P s \<Longrightarrow> P' s) \<Longrightarrow> hoare P m Q E"
  by (simp add: hoare_def)

lemma hoare_post:
  "hoare P m Q' E' \<Longrightarrow> (\<And>x s. Q' x s \<Longrightarrow> Q x s) \<Longrightarrow> (\<And>e s. E' e s \<Longrightarrow> E e s) \<Longrightarrow> hoare P m Q E"
  by (fastforce simp: hoare_def split: prod.splits sum.splits)

lemma hoare_conj:
  "hoare P m Q E \<Longrightarrow> hoare P' m Q' E' \<Longrightarrow>
    hoare (\<lambda>s. P s \<and> P' s) m (\<lambda>x s. Q x s \<and> Q' x s) (\<lambda>e s. E e s \<and> E' e s)"
  by (fastforce simp: hoare_def split: prod.splits sum.splits)

lemma hoare_pure: "(\<phi> \<Longrightarrow> hoare P m Q E) \<Longrightarrow> hoare (\<lambda>s. \<phi> \<and> P s) m Q E"
  by (cases \<phi>) (simp_all add: hoare_def)

lemma hoare_for_each:
  "(\<And>x. hoare I (f x) (\<lambda>_. I) E) \<Longrightarrow> hoare I (for_each f xs) (\<lambda>_. I) E"
  by (induction xs) (auto intro!: hoare_rules)

subsection \<open>Preservation\<close>

text \<open>Every run of \<open>m\<close> keeps \<open>I\<close>, whether it returns or raises.\<close>

definition preserves :: "('s \<Rightarrow> bool) \<Rightarrow> ('e, 's, 'a) op \<Rightarrow> bool" where
  "preserves I m \<longleftrightarrow> (\<forall>s. I s \<longrightarrow> I (snd (m s)))"

lemma preservesI: "(\<And>s. I s \<Longrightarrow> I (snd (m s))) \<Longrightarrow> preserves I m"
  by (simp add: preserves_def)

lemma preservesD: "preserves I m \<Longrightarrow> I s \<Longrightarrow> I (snd (m s))"
  by (simp add: preserves_def)

lemma preserves_hoare: "preserves I m \<longleftrightarrow> hoare I m (\<lambda>_. I) (\<lambda>_. I)"
  unfolding preserves_def hoare_def
  by (intro all_cong imp_cong refl) (auto split: prod.splits sum.splits intro: sum.exhaust)

lemma hoare_preserves: "hoare I m (\<lambda>_. I) (\<lambda>_. I) \<Longrightarrow> preserves I m"
  by (simp add: preserves_hoare)

section \<open>Tables\<close>

text \<open>
  A table lists its rows with their primary keys in the order of the row ids, which is the
  order SQLite returns them in when a query names none. The next key is one more than the
  largest, as for an \<open>INTEGER PRIMARY KEY\<close>.
\<close>

type_synonym 'r obj = "int \<times> 'r"
type_synonym 'r table = "'r obj list"

definition t_next :: "'r table \<Rightarrow> int" where
  "t_next t = foldr (\<lambda>(i, _) m. max i m) t 0 + 1"

definition t_get :: "'r table \<Rightarrow> int \<Rightarrow> 'r option" where
  "t_get t i = map_of t i"

definition t_put :: "int \<Rightarrow> 'r \<Rightarrow> 'r table \<Rightarrow> 'r table" where
  "t_put i r t = map (\<lambda>(j, q). (j, if j = i then r else q)) t"

definition t_add :: "'r \<Rightarrow> 'r table \<Rightarrow> 'r table" where
  "t_add r t = t @ [(t_next t, r)]"

definition t_del :: "int \<Rightarrow> 'r table \<Rightarrow> 'r table" where
  "t_del i t = filter (\<lambda>(j, _). j \<noteq> i) t"

definition t_select :: "(int \<Rightarrow> 'r \<Rightarrow> bool) \<Rightarrow> 'r table \<Rightarrow> 'r table" where
  "t_select P t = filter (\<lambda>(i, r). P i r) t"

definition t_first :: "(int \<Rightarrow> 'r \<Rightarrow> bool) \<Rightarrow> 'r table \<Rightarrow> 'r obj option" where
  "t_first P t = find (\<lambda>(i, r). P i r) t"

definition t_count :: "(int \<Rightarrow> 'r \<Rightarrow> bool) \<Rightarrow> 'r table \<Rightarrow> int" where
  "t_count P t = int (length (t_select P t))"

definition t_wf :: "'r table \<Rightarrow> bool" where
  "t_wf t \<longleftrightarrow> distinct (map fst t)"

lemma t_next_gt: "(i, r) \<in> set t \<Longrightarrow> i < t_next t"
  by (induction t) (force simp: t_next_def)+

lemma t_next_pos: "0 < t_next t"
  by (induction t) (force simp: t_next_def)+

lemma t_next_fresh [simp]: "t_get t (t_next t) = None"
  by (force simp: t_get_def map_of_eq_None_iff dest: t_next_gt)

lemma t_next_notin [simp]: "(t_next t, r) \<notin> set t"
  using t_next_gt by fastforce

lemma t_get_add [row_simps]:
  "t_get (t_add r t) i = (if i = t_next t then Some r else t_get t i)"
proof -
  have "map_of t i = None" if "i = t_next t"
    using that t_next_fresh [of t] by (simp add: t_get_def)
  then show ?thesis
    by (auto simp: t_get_def t_add_def map_add_def split: option.splits)
qed

lemma t_get_put [row_simps]:
  "t_get (t_put i r t) j = (if j = i then map_option (\<lambda>_. r) (t_get t i) else t_get t j)"
  by (induction t) (auto simp: t_get_def t_put_def)

lemma t_get_del [row_simps]: "t_get (t_del i t) j = (if j = i then None else t_get t j)"
  by (induction t) (auto simp: t_get_def t_del_def)

lemma fst_t_put [simp]: "map fst (t_put i r t) = map fst t"
  by (simp add: t_put_def case_prod_beta comp_def)

lemma t_wf_add: "t_wf t \<Longrightarrow> t_wf (t_add r t)"
  by (force simp: t_wf_def t_add_def dest: t_next_gt)

lemma t_wf_put [simp]: "t_wf (t_put i r t) = t_wf t"
  by (simp add: t_wf_def)

lemma t_wf_del: "t_wf t \<Longrightarrow> t_wf (t_del i t)"
  by (induction t) (auto simp: t_wf_def t_del_def)

lemma t_get_in: "t_wf t \<Longrightarrow> (i, r) \<in> set t \<longleftrightarrow> t_get t i = Some r"
  by (auto simp: t_wf_def t_get_def)

lemma t_get_SomeD: "t_get t i = Some r \<Longrightarrow> (i, r) \<in> set t"
  by (simp add: t_get_def map_of_SomeD)

lemma set_t_add: "set (t_add r t) = insert (t_next t, r) (set t)"
  by (simp add: t_add_def)

lemma set_t_put:
  "set (t_put i r t) = {(j, q). (j, q) \<in> set t \<and> j \<noteq> i} \<union> (if i \<in> fst ` set t then {(i, r)} else {})"
  by (induction t) (auto simp: t_put_def)

lemma t_first_SomeD: "t_first P t = Some (i, r) \<Longrightarrow> (i, r) \<in> set t \<and> P i r"
  by (fastforce simp: t_first_def find_Some_iff in_set_conv_nth)

lemma t_first_NoneD: "t_first P t = None \<Longrightarrow> (i, r) \<in> set t \<Longrightarrow> \<not> P i r"
  by (auto simp: t_first_def find_None_iff)

lemma t_first_None_iff: "t_first P t = None \<longleftrightarrow> (\<forall>(i, r) \<in> set t. \<not> P i r)"
  by (auto simp: t_first_def find_None_iff)

lemma t_first_Some_get: "t_wf t \<Longrightarrow> t_first P t = Some (i, r) \<Longrightarrow> t_get t i = Some r"
  by (auto dest: t_first_SomeD simp: t_get_in)

lemma find_append:
  "find Q (xs @ ys) = (case find Q xs of None \<Rightarrow> find Q ys | Some x \<Rightarrow> Some x)"
  by (induction xs) simp_all

lemma t_first_add:
  "t_first P (t_add r t) =
    (case t_first P t of None \<Rightarrow> if P (t_next t) r then Some (t_next t, r) else None | Some x \<Rightarrow> Some x)"
  by (simp add: t_first_def t_add_def find_append split: option.split)

lemma t_first_put:
  "t_first P t = Some (i, r) \<Longrightarrow> P i q \<Longrightarrow> t_first P (t_put i q t) = Some (i, q)"
  by (induction t) (auto simp: t_first_def t_put_def split: if_splits)

lemma t_count_add:
  "t_count P (t_add r t) = t_count P t + (if P (t_next t) r then 1 else 0)"
  by (simp add: t_count_def t_select_def t_add_def)

lemma t_count_put:
  assumes "\<And>q. (i, q) \<in> set t \<Longrightarrow> P i q = P i r"
  shows "t_count P (t_put i r t) = t_count P t"
proof -
  have "filter ((\<lambda>(j, q). P j q) \<circ> (\<lambda>(j, q). (j, if j = i then r else q))) t =
      filter (\<lambda>(j, q). P j q) t"
    using assms by (intro filter_cong) (auto split: if_splits)
  then show ?thesis by (simp add: t_count_def t_select_def t_put_def filter_map)
qed

lemma t_put_add [simp]: "t_put (t_next t) q (t_add r t) = t_add q t"
proof -
  have "map (\<lambda>(j, x). (j, if j = t_next t then q else x)) t = t"
    by (rule map_idI) (use t_next_notin in fastforce)
  moreover have "t_next (t @ [(t_next t, r)]) \<noteq> t_next t"
    using t_next_gt [of "t_next t" r "t @ [(t_next t, r)]"] by simp
  ultimately show ?thesis by (simp add: t_put_def t_add_def)
qed

lemma t_count_nonneg [simp]: "0 \<le> t_count P t"
  by (simp add: t_count_def)

lemma t_select_Nil_iff: "t_select P t = [] \<longleftrightarrow> t_first P t = None"
  by (auto simp: t_select_def t_first_def find_None_iff filter_empty_conv)

text \<open>
  The interface the services use a table through: what a lookup returns after each kind of
  write. The laws are stated once, and the services' proofs about rows they did not touch are
  its consequences.
\<close>

locale row_store =
  fixes lookup :: "'t \<Rightarrow> int \<Rightarrow> 'r option"
    and insert_row :: "'r \<Rightarrow> 't \<Rightarrow> 't"
    and write_row :: "int \<Rightarrow> 'r \<Rightarrow> 't \<Rightarrow> 't"
    and delete_row :: "int \<Rightarrow> 't \<Rightarrow> 't"
    and fresh :: "'t \<Rightarrow> int"
  assumes lookup_fresh: "lookup t (fresh t) = None"
    and lookup_insert: "lookup (insert_row r t) i = (if i = fresh t then Some r else lookup t i)"
    and lookup_write: "lookup (write_row i r t) j =
      (if j = i then map_option (\<lambda>_. r) (lookup t i) else lookup t j)"
    and lookup_delete: "lookup (delete_row i t) j = (if j = i then None else lookup t j)"
begin

lemma insert_keeps: "lookup t i = Some q \<Longrightarrow> lookup (insert_row r t) i = Some q"
  using lookup_fresh [of t] by (auto simp: lookup_insert)

lemma insert_then_write: "lookup (write_row (fresh t) q (insert_row r t)) (fresh t) = Some q"
  by (simp add: lookup_write lookup_insert)

lemma insert_then_delete: "lookup (delete_row (fresh t) (insert_row r t)) i = lookup t i"
  by (simp add: lookup_delete lookup_insert lookup_fresh)

lemma write_other: "i \<noteq> j \<Longrightarrow> lookup (write_row i r t) j = lookup t j"
  by (simp add: lookup_write)

lemma write_same: "lookup t i = Some q \<Longrightarrow> lookup (write_row i r t) i = Some r"
  by (simp add: lookup_write)

lemma write_write: "lookup (write_row i r (write_row i q t)) j = lookup (write_row i r t) j"
  by (simp add: lookup_write option.map_comp comp_def)

end

interpretation tbl: row_store t_get t_add t_put t_del t_next
  by unfold_locales (simp_all add: row_simps)

section \<open>Prepaid accounts\<close>

text \<open>
  The contract of everything that pays out of a balance: a payment of a non-negative amount
  succeeds exactly when the balance covers it, takes exactly that amount, and takes nothing when
  it fails. The consequences for a series of payments are drawn once.
\<close>

fun pay_all :: "(int \<Rightarrow> 's \<Rightarrow> bool \<times> 's) \<Rightarrow> int list \<Rightarrow> 's \<Rightarrow> bool list \<times> 's" where
  "pay_all pay [] s = ([], s)"
| "pay_all pay (n # ns) s =
     (case pay n s of (ok, s') \<Rightarrow> (case pay_all pay ns s' of (oks, t) \<Rightarrow> (ok # oks, t)))"

definition paid_amount :: "bool list \<Rightarrow> int list \<Rightarrow> int" where
  "paid_amount oks ns = sum_list (map (\<lambda>(ok, n). if ok then n else 0) (zip oks ns))"

locale prepaid =
  fixes good :: "'s \<Rightarrow> bool"
    and balance :: "'s \<Rightarrow> int"
    and pay :: "int \<Rightarrow> 's \<Rightarrow> bool \<times> 's"
  assumes balance_nonneg: "good s \<Longrightarrow> 0 \<le> balance s"
    and pay_good: "good s \<Longrightarrow> 0 \<le> n \<Longrightarrow> good (snd (pay n s))"
    and pay_iff: "good s \<Longrightarrow> 0 \<le> n \<Longrightarrow> fst (pay n s) = (n \<le> balance s)"
    and pay_exact: "good s \<Longrightarrow> 0 \<le> n \<Longrightarrow>
      balance (snd (pay n s)) = balance s - (if fst (pay n s) then n else 0)"
begin

lemma series_exact:
  "good s \<Longrightarrow> \<forall>n \<in> set ns. 0 \<le> n \<Longrightarrow> pay_all pay ns s = (oks, t) \<Longrightarrow>
    good t \<and> length oks = length ns \<and> balance t = balance s - paid_amount oks ns \<and> 0 \<le> balance t"
proof (induction ns arbitrary: s oks)
  case Nil
  then show ?case by (simp add: paid_amount_def balance_nonneg)
next
  case (Cons n ns)
  obtain ok s' where p: "pay n s = (ok, s')" by fastforce
  obtain oks' where r: "pay_all pay ns s' = (oks', t)" and o: "oks = ok # oks'"
    using Cons.prems(3) p by (auto split: prod.splits)
  have "good s'" using pay_good [OF Cons.prems(1), of n] p Cons.prems(2) by simp
  from Cons.IH [OF this _ r] Cons.prems(2) have
    "good t \<and> length oks' = length ns \<and> balance t = balance s' - paid_amount oks' ns \<and> 0 \<le> balance t"
    by simp
  moreover have "balance s' = balance s - (if ok then n else 0)"
    using pay_exact [OF Cons.prems(1), of n] p Cons.prems(2) by simp
  ultimately show ?case by (simp add: o paid_amount_def)
qed

lemma series_covered:
  "good s \<Longrightarrow> \<forall>n \<in> set ns. 0 \<le> n \<Longrightarrow> sum_list ns \<le> balance s \<Longrightarrow>
    list_all id (fst (pay_all pay ns s)) \<and> balance (snd (pay_all pay ns s)) = balance s - sum_list ns"
proof (induction ns arbitrary: s)
  case (Cons n ns)
  obtain ok s' where p: "pay n s = (ok, s')" by fastforce
  have nn: "0 \<le> n" "0 \<le> sum_list ns" using Cons.prems(2) by (simp_all add: sum_list_nonneg)
  then have ok: "ok" and s': "good s'" "balance s' = balance s - n"
    using pay_iff [OF Cons.prems(1), of n] pay_exact [OF Cons.prems(1), of n]
      pay_good [OF Cons.prems(1), of n] p Cons.prems(3) by auto
  have "sum_list ns \<le> balance s'" using s'(2) Cons.prems(3) by simp
  from Cons.IH [OF s'(1) _ this] Cons.prems(2) show ?case
    by (auto simp: p ok s'(2) case_prod_beta)
qed simp

end

section \<open>Python values\<close>

text \<open>\<open>int(x or 0)\<close> for a nullable integer column.\<close>

definition or0 :: "int option \<Rightarrow> int" where
  "or0 x = (case x of None \<Rightarrow> 0 | Some n \<Rightarrow> n)"

lemma or0_simps [simp]: "or0 None = 0" "or0 (Some n) = n"
  by (simp_all add: or0_def)

text \<open>\<open>x or d\<close> for an optional string: the empty string is falsy.\<close>

definition str_or :: "string option \<Rightarrow> string \<Rightarrow> string" where
  "str_or x d = (case x of None \<Rightarrow> d | Some [] \<Rightarrow> d | Some s \<Rightarrow> s)"

text \<open>\<open>str(n)\<close> for an integer.\<close>

fun digits_of :: "nat \<Rightarrow> string" where
  "digits_of n = (if n < 10 then [char_of (48 + n)]
                  else digits_of (n div 10) @ [char_of (48 + n mod 10)])"

declare digits_of.simps [simp del]

definition str_int :: "int \<Rightarrow> string" where
  "str_int n = (if n < 0 then CHR ''-'' # digits_of (nat (- n)) else digits_of (nat n))"

text \<open>Python's \<open>str.isspace\<close> on the ASCII range, and \<open>str.strip\<close>.\<close>

definition is_space :: "char \<Rightarrow> bool" where
  "is_space c \<longleftrightarrow> c \<in> set [CHR '' '', CHR 0x09, CHR 0x0A, CHR 0x0B, CHR 0x0C, CHR 0x0D,
                           CHR 0x1C, CHR 0x1D, CHR 0x1E, CHR 0x1F]"

definition strip :: "string \<Rightarrow> string" where
  "strip s = rev (dropWhile is_space (rev (dropWhile is_space s)))"

text \<open>\<open>str.lower\<close> and \<open>str.upper\<close> on the ASCII range.\<close>

definition lower_char :: "char \<Rightarrow> char" where
  "lower_char c = (let n = (of_char c :: nat) in if 65 \<le> n \<and> n \<le> 90 then char_of (n + 32) else c)"

definition upper_char :: "char \<Rightarrow> char" where
  "upper_char c = (let n = (of_char c :: nat) in if 97 \<le> n \<and> n \<le> 122 then char_of (n - 32) else c)"

definition lower :: "string \<Rightarrow> string" where "lower s = map lower_char s"
definition upper :: "string \<Rightarrow> string" where "upper s = map upper_char s"

text \<open>\<open>s.startswith(p)\<close>.\<close>

definition starts_with :: "string \<Rightarrow> string \<Rightarrow> bool" where
  "starts_with s p \<longleftrightarrow> take (length p) s = p"

text \<open>\<open>sep.join(xs)\<close>.\<close>

fun join_with :: "string \<Rightarrow> string list \<Rightarrow> string" where
  "join_with sep [] = []"
| "join_with sep [x] = x"
| "join_with sep (x # xs) = x @ sep @ join_with sep xs"

definition is_digit :: "char \<Rightarrow> bool" where
  "is_digit c \<longleftrightarrow> 48 \<le> (of_char c :: nat) \<and> (of_char c :: nat) \<le> 57"

text \<open>
  \<open>int(s)\<close> of a string: surrounding white space, one sign, decimal digits with single
  underscores between them; \<open>None\<close> is the ValueError.
\<close>

fun parse_digits :: "nat \<Rightarrow> bool \<Rightarrow> string \<Rightarrow> nat option" where
  "parse_digits acc ok [] = (if ok then Some acc else None)"
| "parse_digits acc ok (c # cs) =
     (if is_digit c then parse_digits (10 * acc + (of_char c - 48)) True cs
      else if c = CHR ''_'' \<and> ok then parse_digits acc False cs
      else None)"

definition int_of_str :: "string \<Rightarrow> int option" where
  "int_of_str s =
     (case strip s of
        [] \<Rightarrow> None
      | c # cs \<Rightarrow>
          if c = CHR ''-'' then map_option (\<lambda>n. - int n) (parse_digits 0 False cs)
          else if c = CHR ''+'' then map_option int (parse_digits 0 False cs)
          else map_option int (parse_digits 0 False (c # cs)))"

text \<open>\<open>int(str(n))\<close> is \<open>n\<close>, so \<open>str\<close> is injective on integers.\<close>

lemma parse_digits_of:
  "parse_digits 0 ok (digits_of n @ cs) = parse_digits n True cs"
proof (induction n arbitrary: cs ok rule: digits_of.induct)
  case (1 n)
  have d: "is_digit (char_of (48 + m))" "of_char (char_of (48 + m) :: char) - 48 = m" if "m < 10" for m :: nat
    using that by (simp_all add: is_digit_def)
  show ?case
  proof (cases "n < 10")
    case True
    then show ?thesis using d [of n] by (subst digits_of.simps) simp
  next
    case False
    then have "parse_digits 0 ok (digits_of n @ cs) =
        parse_digits (n div 10) True (char_of (48 + n mod 10) # cs)"
      using 1 by (subst digits_of.simps) simp
    also have "\<dots> = parse_digits (10 * (n div 10) + n mod 10) True cs"
      using d [of "n mod 10"] by simp
    finally show ?thesis by simp
  qed
qed

lemma digits_of_digits: "c \<in> set (digits_of n) \<Longrightarrow> is_digit c"
proof (induction n rule: digits_of.induct)
  case (1 n)
  then show ?case
    by (subst (asm) (2) digits_of.simps) (auto simp: is_digit_def split: if_splits)
qed

lemma digits_of_nonempty [simp]: "digits_of n \<noteq> []"
  by (subst digits_of.simps) simp

lemma digit_chars: "is_digit c \<Longrightarrow> c \<noteq> CHR '','' \<and> c \<noteq> CHR ''-'' \<and> c \<noteq> CHR ''+'' \<and> \<not> is_space c"
  by (auto simp: is_digit_def is_space_def)

lemma strip_id:
  assumes "xs \<noteq> []" and "\<not> is_space (hd xs)" and "\<not> is_space (last xs)"
  shows "strip xs = xs"
proof -
  have front: "dropWhile is_space xs = xs" using assms(1,2) by (cases xs) simp_all
  obtain ys y where xs: "xs = ys @ [y]" using assms(1) by (metis rev_exhaust)
  with assms(3) have "dropWhile is_space (rev xs) = rev xs" by simp
  then show ?thesis by (simp add: strip_def front)
qed

lemma digits_ends: "is_digit (hd (digits_of n))" "is_digit (last (digits_of n))"
  using digits_of_digits [of _ n] by simp_all

lemma int_of_digits: "int_of_str (digits_of n) = Some (int n)"
proof -
  have "strip (digits_of n) = digits_of n"
    using digits_ends digit_chars by (intro strip_id) simp_all
  moreover obtain c cs where "digits_of n = c # cs" by (cases "digits_of n") auto
  moreover have "c \<noteq> CHR ''-''" "c \<noteq> CHR ''+''"
    using digits_ends(1) [of n] digit_chars [of c] \<open>digits_of n = c # cs\<close> by simp_all
  ultimately show ?thesis
    using parse_digits_of [of False n "[]"] by (simp add: int_of_str_def)
qed

lemma int_of_minus: "int_of_str (CHR ''-'' # digits_of n) = Some (- int n)"
proof -
  have "\<not> is_space (CHR ''-'')" by (simp add: is_space_def)
  then have "strip (CHR ''-'' # digits_of n) = CHR ''-'' # digits_of n"
    using digits_ends(2) digit_chars by (intro strip_id) simp_all
  then show ?thesis using parse_digits_of [of False n "[]"] by (simp add: int_of_str_def)
qed

lemma int_of_str_int: "int_of_str (str_int n) = Some n"
  by (simp add: str_int_def int_of_digits int_of_minus)

lemma str_int_inject [simp]: "str_int m = str_int n \<longleftrightarrow> m = n"
  by (metis int_of_str_int option.inject)

lemma str_int_chars: "c \<in> set (str_int n) \<Longrightarrow> is_digit c \<or> c = CHR ''-''"
  using digits_of_digits [of c] by (cases "n < 0") (auto simp: str_int_def)

lemma str_int_nonempty [simp]: "str_int n \<noteq> []"
  by (simp add: str_int_def)

text \<open>
  \<open>max(xs, key=f)\<close> of a non-empty list: the first element with the largest key; and
  \<open>ORDER BY\<close>, which is a stable sort.
\<close>

fun max_by :: "('a \<Rightarrow> 'k :: linorder) \<Rightarrow> 'a \<Rightarrow> 'a list \<Rightarrow> 'a" where
  "max_by f b [] = b"
| "max_by f b (x # xs) = max_by f (if f b < f x then x else b) xs"

lemma max_by_mem: "max_by f b xs \<in> insert b (set xs)"
  by (induction xs arbitrary: b) (auto split: if_splits)

lemma max_by_ge_start: "f b \<le> f (max_by f b xs)"
proof (induction xs arbitrary: b)
  case (Cons x xs)
  have "f b \<le> f (if f b < f x then x else b)" by (simp add: less_imp_le)
  also have "\<dots> \<le> f (max_by f (if f b < f x then x else b) xs)" by (rule Cons.IH)
  finally show ?case by (simp only: max_by.simps)
qed simp

lemma max_by_ge: "x \<in> insert b (set xs) \<Longrightarrow> f x \<le> f (max_by f b xs)"
proof (induction xs arbitrary: b)
  case (Cons y ys)
  show ?case
  proof (cases "x \<in> set ys")
    case True
    then show ?thesis using Cons.IH by simp
  next
    case False
    with Cons.prems have "x = b \<or> x = y" by simp
    then have "f x \<le> f (if f b < f y then y else b)" by auto
    from order_trans [OF this max_by_ge_start [of f "if f b < f y then y else b" ys]] show ?thesis by (simp only: max_by.simps)
  qed
qed simp

definition t_first_by :: "(int \<Rightarrow> 'r \<Rightarrow> 'k :: linorder) \<Rightarrow> 'r table \<Rightarrow> 'r obj option" where
  "t_first_by f t =
     (case sort_key (\<lambda>(i, r). f i r) t of [] \<Rightarrow> None | x # _ \<Rightarrow> Some x)"

lemma t_first_by_None: "t_first_by f t = None \<longleftrightarrow> t = []"
proof -
  have "sort_key (\<lambda>(i, r). f i r) t = [] \<longleftrightarrow> t = []"
    by (metis length_0_conv length_sort)
  then show ?thesis by (auto simp: t_first_by_def split: list.splits)
qed

lemma t_first_by_Some:
  assumes "t_first_by f t = Some (i, r)"
  shows "(i, r) \<in> set t" and "(j, q) \<in> set t \<Longrightarrow> f i r \<le> f j q"
proof -
  let ?k = "\<lambda>(i, r). f i r"
  obtain xs where xs: "sort_key ?k t = (i, r) # xs"
    using assms by (auto simp: t_first_by_def split: list.splits)
  have set: "set t = insert (i, r) (set xs)"
    using arg_cong [OF xs, of set] by simp
  then show "(i, r) \<in> set t" by simp
  have "sorted (map ?k ((i, r) # xs))"
    using sorted_sort_key [of ?k t] xs by simp
  then show "(j, q) \<in> set t \<Longrightarrow> f i r \<le> f j q"
    using set by (auto simp: image_iff split: prod.splits)
qed

text \<open>
  Decimal rounding. A decimal value is a rational; \<open>quantize(Decimal("1"), ROUND_HALF_UP)\<close>
  rounds to the nearest integer, halves away from zero.
\<close>

definition round_half_up :: "rat \<Rightarrow> int" where
  "round_half_up x = (if 0 \<le> x then \<lfloor>x + 1 / 2\<rfloor> else - \<lfloor>1 / 2 - x\<rfloor>)"

text \<open>A dictionary display \<open>{..., **extra}\<close>: later keys replace earlier ones.\<close>

definition dict_merge :: "(string \<times> 'v) list \<Rightarrow> (string \<times> 'v) list \<Rightarrow> (string \<times> 'v) list" where
  "dict_merge base extra = foldl (\<lambda>d (k, v). AList.update k v d) base extra"

end
