(* ===== verification/Models.thy ===== *)
theory Models
  imports Prelude
begin

text \<open>
  The relational data model of \<open>pbozi/backend/app/models.py\<close>: one record per mapped class,
  one table per record, the database that holds them and the SQLAlchemy session a request works
  in. Conventions:

  \<^item> The primary key of a row is its key in the table, so a row does not repeat it.
  \<^item> A column the code reads behind \<open>or 0\<close>, \<open>is None\<close> or truthiness is an option where
    NULL and its default can be told apart; columns the code reads unguarded are plain.
  \<^item> \<open>DateTime\<close> columns are naive UTC instants, counted in microseconds.
  \<^item> A \<open>Float\<close> column is the decimal number its \<open>repr\<close> prints (what
    \<open>Decimal(str(x))\<close> reads); NaN and infinities do not occur.
  \<^item> JSON columns are association lists from keys to \<open>json\<close> values.
  \<^item> \<open>lp_\<close> abbreviates \<open>learning_preferences_\<close>.
  \<^item> The bookkeeping columns \<open>created_at\<close> and \<open>updated_at\<close> appear only where some query
    reads them.
\<close>

section \<open>Scalars\<close>

type_synonym instant = int
type_synonym pyfloat = rat

definition microseconds :: "int \<Rightarrow> int" where "microseconds n = n * 1000000"
definition hours :: "int \<Rightarrow> int" where "hours n = microseconds (n * 3600)"
definition days :: "int \<Rightarrow> int" where "days n = microseconds (n * 86400)"

datatype json =
    JNull
  | JBool bool
  | JInt int
  | JFloat rat
  | JStr string
  | JList "json list"
  | JDict "(string \<times> json) list"

type_synonym dict = "(string \<times> json) list"

fun json_opt_int :: "int option \<Rightarrow> json" where
  "json_opt_int None = JNull"
| "json_opt_int (Some n) = JInt n"

text \<open>Python's truth value of a JSON value, and \<open>str\<close> of the scalars but floats.\<close>

fun truthy :: "json \<Rightarrow> bool" where
  "truthy JNull = False"
| "truthy (JBool b) = b"
| "truthy (JInt n) = (n \<noteq> 0)"
| "truthy (JFloat x) = (x \<noteq> 0)"
| "truthy (JStr s) = (s \<noteq> [])"
| "truthy (JList xs) = (xs \<noteq> [])"
| "truthy (JDict kvs) = (kvs \<noteq> [])"

text \<open>\<open>d.get(k)\<close>.\<close>

definition dict_get :: "dict \<Rightarrow> string \<Rightarrow> json" where
  "dict_get d k = (case map_of d k of None \<Rightarrow> JNull | Some v \<Rightarrow> v)"

section \<open>Users, wallets and credit\<close>

record user_preference =
  telegram_user_id :: "int option"
  first_name :: "string option"
  username :: "string option"
  preferred_name :: "string option"
  phone_number :: "string option"
  account_status :: "string option"
  credit_balance_usd :: "pyfloat option"
  is_admin :: bool
  is_pro :: bool
  total_charged_usd :: "pyfloat option"
  trial_used :: bool
  referral_campaign_id :: "int option"
  lp_status :: "string option"
  lp_summary :: "string option"
  lp_prompt :: "string option"
  lp_profile :: json
  lp_onboarding :: json
  lp_completed_at :: "instant option"
  created_at :: instant

record wallet =
  w_user_id :: int
  w_currency :: string
  balance_minor :: "int option"
  available_minor :: "int option"
  held_minor :: "int option"
  w_allow_negative :: bool
  w_version :: "int option"

record user_billing_account =
  ba_user_id :: int
  currency :: string
  gift_balance_toman :: "int option"
  paid_balance_toman :: "int option"
  total_gift_granted_toman :: "int option"
  total_gift_spent_toman :: "int option"
  total_paid_topup_toman :: "int option"
  total_paid_spent_toman :: "int option"
  total_subscription_paid_toman :: "int option"
  first_topup_discount_used :: bool
  version :: "int option"

record toman_ledger_entry =
  tl_user_id :: int
  billing_account_id :: int
  amount_toman :: int
  gift_delta_toman :: int
  paid_delta_toman :: int
  gift_balance_after_toman :: int
  paid_balance_after_toman :: int
  tl_entry_type :: string
  tl_status :: string
  tl_reason :: "string option"
  tl_usage_event_id :: "int option"
  tl_idempotency_key :: "string option"
  tl_metadata_json :: dict

record credit_ledger_entry =
  cl_user_id :: int
  wallet_id :: "int option"
  amount_delta_usd :: pyfloat
  amount_minor :: "int option"
  balance_after_minor :: "int option"
  available_after_minor :: "int option"
  held_after_minor :: "int option"
  cl_currency :: string
  direction :: string
  cl_entry_type :: string
  cl_status :: string
  cl_reason :: "string option"
  cl_usage_event_id :: "int option"
  cl_idempotency_key :: "string option"
  cl_metadata_json :: dict

record promo_code =
  code :: string
  bonus_type :: string
  pc_currency :: "string option"
  bonus_value_usd :: "pyfloat option"
  bonus_value_toman :: "int option"
  minimum_charge_usd :: "pyfloat option"
  minimum_charge_toman :: "int option"
  max_redemptions_total :: "int option"
  max_redemptions_per_user :: "int option"
  pc_is_active :: bool
  pc_expires_at :: "instant option"

record promo_code_redemption =
  promo_code_id :: int
  pr_user_id :: int
  charge_amount_usd :: pyfloat
  charge_amount_toman :: int
  bonus_amount_usd :: pyfloat
  bonus_amount_toman :: int
  total_credit_usd :: pyfloat
  total_credit_toman :: int
  credit_ledger_entry_id :: "int option"
  toman_ledger_entry_id :: "int option"

record starter_credit_config =
  sc_is_active :: bool
  sc_amount_usd :: pyfloat
  sc_amount_toman :: int

section \<open>Subscriptions and capacity\<close>

record subscription_plan =
  plan_name :: string
  plan_type :: string
  monthly_price_toman :: "int option"
  gift_credit_toman :: "int option"
  cooldown_limit_toman :: int
  cooldown_hours :: int
  weekly_limit_toman :: int
  is_agentic :: bool
  plan_is_active :: bool

record user_subscription =
  us_user_id :: int
  plan_id :: int
  pool_id :: "int option"
  us_status :: string
  purchased_at :: instant
  expires_at :: instant
  cooldown_spent_toman :: "int option"
  cooldown_ends_at :: "instant option"
  weekly_spent_toman :: "int option"
  week_resets_at :: "instant option"

record subscription_config =
  is_enabled :: bool
  cfg_monthly_price_toman :: "int option"
  cfg_gift_credit_toman :: "int option"
  api_markup_percent :: "pyfloat option"
  first_topup_discount_percent :: "pyfloat option"
  first_topup_discount_cap_toman :: "int option"
  usd_to_toman_rate :: "int option"

record trial_config =
  tc_plan_id :: "int option"
  duration_hours :: int
  tc_is_enabled :: bool
  apply_automatically :: bool
  welcome_message :: "string option"

record capacity_pool =
  cp_name :: string
  max_users :: int
  active_users :: int
  cp_status :: string
  fallback_behavior :: string
  fallback_model_id :: "int option"

record codex_account =
  label :: string
  ca_provider_id :: "int option"
  ca_pool_id :: "int option"
  auth_status :: string
  ca_is_active :: bool
  ca_status :: string
  five_hour_limit :: "int option"
  five_hour_used :: "int option"
  weekly_limit :: "int option"
  weekly_used :: "int option"
  safety_buffer_percent :: "pyfloat option"
  cooldown_until :: "instant option"
  last_used_at :: "instant option"

record llm_model =
  model_name :: string
  model_display_name :: "string option"
  pricing_input :: "pyfloat option"
  pricing_output :: "pyfloat option"

section \<open>Payments, administration, groups\<close>

record admin_action =
  admin_user_id :: "int option"
  action_type :: string
  target_type :: string
  target_id :: "int option"
  before_json :: "dict option"
  after_json :: "dict option"
  aa_reason :: "string option"

record payment_method =
  card_number :: string
  cardholder_name :: string
  bank_name :: string
  pm_description :: "string option"
  pm_is_active :: bool
  sort_order :: int

record payment_request =
  pq_user_id :: int
  pq_amount_toman :: int
  receipt_image_path :: string
  pq_description :: "string option"
  payment_type :: "string option"
  pq_plan_id :: "int option"
  pq_status :: string
  admin_note :: "string option"
  approved_by :: "int option"
  approved_at :: "instant option"
  pq_created_at :: instant

record link_code =
  lc_code :: string
  user_preference_id :: int
  lc_expires_at :: instant
  used :: bool

record telegram_update_log =
  update_id :: int
  update_key :: "string option"
  log_telegram_user_id :: "int option"
  log_chat_id :: "int option"
  log_update_type :: "string option"
  log_status :: string
  log_metadata_json :: dict
  log_created_at :: instant
  log_completed_at :: "instant option"

record telegram_group =
  g_telegram_chat_id :: int
  g_title :: "string option"
  g_chat_type :: string
  trigger_phrases_json :: json
  g_created_by_user_id :: "int option"
  g_status :: "string option"
  min_active_members :: "int option"

record telegram_group_member =
  m_group_id :: int
  m_user_id :: int
  m_telegram_user_id :: "int option"
  m_status :: string
  shared_billing_enabled :: bool
  last_opt_in_at :: "instant option"
  last_opt_out_at :: "instant option"

record group_usage_event =
  ge_group_id :: int
  ge_usage_event_id :: "int option"
  triggered_by_user_id :: "int option"
  request_id :: "string option"
  telegram_chat_id :: "int option"
  telegram_message_id :: "int option"
  operation_type :: string
  ge_estimated_cost_minor :: int
  ge_actual_cost_minor :: int
  split_member_count :: int
  ge_status :: string
  ge_error :: "string option"
  ge_metadata_json :: dict
  ge_completed_at :: "instant option"

record group_usage_share =
  group_usage_event_id :: int
  gs_group_id :: int
  gs_user_id :: int
  gs_ledger_entry_id :: "int option"
  gs_estimated_share_minor :: int
  gs_actual_share_minor :: int
  gs_status :: string
  gs_error :: "string option"
  gs_metadata_json :: dict
  gs_completed_at :: "instant option"

section \<open>Projects, tips, feedback, usage\<close>

record project =
  proj_name :: string
  proj_description :: "string option"
  proj_instructions :: "string option"
  owner_user_id :: "int option"
  share_token :: "string option"
  shared_from_project_id :: "int option"
  proj_created_at :: instant

record project_document =
  doc_project_id :: "int option"
  filename :: "string option"
  file_type :: "string option"
  file_path :: "string option"
  chunk_count :: int
  doc_status :: string

record project_group_share =
  ps_project_id :: int
  ps_group_id :: int
  shared_by_user_id :: int

record tip =
  trigger_key :: string
  tip_type :: string
  tip_content :: string
  tip_is_active :: bool
  delay_seconds :: int
  auto_delete_seconds :: int
  min_account_age_days :: int

record tip_dismissal =
  td_user_id :: int
  td_tip_id :: int

record feedback_entry =
  fb_user_id :: "int option"
  fb_telegram_user_id :: "int option"
  fb_chat_id :: "int option"
  fb_message_id :: "int option"
  rating_value :: int
  fb_note :: "string option"
  reaction_raw_text :: "string option"
  fb_source :: string
  sample_reason :: "string option"
  fb_created_at :: instant

record usage_event =
  ue_user_id :: "int option"
  ue_chat_id :: "int option"
  ue_message_id :: "int option"
  ue_uploaded_file_id :: "int option"
  ue_operation_type :: string
  ue_channel :: string
  ue_provider_id :: "int option"
  provider_name_snapshot :: "string option"
  ue_model_id :: "int option"
  model_name_snapshot :: "string option"
  ue_pricing_snapshot :: "dict option"
  ue_request_id :: "string option"
  ue_input_tokens :: int
  ue_output_tokens :: int
  ue_total_tokens :: int
  usage_source :: string
  ue_estimated_cost_minor :: int
  ue_actual_cost_minor :: int
  ue_status :: string
  ue_error :: "string option"
  ue_metadata_json :: dict
  ue_completed_at :: "instant option"

record user_subscription_quota =
  user_subscription_id :: int
  uq_model_id :: int
  free_chats_remaining :: int
  chat_token_quotas_json :: "(string \<times> int) list option"
  uq_discount_percent :: pyfloat

record subscription_plan_rule =
  ru_plan_id :: int
  ru_model_id :: int
  free_chats_count :: int
  free_tokens_per_chat :: int
  ru_discount_percent :: pyfloat
  ru_is_active :: bool

record referral_campaign =
  rc_code :: string
  rc_description :: "string option"
  rc_is_active :: bool
  rc_created_at :: instant

record referral_event =
  campaign_id :: int
  re_user_id :: int
  event_type :: string
  re_amount_usd :: "pyfloat option"

section \<open>The database and the session\<close>

record db =
  users :: "user_preference table"
  wallets :: "wallet table"
  credit_ledger :: "credit_ledger_entry table"
  billing_accounts :: "user_billing_account table"
  toman_ledger :: "toman_ledger_entry table"
  subscription_configs :: "subscription_config table"
  subscription_plans :: "subscription_plan table"
  user_subscriptions :: "user_subscription table"
  capacity_pools :: "capacity_pool table"
  codex_accounts :: "codex_account table"
  llm_models :: "llm_model table"
  promo_codes :: "promo_code table"
  promo_redemptions :: "promo_code_redemption table"
  starter_configs :: "starter_credit_config table"
  trial_configs :: "trial_config table"
  admin_actions :: "admin_action table"
  payment_methods :: "payment_method table"
  payment_requests :: "payment_request table"
  link_codes :: "link_code table"
  update_logs :: "telegram_update_log table"
  telegram_groups :: "telegram_group table"
  group_members :: "telegram_group_member table"
  group_usage_events :: "group_usage_event table"
  group_usage_shares :: "group_usage_share table"
  projects :: "project table"
  documents :: "project_document table"
  project_shares :: "project_group_share table"
  tips :: "tip table"
  tip_dismissals :: "tip_dismissal table"
  feedback_entries :: "feedback_entry table"
  usage_events :: "usage_event table"
  subscription_quotas :: "user_subscription_quota table"
  plan_rules :: "subscription_plan_rule table"
  referral_campaigns :: "referral_campaign table"
  referral_events :: "referral_event table"

definition empty_db :: db where
  "empty_db =
     \<lparr>users = [], wallets = [], credit_ledger = [], billing_accounts = [], toman_ledger = [],
      subscription_configs = [], subscription_plans = [], user_subscriptions = [],
      capacity_pools = [], codex_accounts = [], llm_models = [], promo_codes = [],
      promo_redemptions = [], starter_configs = [], trial_configs = [], admin_actions = [],
      payment_methods = [], payment_requests = [], link_codes = [], update_logs = [],
      telegram_groups = [], group_members = [], group_usage_events = [], group_usage_shares = [],
      projects = [], documents = [], project_shares = [], tips = [], tip_dismissals = [],
      feedback_entries = [], usage_events = [], subscription_quotas = [],
      plan_rules = [], referral_campaigns = [], referral_events = []\<rparr>"

text \<open>
  A session's view of the database. \<open>work\<close> is what the transaction sees: objects added,
  changed or deleted, flushed or not (the session flushes before every query). \<open>durable\<close> is
  the committed state, which a rollback, or closing the session, returns to. \<open>outbox\<close> lists
  the messages handed to Telegram or Bale, in order.
\<close>

datatype effect =
    SendMessage int string
  | PaymentResult int bool int string "string option"
  | NewPaymentNotice int
  | SendTip int string int
  | ReplyText string
  | AnswerCallback string
  | DeleteCallbackMessage
  | AnswerPreCheckout bool string

record session =
  work :: db
  durable :: db
  outbox :: "effect list"

definition open_session :: "db \<Rightarrow> session" where
  "open_session d = \<lparr>work = d, durable = d, outbox = []\<rparr>"

datatype exn =
    HTTPException int string
  | CodexCapacityError string string
  | TrialServiceError string
  | PromoCodeRedemptionError string
  | ValueError string
  | TypeError string
  | AttributeError string
  | IntegrityError
  | StatementError string
  | MultipleResultsFound

text \<open>\<open>except CodexCapacityError as exc: ... exc.code\<close>.\<close>

fun capacity_error_code :: "exn \<Rightarrow> string option" where
  "capacity_error_code (CodexCapacityError c _) = Some c"
| "capacity_error_code _ = None"

type_synonym 'a act = "(exn, session, 'a) op"

definition commit :: "unit act" where
  "commit = modify (\<lambda>s. s\<lparr>durable := work s\<rparr>)"

definition rollback :: "unit act" where
  "rollback = modify (\<lambda>s. s\<lparr>work := durable s\<rparr>)"

text \<open>\<open>if commit: await db.commit() else: await db.flush()\<close>.\<close>

definition commit_or_flush :: "bool \<Rightarrow> unit act" where
  "commit_or_flush c = on_cond c commit"

definition query :: "(db \<Rightarrow> 'a) \<Rightarrow> 'a act" where
  "query f = gets (\<lambda>s. f (work s))"

definition update :: "(db \<Rightarrow> db) \<Rightarrow> unit act" where
  "update f = modify (\<lambda>s. s\<lparr>work := f (work s)\<rparr>)"

definition send :: "effect \<Rightarrow> unit act" where
  "send e = modify (\<lambda>s. s\<lparr>outbox := outbox s @ [e]\<rparr>)"

text \<open>\<open>get_session\<close>: the request's session is closed at its end, which rolls back.\<close>

definition run_request :: "'a act \<Rightarrow> 'a act" where
  "run_request m = (\<lambda>s. case m s of (r, s') \<Rightarrow> (r, s'\<lparr>work := durable s'\<rparr>))"

text \<open>\<open>result.scalar_one_or_none()\<close>.\<close>

fun scalar_one_or_none :: "'r list \<Rightarrow> 'r option act" where
  "scalar_one_or_none [] = ret None"
| "scalar_one_or_none [x] = ret (Some x)"
| "scalar_one_or_none (x # y # zs) = raise MultipleResultsFound"

lemma commit_run [run_simps]: "commit s = (Inr (), s\<lparr>durable := work s\<rparr>)"
  by (simp add: commit_def run_simps)

lemma commit_or_flush_run [run_simps]:
  "commit_or_flush c s = (Inr (), if c then s\<lparr>durable := work s\<rparr> else s)"
  by (simp add: commit_or_flush_def run_simps)

lemma query_run [run_simps]: "query f s = (Inr (f (work s)), s)"
  by (simp add: query_def run_simps)

lemma update_run [run_simps]: "update f s = (Inr (), s\<lparr>work := f (work s)\<rparr>)"
  by (simp add: update_def run_simps)

lemma send_run [run_simps]: "send e s = (Inr (), s\<lparr>outbox := outbox s @ [e]\<rparr>)"
  by (simp add: send_def run_simps)

text \<open>
  A predicate of the transaction's view, and one of both the view and the committed state: the
  second survives a rollback.
\<close>

definition on_work :: "(db \<Rightarrow> bool) \<Rightarrow> session \<Rightarrow> bool" where
  "on_work I s \<longleftrightarrow> I (work s)"

definition on_both :: "(db \<Rightarrow> bool) \<Rightarrow> session \<Rightarrow> bool" where
  "on_both I s \<longleftrightarrow> I (work s) \<and> I (durable s)"

lemma hoare_query: "(\<And>s. P s \<Longrightarrow> Q (f (work s)) s) \<Longrightarrow> hoare P (query f) Q E"
  by (simp add: hoare_def run_simps)

lemma hoare_update: "(\<And>s. P s \<Longrightarrow> Q () (s\<lparr>work := f (work s)\<rparr>)) \<Longrightarrow> hoare P (update f) Q E"
  by (simp add: hoare_def run_simps)

lemma hoare_commit: "(\<And>s. P s \<Longrightarrow> Q () (s\<lparr>durable := work s\<rparr>)) \<Longrightarrow> hoare P commit Q E"
  by (simp add: hoare_def run_simps)

lemma hoare_commit_or_flush:
  "(\<And>s. P s \<Longrightarrow> Q () s \<and> Q () (s\<lparr>durable := work s\<rparr>)) \<Longrightarrow> hoare P (commit_or_flush c) Q E"
  by (simp add: hoare_def run_simps)

lemma rollback_run [run_simps]: "rollback s = (Inr (), s\<lparr>work := durable s\<rparr>)"
  by (simp add: rollback_def run_simps)

lemma hoare_rollback: "(\<And>s. P s \<Longrightarrow> Q () (s\<lparr>work := durable s\<rparr>)) \<Longrightarrow> hoare P rollback Q E"
  by (simp add: hoare_def run_simps)

lemma hoare_send: "(\<And>s. P s \<Longrightarrow> Q () (s\<lparr>outbox := outbox s @ [e]\<rparr>)) \<Longrightarrow> hoare P (send e) Q E"
  by (simp add: hoare_def run_simps)

lemma hoare_scalar_one_or_none:
  "(\<And>s x. P s \<Longrightarrow> x \<in> set (map Some xs) \<union> {None} \<Longrightarrow> Q x s) \<Longrightarrow>
   (\<And>s. P s \<Longrightarrow> E MultipleResultsFound s) \<Longrightarrow> hoare P (scalar_one_or_none xs) Q E"
  by (cases xs rule: scalar_one_or_none.cases) (auto simp: hoare_def run_simps)

section \<open>What a step leaves alone\<close>

text \<open>A normal return of \<open>m\<close> leaves the part \<open>f\<close> of the transaction's view as it was.\<close>

named_theorems leaves_rules

definition leaves :: "(db \<Rightarrow> 'v) \<Rightarrow> 'a act \<Rightarrow> bool" where
  "leaves f m \<longleftrightarrow> (\<forall>s x t. m s = (Inr x, t) \<longrightarrow> f (work t) = f (work s))"

lemma leavesD: "leaves f m \<Longrightarrow> m s = (Inr x, t) \<Longrightarrow> f (work t) = f (work s)"
  by (simp add: leaves_def)

lemma leaves_ret [leaves_rules]: "leaves f (ret x)"
  and leaves_raise [leaves_rules]: "leaves f (raise e)"
  and leaves_query [leaves_rules]: "leaves f (query g)"
  and leaves_commit [leaves_rules]: "leaves f commit"
  and leaves_commit_or_flush [leaves_rules]: "leaves f (commit_or_flush c)"
  and leaves_send [leaves_rules]: "leaves f (send msg)"
  by (simp_all add: leaves_def run_simps)

lemma leaves_update [leaves_rules]: "(\<And>d. f (g d) = f d) \<Longrightarrow> leaves f (update g)"
  by (simp add: leaves_def run_simps)

lemma leaves_fail [leaves_rules]: "leaves f (andthen m (raise e))"
  by (simp add: leaves_def run_simps split: prod.splits sum.splits)

lemma leaves_bind [leaves_rules]:
  "leaves f m \<Longrightarrow> (\<And>x. leaves f (g x)) \<Longrightarrow> leaves f (bind m g)"
  unfolding leaves_def by (metis bind_InrE)

lemma leaves_andthen [leaves_rules]: "leaves f m \<Longrightarrow> leaves f k \<Longrightarrow> leaves f (andthen m k)"
  unfolding andthen_def by (rule leaves_bind)

lemma leaves_on_cond [leaves_rules]: "leaves f m \<Longrightarrow> leaves f (on_cond b m)"
  by (simp add: leaves_def run_simps)

lemma leaves_if [leaves_rules]: "leaves f m \<Longrightarrow> leaves f k \<Longrightarrow> leaves f (if b then m else k)"
  by simp

lemma leaves_option [leaves_rules]:
  "leaves f m \<Longrightarrow> (\<And>y. leaves f (g y)) \<Longrightarrow> leaves f (case x of None \<Rightarrow> m | Some y \<Rightarrow> g y)"
  by (cases x) simp_all

lemma leaves_prod [leaves_rules]:
  "(\<And>a b. leaves f (g a b)) \<Longrightarrow> leaves f (case x of (a, b) \<Rightarrow> g a b)"
  by (cases x) simp_all

lemma leaves_scalar [leaves_rules]: "leaves f (scalar_one_or_none xs)"
  by (cases xs rule: scalar_one_or_none.cases) (simp_all add: leaves_def run_simps)

section \<open>What every step keeps\<close>

text \<open>
  Whatever \<open>m\<close> answers or raises, with commits and rollbacks on the way, \<open>I\<close> holds of the
  transaction's view and of the committed state after it when it held of both before. One rule
  per combinator; an update has to keep \<open>I\<close>.
\<close>

named_theorems invar_rules

definition invar :: "(db \<Rightarrow> bool) \<Rightarrow> 'a act \<Rightarrow> bool" where
  "invar I m \<longleftrightarrow> preserves (on_both I) m"

lemma invarD: "invar I m \<Longrightarrow> on_both I s \<Longrightarrow> on_both I (snd (m s))"
  by (simp add: invar_def preserves_def)

lemma invar_basic [invar_rules]:
  "invar I (ret x)" "invar I (raise e)" "invar I (query f)" "invar I commit"
  "invar I (commit_or_flush c)" "invar I rollback" "invar I (send msg)"
  by (simp_all add: invar_def preserves_def run_simps on_both_def)

lemma invar_update: "(\<And>d. I d \<Longrightarrow> I (f d)) \<Longrightarrow> invar I (update f)"
  by (simp add: invar_def preserves_def run_simps on_both_def)

lemma invar_bind [invar_rules]: "invar I m \<Longrightarrow> (\<And>x. invar I (f x)) \<Longrightarrow> invar I (bind m f)"
  unfolding invar_def preserves_hoare by (rule hoare_bind)

lemma invar_andthen [invar_rules]: "invar I m \<Longrightarrow> invar I k \<Longrightarrow> invar I (andthen m k)"
  unfolding invar_def preserves_hoare by (rule hoare_andthen)

lemma invar_on_cond [invar_rules]: "(b \<Longrightarrow> invar I m) \<Longrightarrow> invar I (on_cond b m)"
  unfolding invar_def preserves_hoare by (rule hoare_on_cond)

lemma invar_catch [invar_rules]: "invar I m \<Longrightarrow> (\<And>e. invar I (h e)) \<Longrightarrow> invar I (catch m h)"
  unfolding invar_def preserves_hoare by (rule hoare_catch)

lemma invar_attempt [invar_rules]: "invar I m \<Longrightarrow> invar I (attempt m)"
  unfolding invar_def preserves_hoare by (rule hoare_attempt)

lemma invar_if [invar_rules]: "(b \<Longrightarrow> invar I m) \<Longrightarrow> (\<not> b \<Longrightarrow> invar I k) \<Longrightarrow> invar I (if b then m else k)"
  by simp

lemma invar_option [invar_rules]:
  "(x = None \<Longrightarrow> invar I m) \<Longrightarrow> (\<And>y. x = Some y \<Longrightarrow> invar I (f y)) \<Longrightarrow>
    invar I (case x of None \<Rightarrow> m | Some y \<Rightarrow> f y)"
  by (cases x) simp_all

lemma invar_prod [invar_rules]:
  "(\<And>a b. x = (a, b) \<Longrightarrow> invar I (f a b)) \<Longrightarrow> invar I (case x of (a, b) \<Rightarrow> f a b)"
  by (cases x) simp_all

lemma invar_sum [invar_rules]:
  "(\<And>a. x = Inl a \<Longrightarrow> invar I (f a)) \<Longrightarrow> (\<And>b. x = Inr b \<Longrightarrow> invar I (g b)) \<Longrightarrow>
    invar I (case x of Inl a \<Rightarrow> f a | Inr b \<Rightarrow> g b)"
  by (cases x) simp_all

lemma invar_scalar [invar_rules]: "invar I (scalar_one_or_none xs)"
  by (cases xs rule: scalar_one_or_none.cases) (simp_all add: invar_basic)

lemma invar_for_each [invar_rules]: "(\<And>x. invar I (f x)) \<Longrightarrow> invar I (for_each f xs)"
  by (induction xs) (simp_all add: invar_basic invar_bind)

text \<open>A branch on what a query found may rely on it.\<close>

lemma invar_query_bind:
  "(\<And>d. I d \<Longrightarrow> invar I (f (g d))) \<Longrightarrow> invar I (bind (query g) f)"
  by (simp add: invar_def preserves_def run_simps on_both_def)

section \<open>Sample rows\<close>

text \<open>Rows for the concrete instances of the theorems.\<close>

definition sample_user :: user_preference where
  "sample_user =
     \<lparr>telegram_user_id = Some 700, first_name = Some ''Sara'', username = None,
      preferred_name = Some ''Sara'', phone_number = Some ''+989121234567'',
      account_status = Some ''active'', credit_balance_usd = Some (1 / 2), is_admin = False,
      is_pro = False, total_charged_usd = Some 0, trial_used = False,
      referral_campaign_id = None, lp_status = Some ''not_started'', lp_summary = None,
      lp_prompt = None, lp_profile = JNull, lp_onboarding = JNull, lp_completed_at = None,
      created_at = 0\<rparr>"

definition sample_pool :: capacity_pool where
  "sample_pool =
     \<lparr>cp_name = ''main'', max_users = 2, active_users = 0, cp_status = ''active'',
      fallback_behavior = ''reject'', fallback_model_id = None\<rparr>"

definition sample_plan :: subscription_plan where
  "sample_plan =
     \<lparr>plan_name = ''basic'', plan_type = ''tiered_cooldown'', monthly_price_toman = Some 80000,
      gift_credit_toman = Some 100000, cooldown_limit_toman = 5000, cooldown_hours = 5,
      weekly_limit_toman = 20000, is_agentic = False, plan_is_active = True\<rparr>"

definition sample_model :: "llm_model obj" where
  "sample_model =
     (1, \<lparr>model_name = ''gpt'', model_display_name = None, pricing_input = Some 2, pricing_output = Some 8\<rparr>)"

end
