(* ===== verification/Float64.thy ===== *)
theory Float64
  imports Prelude "HOL-Library.Log_Nat"
begin

text \<open>
  Python's \<open>float\<close>: IEEE binary64 with round-to-nearest, ties to even, on the range
  of normal numbers. A float value is the rational it stands for; \<open>fl x\<close> is the float
  nearest to the exact value \<open>x\<close>, so \<open>a * b\<close> in Python is \<open>fl (a * b)\<close> here.
  Overflow to infinity (above \<open>2 ^ 1024\<close>) and gradual underflow (below \<open>2 ^ - 1022\<close>)
  are outside the range of the amounts the code handles and are not modelled.

  The lemmas show that \<open>fl\<close> is monotone, keeps signs, is the identity on integers up to
  \<open>2 ^ 53\<close> and on powers of two.
\<close>

definition pow2 :: "int \<Rightarrow> rat" where
  "pow2 e = (if 0 \<le> e then 2 ^ nat e else 1 / 2 ^ nat (- e))"

definition round_half_even :: "rat \<Rightarrow> int" where
  "round_half_even x =
     (let f = \<lfloor>x\<rfloor>; d = x - of_int f in
      if d < 1 / 2 then f else if 1 / 2 < d then f + 1 else if even f then f else f + 1)"

text \<open>\<open>ilog2 x\<close> is the largest \<open>e\<close> with \<open>2 ^ e \<le> x\<close>, for positive \<open>x\<close>.\<close>

definition ilog2 :: "rat \<Rightarrow> int" where
  "ilog2 x =
     (let (p, q) = quotient_of x; e = bitlen p - bitlen q in
      if pow2 e \<le> x then e else e - 1)"

definition fl :: "rat \<Rightarrow> rat" where
  "fl x = (if x = 0 then 0
           else let e = ilog2 \<bar>x\<bar> - 52 in of_int (round_half_even (x / pow2 e)) * pow2 e)"

text \<open>\<open>int(x)\<close> of a float truncates towards zero.\<close>

definition trunc :: "rat \<Rightarrow> int" where
  "trunc x = (if 0 \<le> x then \<lfloor>x\<rfloor> else \<lceil>x\<rceil>)"

section \<open>Powers of two\<close>

lemma pow2_powi: "pow2 e = 2 powi e"
  by (simp add: pow2_def power_int_def inverse_eq_divide power_one_over)

lemma pow2_pos [simp]: "0 < pow2 e"
  by (simp add: pow2_def)

lemma pow2_nonneg [simp]: "0 \<le> pow2 e"
  by (simp add: less_imp_le)

lemma pow2_nonzero [simp]: "pow2 e \<noteq> 0"
  using pow2_pos [of e] by linarith

lemma pow2_add: "pow2 (a + b) = pow2 a * pow2 b"
  by (simp add: pow2_powi power_int_add)

lemma pow2_nat: "pow2 (int n) = 2 ^ n"
  by (simp add: pow2_def)

lemma pow2_mono: "a \<le> b \<Longrightarrow> pow2 a \<le> pow2 b"
  by (simp add: pow2_powi power_int_increasing)

lemma pow2_less_iff: "pow2 a < pow2 b \<longleftrightarrow> a < b"
proof
  show "a < b" if "pow2 a < pow2 b"
    using that pow2_mono [of b a] by (meson linorder_not_less)
  show "pow2 a < pow2 b" if "a < b"
  proof -
    have "pow2 b = pow2 a * pow2 (b - a)" using pow2_add [of a "b - a"] by simp
    moreover have "2 \<le> pow2 (b - a)"
      using that pow2_mono [of 1 "b - a"] by (simp add: pow2_def)
    ultimately show ?thesis
      using mult_strict_left_mono [of 1 "pow2 (b - a)" "pow2 a"] by simp
  qed
qed

section \<open>The binary exponent\<close>

lemma bitlen_bounds_rat:
  assumes "0 < (p :: int)"
  shows "pow2 (bitlen p - 1) \<le> of_int p" and "of_int p < pow2 (bitlen p)"
proof -
  define n where "n = nat (bitlen p - 1)"
  have pos: "0 < bitlen p"
    by (rule ccontr) (use bitlen_bounds [OF assms] assms in simp)
  have "2 ^ n \<le> p" and "p < 2 ^ nat (bitlen p)"
    using bitlen_bounds [OF assms] by (simp_all add: n_def)
  then have "(of_int (2 ^ n) :: rat) \<le> of_int p"
    and "of_int p < (of_int (2 ^ nat (bitlen p)) :: rat)"
    by (simp_all only: of_int_le_iff of_int_less_iff)
  then show "pow2 (bitlen p - 1) \<le> of_int p" and "of_int p < pow2 (bitlen p)"
    using pos by (simp_all add: pow2_def n_def)
qed

lemma ilog2_bounds:
  assumes "0 < x"
  shows "pow2 (ilog2 x) \<le> x" and "x < pow2 (ilog2 x + 1)"
proof -
  obtain p q where pq: "quotient_of x = (p, q)" by fastforce
  have q: "0 < q" using quotient_of_denom_pos [OF pq] .
  have x: "x = of_int p / of_int q" by (rule quotient_of_div [OF pq])
  have p: "0 < p" using assms q x by (simp add: zero_less_divide_iff)
  define e where "e = bitlen p - bitlen q"
  have "of_int p < pow2 (bitlen p)" and "pow2 (bitlen q - 1) \<le> of_int q"
    using bitlen_bounds_rat p q by auto
  then have "x < pow2 (bitlen p) / pow2 (bitlen q - 1)"
    unfolding x using p q by (intro frac_less) auto
  also have "\<dots> = pow2 (e + 1)"
    using pow2_add [of "e + 1" "bitlen q - 1"] by (simp add: e_def field_simps)
  finally have up: "x < pow2 (e + 1)" .
  have "pow2 (bitlen p - 1) \<le> of_int p" and "of_int q < pow2 (bitlen q)"
    using bitlen_bounds_rat p q by auto
  then have "pow2 (bitlen p - 1) / pow2 (bitlen q) \<le> x"
    unfolding x using p q by (intro frac_le) auto
  moreover have "pow2 (bitlen p - 1) / pow2 (bitlen q) = pow2 (e - 1)"
    using pow2_add [of "e - 1" "bitlen q"] by (simp add: e_def field_simps)
  ultimately have low: "pow2 (e - 1) \<le> x" by simp
  show "pow2 (ilog2 x) \<le> x" and "x < pow2 (ilog2 x + 1)"
    using up low by (auto simp: ilog2_def pq e_def Let_def)
qed

lemma ilog2_mono: "0 < x \<Longrightarrow> x \<le> y \<Longrightarrow> ilog2 x \<le> ilog2 y"
  using ilog2_bounds [of x] ilog2_bounds [of y] pow2_less_iff [of "ilog2 x" "ilog2 y + 1"]
  by fastforce

lemma ilog2_unique: "0 < x \<Longrightarrow> pow2 e \<le> x \<Longrightarrow> x < pow2 (e + 1) \<Longrightarrow> ilog2 x = e"
  using ilog2_bounds [of x] pow2_less_iff [of "ilog2 x" "e + 1"] pow2_less_iff [of e "ilog2 x + 1"]
  by fastforce

section \<open>Rounding\<close>

lemma round_half_even_of_int [simp]: "round_half_even (of_int n) = n"
  by (simp add: round_half_even_def)

lemma round_half_even_bounds: "\<lfloor>x\<rfloor> \<le> round_half_even x" "round_half_even x \<le> \<lfloor>x\<rfloor> + 1"
  by (simp_all add: round_half_even_def Let_def)

lemma round_half_even_mono:
  assumes "x \<le> y"
  shows "round_half_even x \<le> round_half_even y"
proof (cases "\<lfloor>x\<rfloor> = \<lfloor>y\<rfloor>")
  case True
  then show ?thesis using assms by (auto simp: round_half_even_def Let_def)
next
  case False
  then have "\<lfloor>x\<rfloor> + 1 \<le> \<lfloor>y\<rfloor>" using floor_mono [OF assms] by simp
  then show ?thesis using round_half_even_bounds [of x] round_half_even_bounds [of y] by linarith
qed

lemma fl_zero [simp]: "fl 0 = 0"
  by (simp add: fl_def)

lemma fl_pos_eq:
  "0 < x \<Longrightarrow> fl x = of_int (round_half_even (x / pow2 (ilog2 x - 52))) * pow2 (ilog2 x - 52)"
  by (simp add: fl_def Let_def)

lemma pow2_consts: "pow2 52 = of_int (2 ^ 52)" "pow2 53 = of_int (2 ^ 53)" "pow2 0 = 1"
  by (simp_all add: pow2_def)

lemma pow2_scale: "pow2 e = of_int (2 ^ 52) * pow2 (e - 52)"
proof -
  have "pow2 e = pow2 (52 + (e - 52))" by simp
  then show ?thesis by (simp only: pow2_add pow2_consts)
qed

lemma pow2_scale_Suc: "pow2 (e + 1) = of_int (2 ^ 53) * pow2 (e - 52)"
proof -
  have "pow2 (e + 1) = pow2 (53 + (e - 52))" by (rule arg_cong [where f = pow2]) simp
  then show ?thesis by (simp only: pow2_add pow2_consts)
qed

lemma fl_binade:
  assumes "0 < x"
  shows "pow2 (ilog2 x) \<le> fl x" and "fl x \<le> pow2 (ilog2 x + 1)"
proof -
  let ?u = "pow2 (ilog2 x - 52)"
  have "of_int (2 ^ 52) * ?u \<le> x" and "x \<le> of_int (2 ^ 53) * ?u"
    using ilog2_bounds [OF assms] pow2_scale [of "ilog2 x"] pow2_scale_Suc [of "ilog2 x"] by auto
  then have "of_int (2 ^ 52) \<le> x / ?u" and "x / ?u \<le> of_int (2 ^ 53)"
    by (simp_all add: field_simps)
  then have "round_half_even (of_int (2 ^ 52)) \<le> round_half_even (x / ?u)"
    and "round_half_even (x / ?u) \<le> round_half_even (of_int (2 ^ 53))"
    by (simp_all only: round_half_even_mono)
  then have "2 ^ 52 \<le> round_half_even (x / ?u)" and "round_half_even (x / ?u) \<le> 2 ^ 53"
    by (simp_all only: round_half_even_of_int)
  then have "(of_int (2 ^ 52) :: rat) \<le> of_int (round_half_even (x / ?u))"
    and "of_int (round_half_even (x / ?u)) \<le> (of_int (2 ^ 53) :: rat)"
    by (simp_all only: of_int_le_iff)
  then have "of_int (2 ^ 52) * ?u \<le> of_int (round_half_even (x / ?u)) * ?u"
    and "of_int (round_half_even (x / ?u)) * ?u \<le> of_int (2 ^ 53) * ?u"
    by (simp_all only: mult_right_mono pow2_nonneg)
  then show "pow2 (ilog2 x) \<le> fl x" and "fl x \<le> pow2 (ilog2 x + 1)"
    by (simp_all only: fl_pos_eq [OF assms] pow2_scale [of "ilog2 x"] pow2_scale_Suc [of "ilog2 x"])
qed

lemma fl_pos: "0 < x \<Longrightarrow> 0 < fl x"
  using fl_binade(1) [of x] pow2_pos [of "ilog2 x"] by linarith

lemma fl_nonneg: "0 \<le> x \<Longrightarrow> 0 \<le> fl x"
  using fl_pos [of x] by (cases "x = 0") auto

lemma fl_mono_pos:
  assumes "0 < x" and "x \<le> y"
  shows "fl x \<le> fl y"
proof (cases "ilog2 x = ilog2 y")
  case True
  have "x / pow2 (ilog2 y - 52) \<le> y / pow2 (ilog2 y - 52)"
    using assms by (simp add: divide_right_mono)
  then show ?thesis
    using assms True by (simp add: fl_pos_eq round_half_even_mono mult_right_mono)
next
  case False
  with assms ilog2_mono [of x y] have "ilog2 x + 1 \<le> ilog2 y" by simp
  then have "pow2 (ilog2 x + 1) \<le> pow2 (ilog2 y)" by (rule pow2_mono)
  then show ?thesis using fl_binade [of x] fl_binade [of y] assms by linarith
qed

lemma fl_mono_nonneg: "0 \<le> x \<Longrightarrow> x \<le> y \<Longrightarrow> fl x \<le> fl y"
  using fl_mono_pos [of x y] fl_nonneg [of y] by (cases "x = 0") auto

text \<open>Integers of at most 53 bits are floats.\<close>

lemma fl_of_int:
  assumes "0 \<le> n" and "n \<le> 2 ^ 53"
  shows "fl (of_int n) = of_int n"
proof (cases "n = 0")
  case False
  with assms have pos: "(0 :: rat) < of_int n" by simp
  define e where "e = ilog2 (of_int n)"
  have "0 \<le> e"
  proof (rule ccontr)
    assume "\<not> 0 \<le> e"
    then have "pow2 (e + 1) \<le> pow2 0" by (intro pow2_mono) simp
    then have "(of_int n :: rat) < 1"
      using ilog2_bounds(2) [OF pos] by (simp only: e_def pow2_consts)
    with False assms show False by simp
  qed
  have "(of_int n :: rat) \<le> of_int (2 ^ 53)"
    using assms(2) by (simp only: of_int_le_iff)
  then have "pow2 e \<le> pow2 53"
    using ilog2_bounds(1) [OF pos] by (simp only: e_def pow2_consts)
  then have e53: "e \<le> 53"
    using pow2_less_iff [of 53 e] by linarith
  have "\<exists>k :: int. (of_int n :: rat) = of_int k * pow2 (e - 52)"
  proof (cases "e \<le> 52")
    case True
    then have "(of_int n :: rat) = of_int (n * 2 ^ nat (52 - e)) * pow2 (e - 52)"
      by (simp add: pow2_def)
    then show ?thesis by blast
  next
    case False
    with e53 have e: "e = 53" by simp
    have "pow2 53 \<le> of_int n"
      using ilog2_bounds(1) [OF pos] e by (simp only: e_def)
    then have "2 ^ 53 \<le> n" by (simp only: pow2_consts of_int_le_iff)
    with assms(2) have "n = 2 ^ 53" by (rule order_antisym)
    then have "(of_int n :: rat) = pow2 53" by (simp only: pow2_consts)
    also have "\<dots> = of_int (2 ^ 52) * pow2 (e - 52)"
      using pow2_scale [of 53] by (simp only: e)
    finally show ?thesis by blast
  qed
  then obtain k where k: "(of_int n :: rat) = of_int k * pow2 (e - 52)" by blast
  then have quot: "of_int n / pow2 (e - 52) = (of_int k :: rat)" by simp
  have "fl (of_int n) = of_int (round_half_even (of_int n / pow2 (e - 52))) * pow2 (e - 52)"
    unfolding e_def by (rule fl_pos_eq [OF pos])
  also have "\<dots> = of_int k * pow2 (e - 52)" by (simp only: quot round_half_even_of_int)
  finally show ?thesis by (simp only: k)
qed simp

lemma fl_one [simp]: "fl 1 = 1"
  using fl_of_int [of 1] by simp

lemma fl_le_of_int:
  "0 \<le> x \<Longrightarrow> x \<le> of_int n \<Longrightarrow> n \<le> 2 ^ 53 \<Longrightarrow> fl x \<le> of_int n"
  using fl_mono_nonneg [of x "of_int n"] fl_of_int [of n] by (cases "0 \<le> n") auto

lemma trunc_nonneg: "0 \<le> x \<Longrightarrow> 0 \<le> trunc x"
  by (simp add: trunc_def)

lemma trunc_le: "0 \<le> x \<Longrightarrow> x \<le> of_int n \<Longrightarrow> trunc x \<le> n"
  using floor_mono [of x "of_int n"] by (simp add: trunc_def)

end
