(* ===== verification/Capacity.thy ===== *)
theory Capacity
  imports Models Float64
begin

text \<open>
  \<open>pbozi/backend/app/services/codex_capacity_service.py\<close>: capacity pools, the assignment of
  a subscription to a pool, the remaining capacity of a Codex account under its safety buffer,
  and the choice of an account for a user. The lemmas show that an effective limit stays between
  0 and the configured limit, that pools are never filled beyond their size by an assignment,
  and that the chosen account is eligible and has the most capacity left.
\<close>

section \<open>Limits\<close>

definition coerce_int :: "int option \<Rightarrow> int \<Rightarrow> int" where
  "coerce_int value dflt = (case value of None \<Rightarrow> dflt | Some n \<Rightarrow> n)"

definition coerce_float :: "pyfloat option \<Rightarrow> pyfloat \<Rightarrow> pyfloat" where
  "coerce_float value dflt = (case value of None \<Rightarrow> dflt | Some x \<Rightarrow> x)"

definition effective_limit :: "int option \<Rightarrow> pyfloat option \<Rightarrow> int" where
  "effective_limit limit buffer =
     (let raw_limit = max 0 (coerce_int limit 0) in
      if raw_limit = 0 then 0
      else let buffer_percent = min 95 (max 0 (coerce_float buffer 30)) in
        trunc (fl (fl (of_int raw_limit) * fl (1 - fl (fl buffer_percent / 100)))))"

definition codex_account_remaining_capacity :: "codex_account \<Rightarrow> int" where
  "codex_account_remaining_capacity a =
     (let five_hour_effective = effective_limit (five_hour_limit a) (safety_buffer_percent a);
          weekly_effective = effective_limit (weekly_limit a) (safety_buffer_percent a);
          five_hour_remaining = five_hour_effective - max 0 (coerce_int (five_hour_used a) 0);
          weekly_remaining = weekly_effective - max 0 (coerce_int (weekly_used a) 0)
      in min five_hour_remaining weekly_remaining)"

section \<open>Pools\<close>

definition sub_is_live :: "instant \<Rightarrow> user_subscription \<Rightarrow> bool" where
  "sub_is_live now u \<longleftrightarrow> us_status u = ''active'' \<and> now < expires_at u"

definition recalculate_pool_active_users :: "instant \<Rightarrow> int \<Rightarrow> int act" where
  "recalculate_pool_active_users now pid =
     bind (query (\<lambda>d. t_count (\<lambda>_ u. pool_id u = Some pid \<and> sub_is_live now u)
                        (user_subscriptions d))) (\<lambda>n.
     bind (query (\<lambda>d. t_get (capacity_pools d) pid)) (\<lambda>pool.
     case pool of
       None \<Rightarrow> ret n
     | Some p \<Rightarrow>
         andthen (update (\<lambda>d. d\<lparr>capacity_pools := t_put pid (p\<lparr>active_users := n\<rparr>)
                                                     (capacity_pools d)\<rparr>))
         (ret n)))"

definition pool_has_room :: "capacity_pool \<Rightarrow> bool" where
  "pool_has_room p \<longleftrightarrow> cp_status p = ''active'' \<and> active_users p < max_users p"

text \<open>The subscription is passed as its object: key and current row; the new row is saved.\<close>

definition assign_subscription_pool :: "user_subscription obj \<Rightarrow> capacity_pool obj act" where
  "assign_subscription_pool = (\<lambda>(sid, sub).
     case pool_id sub of
       Some pid \<Rightarrow>
         bind (query (\<lambda>d. t_get (capacity_pools d) pid)) (\<lambda>pool.
         case pool of
           None \<Rightarrow> raise (CodexCapacityError ''codex_capacity_unavailable''
                                             ''Subscription capacity pool not found'')
         | Some p \<Rightarrow> ret (pid, p))
     | None \<Rightarrow>
         bind (query (\<lambda>d. t_first_by (\<lambda>i _. i)
                            (t_select (\<lambda>_ p. pool_has_room p) (capacity_pools d)))) (\<lambda>found.
         case found of
           None \<Rightarrow> raise (CodexCapacityError ''codex_capacity_unavailable''
                            ''No Codex capacity pool has available user capacity'')
         | Some (pid, p) \<Rightarrow>
             let p' = p\<lparr>active_users := min (max 0 (active_users p) + 1) (max 0 (max_users p))\<rparr> in
             andthen (update (\<lambda>d. d\<lparr>
                 user_subscriptions := t_put sid (sub\<lparr>pool_id := Some pid\<rparr>) (user_subscriptions d),
                 capacity_pools := t_put pid p' (capacity_pools d)\<rparr>))
             (ret (pid, p'))))"

definition get_active_user_subscription ::
  "instant \<Rightarrow> int \<Rightarrow> user_subscription obj option act" where
  "get_active_user_subscription now uid =
     query (\<lambda>d. t_first_by (\<lambda>i u. (- expires_at u, - i))
                  (t_select (\<lambda>_ u. us_user_id u = uid \<and> sub_is_live now u) (user_subscriptions d)))"

section \<open>Choosing an account\<close>

datatype capacity_fallback = FallbackModel int

definition build_codex_capacity_fallback :: "capacity_pool option \<Rightarrow> capacity_fallback option" where
  "build_codex_capacity_fallback pool =
     (case pool of
        None \<Rightarrow> None
      | Some p \<Rightarrow>
          if fallback_behavior p = ''fallback_model''
          then map_option FallbackModel (fallback_model_id p) else None)"

definition account_selectable :: "instant \<Rightarrow> int option \<Rightarrow> int \<Rightarrow> codex_account \<Rightarrow> bool" where
  "account_selectable now provider pid a \<longleftrightarrow>
     ca_pool_id a = Some pid \<and> ca_is_active a \<and> ca_status a = ''active''
     \<and> auth_status a = ''authenticated''
     \<and> (case cooldown_until a of None \<Rightarrow> True | Some t \<Rightarrow> t \<le> now)
     \<and> (case provider of
          None \<Rightarrow> True
        | Some prov \<Rightarrow> ca_provider_id a = Some prov \<or> ca_provider_id a = None)"

definition account_rank :: "codex_account obj \<Rightarrow> int \<times> bool \<times> int" where
  "account_rank = (\<lambda>(i, a). (codex_account_remaining_capacity a, last_used_at a = None, - i))"

definition select_codex_account_for_subscription ::
  "instant \<Rightarrow> int option \<Rightarrow> int \<Rightarrow> codex_account obj option act" where
  "select_codex_account_for_subscription now provider uid =
     bind (get_active_user_subscription now uid) (\<lambda>found.
     case found of
       None \<Rightarrow> ret None
     | Some (_, sub) \<Rightarrow>
         (case pool_id sub of
            None \<Rightarrow> ret None
          | Some pid \<Rightarrow>
              bind (query (\<lambda>d. sort_key fst
                     (t_select (\<lambda>_. account_selectable now provider pid) (codex_accounts d)))) (\<lambda>rows.
              let candidates = filter (\<lambda>(_, a). 0 < codex_account_remaining_capacity a) rows in
              ret (case candidates of [] \<Rightarrow> None | c # cs \<Rightarrow> Some (max_by account_rank c cs)))))"

record codex_capacity_selection =
  sel_account :: "codex_account obj option"
  sel_pool :: "capacity_pool obj option"
  sel_fallback :: "capacity_fallback option"

definition resolve_codex_capacity_selection ::
  "instant \<Rightarrow> int option \<Rightarrow> int option \<Rightarrow> codex_capacity_selection act" where
  "resolve_codex_capacity_selection now provider user_id =
     (case user_id of
        None \<Rightarrow> ret \<lparr>sel_account = None, sel_pool = None, sel_fallback = None\<rparr>
      | Some uid \<Rightarrow>
          bind (get_active_user_subscription now uid) (\<lambda>found.
          case Option.bind found (\<lambda>(_, sub). pool_id sub) of
            None \<Rightarrow> raise (CodexCapacityError ''codex_subscription_required''
                             ''Active Codex subscription with a capacity pool is required'')
          | Some pid \<Rightarrow>
              bind (query (\<lambda>d. t_get (capacity_pools d) pid)) (\<lambda>pool.
              case pool of
                None \<Rightarrow> raise (CodexCapacityError ''codex_capacity_unavailable''
                                 ''Codex capacity pool is not available'')
              | Some p \<Rightarrow>
                  if cp_status p \<noteq> ''active''
                  then raise (CodexCapacityError ''codex_capacity_unavailable''
                                ''Codex capacity pool is not available'')
                  else bind (select_codex_account_for_subscription now provider uid) (\<lambda>acc.
                    ret \<lparr>sel_account = acc, sel_pool = Some (pid, p),
                         sel_fallback = build_codex_capacity_fallback (Some p)\<rparr>))))"

text \<open>\<open>_coerce_int\<close> of a JSON value: \<open>int(value)\<close>, or the default when that raises.\<close>

fun coerce_int_json :: "json option \<Rightarrow> int \<Rightarrow> int" where
  "coerce_int_json None d = d"
| "coerce_int_json (Some JNull) d = d"
| "coerce_int_json (Some (JBool b)) d = (if b then 1 else 0)"
| "coerce_int_json (Some (JInt n)) d = n"
| "coerce_int_json (Some (JFloat x)) d = trunc x"
| "coerce_int_json (Some (JStr s)) d = (case int_of_str s of None \<Rightarrow> d | Some n \<Rightarrow> n)"
| "coerce_int_json (Some (JList _)) d = d"
| "coerce_int_json (Some (JDict _)) d = d"

definition record_codex_account_usage ::
  "instant \<Rightarrow> codex_account \<Rightarrow> dict option \<Rightarrow> int \<times> codex_account" where
  "record_codex_account_usage now a usage_opt =
     (let usage = (case usage_opt of None \<Rightarrow> [] | Some u \<Rightarrow> u);
          t1 = coerce_int_json (map_of usage ''total_tokens'') 0;
          t2 = (if t1 \<le> 0 then coerce_int_json (map_of usage ''input_tokens'') 0
                             + coerce_int_json (map_of usage ''output_tokens'') 0 else t1);
          total_tokens = (if t2 \<le> 0 then 1 else t2)
      in (total_tokens,
          a\<lparr>five_hour_used := Some (max 0 (coerce_int (five_hour_used a) 0) + total_tokens),
            weekly_used := Some (max 0 (coerce_int (weekly_used a) 0) + total_tokens),
            last_used_at := Some now\<rparr>))"

section \<open>Lemmas\<close>

subsection \<open>Effective limits\<close>

text \<open>The factor applied to a limit is a float between 0 and 1, whatever the buffer.\<close>

lemma buffer_factor_bounds:
  fixes b :: rat
  defines "k \<equiv> fl (1 - fl (fl (min 95 (max 0 b)) / 100))"
  shows "0 \<le> k" and "k \<le> 1"
proof -
  let ?p = "fl (min 95 (max 0 b))"
  have "0 \<le> ?p" by (simp add: fl_nonneg)
  moreover have "?p \<le> 95" using fl_le_of_int [of "min 95 (max 0 b)" 95] by simp
  ultimately have "0 \<le> ?p / 100" and "?p / 100 \<le> of_int 1" by simp_all
  then have q: "0 \<le> fl (?p / 100)" "fl (?p / 100) \<le> 1"
    using fl_nonneg fl_le_of_int [of "?p / 100" 1] by auto
  then show "0 \<le> k" by (simp add: k_def fl_nonneg)
  show "k \<le> 1" using q fl_le_of_int [of "1 - fl (?p / 100)" 1] by (simp add: k_def)
qed

lemma effective_limit_eq:
  "effective_limit limit buffer =
    (if max 0 (coerce_int limit 0) = 0 then 0
     else trunc (fl (fl (of_int (max 0 (coerce_int limit 0)))
            * fl (1 - fl (fl (min 95 (max 0 (coerce_float buffer 30))) / 100)))))"
  by (simp only: effective_limit_def Let_def)

lemma effective_limit_nonneg: "0 \<le> effective_limit limit buffer"
proof -
  let ?r = "max 0 (coerce_int limit 0)"
  let ?k = "fl (1 - fl (fl (min 95 (max 0 (coerce_float buffer 30))) / 100))"
  have "0 \<le> fl (of_int ?r)" by (simp add: fl_nonneg)
  then have "0 \<le> fl (of_int ?r) * ?k"
    using buffer_factor_bounds(1) [of "coerce_float buffer 30"] by (rule mult_nonneg_nonneg)
  then have "0 \<le> trunc (fl (fl (of_int ?r) * ?k))"
    by (rule trunc_nonneg [OF fl_nonneg])
  then show ?thesis by (simp only: effective_limit_eq split: if_split) simp
qed

lemma effective_limit_le:
  assumes "coerce_int limit 0 \<le> 2 ^ 53"
  shows "effective_limit limit buffer \<le> max 0 (coerce_int limit 0)"
proof -
  let ?r = "max 0 (coerce_int limit 0)"
  let ?k = "fl (1 - fl (fl (min 95 (max 0 (coerce_float buffer 30))) / 100))"
  note k = buffer_factor_bounds [of "coerce_float buffer 30"]
  have r: "0 \<le> ?r" "?r \<le> 2 ^ 53" using assms by simp_all
  have "of_int ?r * ?k \<le> of_int ?r * 1" using k r by (intro mult_left_mono) simp_all
  moreover have nonneg: "0 \<le> of_int ?r * ?k"
    using k r by (intro mult_nonneg_nonneg [OF _ k(1)]) simp
  ultimately have "fl (of_int ?r * ?k) \<le> of_int ?r"
    using r by (intro fl_le_of_int) simp_all
  then have "trunc (fl (of_int ?r * ?k)) \<le> ?r"
    by (rule trunc_le [OF fl_nonneg [OF nonneg]])
  then show ?thesis
    by (simp only: effective_limit_eq fl_of_int [OF r] split: if_split) simp
qed

subsection \<open>Selections\<close>

lemma t_select_mem: "(i, r) \<in> set (t_select P t) \<longleftrightarrow> (i, r) \<in> set t \<and> P i r"
  by (simp add: t_select_def)

lemma t_first_by_select_SomeD:
  assumes "t_first_by f (t_select P t) = Some (i, r)"
  shows "(i, r) \<in> set t" and "P i r"
    and "(j, q) \<in> set t \<Longrightarrow> P j q \<Longrightarrow> f i r \<le> f j q"
  using t_first_by_Some [OF assms] by (auto simp: t_select_mem)

lemma get_active_user_subscription_run [run_simps]:
  "get_active_user_subscription now uid s =
     (Inr (t_first_by (\<lambda>i u. (- expires_at u, - i))
             (t_select (\<lambda>_ u. us_user_id u = uid \<and> sub_is_live now u)
               (user_subscriptions (work s)))), s)"
  by (simp add: get_active_user_subscription_def run_simps)

lemma select_codex_account_reads:
  "snd (select_codex_account_for_subscription now provider uid s) = s"
  by (simp add: select_codex_account_for_subscription_def run_simps Let_def
      split: option.splits prod.splits)

lemma select_codex_account_cases:
  assumes "select_codex_account_for_subscription now provider uid s = (Inr found, s')"
  obtains (no_pool) "found = None"
    and "\<And>sid sub. t_first_by (\<lambda>i u. (- expires_at u, - i))
           (t_select (\<lambda>_ u. us_user_id u = uid \<and> sub_is_live now u)
             (user_subscriptions (work s))) = Some (sid, sub) \<Longrightarrow> pool_id sub = None"
  | (pool) sid sub pid where "t_first_by (\<lambda>i u. (- expires_at u, - i))
           (t_select (\<lambda>_ u. us_user_id u = uid \<and> sub_is_live now u)
             (user_subscriptions (work s))) = Some (sid, sub)"
    and "pool_id sub = Some pid"
    and "found = (case filter (\<lambda>(_, a). 0 < codex_account_remaining_capacity a)
           (sort_key fst (t_select (\<lambda>_. account_selectable now provider pid)
              (codex_accounts (work s)))) of [] \<Rightarrow> None | c # cs \<Rightarrow> Some (max_by account_rank c cs))"
  using assms
  by (auto simp: select_codex_account_for_subscription_def run_simps Let_def
      split: option.splits prod.splits)

lemma max_by_candidates:
  assumes "(case xs of [] \<Rightarrow> None | c # cs \<Rightarrow> Some (max_by f c cs)) = Some x"
  shows "x \<in> set xs" and "y \<in> set xs \<Longrightarrow> f y \<le> f x"
proof -
  obtain c cs where xs: "xs = c # cs" and x: "x = max_by f c cs"
    using assms by (auto split: list.splits)
  show "x \<in> set xs" using max_by_mem [of f c cs] by (simp add: xs x)
  show "y \<in> set xs \<Longrightarrow> f y \<le> f x" using max_by_ge [of y c cs f] by (simp add: xs x)
qed

lemma account_rank_le:
  "account_rank (j, b) \<le> account_rank (i, a) \<Longrightarrow>
    codex_account_remaining_capacity b \<le> codex_account_remaining_capacity a"
  by (auto simp: account_rank_def less_eq_prod_def)

text \<open>
  The account chosen for a user: it is selectable in the pool of the user's live subscription,
  has capacity left, and no selectable account has more.
\<close>

lemma select_codex_account_sound:
  assumes "select_codex_account_for_subscription now provider uid s = (Inr (Some (i, a)), s')"
  shows "\<exists>sid sub pid. (sid, sub) \<in> set (user_subscriptions (work s)) \<and> us_user_id sub = uid \<and>
      sub_is_live now sub \<and> pool_id sub = Some pid \<and>
      (i, a) \<in> set (codex_accounts (work s)) \<and> account_selectable now provider pid a \<and>
      0 < codex_account_remaining_capacity a \<and>
      (\<forall>(j, b) \<in> set (codex_accounts (work s)). account_selectable now provider pid b \<longrightarrow>
         codex_account_remaining_capacity b \<le> codex_account_remaining_capacity a)"
  using assms
proof (cases rule: select_codex_account_cases)
  case (pool sid sub pid)
  note best = max_by_candidates [OF pool(3) [symmetric]]
  have sub: "(sid, sub) \<in> set (user_subscriptions (work s))" "us_user_id sub = uid"
    "sub_is_live now sub"
    using t_first_by_select_SomeD [OF pool(1)] by auto
  have acc: "(i, a) \<in> set (codex_accounts (work s))" "account_selectable now provider pid a"
    "0 < codex_account_remaining_capacity a"
    using best(1) by (auto simp: t_select_mem)
  have "codex_account_remaining_capacity b \<le> codex_account_remaining_capacity a"
    if "(j, b) \<in> set (codex_accounts (work s))" "account_selectable now provider pid b" for j b
  proof (cases "0 < codex_account_remaining_capacity b")
    case True
    with that have "account_rank (j, b) \<le> account_rank (i, a)"
      by (intro best(2)) (simp add: t_select_mem)
    then show ?thesis by (rule account_rank_le)
  next
    case False
    with acc(3) show ?thesis by simp
  qed
  with sub acc pool(2) show ?thesis by blast
qed simp

subsection \<open>Assignments\<close>

definition pools_within :: "db \<Rightarrow> bool" where
  "pools_within d \<longleftrightarrow>
     (\<forall>(i, p) \<in> set (capacity_pools d). 0 \<le> active_users p \<and> active_users p \<le> max_users p)"

lemma pools_within_put:
  "pools_within d \<Longrightarrow> 0 \<le> active_users p \<Longrightarrow> active_users p \<le> max_users p \<Longrightarrow>
    pools_within (d\<lparr>user_subscriptions := u, capacity_pools := t_put i p (capacity_pools d)\<rparr>)"
  by (auto simp: pools_within_def set_t_put)

lemma assign_subscription_pool_cases:
  obtains (kept) pid p where "pool_id sub = Some pid"
      "t_get (capacity_pools (work s)) pid = Some p"
      "assign_subscription_pool (sid, sub) s = (Inr (pid, p), s)"
  | (assigned) pid p where "pool_id sub = None"
      "(pid, p) \<in> set (capacity_pools (work s))" "pool_has_room p"
      "assign_subscription_pool (sid, sub) s =
        (Inr (pid, p\<lparr>active_users := min (max 0 (active_users p) + 1) (max 0 (max_users p))\<rparr>),
         s\<lparr>work := (work s)\<lparr>
             user_subscriptions := t_put sid (sub\<lparr>pool_id := Some pid\<rparr>)
               (user_subscriptions (work s)),
             capacity_pools := t_put pid
               (p\<lparr>active_users := min (max 0 (active_users p) + 1) (max 0 (max_users p))\<rparr>)
               (capacity_pools (work s))\<rparr>\<rparr>)"
  | (refused) msg where
      "assign_subscription_pool (sid, sub) s =
        (Inl (CodexCapacityError ''codex_capacity_unavailable'' msg), s)"
proof (cases "pool_id sub")
  case None
  show thesis
  proof (cases "t_first_by (\<lambda>i _. i) (t_select (\<lambda>_ p. pool_has_room p) (capacity_pools (work s)))")
    case none: None
    show thesis
      by (rule refused) (simp add: assign_subscription_pool_def run_simps None none)
  next
    case (Some x)
    obtain pid p where x: "x = (pid, p)" by fastforce
    have "(pid, p) \<in> set (capacity_pools (work s))" "pool_has_room p"
      using t_first_by_select_SomeD [OF Some [unfolded x]] by auto
    then show thesis
      by (rule assigned [OF None])
        (simp add: assign_subscription_pool_def run_simps None Some x Let_def)
  qed
next
  case (Some pid)
  show thesis
  proof (cases "t_get (capacity_pools (work s)) pid")
    case None
    show thesis
      by (rule refused) (simp add: assign_subscription_pool_def run_simps None Some)
  next
    case found: (Some p)
    show thesis
      by (rule kept [OF Some found]) (simp add: assign_subscription_pool_def run_simps Some found)
  qed
qed

lemma assign_pools_within: "preserves (on_work pools_within) (assign_subscription_pool obj)"
proof (rule preservesI)
  fix s assume inv: "on_work pools_within s"
  obtain sid sub where obj: "obj = (sid, sub)" by fastforce
  show "on_work pools_within (snd (assign_subscription_pool obj s))"
  proof (cases rule: assign_subscription_pool_cases [of sub s sid])
    case (assigned pid p)
    with inv have "0 \<le> active_users p" "active_users p < max_users p"
      by (auto simp: on_work_def pools_within_def pool_has_room_def)
    then show ?thesis
      using inv assigned(4) by (simp add: obj on_work_def pools_within_put)
  qed (use inv in \<open>simp_all add: obj\<close>)
qed

end
