(* ===== verification/Toman_Billing.thy ===== *)
theory Toman_Billing
  imports Capacity
begin

text \<open>
  \<open>pbozi/backend/app/services/toman_billing_service.py\<close>: the Toman billing account of a
  user, with its gift and paid balances, its ledger, the subscription purchase, the top-up and
  the charges for chat and other usage. This theory holds the definitions, in the order of the
  source; \<open>Toman_Lemmas\<close> states what each operation does.

  A function that takes \<open>user\<close> reads only its id, so the id is the argument. An ORM object is
  a key and its current row; mutating it is writing the new row back.
\<close>

section \<open>Constants and helpers\<close>

definition DEFAULT_MONTHLY_PRICE_TOMAN :: "int" where
  "DEFAULT_MONTHLY_PRICE_TOMAN = (80000 :: int)"

definition DEFAULT_GIFT_CREDIT_TOMAN :: "int" where
  "DEFAULT_GIFT_CREDIT_TOMAN = (100000 :: int)"

definition DEFAULT_API_MARKUP_PERCENT :: "rat" where
  "DEFAULT_API_MARKUP_PERCENT = (25 :: rat)"

definition DEFAULT_FIRST_TOPUP_DISCOUNT_PERCENT :: "rat" where
  "DEFAULT_FIRST_TOPUP_DISCOUNT_PERCENT = (50 :: rat)"

definition DEFAULT_FIRST_TOPUP_DISCOUNT_CAP_TOMAN :: "int" where
  "DEFAULT_FIRST_TOPUP_DISCOUNT_CAP_TOMAN = (300000 :: int)"

definition DEFAULT_USD_TO_TOMAN_RATE :: "int" where
  "DEFAULT_USD_TO_TOMAN_RATE = (50000 :: int)"

definition round_toman :: "rat \<Rightarrow> int" where
  "round_toman x = round_half_up x"

text \<open>\<open>max(0, int(value or default))\<close>: 0 is falsy, so it gives the default too.\<close>

definition positive_int :: "int option \<Rightarrow> int \<Rightarrow> int" where
  "positive_int value dflt =
     max 0 (case value of None \<Rightarrow> dflt | Some n \<Rightarrow> if n = 0 then dflt else n)"

definition positive_float :: "pyfloat option \<Rightarrow> pyfloat \<Rightarrow> pyfloat" where
  "positive_float value dflt = max 0 (case value of None \<Rightarrow> dflt | Some x \<Rightarrow> x)"

section \<open>Results\<close>

record purchase_result =
  p_ok :: bool
  p_account :: "user_billing_account obj"
  p_subscription :: "user_subscription obj option"
  p_payment_toman :: int
  p_gift_credit_toman :: int
  p_wallet_payment_toman :: int
  p_external_payment_toman :: int
  p_ledger_entries :: "toman_ledger_entry obj list"
  p_reason :: "string option"

record topup_quote =
  credit_amount_toman :: int
  normal_payment_toman :: int
  payment_due_toman :: int
  discount_toman :: int
  discount_applied :: bool
  discounted_credit_toman :: int
  markup_percent :: pyfloat
  discount_percent :: pyfloat

record topup_result =
  t_ok :: bool
  t_account :: "user_billing_account obj"
  t_quote :: topup_quote
  t_ledger_entry :: "toman_ledger_entry obj option"
  t_reason :: "string option"

record chat_usage_quote =
  q_global_api_cost_usd :: pyfloat
  q_base_cost_toman :: int
  q_billable_cost_toman :: int
  q_usd_to_toman_rate :: int
  q_markup_percent :: pyfloat
  pricing_snapshot :: dict

record chat_usage_charge_result =
  c_ok :: bool
  c_account :: "user_billing_account obj"
  c_global_api_cost_usd :: pyfloat
  c_base_cost_toman :: int
  c_billable_cost_toman :: int
  c_gift_spent_toman :: int
  c_paid_spent_toman :: int
  c_ledger_entry :: "toman_ledger_entry obj option"
  c_metadata :: "dict option"
  c_reason :: "string option"
  c_user_sub :: "user_subscription obj option"

text \<open>The dataclasses' defaults.\<close>

definition purchase_result0 :: "bool \<Rightarrow> user_billing_account obj \<Rightarrow> purchase_result" where
  "purchase_result0 ok account =
     \<lparr>p_ok = ok, p_account = account, p_subscription = None, p_payment_toman = 0,
      p_gift_credit_toman = 0, p_wallet_payment_toman = 0, p_external_payment_toman = 0,
      p_ledger_entries = [], p_reason = None\<rparr>"

definition charge_result0 ::
  "bool \<Rightarrow> user_billing_account obj \<Rightarrow> chat_usage_charge_result" where
  "charge_result0 ok account =
     \<lparr>c_ok = ok, c_account = account, c_global_api_cost_usd = 0, c_base_cost_toman = 0,
      c_billable_cost_toman = 0, c_gift_spent_toman = 0, c_paid_spent_toman = 0,
      c_ledger_entry = None, c_metadata = None, c_reason = None, c_user_sub = None\<rparr>"

section \<open>Accounts, configuration, ledger\<close>

definition default_subscription_config :: subscription_config where
  "default_subscription_config =
     \<lparr>is_enabled = True,
      cfg_monthly_price_toman = Some DEFAULT_MONTHLY_PRICE_TOMAN,
      cfg_gift_credit_toman = Some DEFAULT_GIFT_CREDIT_TOMAN,
      api_markup_percent = Some DEFAULT_API_MARKUP_PERCENT,
      first_topup_discount_percent = Some DEFAULT_FIRST_TOPUP_DISCOUNT_PERCENT,
      first_topup_discount_cap_toman = Some DEFAULT_FIRST_TOPUP_DISCOUNT_CAP_TOMAN,
      usd_to_toman_rate = Some DEFAULT_USD_TO_TOMAN_RATE\<rparr>"

definition get_or_create_subscription_config :: "subscription_config act" where
  "get_or_create_subscription_config =
     bind (query (\<lambda>d. t_first (\<lambda>_ _. True) (subscription_configs d))) (\<lambda>found.
     case found of
       Some (_, config) \<Rightarrow> ret config
     | None \<Rightarrow>
         andthen (update (\<lambda>d. d\<lparr>subscription_configs :=
                    t_add default_subscription_config (subscription_configs d)\<rparr>))
         (ret default_subscription_config))"

text \<open>\<open>UserBillingAccount(user_id=...)\<close> with the column defaults.\<close>

definition new_billing_account :: "int \<Rightarrow> user_billing_account" where
  "new_billing_account uid =
     \<lparr>ba_user_id = uid, currency = ''TOMAN'', gift_balance_toman = Some 0,
      paid_balance_toman = Some 0, total_gift_granted_toman = Some 0,
      total_gift_spent_toman = Some 0, total_paid_topup_toman = Some 0,
      total_paid_spent_toman = Some 0, total_subscription_paid_toman = Some 0,
      first_topup_discount_used = False, version = Some 0\<rparr>"

definition get_or_create_billing_account :: "int \<Rightarrow> user_billing_account obj act" where
  "get_or_create_billing_account uid =
     bind (query (\<lambda>d. t_first (\<lambda>_ a. ba_user_id a = uid) (billing_accounts d))) (\<lambda>found.
     case found of
       Some account \<Rightarrow> ret account
     | None \<Rightarrow>
         bind (query (\<lambda>d. t_next (billing_accounts d))) (\<lambda>aid.
         andthen (update (\<lambda>d. d\<lparr>billing_accounts :=
                    t_add (new_billing_account uid) (billing_accounts d)\<rparr>))
         (ret (aid, new_billing_account uid))))"

definition save_account :: "int \<Rightarrow> user_billing_account \<Rightarrow> unit act" where
  "save_account aid a =
     update (\<lambda>d. d\<lparr>billing_accounts := t_put aid a (billing_accounts d)\<rparr>)"

definition existing_ledger :: "string option \<Rightarrow> toman_ledger_entry obj option act" where
  "existing_ledger key =
     (case key of
        None \<Rightarrow> ret None
      | Some k \<Rightarrow>
          if k = [] then ret None
          else bind (query (\<lambda>d. t_select (\<lambda>_ e. tl_idempotency_key e = Some k) (toman_ledger d)))
                 scalar_one_or_none)"

definition new_ledger_entry ::
  "int \<Rightarrow> user_billing_account obj \<Rightarrow> int \<Rightarrow> int \<Rightarrow> int \<Rightarrow> string \<Rightarrow> string option \<Rightarrow>
   int option \<Rightarrow> string option \<Rightarrow> dict option \<Rightarrow> toman_ledger_entry" where
  "new_ledger_entry uid account amount gift_delta paid_delta entry_type reason usage_event_id
     idempotency_key metadata =
     \<lparr>tl_user_id = uid,
      billing_account_id = fst account,
      amount_toman = amount,
      gift_delta_toman = gift_delta,
      paid_delta_toman = paid_delta,
      gift_balance_after_toman = or0 (gift_balance_toman (snd account)),
      paid_balance_after_toman = or0 (paid_balance_toman (snd account)),
      tl_entry_type = entry_type,
      tl_status = ''posted'',
      tl_reason = reason,
      tl_usage_event_id = usage_event_id,
      tl_idempotency_key = idempotency_key,
      tl_metadata_json = (case metadata of None \<Rightarrow> [] | Some m \<Rightarrow> m)\<rparr>"

text \<open>
  \<open>db.add(entry)\<close> and the flush that writes it. \<open>idempotency_key\<close> is a unique column: a
  second row with the same key is an IntegrityError, and the failed flush rolls the transaction
  back.
\<close>

definition ledger_key_taken :: "db \<Rightarrow> string option \<Rightarrow> bool" where
  "ledger_key_taken d key =
     (case key of None \<Rightarrow> False
      | Some k \<Rightarrow> t_first (\<lambda>_ e. tl_idempotency_key e = Some k) (toman_ledger d) \<noteq> None)"

definition add_ledger :: "toman_ledger_entry \<Rightarrow> toman_ledger_entry obj act" where
  "add_ledger e =
     bind (query (\<lambda>d. ledger_key_taken d (tl_idempotency_key e))) (\<lambda>taken.
     if taken then andthen rollback (raise IntegrityError)
     else bind (query (\<lambda>d. t_next (toman_ledger d))) (\<lambda>lid.
       andthen (update (\<lambda>d. d\<lparr>toman_ledger := t_add e (toman_ledger d)\<rparr>))
       (ret (lid, e))))"

definition plan_price_toman :: "subscription_plan \<Rightarrow> subscription_config \<Rightarrow> int" where
  "plan_price_toman plan config =
     (case monthly_price_toman plan of
        Some p \<Rightarrow> max 0 p
      | None \<Rightarrow> positive_int (cfg_monthly_price_toman config) DEFAULT_MONTHLY_PRICE_TOMAN)"

definition plan_gift_toman :: "subscription_plan \<Rightarrow> subscription_config \<Rightarrow> int" where
  "plan_gift_toman plan config =
     (case gift_credit_toman plan of
        Some g \<Rightarrow> max 0 g
      | None \<Rightarrow> positive_int (cfg_gift_credit_toman config) DEFAULT_GIFT_CREDIT_TOMAN)"

section \<open>Buying a subscription\<close>

definition live_subscription :: "instant \<Rightarrow> int \<Rightarrow> user_subscription obj option act" where
  "live_subscription now uid =
     query (\<lambda>d. t_first (\<lambda>_ u. us_user_id u = uid \<and> sub_is_live now u) (user_subscriptions d))"

definition new_subscription :: "int \<Rightarrow> int \<Rightarrow> instant \<Rightarrow> instant \<Rightarrow> user_subscription" where
  "new_subscription uid pid purchased expires =
     \<lparr>us_user_id = uid, plan_id = pid, pool_id = None, us_status = ''active'',
      purchased_at = purchased, expires_at = expires, cooldown_spent_toman = Some 0,
      cooldown_ends_at = None, weekly_spent_toman = Some 0, week_resets_at = None\<rparr>"

definition add_subscription :: "user_subscription \<Rightarrow> user_subscription obj act" where
  "add_subscription u =
     bind (query (\<lambda>d. t_next (user_subscriptions d))) (\<lambda>sid.
     andthen (update (\<lambda>d. d\<lparr>user_subscriptions := t_add u (user_subscriptions d)\<rparr>))
     (ret (sid, u)))"

text \<open>Lines 276 to 285: the account after the purchase.\<close>

definition purchased_account ::
  "user_billing_account \<Rightarrow> int \<Rightarrow> int \<Rightarrow> int \<Rightarrow> int \<Rightarrow> user_billing_account" where
  "purchased_account a wallet_payment gift_delta gift_toman payment_toman =
     (let a1 = (if 0 < wallet_payment
                then a\<lparr>paid_balance_toman := Some (or0 (paid_balance_toman a) - wallet_payment),
                       total_paid_spent_toman :=
                         Some (or0 (total_paid_spent_toman a) + wallet_payment)\<rparr>
                else a)
      in a1\<lparr>gift_balance_toman := Some (or0 (gift_balance_toman a1) + gift_delta),
            total_gift_granted_toman := Some (or0 (total_gift_granted_toman a1) + gift_toman),
            total_subscription_paid_toman :=
              Some (or0 (total_subscription_paid_toman a1) + payment_toman),
            version := Some (or0 (version a1) + 1)\<rparr>)"

text \<open>Lines 276 to 336: the part of the purchase that follows the pool assignment.\<close>

definition settle_purchase ::
  "int \<Rightarrow> user_billing_account obj \<Rightarrow> subscription_plan obj \<Rightarrow> user_subscription obj \<Rightarrow>
   int \<Rightarrow> int \<Rightarrow> int \<Rightarrow> int \<Rightarrow> string option \<Rightarrow> bool \<Rightarrow> bool \<Rightarrow> bool \<Rightarrow> purchase_result act" where
  "settle_purchase uid account plan subscription payment_toman gift_toman wallet_payment
     external_payment key payment_confirmed grant_gift do_commit =
     (let gift_delta = (if grant_gift then gift_toman else 0);
          paid_delta = (if 0 < wallet_payment then - wallet_payment else 0);
          acc = (fst account, purchased_account (snd account) wallet_payment gift_delta
                                gift_toman payment_toman);
          payment_entry = new_ledger_entry uid acc payment_toman 0 paid_delta
            ''subscription_payment'' (Some (''Purchased '' @ plan_name (snd plan))) None
            (case key of None \<Rightarrow> None | Some k \<Rightarrow> if k = [] then None else Some (k @ '':payment''))
            (Some [(''plan_id'', JInt (fst plan)), (''subscription_id'', JInt (fst subscription)),
                   (''payment_confirmed'', JBool payment_confirmed),
                   (''wallet_payment_toman'', JInt wallet_payment),
                   (''external_payment_toman'', JInt external_payment)]);
          gift_entry = new_ledger_entry uid acc gift_toman gift_delta 0
            ''subscription_gift_credit'' (Some (''Gift credit for '' @ plan_name (snd plan))) None key
            (Some [(''plan_id'', JInt (fst plan)), (''subscription_id'', JInt (fst subscription)),
                   (''payment_toman'', JInt payment_toman),
                   (''grant_gift_toman_balance'', JBool grant_gift)])
      in andthen (save_account (fst acc) (snd acc))
         (bind (add_ledger payment_entry) (\<lambda>pe.
          bind (add_ledger gift_entry) (\<lambda>ge.
          andthen (commit_or_flush do_commit)
          (ret ((purchase_result0 True acc)\<lparr>p_subscription := Some subscription,
                 p_payment_toman := payment_toman, p_gift_credit_toman := gift_toman,
                 p_wallet_payment_toman := wallet_payment,
                 p_external_payment_toman := external_payment,
                 p_ledger_entries := [pe, ge]\<rparr>))))))"

definition purchase_toman_subscription ::
  "instant \<Rightarrow> int \<Rightarrow> subscription_plan obj \<Rightarrow> string option \<Rightarrow> bool \<Rightarrow> int option \<Rightarrow> bool \<Rightarrow> bool \<Rightarrow>
   purchase_result act" where
  "purchase_toman_subscription now uid plan key payment_confirmed wallet_payment_toman
     grant_gift do_commit =
     bind (get_or_create_billing_account uid) (\<lambda>account.
     bind (existing_ledger key) (\<lambda>existing.
     case existing of
       Some e \<Rightarrow> ret ((purchase_result0 True account)\<lparr>p_ledger_entries := [e],
                                                       p_reason := Some ''idempotent''\<rparr>)
     | None \<Rightarrow>
     bind (live_subscription now uid) (\<lambda>active.
     case active of
       Some sub \<Rightarrow> ret ((purchase_result0 False account)\<lparr>p_subscription := Some sub,
                            p_reason := Some ''active_subscription_exists''\<rparr>)
     | None \<Rightarrow>
     bind get_or_create_subscription_config (\<lambda>config.
     let payment_toman = plan_price_toman (snd plan) config;
         gift_toman = plan_gift_toman (snd plan) config;
         available_paid = or0 (paid_balance_toman (snd account));
         requested_wallet_payment =
           (if wallet_payment_toman = None \<and> \<not> payment_confirmed then payment_toman
            else positive_int wallet_payment_toman 0);
         wallet_payment = min payment_toman requested_wallet_payment;
         external_payment = payment_toman - wallet_payment;
         refusal = (purchase_result0 False account)\<lparr>p_payment_toman := payment_toman,
                     p_gift_credit_toman := gift_toman, p_wallet_payment_toman := wallet_payment,
                     p_external_payment_toman := external_payment\<rparr>
     in if available_paid < wallet_payment
        then ret (refusal\<lparr>p_reason := Some ''insufficient_paid_toman_credit''\<rparr>)
        else if \<not> payment_confirmed \<and> 0 < external_payment
        then ret (refusal\<lparr>p_reason := Some ''insufficient_paid_toman_credit''\<rparr>)
        else
          bind (add_subscription (new_subscription uid (fst plan) now (now + days 30)))
            (\<lambda>(sid, sub).
          bind (attempt (assign_subscription_pool (sid, sub))) (\<lambda>pool.
          case pool of
            Inl e \<Rightarrow>
              (case capacity_error_code e of
                 None \<Rightarrow> raise e
               | Some c \<Rightarrow>
                   andthen (update (\<lambda>d. d\<lparr>user_subscriptions := t_del sid (user_subscriptions d)\<rparr>))
                   (ret (refusal\<lparr>p_subscription := Some (sid, sub), p_reason := Some c\<rparr>)))
          | Inr (pid, _) \<Rightarrow>
              settle_purchase uid account plan (sid, sub\<lparr>pool_id := Some pid\<rparr>) payment_toman
                gift_toman wallet_payment external_payment key payment_confirmed grant_gift
                do_commit))))))"

section \<open>Topping up\<close>

definition quote_toman_topup_payment :: "instant \<Rightarrow> int \<Rightarrow> int \<Rightarrow> topup_quote act" where
  "quote_toman_topup_payment now uid credit_amount_arg =
     bind (get_or_create_billing_account uid) (\<lambda>account.
     bind get_or_create_subscription_config (\<lambda>config.
     bind (live_subscription now uid) (\<lambda>active.
     let credit_amount = positive_int (Some credit_amount_arg) 0;
         markup = positive_float (api_markup_percent config) DEFAULT_API_MARKUP_PERCENT;
         normal_payment = round_toman (of_int credit_amount * (1 + markup / 100));
         has_subscription_payment =
           (0 < or0 (total_subscription_paid_toman (snd account)) \<or> active \<noteq> None);
         discount_pct = positive_float (first_topup_discount_percent config)
                          DEFAULT_FIRST_TOPUP_DISCOUNT_PERCENT;
         cap = positive_int (first_topup_discount_cap_toman config)
                 DEFAULT_FIRST_TOPUP_DISCOUNT_CAP_TOMAN;
         discounted_credit =
           (if has_subscription_payment \<and> \<not> first_topup_discount_used (snd account)
            then min credit_amount cap else 0);
         discount = round_toman (of_int discounted_credit * (1 + markup / 100) * discount_pct / 100)
     in ret \<lparr>credit_amount_toman = credit_amount,
             normal_payment_toman = normal_payment,
             payment_due_toman = max 0 (normal_payment - discount),
             discount_toman = discount,
             discount_applied = (0 < discount),
             discounted_credit_toman = discounted_credit,
             markup_percent = markup,
             discount_percent = discount_pct\<rparr>)))"

definition topped_up_account :: "user_billing_account \<Rightarrow> topup_quote \<Rightarrow> user_billing_account" where
  "topped_up_account a q =
     a\<lparr>paid_balance_toman := Some (or0 (paid_balance_toman a) + credit_amount_toman q),
       total_paid_topup_toman := Some (or0 (total_paid_topup_toman a) + credit_amount_toman q),
       first_topup_discount_used := (first_topup_discount_used a \<or> discount_applied q),
       version := Some (or0 (version a) + 1)\<rparr>"

definition apply_toman_topup ::
  "instant \<Rightarrow> int \<Rightarrow> int \<Rightarrow> string option \<Rightarrow> dict option \<Rightarrow> bool \<Rightarrow> topup_result act" where
  "apply_toman_topup now uid credit_amount_arg key metadata do_commit =
     bind (get_or_create_billing_account uid) (\<lambda>account.
     bind (existing_ledger key) (\<lambda>existing.
     bind (quote_toman_topup_payment now uid credit_amount_arg) (\<lambda>q.
     case existing of
       Some e \<Rightarrow> ret \<lparr>t_ok = True, t_account = account, t_quote = q, t_ledger_entry = Some e,
                      t_reason = Some ''idempotent''\<rparr>
     | None \<Rightarrow>
       if credit_amount_toman q \<le> 0
       then ret \<lparr>t_ok = False, t_account = account, t_quote = q, t_ledger_entry = None,
                 t_reason = Some ''invalid_topup_amount''\<rparr>
       else let acc = (fst account, topped_up_account (snd account) q);
                entry_metadata = dict_merge
                  [(''payment_due_toman'', JInt (payment_due_toman q)),
                   (''normal_payment_toman'', JInt (normal_payment_toman q)),
                   (''discount_toman'', JInt (discount_toman q)),
                   (''discounted_credit_toman'', JInt (discounted_credit_toman q))]
                  (case metadata of None \<Rightarrow> [] | Some m \<Rightarrow> m)
            in andthen (save_account (fst acc) (snd acc))
               (bind (add_ledger (new_ledger_entry uid acc (credit_amount_toman q) 0
                        (credit_amount_toman q) ''paid_topup_credit'' (Some ''wallet topup'') None
                        key (Some entry_metadata))) (\<lambda>e.
                andthen (commit_or_flush do_commit)
                (ret \<lparr>t_ok = True, t_account = acc, t_quote = q, t_ledger_entry = Some e,
                      t_reason = None\<rparr>))))))"

definition mark_first_topup_discount_used ::
  "int \<Rightarrow> string option \<Rightarrow> dict option \<Rightarrow> bool \<Rightarrow> toman_ledger_entry obj option act" where
  "mark_first_topup_discount_used uid key metadata do_commit =
     bind (get_or_create_billing_account uid) (\<lambda>(aid, a).
     if first_topup_discount_used a then ret None
     else bind (existing_ledger key) (\<lambda>existing.
       case existing of
         Some e \<Rightarrow>
           andthen (save_account aid (a\<lparr>first_topup_discount_used := True\<rparr>))
           (andthen (commit_or_flush do_commit) (ret (Some e)))
       | None \<Rightarrow>
           let a' = a\<lparr>first_topup_discount_used := True, version := Some (or0 (version a) + 1)\<rparr>
           in andthen (save_account aid a')
              (bind (add_ledger (new_ledger_entry uid (aid, a') 0 0 0 ''first_topup_discount_used''
                       (Some ''first topup discount used on USD wallet topup'') None key metadata))
                 (\<lambda>e. andthen (commit_or_flush do_commit) (ret (Some e))))))"

end
