(* ===== verification/Toman_Usage.thy ===== *)
theory Toman_Usage
  imports Toman_Billing
begin

text \<open>
  The second half of \<open>pbozi/backend/app/services/toman_billing_service.py\<close>: pricing a chat
  completion, checking that a user may run it, and charging it, against a tiered subscription's
  windows or against the gift and paid balances; and the charge for any other usage.
\<close>

section \<open>Pricing\<close>

definition quote_chat_usage_toman ::
  "llm_model obj \<Rightarrow> int \<Rightarrow> int \<Rightarrow> chat_usage_quote act" where
  "quote_chat_usage_toman model input_tokens output_tokens =
     bind get_or_create_subscription_config (\<lambda>config.
     let input_count = positive_int (Some input_tokens) 0;
         output_count = positive_int (Some output_tokens) 0;
         price_in = positive_float (pricing_input (snd model)) 0;
         price_out = positive_float (pricing_output (snd model)) 0;
         global_cost = of_int input_count / 1000000 * price_in
                       + of_int output_count / 1000000 * price_out;
         rate = positive_int (usd_to_toman_rate config) DEFAULT_USD_TO_TOMAN_RATE;
         markup = positive_float (api_markup_percent config) DEFAULT_API_MARKUP_PERCENT;
         base_toman = round_toman (global_cost * of_int rate);
         billable = round_toman (of_int base_toman * (1 + markup / 100))
     in ret \<lparr>q_global_api_cost_usd = global_cost,
             q_base_cost_toman = base_toman,
             q_billable_cost_toman = billable,
             q_usd_to_toman_rate = rate,
             q_markup_percent = markup,
             pricing_snapshot =
               [(''model_id'', JInt (fst model)), (''model_name'', JStr (model_name (snd model))),
                (''pricing_input_usd_per_1m'', JFloat price_in),
                (''pricing_output_usd_per_1m'', JFloat price_out)]\<rparr>)"

definition usd_to_toman :: "pyfloat option \<Rightarrow> int act" where
  "usd_to_toman amount =
     bind get_or_create_subscription_config (\<lambda>config.
     let rate = positive_int (usd_to_toman_rate config) DEFAULT_USD_TO_TOMAN_RATE
     in ret (round_toman ((case amount of None \<Rightarrow> 0 | Some x \<Rightarrow> x) * of_int rate)))"

section \<open>The windows of a tiered subscription\<close>

text \<open>\<open>user_sub and user_sub.plan.plan_type == "tiered_cooldown"\<close>, with the plan.\<close>

definition tiered_plan :: "user_subscription obj option \<Rightarrow> subscription_plan option act" where
  "tiered_plan user_sub =
     (case user_sub of
        None \<Rightarrow> ret None
      | Some (_, u) \<Rightarrow>
          bind (query (\<lambda>d. t_get (subscription_plans d) (plan_id u))) (\<lambda>plan.
          case plan of
            None \<Rightarrow> raise (AttributeError ''plan_type'')
          | Some p \<Rightarrow> ret (if plan_type p = ''tiered_cooldown'' then Some p else None)))"

definition weekly_reset :: "instant \<Rightarrow> user_subscription \<Rightarrow> user_subscription" where
  "weekly_reset now u =
     (if (case week_resets_at u of None \<Rightarrow> True | Some t \<Rightarrow> t \<le> now)
      then u\<lparr>weekly_spent_toman := Some 0, week_resets_at := Some (now + days 7)\<rparr>
      else u)"

definition cooldown_reset :: "instant \<Rightarrow> user_subscription \<Rightarrow> user_subscription" where
  "cooldown_reset now u =
     (case cooldown_ends_at u of
        None \<Rightarrow> u
      | Some t \<Rightarrow> if t \<le> now then u\<lparr>cooldown_spent_toman := Some 0, cooldown_ends_at := None\<rparr>
                  else u)"

definition in_cooldown :: "instant \<Rightarrow> subscription_plan \<Rightarrow> user_subscription \<Rightarrow> bool" where
  "in_cooldown now plan u =
     (case cooldown_ends_at u of
        None \<Rightarrow> False
      | Some t \<Rightarrow> now < t \<and> cooldown_limit_toman plan \<le> or0 (cooldown_spent_toman u))"

definition weekly_limit_hit :: "subscription_plan \<Rightarrow> user_subscription \<Rightarrow> bool" where
  "weekly_limit_hit plan u \<longleftrightarrow>
     0 < weekly_limit_toman plan \<and> weekly_limit_toman plan \<le> or0 (weekly_spent_toman u)"

definition save_subscription :: "int \<Rightarrow> user_subscription \<Rightarrow> unit act" where
  "save_subscription sid u =
     update (\<lambda>d. d\<lparr>user_subscriptions := t_put sid u (user_subscriptions d)\<rparr>)"

definition available_toman :: "user_billing_account \<Rightarrow> int" where
  "available_toman a = or0 (gift_balance_toman a) + or0 (paid_balance_toman a)"

section \<open>The permission check\<close>

definition check_chat_usage_permission_toman ::
  "instant \<Rightarrow> int \<Rightarrow> llm_model obj \<Rightarrow> int \<Rightarrow> int \<Rightarrow> chat_usage_charge_result act" where
  "check_chat_usage_permission_toman now uid model input_tokens output_tokens =
     bind (get_or_create_billing_account uid) (\<lambda>account.
     bind (quote_chat_usage_toman model input_tokens output_tokens) (\<lambda>quote.
     let cost = q_billable_cost_toman quote;
         available = available_toman (snd account)
     in if cost \<le> 0 then ret (charge_result0 True account)
        else
          bind (live_subscription now uid) (\<lambda>user_sub.
          bind (tiered_plan user_sub) (\<lambda>tier.
          case (user_sub, tier) of
            (Some (sid, u), Some plan) \<Rightarrow>
              (let u' = cooldown_reset now (weekly_reset now u) in
               andthen (save_subscription sid u')
               (if in_cooldown now plan u'
                then ret ((charge_result0 (cost \<le> available) account)\<lparr>
                       c_billable_cost_toman := cost,
                       c_reason := Some (if cost \<le> available then ''cooldown_payg_available''
                                         else ''cooldown_limit_reached''),
                       c_user_sub := Some (sid, u')\<rparr>)
                else if weekly_limit_hit plan u'
                then ret ((charge_result0 (cost \<le> available) account)\<lparr>
                       c_billable_cost_toman := cost,
                       c_reason := Some (if cost \<le> available then ''weekly_limit_payg_available''
                                         else ''weekly_limit_reached''),
                       c_user_sub := Some (sid, u')\<rparr>)
                else ret ((charge_result0 True account)\<lparr>
                       c_reason := Some ''tiered_subscription'', c_user_sub := Some (sid, u')\<rparr>)))
          | _ \<Rightarrow>
              if cost \<le> available then ret (charge_result0 True account)
              else ret ((charge_result0 False account)\<lparr>c_billable_cost_toman := cost,
                      c_reason := Some ''insufficient_toman_credit'', c_user_sub := user_sub\<rparr>)))))"

section \<open>Charging\<close>

text \<open>Lines 694 to 700, and again 793 to 799: gift credit is spent first.\<close>

definition spent_account :: "user_billing_account \<Rightarrow> int \<Rightarrow> int \<Rightarrow> user_billing_account" where
  "spent_account a gift_spent paid_spent =
     a\<lparr>gift_balance_toman := Some (or0 (gift_balance_toman a) - gift_spent),
       paid_balance_toman := Some (or0 (paid_balance_toman a) - paid_spent),
       total_gift_spent_toman := Some (or0 (total_gift_spent_toman a) + gift_spent),
       total_paid_spent_toman := Some (or0 (total_paid_spent_toman a) + paid_spent),
       version := Some (or0 (version a) + 1)\<rparr>"

text \<open>Lines 675 to 742: the charge against the balances. \<open>tier\<close> is the tiered plan, if any.\<close>

definition charge_balances ::
  "instant \<Rightarrow> int \<Rightarrow> user_billing_account obj \<Rightarrow> chat_usage_quote \<Rightarrow> user_subscription obj option \<Rightarrow>
   subscription_plan option \<Rightarrow> int option \<Rightarrow> string option \<Rightarrow> dict option \<Rightarrow> bool \<Rightarrow>
   chat_usage_charge_result act" where
  "charge_balances now uid account quote user_sub tier usage_event_id key metadata do_commit =
     (let cost = q_billable_cost_toman quote;
          a = snd account
      in if available_toman a < cost
         then let reason =
                (case (user_sub, tier) of
                   (Some (_, u), Some plan) \<Rightarrow>
                     if (case cooldown_ends_at u of None \<Rightarrow> False | Some t \<Rightarrow> now < t)
                     then ''cooldown_limit_reached''
                     else if weekly_limit_hit plan u then ''weekly_limit_reached''
                     else ''insufficient_toman_credit''
                 | _ \<Rightarrow> ''insufficient_toman_credit'')
              in ret ((charge_result0 False account)\<lparr>
                   c_global_api_cost_usd := q_global_api_cost_usd quote,
                   c_base_cost_toman := q_base_cost_toman quote,
                   c_billable_cost_toman := cost, c_reason := Some reason,
                   c_user_sub := user_sub\<rparr>)
         else
           let gift_spent = min (or0 (gift_balance_toman a)) cost;
               paid_spent = cost - gift_spent;
               acc = (fst account, spent_account a gift_spent paid_spent);
               entry_metadata = dict_merge
                 [(''global_api_cost_usd'', JFloat (q_global_api_cost_usd quote)),
                  (''base_cost_toman'', JInt (q_base_cost_toman quote)),
                  (''billable_cost_toman'', JInt cost),
                  (''gift_spent_toman'', JInt gift_spent),
                  (''paid_spent_toman'', JInt paid_spent),
                  (''usd_to_toman_rate'', JInt (q_usd_to_toman_rate quote)),
                  (''api_markup_percent'', JFloat (q_markup_percent quote)),
                  (''pricing_snapshot'', JDict (pricing_snapshot quote))]
                 (case metadata of None \<Rightarrow> [] | Some m \<Rightarrow> m)
           in andthen (save_account (fst acc) (snd acc))
              (bind (add_ledger (new_ledger_entry uid acc (- cost) (- gift_spent) (- paid_spent)
                       ''chat_completion_usage'' (Some ''chat completion usage'') usage_event_id
                       key (Some entry_metadata))) (\<lambda>e.
               andthen (commit_or_flush do_commit)
               (ret ((charge_result0 True acc)\<lparr>
                  c_global_api_cost_usd := q_global_api_cost_usd quote,
                  c_base_cost_toman := q_base_cost_toman quote,
                  c_billable_cost_toman := cost,
                  c_gift_spent_toman := gift_spent, c_paid_spent_toman := paid_spent,
                  c_ledger_entry := Some e, c_metadata := Some entry_metadata,
                  c_user_sub := user_sub\<rparr>)))))"

text \<open>Lines 651 to 662: the windows after a covered charge of \<open>cost\<close>.\<close>

definition cover_by_tier ::
  "instant \<Rightarrow> subscription_plan \<Rightarrow> int \<Rightarrow> user_subscription \<Rightarrow> user_subscription" where
  "cover_by_tier now plan cost u =
     (let u1 = cooldown_reset now u;
          u2 = (if cooldown_ends_at u1 = None \<and> 0 < cooldown_hours plan
                then u1\<lparr>cooldown_ends_at := Some (now + hours (cooldown_hours plan)),
                        cooldown_spent_toman := Some 0\<rparr>
                else u1)
      in u2\<lparr>cooldown_spent_toman := Some (or0 (cooldown_spent_toman u2) + cost),
            weekly_spent_toman := Some (or0 (weekly_spent_toman u2) + cost)\<rparr>)"

definition charge_chat_usage_toman ::
  "instant \<Rightarrow> int \<Rightarrow> llm_model obj \<Rightarrow> int \<Rightarrow> int \<Rightarrow> int option \<Rightarrow> string option \<Rightarrow> dict option \<Rightarrow>
   bool \<Rightarrow> chat_usage_charge_result act" where
  "charge_chat_usage_toman now uid model input_tokens output_tokens usage_event_id key metadata
     do_commit =
     bind (get_or_create_billing_account uid) (\<lambda>account.
     bind (existing_ledger key) (\<lambda>existing.
     bind (quote_chat_usage_toman model input_tokens output_tokens) (\<lambda>quote.
     case existing of
       Some e \<Rightarrow> ret ((charge_result0 True account)\<lparr>c_ledger_entry := Some e,
                                                    c_reason := Some ''idempotent''\<rparr>)
     | None \<Rightarrow>
       let cost = q_billable_cost_toman quote
       in if cost \<le> 0
          then ret ((charge_result0 True account)\<lparr>c_metadata := Some (pricing_snapshot quote)\<rparr>)
          else
            bind (live_subscription now uid) (\<lambda>user_sub.
            bind (tiered_plan user_sub) (\<lambda>tier.
            case (user_sub, tier) of
              (Some (sid, u), Some plan) \<Rightarrow>
                (let u1 = weekly_reset now u in
                 if \<not> weekly_limit_hit plan u1 \<and> \<not> in_cooldown now plan u1
                 then let u2 = cover_by_tier now plan cost u1 in
                   andthen (save_subscription sid u2)
                   (andthen (on_cond do_commit commit)
                   (ret ((charge_result0 True account)\<lparr>
                      c_metadata := Some (dict_merge
                        [(''tiered_covered'', JBool True), (''cost'', JInt cost),
                         (''reason'', JStr ''tiered_subscription'')] (pricing_snapshot quote)),
                      c_user_sub := Some (sid, u2)\<rparr>)))
                 else andthen (save_subscription sid u1)
                   (charge_balances now uid account quote (Some (sid, u1)) (Some plan)
                      usage_event_id key metadata do_commit))
            | _ \<Rightarrow> charge_balances now uid account quote user_sub None usage_event_id key
                    metadata do_commit)))))"

section \<open>Other usage\<close>

record generic_usage_charge_result =
  g_ok :: bool
  g_account :: "user_billing_account obj"
  g_cost_toman :: int
  g_gift_spent_toman :: int
  g_paid_spent_toman :: int
  g_ledger_entry :: "toman_ledger_entry obj option"
  g_reason :: "string option"

definition charge_generic_usage_toman ::
  "int \<Rightarrow> pyfloat option \<Rightarrow> string \<Rightarrow> string \<Rightarrow> int option \<Rightarrow> string option \<Rightarrow> dict option \<Rightarrow> bool \<Rightarrow>
   generic_usage_charge_result act" where
  "charge_generic_usage_toman uid cost_usd entry_type reason usage_event_id key metadata do_commit =
     bind (get_or_create_billing_account uid) (\<lambda>account.
     bind (existing_ledger key) (\<lambda>existing.
     case existing of
       Some e \<Rightarrow> ret \<lparr>g_ok = True, g_account = account, g_cost_toman = 0, g_gift_spent_toman = 0,
                      g_paid_spent_toman = 0, g_ledger_entry = Some e,
                      g_reason = Some ''idempotent''\<rparr>
     | None \<Rightarrow>
       bind (usd_to_toman cost_usd) (\<lambda>cost_toman.
       let a = snd account in
       if cost_toman \<le> 0
       then ret \<lparr>g_ok = True, g_account = account, g_cost_toman = 0, g_gift_spent_toman = 0,
                 g_paid_spent_toman = 0, g_ledger_entry = None, g_reason = Some ''zero_cost''\<rparr>
       else if available_toman a < cost_toman
       then ret \<lparr>g_ok = False, g_account = account, g_cost_toman = cost_toman,
                 g_gift_spent_toman = 0, g_paid_spent_toman = 0, g_ledger_entry = None,
                 g_reason = Some ''insufficient_toman_credit''\<rparr>
       else
         let gift_spent = min (or0 (gift_balance_toman a)) cost_toman;
             paid_spent = cost_toman - gift_spent;
             acc = (fst account, spent_account a gift_spent paid_spent);
             entry_metadata = dict_merge
               [(''cost_usd'', JFloat (case cost_usd of None \<Rightarrow> 0 | Some x \<Rightarrow> x)),
                (''cost_toman'', JInt cost_toman),
                (''gift_spent_toman'', JInt gift_spent),
                (''paid_spent_toman'', JInt paid_spent)]
               (case metadata of None \<Rightarrow> [] | Some m \<Rightarrow> m)
         in andthen (save_account (fst acc) (snd acc))
            (bind (add_ledger (new_ledger_entry uid acc (- cost_toman) (- gift_spent)
                     (- paid_spent) entry_type (Some reason) usage_event_id key
                     (Some entry_metadata))) (\<lambda>e.
             andthen (commit_or_flush do_commit)
             (ret \<lparr>g_ok = True, g_account = acc, g_cost_toman = cost_toman,
                   g_gift_spent_toman = gift_spent, g_paid_spent_toman = paid_spent,
                   g_ledger_entry = Some e, g_reason = None\<rparr>))))))"

end
