(* ===== verification/Toman_Books.thy ===== *)
theory Toman_Books
  imports Toman_Usage
begin

text \<open>
  The accounting invariant of the Toman billing tables, \<open>books\<close>: every balance is the sum of
  its ledger deltas, every payment request is for a positive amount, no balance is negative, the paid balance is what was topped up less what was
  spent, every user has at most one account, and idempotency keys are unique. Every operation of
  \<open>toman_billing_service.py\<close> keeps it, in the transaction and in the committed state.

  An operation that writes an account and then its ledger rows breaks the invariant in between;
  \<open>books_but\<close> states what is still owed to the ledger, so that the triples compose along the
  code's own sequence of writes.
\<close>

named_theorems books_rules

section \<open>The invariant\<close>

definition gift_sum :: "toman_ledger_entry table \<Rightarrow> int \<Rightarrow> int" where
  "gift_sum L aid = sum_list (map (\<lambda>(_, e). if billing_account_id e = aid
                                            then gift_delta_toman e else 0) L)"

definition paid_sum :: "toman_ledger_entry table \<Rightarrow> int \<Rightarrow> int" where
  "paid_sum L aid = sum_list (map (\<lambda>(_, e). if billing_account_id e = aid
                                            then paid_delta_toman e else 0) L)"

definition account_books ::
  "toman_ledger_entry table \<Rightarrow> int \<Rightarrow> user_billing_account \<Rightarrow> int \<Rightarrow> int \<Rightarrow> bool" where
  "account_books L aid a dg dp \<longleftrightarrow>
     or0 (gift_balance_toman a) = gift_sum L aid + dg \<and>
     or0 (paid_balance_toman a) = paid_sum L aid + dp \<and>
     0 \<le> or0 (gift_balance_toman a) \<and> 0 \<le> or0 (paid_balance_toman a) \<and>
     or0 (paid_balance_toman a) = or0 (total_paid_topup_toman a) - or0 (total_paid_spent_toman a) \<and>
     or0 (gift_balance_toman a) \<le> or0 (total_gift_granted_toman a) - or0 (total_gift_spent_toman a)"

text \<open>One account per user, no dangling reference from the ledger, unique keys.\<close>

definition one_account :: "user_billing_account table \<Rightarrow> bool" where
  "one_account A \<longleftrightarrow>
     (\<forall>(i, a) \<in> set A. \<forall>(j, b) \<in> set A. ba_user_id a = ba_user_id b \<longrightarrow> i = j)"

definition ledger_refs :: "user_billing_account table \<Rightarrow> toman_ledger_entry table \<Rightarrow> bool" where
  "ledger_refs A L \<longleftrightarrow> (\<forall>(k, e) \<in> set L. billing_account_id e \<in> set (map fst A))"

definition keys_unique :: "toman_ledger_entry table \<Rightarrow> bool" where
  "keys_unique L \<longleftrightarrow>
     (\<forall>(k, e) \<in> set L. \<forall>(l, f) \<in> set L. tl_idempotency_key e \<noteq> None \<longrightarrow>
        tl_idempotency_key e = tl_idempotency_key f \<longrightarrow> k = l)"

definition balances_but ::
  "int \<Rightarrow> int \<Rightarrow> int \<Rightarrow> user_billing_account table \<Rightarrow> toman_ledger_entry table \<Rightarrow> bool" where
  "balances_but aid dg dp A L \<longleftrightarrow>
     (\<forall>(i, a) \<in> set A.
        account_books L i a (if i = aid then dg else 0) (if i = aid then dp else 0))"

definition tables_but ::
  "int \<Rightarrow> int \<Rightarrow> int \<Rightarrow> user_billing_account table \<Rightarrow> toman_ledger_entry table \<Rightarrow> bool" where
  "tables_but aid dg dp A L \<longleftrightarrow>
     t_wf A \<and> t_wf L \<and> one_account A \<and> ledger_refs A L \<and> keys_unique L \<and> balances_but aid dg dp A L"

text \<open>What a user asks to be credited is a positive amount.\<close>

definition requests_positive :: "payment_request table \<Rightarrow> bool" where
  "requests_positive R \<longleftrightarrow> (\<forall>(_, q) \<in> set R. 0 < pq_amount_toman q)"

definition books_but :: "int \<Rightarrow> int \<Rightarrow> int \<Rightarrow> db \<Rightarrow> bool" where
  "books_but aid dg dp d \<longleftrightarrow>
     tables_but aid dg dp (billing_accounts d) (toman_ledger d) \<and> requests_positive (payment_requests d)"

definition books :: "db \<Rightarrow> bool" where
  "books d \<longleftrightarrow> books_but 0 0 0 d"

text \<open>The same predicates with their quantifiers unbounded, for the proofs.\<close>

lemma one_account_iff:
  "one_account A \<longleftrightarrow>
     (\<forall>i a j b. (i, a) \<in> set A \<longrightarrow> (j, b) \<in> set A \<longrightarrow> ba_user_id a = ba_user_id b \<longrightarrow> i = j)"
  unfolding one_account_def by fast

lemma ledger_refs_iff:
  "ledger_refs A L \<longleftrightarrow> (\<forall>k e. (k, e) \<in> set L \<longrightarrow> billing_account_id e \<in> fst ` set A)"
  unfolding ledger_refs_def set_map by fast

lemma keys_unique_iff:
  "keys_unique L \<longleftrightarrow>
     (\<forall>k e l f. (k, e) \<in> set L \<longrightarrow> (l, f) \<in> set L \<longrightarrow> tl_idempotency_key e \<noteq> None \<longrightarrow>
        tl_idempotency_key e = tl_idempotency_key f \<longrightarrow> k = l)"
  unfolding keys_unique_def by fast

lemma balances_but_iff:
  "balances_but aid dg dp A L \<longleftrightarrow>
     (\<forall>i a. (i, a) \<in> set A \<longrightarrow>
        account_books L i a (if i = aid then dg else 0) (if i = aid then dp else 0))"
  unfolding balances_but_def by fast

lemma balances_but_0: "balances_but aid 0 0 A L \<longleftrightarrow> balances_but 0 0 0 A L"
  by (simp add: balances_but_iff)

lemma books_but_0: "books_but aid 0 0 d \<longleftrightarrow> books d"
  by (simp add: books_def books_but_def tables_but_def balances_but_0 [of aid])

lemma books_frame:
  "billing_accounts d' = billing_accounts d \<Longrightarrow> toman_ledger d' = toman_ledger d \<Longrightarrow>
    payment_requests d' = payment_requests d \<Longrightarrow> books d' \<longleftrightarrow> books d"
  by (simp add: books_def books_but_def)

lemma books_account:
  assumes "books d" and "t_get (billing_accounts d) aid = Some a"
  shows "account_books (toman_ledger d) aid a 0 0"
  using assms(1) t_get_SomeD [OF assms(2)]
  by (fastforce simp: books_def books_but_def tables_but_def balances_but_iff)

lemma sum_fresh_account:
  assumes "\<forall>(k, e) \<in> set L. billing_account_id e \<noteq> aid"
  shows "gift_sum L aid = 0" and "paid_sum L aid = 0"
  using assms by (induction L) (auto simp: gift_sum_def paid_sum_def)

lemma sum_t_add:
  "gift_sum (t_add e L) aid = gift_sum L aid + (if billing_account_id e = aid then gift_delta_toman e else 0)"
  "paid_sum (t_add e L) aid = paid_sum L aid + (if billing_account_id e = aid then paid_delta_toman e else 0)"
  by (simp_all add: gift_sum_def paid_sum_def t_add_def)

section \<open>Assertions on a session\<close>

abbreviation in_books :: "session \<Rightarrow> bool" where
  "in_books \<equiv> on_both books"

text \<open>The books hold and the object \<open>acc\<close> is the current row of its account.\<close>

definition holding :: "int \<Rightarrow> user_billing_account obj \<Rightarrow> session \<Rightarrow> bool" where
  "holding uid acc s \<longleftrightarrow> on_both books s \<and> ba_user_id (snd acc) = uid \<and>
     t_get (billing_accounts (work s)) (fst acc) = Some (snd acc)"

text \<open>The same, with \<open>dg\<close> and \<open>dp\<close> still to be entered in the ledger.\<close>

definition owing :: "int \<Rightarrow> user_billing_account obj \<Rightarrow> int \<Rightarrow> int \<Rightarrow> session \<Rightarrow> bool" where
  "owing uid acc dg dp s \<longleftrightarrow> books (durable s) \<and> books_but (fst acc) dg dp (work s) \<and>
     ba_user_id (snd acc) = uid \<and>
     t_get (billing_accounts (work s)) (fst acc) = Some (snd acc)"

lemma holding_books: "holding uid acc s \<Longrightarrow> in_books s"
  by (simp add: holding_def)

lemma owing_0: "owing uid acc 0 0 s \<longleftrightarrow> holding uid acc s"
  by (auto simp: owing_def holding_def on_both_def books_but_0)

text \<open>A step that writes none of the three tables keeps both assertions.\<close>

definition same_books :: "db \<Rightarrow> db \<Rightarrow> bool" where
  "same_books d d' \<longleftrightarrow> billing_accounts d' = billing_accounts d \<and>
     toman_ledger d' = toman_ledger d \<and> payment_requests d' = payment_requests d"

definition frames_to :: "session \<Rightarrow> session \<Rightarrow> bool" where
  "frames_to s t \<longleftrightarrow> same_books (work s) (work t) \<and>
     (same_books (durable s) (durable t) \<or> same_books (work s) (durable t))"

definition frames :: "'a act \<Rightarrow> bool" where
  "frames m \<longleftrightarrow> (\<forall>s. frames_to s (snd (m s)))"

lemma frames_toI [simp]:
  "frames_to s s" "frames_to s (s\<lparr>durable := work s\<rparr>)"
  "frames_to s (s\<lparr>outbox := x\<rparr>)"
  by (simp_all add: frames_to_def same_books_def)

lemma frames_to_trans: "frames_to s t \<Longrightarrow> frames_to t u \<Longrightarrow> frames_to s u"
  by (auto simp: frames_to_def same_books_def)

lemma framesD:
  assumes "frames m" and "m s = (r, t)" and "in_books s"
  shows "in_books t" and "billing_accounts (work t) = billing_accounts (work s)"
    and "toman_ledger (work t) = toman_ledger (work s)"
proof -
  have f: "frames_to s t" using assms(1,2) unfolding frames_def by (metis snd_conv)
  then show "billing_accounts (work t) = billing_accounts (work s)"
    and "toman_ledger (work t) = toman_ledger (work s)" by (simp_all add: frames_to_def same_books_def)
  show "in_books t"
    using f assms(3) unfolding frames_to_def same_books_def on_both_def by (metis books_frame)
qed

subsection \<open>Which steps frame\<close>

named_theorems frames_rules

lemma frames_ret [frames_rules]: "frames (ret x)"
  and frames_raise [frames_rules]: "frames (raise e)"
  and frames_query [frames_rules]: "frames (query f)"
  and frames_commit [frames_rules]: "frames commit"
  and frames_commit_or_flush [frames_rules]: "frames (commit_or_flush c)"
  and frames_send [frames_rules]: "frames (send msg)"
  by (simp_all add: frames_def run_simps)

lemma frames_update:
  "(\<And>d. same_books d (f d)) \<Longrightarrow> frames (update f)"
  by (simp add: frames_def frames_to_def run_simps) (simp add: same_books_def)

lemma frames_bind [frames_rules]:
  assumes "frames m" and "\<And>x. frames (f x)"
  shows "frames (bind m f)"
  unfolding frames_def
proof
  fix s
  obtain r t where m: "m s = (r, t)" by fastforce
  have "frames_to s t" using assms(1) m unfolding frames_def by (metis snd_conv)
  then show "frames_to s (snd (bind m f s))"
    using assms(2) frames_to_trans m unfolding frames_def bind_run
    by (cases r) (auto simp: m)
qed

lemma frames_andthen [frames_rules]: "frames m \<Longrightarrow> frames k \<Longrightarrow> frames (andthen m k)"
  unfolding andthen_def by (rule frames_bind)

lemma frames_catch [frames_rules]:
  assumes "frames m" and "\<And>e. frames (h e)"
  shows "frames (catch m h)"
  unfolding frames_def
proof
  fix s
  obtain r t where m: "m s = (r, t)" by fastforce
  have "frames_to s t" using assms(1) m unfolding frames_def by (metis snd_conv)
  then show "frames_to s (snd (catch m h s))"
    using assms(2) frames_to_trans m unfolding frames_def catch_run
    by (cases r) (auto simp: m)
qed

lemma frames_attempt [frames_rules]: "frames m \<Longrightarrow> frames (attempt m)"
  by (simp add: frames_def run_simps case_prod_beta)

lemma frames_on_cond [frames_rules]: "frames m \<Longrightarrow> frames (on_cond b m)"
  by (simp add: frames_def run_simps)

lemma frames_if [frames_rules]: "frames m \<Longrightarrow> frames k \<Longrightarrow> frames (if b then m else k)"
  by simp

lemma frames_option [frames_rules]:
  "frames m \<Longrightarrow> (\<And>y. frames (f y)) \<Longrightarrow> frames (case x of None \<Rightarrow> m | Some y \<Rightarrow> f y)"
  by (cases x) simp_all

lemma frames_prod [frames_rules]:
  "(\<And>a b. frames (f a b)) \<Longrightarrow> frames (case x of (a, b) \<Rightarrow> f a b)"
  by (cases x) simp_all

lemma frames_sum [frames_rules]:
  "(\<And>a. frames (f a)) \<Longrightarrow> (\<And>b. frames (g b)) \<Longrightarrow> frames (case x of Inl a \<Rightarrow> f a | Inr b \<Rightarrow> g b)"
  by (cases x) simp_all

lemma frames_for_each [frames_rules]: "(\<And>x. frames (f x)) \<Longrightarrow> frames (for_each f xs)"
proof (induction xs)
  case Nil
  show ?case unfolding for_each.simps by (rule frames_ret)
next
  case (Cons a xs)
  from Cons.prems have "frames (f a)" .
  moreover have "frames (for_each f xs)" by (rule Cons.IH [OF Cons.prems])
  ultimately show ?case unfolding for_each.simps by (intro frames_bind frames_ret)
qed

lemma frames_scalar [frames_rules]: "frames (scalar_one_or_none xs)"
  by (cases xs rule: scalar_one_or_none.cases) (simp_all add: frames_def run_simps)

subsection \<open>What framing gives\<close>

lemma frames_holding:
  assumes "frames m"
  shows "hoare (holding uid acc) m (\<lambda>_. holding uid acc) (\<lambda>_. in_books)"
proof (rule hoareI)
  fix s assume h: "holding uid acc s"
  obtain r t where m: "m s = (r, t)" by fastforce
  note f = framesD [OF assms m holding_books [OF h]]
  have "holding uid acc t"
    using h f(1) unfolding holding_def f(2) by blast
  then show "case m s of (Inl e, s') \<Rightarrow> in_books s' | (Inr x, s') \<Rightarrow> holding uid acc s'"
    using m by (cases r) (simp_all add: holding_books)
qed

lemma frames_books:
  assumes "frames m"
  shows "hoare in_books m (\<lambda>_. in_books) (\<lambda>_. in_books)"
proof (rule hoareI)
  fix s assume b: "in_books s"
  obtain r t where m: "m s = (r, t)" by fastforce
  show "case m s of (Inl e, s') \<Rightarrow> in_books s' | (Inr x, s') \<Rightarrow> in_books s'"
    using framesD(1) [OF assms m b] m by (cases r) simp_all
qed

lemma frames_config [frames_rules]: "frames get_or_create_subscription_config"
  unfolding get_or_create_subscription_config_def
  by (rule frames_rules frames_update | simp add: same_books_def)+

lemma scalar_state [simp]: "snd (scalar_one_or_none xs s) = s"
  by (cases xs rule: scalar_one_or_none.cases) (simp_all add: run_simps)

lemma existing_ledger_state [simp]: "snd (existing_ledger key s) = s"
  by (simp add: existing_ledger_def run_simps split: option.splits)

lemma frames_existing_ledger [frames_rules]: "frames (existing_ledger key)"
  by (simp add: frames_def)

lemma frames_live_subscription [frames_rules]: "frames (live_subscription now uid)"
  by (simp add: live_subscription_def frames_query)

lemma frames_write_subscriptions [frames_rules]:
  "frames (update (\<lambda>d. d\<lparr>user_subscriptions := f (user_subscriptions d)\<rparr>))"
  by (rule frames_update) (simp add: same_books_def)

lemma frames_add_subscription [frames_rules]: "frames (add_subscription u)"
  unfolding add_subscription_def by (rule frames_rules)+

lemma frames_save_subscription [frames_rules]: "frames (save_subscription sid u)"
  unfolding save_subscription_def by (rule frames_rules)

lemma frames_tiered_plan [frames_rules]: "frames (tiered_plan x)"
  unfolding tiered_plan_def by (rule frames_rules)+

lemma frames_assign [frames_rules]: "frames (assign_subscription_pool obj)"
proof -
  obtain sid sub where obj: "obj = (sid, sub)" by fastforce
  show ?thesis
    unfolding frames_def obj
  proof
    fix s
    show "frames_to s (snd (assign_subscription_pool (sid, sub) s))"
      by (cases rule: assign_subscription_pool_cases [of sub s sid])
         (simp_all add: frames_to_def same_books_def)
  qed
qed

lemma frames_quote_chat [frames_rules]: "frames (quote_chat_usage_toman model i out)"
  unfolding quote_chat_usage_toman_def Let_def by (rule frames_rules)+

lemma frames_usd_to_toman [frames_rules]: "frames (usd_to_toman x)"
  unfolding usd_to_toman_def Let_def by (rule frames_rules)+

lemmas frame_facts =
  frames_query frames_commit frames_commit_or_flush frames_config frames_existing_ledger
  frames_live_subscription frames_add_subscription frames_save_subscription
  frames_write_subscriptions frames_tiered_plan frames_quote_chat frames_usd_to_toman
  frames_attempt [OF frames_assign]

lemmas frame_rules [books_rules] = frame_facts [THEN frames_holding]

section \<open>Opening an account, writing it, entering the ledger\<close>

lemma books_open_account:
  assumes "books d" and "t_first (\<lambda>_ a. ba_user_id a = uid) (billing_accounts d) = None"
  shows "books (d\<lparr>billing_accounts := t_add (new_billing_account uid) (billing_accounts d)\<rparr>)"
proof -
  let ?A = "billing_accounts d" and ?L = "toman_ledger d"
  let ?B = "t_add (new_billing_account uid) ?A"
  note b = assms(1) [unfolded books_def books_but_def tables_but_def]
  have none: "\<And>i a. (i, a) \<in> set ?A \<Longrightarrow> ba_user_id a \<noteq> uid"
    using t_first_NoneD [OF assms(2)] .
  have user: "ba_user_id (new_billing_account uid) = uid"
    by (simp add: new_billing_account_def)
  have "\<forall>(k, e) \<in> set ?L. billing_account_id e \<noteq> t_next ?A"
    using b t_next_gt by (fastforce simp: ledger_refs_iff)
  then have new: "account_books ?L (t_next ?A) (new_billing_account uid) 0 0"
    by (simp add: account_books_def new_billing_account_def sum_fresh_account)
  have "one_account ?B"
    using b none by (auto simp: one_account_iff set_t_add user)
  moreover have "ledger_refs ?B ?L"
    using b by (auto simp: ledger_refs_iff set_t_add)
  moreover have "balances_but 0 0 0 ?B ?L"
    using b new by (auto simp: balances_but_iff set_t_add)
  ultimately show ?thesis
    using b by (simp add: books_def books_but_def tables_but_def t_wf_add)
qed

lemma get_account_rule [books_rules]:
  "hoare in_books (get_or_create_billing_account uid) (holding uid) (\<lambda>_. in_books)"
proof (rule hoareI)
  fix s assume b: "in_books s"
  let ?A = "billing_accounts (work s)"
  show "case get_or_create_billing_account uid s of
      (Inl e, s') \<Rightarrow> in_books s' | (Inr x, s') \<Rightarrow> holding uid x s'"
  proof (cases "t_first (\<lambda>_ a. ba_user_id a = uid) ?A")
    case None
    with b books_open_account [of "work s" uid] show ?thesis
      by (simp add: get_or_create_billing_account_def run_simps holding_def on_both_def row_simps
          new_billing_account_def)
  next
    case (Some acc)
    obtain aid a where acc: "acc = (aid, a)" by fastforce
    have "t_wf ?A" using b by (simp add: on_both_def books_def books_but_def tables_but_def)
    then have "t_get ?A aid = Some a" "ba_user_id a = uid"
      using t_first_Some_get [of ?A] t_first_SomeD Some acc by fastforce+
    with b Some acc show ?thesis
      by (simp add: get_or_create_billing_account_def run_simps holding_def)
  qed
qed

lemma books_but_put:
  assumes "books d" and "t_get (billing_accounts d) aid = Some a"
    and "ba_user_id a' = ba_user_id a"
    and "account_books (toman_ledger d) aid a 0 0 \<Longrightarrow> account_books (toman_ledger d) aid a' dg dp"
  shows "books_but aid dg dp (d\<lparr>billing_accounts := t_put aid a' (billing_accounts d)\<rparr>)"
proof -
  let ?A = "billing_accounts d" and ?L = "toman_ledger d"
  let ?B = "t_put aid a' ?A"
  note b = assms(1) [unfolded books_def books_but_def tables_but_def]
  have mem: "(aid, a) \<in> set ?A" by (rule t_get_SomeD [OF assms(2)])
  have mem_put: "\<And>j q. (j, q) \<in> set ?B \<longleftrightarrow> (j, q) \<in> set ?A \<and> j \<noteq> aid \<or> (j, q) = (aid, a')"
    using mem by (force simp: set_t_put)
  have a': "account_books ?L aid a' dg dp"
    using assms(4) books_account [OF assms(1,2)] .
  have "\<And>j q. (j, q) \<in> set ?A \<Longrightarrow> ba_user_id q = ba_user_id a \<Longrightarrow> j = aid"
    using b mem by (auto simp: one_account_iff)
  then have "one_account ?B"
    using b assms(3) unfolding one_account_iff mem_put by (metis prod.inject)
  moreover have "ledger_refs ?B ?L"
    using b by (simp add: ledger_refs_iff flip: set_map)
  moreover have "balances_but aid dg dp ?B ?L"
    using b a' by (auto simp: balances_but_iff mem_put)
  ultimately show ?thesis
    using b by (simp add: books_but_def tables_but_def)
qed

text \<open>Writing a new row that owes \<open>dg\<close> and \<open>dp\<close> to the ledger.\<close>

lemma save_account_rule:
  assumes "ba_user_id a' = ba_user_id (snd acc)"
    and "\<And>L. account_books L (fst acc) (snd acc) 0 0 \<Longrightarrow> account_books L (fst acc) a' dg dp"
  shows "hoare (holding uid acc) (save_account (fst acc) a') (\<lambda>_. owing uid (fst acc, a') dg dp)
           (\<lambda>_. in_books)"
proof (rule hoareI)
  fix s assume h: "holding uid acc s"
  then have "books_but (fst acc) dg dp
      ((work s)\<lparr>billing_accounts := t_put (fst acc) a' (billing_accounts (work s))\<rparr>)"
    using assms by (intro books_but_put) (auto simp: holding_def on_both_def)
  with h assms(1) show "case save_account (fst acc) a' s of
      (Inl e, s') \<Rightarrow> in_books s' | (Inr x, s') \<Rightarrow> owing uid (fst acc, a') dg dp s'"
    by (simp add: save_account_def run_simps owing_def holding_def on_both_def row_simps)
qed

lemma account_books_add:
  "account_books L i a dg dp \<Longrightarrow> billing_account_id e = i \<Longrightarrow>
    account_books (t_add e L) i a (dg - gift_delta_toman e) (dp - paid_delta_toman e)"
  "billing_account_id e \<noteq> i \<Longrightarrow> account_books (t_add e L) i a dg dp = account_books L i a dg dp"
  by (simp_all add: account_books_def sum_t_add)

lemma books_but_add:
  assumes "books_but aid dg dp d" and "billing_account_id e = aid"
    and "(aid, a) \<in> set (billing_accounts d)"
    and "\<not> ledger_key_taken d (tl_idempotency_key e)"
  shows "books_but aid (dg - gift_delta_toman e) (dp - paid_delta_toman e)
           (d\<lparr>toman_ledger := t_add e (toman_ledger d)\<rparr>)"
proof -
  let ?A = "billing_accounts d" and ?L = "toman_ledger d"
  note b = assms(1) [unfolded books_but_def tables_but_def]
  have fresh: "\<And>l f. (l, f) \<in> set ?L \<Longrightarrow>
      tl_idempotency_key e \<noteq> None \<Longrightarrow> tl_idempotency_key f \<noteq> tl_idempotency_key e"
    using assms(4) by (auto simp: ledger_key_taken_def t_first_None_iff split: option.splits)
  have "balances_but aid (dg - gift_delta_toman e) (dp - paid_delta_toman e) ?A (t_add e ?L)"
    unfolding balances_but_iff
  proof (intro allI impI)
    fix i q assume "(i, q) \<in> set ?A"
    with b have "account_books ?L i q (if i = aid then dg else 0) (if i = aid then dp else 0)"
      by (simp add: balances_but_iff)
    then show "account_books (t_add e ?L) i q (if i = aid then dg - gift_delta_toman e else 0)
        (if i = aid then dp - paid_delta_toman e else 0)"
      using assms(2) by (cases "i = aid") (simp_all add: account_books_add)
  qed
  moreover have "ledger_refs ?A (t_add e ?L)"
    using b assms(2,3) by (force simp: ledger_refs_iff set_t_add)
  moreover have "keys_unique (t_add e ?L)"
    using b fresh unfolding keys_unique_iff set_t_add by (metis insert_iff prod.inject)
  ultimately show ?thesis
    using b by (simp add: books_but_def tables_but_def t_wf_add)
qed

lemma add_ledger_rule:
  assumes "billing_account_id e = fst acc"
    and "dg' = dg - gift_delta_toman e" and "dp' = dp - paid_delta_toman e"
  shows "hoare (owing uid acc dg dp) (add_ledger e) (\<lambda>_. owing uid acc dg' dp') (\<lambda>_. in_books)"
proof (rule hoareI)
  fix s assume o: "owing uid acc dg dp s"
  show "case add_ledger e s of (Inl x, s') \<Rightarrow> in_books s' | (Inr x, s') \<Rightarrow> owing uid acc dg' dp' s'"
  proof (cases "ledger_key_taken (work s) (tl_idempotency_key e)")
    case True
    with o show ?thesis by (simp add: add_ledger_def run_simps owing_def on_both_def)
  next
    case False
    with o assms books_but_add [of "fst acc" dg dp "work s" e "snd acc"] show ?thesis
      by (auto simp: add_ledger_def run_simps owing_def dest: t_get_SomeD)
  qed
qed

text \<open>The usual ending: write the account, enter one row, commit, return.\<close>

lemma post_one_rule:
  assumes "ba_user_id a' = ba_user_id (snd acc)"
    and "\<And>L. account_books L (fst acc) (snd acc) 0 0 \<Longrightarrow>
           account_books L (fst acc) a' (gift_delta_toman e) (paid_delta_toman e)"
    and "billing_account_id e = fst acc"
    and "\<And>x. hoare (holding uid (fst acc, a')) (k x) (\<lambda>_. in_books) (\<lambda>_. in_books)"
  shows "hoare (holding uid acc) (andthen (save_account (fst acc) a') (bind (add_ledger e) k))
           (\<lambda>_. in_books) (\<lambda>_. in_books)"
proof (rule hoare_andthen [OF save_account_rule [OF assms(1,2)]])
  show "hoare (owing uid (fst acc, a') (gift_delta_toman e) (paid_delta_toman e))
      (bind (add_ledger e) k) (\<lambda>_. in_books) (\<lambda>_. in_books)"
  proof (rule hoare_bind)
    show "hoare (owing uid (fst acc, a') (gift_delta_toman e) (paid_delta_toman e)) (add_ledger e)
        (\<lambda>_. owing uid (fst acc, a') 0 0) (\<lambda>_. in_books)"
      using assms(3) by (intro add_ledger_rule) simp_all
    show "hoare (owing uid (fst acc, a') 0 0) (k x) (\<lambda>_. in_books) (\<lambda>_. in_books)" for x
      using assms(4) by (rule hoare_pre) (simp add: owing_0)
  qed
qed

lemma finish_rule:
  "hoare (holding uid acc) (andthen (commit_or_flush c) (ret x)) (\<lambda>_. in_books) (\<lambda>_. in_books)"
proof (rule hoare_andthen [OF frames_holding [OF frames_commit_or_flush]])
  show "hoare (holding uid acc) (ret x) (\<lambda>_. in_books) (\<lambda>_. in_books)"
    by (rule hoare_ret) (rule holding_books)
qed

section \<open>Composing\<close>

text \<open>
  \<open>keeps_books m\<close>: whatever \<open>m\<close> does, the books hold after it. One rule per combinator,
  and one that opens an account.
\<close>

named_theorems keeps_rules

abbreviation keeps_books :: "'a act \<Rightarrow> bool" where
  "keeps_books m \<equiv> hoare in_books m (\<lambda>_. in_books) (\<lambda>_. in_books)"

lemma keeps_frames: "frames m \<Longrightarrow> keeps_books m"
  by (rule frames_books)

lemma keeps_ret [keeps_rules]: "keeps_books (ret x)"
  by (rule hoare_ret)

lemma keeps_raise [keeps_rules]: "keeps_books (raise e)"
  by (rule hoare_raise)

lemma keeps_rollback [keeps_rules]: "keeps_books rollback"
  by (rule hoare_rollback) (simp add: on_both_def)

lemma keeps_bind [keeps_rules]:
  "keeps_books m \<Longrightarrow> (\<And>x. keeps_books (f x)) \<Longrightarrow> keeps_books (bind m f)"
  by (rule hoare_bind)

lemma keeps_andthen [keeps_rules]: "keeps_books m \<Longrightarrow> keeps_books k \<Longrightarrow> keeps_books (andthen m k)"
  by (rule hoare_andthen)

lemma keeps_on_cond [keeps_rules]: "(b \<Longrightarrow> keeps_books m) \<Longrightarrow> keeps_books (on_cond b m)"
  by (rule hoare_on_cond)

lemma keeps_catch [keeps_rules]:
  "keeps_books m \<Longrightarrow> (\<And>e. keeps_books (h e)) \<Longrightarrow> keeps_books (catch m h)"
  by (rule hoare_catch)

lemma keeps_attempt [keeps_rules]: "keeps_books m \<Longrightarrow> keeps_books (attempt m)"
  by (rule hoare_attempt)

lemma keeps_if [keeps_rules]:
  "(b \<Longrightarrow> keeps_books m) \<Longrightarrow> (\<not> b \<Longrightarrow> keeps_books k) \<Longrightarrow> keeps_books (if b then m else k)"
  by (rule hoare_if)

lemma keeps_option [keeps_rules]:
  "(x = None \<Longrightarrow> keeps_books m) \<Longrightarrow> (\<And>y. x = Some y \<Longrightarrow> keeps_books (f y)) \<Longrightarrow>
    keeps_books (case x of None \<Rightarrow> m | Some y \<Rightarrow> f y)"
  by (rule hoare_option)

lemma keeps_prod [keeps_rules]:
  "(\<And>a b. x = (a, b) \<Longrightarrow> keeps_books (f a b)) \<Longrightarrow> keeps_books (case x of (a, b) \<Rightarrow> f a b)"
  by (rule hoare_prod)

lemma keeps_sum [keeps_rules]:
  "(\<And>a. x = Inl a \<Longrightarrow> keeps_books (f a)) \<Longrightarrow> (\<And>b. x = Inr b \<Longrightarrow> keeps_books (g b)) \<Longrightarrow>
    keeps_books (case x of Inl a \<Rightarrow> f a | Inr b \<Rightarrow> g b)"
  by (rule hoare_sum)

lemma keeps_account:
  "(\<And>acc. hoare (holding uid acc) (f acc) (\<lambda>_. in_books) (\<lambda>_. in_books)) \<Longrightarrow>
    keeps_books (bind (get_or_create_billing_account uid) f)"
  by (rule hoare_bind [OF get_account_rule])

lemma keeps_holding:
  "keeps_books m \<Longrightarrow> hoare (holding uid acc) m (\<lambda>_. in_books) (\<lambda>_. in_books)"
  by (rule hoare_pre [where P' = in_books]) (simp_all add: holding_books)

end
