(* ===== verification/Toman_Safety.thy ===== *)
theory Toman_Safety
  imports Toman_Books
begin

text \<open>
  Every operation of the Toman billing service keeps the books, whichever branch it takes and
  whether it returns or raises.
\<close>

lemma round_half_up_of_int [simp]: "round_half_up (of_int n) = n"
  unfolding round_half_up_def by (cases "0 \<le> n") (simp_all add: floor_eq_iff)

lemma round_half_up_mono: "x \<le> y \<Longrightarrow> round_half_up x \<le> round_half_up y"
proof -
  assume le: "x \<le> y"
  consider "0 \<le> x" | "x < 0" "0 \<le> y" | "y < 0" by linarith
  then show ?thesis
  proof cases
    case 1
    then show ?thesis using le floor_mono [of "x + 1 / 2" "y + 1 / 2"] by (simp add: round_half_up_def)
  next
    case 2
    then have "0 \<le> \<lfloor>y + 1 / 2\<rfloor>" and "0 \<le> \<lfloor>1 / 2 - x\<rfloor>" by simp_all
    then have "- \<lfloor>1 / 2 - x\<rfloor> \<le> \<lfloor>y + 1 / 2\<rfloor>" by linarith
    with 2 show ?thesis by (simp add: round_half_up_def)
  next
    case 3
    then show ?thesis using le floor_mono [of "1 / 2 - y" "1 / 2 - x"] by (simp add: round_half_up_def)
  qed
qed

lemma round_half_up_near: "\<bar>of_int (round_half_up x) - x\<bar> \<le> 1 / 2"
  unfolding round_half_up_def
  using floor_correct [of "x + 1 / 2"] floor_correct [of "1 / 2 - x"]
  by (cases "0 \<le> x") (simp_all only: if_True if_False of_int_minus, linarith+)

lemma round_half_up_nonneg: "0 \<le> x \<Longrightarrow> 0 \<le> round_half_up x"
  using round_half_up_mono [of 0 x] round_half_up_of_int [of 0] by simp

lemma positive_int_nonneg [simp]: "0 \<le> positive_int v d"
  by (simp add: positive_int_def)

lemma positive_float_nonneg [simp]: "0 \<le> positive_float v d"
  by (simp add: positive_float_def)

lemma plan_prices_nonneg [simp]: "0 \<le> plan_price_toman p c" "0 \<le> plan_gift_toman p c"
  by (simp_all add: plan_price_toman_def plan_gift_toman_def split: option.split)

section \<open>How each account update moves the balances\<close>

lemma purchased_account_books:
  assumes "account_books L i a 0 0" and "0 \<le> w" and "w \<le> or0 (paid_balance_toman a)"
    and "0 \<le> dg" and "dg \<le> g"
  shows "account_books L i (purchased_account a w dg g p) dg (- w)"
  using assms by (auto simp: account_books_def purchased_account_def Let_def)

lemma topped_up_account_books:
  "account_books L i a 0 0 \<Longrightarrow> 0 \<le> credit_amount_toman q \<Longrightarrow>
    account_books L i (topped_up_account a q) 0 (credit_amount_toman q)"
  by (simp add: account_books_def topped_up_account_def)

lemma spent_account_books:
  assumes "account_books L i a 0 0" and "0 \<le> c" and "c \<le> available_toman a"
  defines "g \<equiv> min (or0 (gift_balance_toman a)) c"
  shows "account_books L i (spent_account a g (c - g)) (- g) (- (c - g))"
  using assms by (auto simp: account_books_def spent_account_def available_toman_def min_def)

lemma account_users [simp]:
  "ba_user_id (purchased_account a w dg g p) = ba_user_id a"
  "ba_user_id (topped_up_account a q) = ba_user_id a"
  "ba_user_id (spent_account a x y) = ba_user_id a"
  by (simp_all add: purchased_account_def topped_up_account_def spent_account_def Let_def)

lemma new_ledger_entry_fields [simp]:
  "billing_account_id (new_ledger_entry u acc am g p t r ue k m) = fst acc"
  "gift_delta_toman (new_ledger_entry u acc am g p t r ue k m) = g"
  "paid_delta_toman (new_ledger_entry u acc am g p t r ue k m) = p"
  "tl_idempotency_key (new_ledger_entry u acc am g p t r ue k m) = k"
  by (simp_all add: new_ledger_entry_def)

section \<open>The operations\<close>

lemma holding_ret [books_rules]:
  "hoare (holding uid acc) (ret x) (\<lambda>_. in_books) (\<lambda>_. in_books)"
  by (rule hoare_ret) (rule holding_books)

lemma holding_raise [books_rules]:
  "hoare (holding uid acc) (raise e) Q (\<lambda>_. in_books)"
  by (rule hoare_raise) (rule holding_books)

lemma settle_purchase_books:
  assumes "0 \<le> w" and "w \<le> or0 (paid_balance_toman (snd account))" and "0 \<le> gift"
  shows "hoare (holding uid account)
      (settle_purchase uid account plan sub pay gift w ext key conf grant c)
      (\<lambda>_. in_books) (\<lambda>_. in_books)"
proof -
  let ?dg = "if grant then gift else 0"
  let ?a = "purchased_account (snd account) w ?dg gift pay"
  have save: "hoare (holding uid account) (save_account (fst account) ?a)
      (\<lambda>_. owing uid (fst account, ?a) ?dg (- w)) (\<lambda>_. in_books)"
    using assms by (intro save_account_rule purchased_account_books) auto
  have w: "(if 0 < w then - w else 0) = - w" using assms(1) by simp
  have fin: "hoare (owing uid acc 0 0) (andthen (commit_or_flush c) (ret x))
      (\<lambda>_. in_books) (\<lambda>_. in_books)" for acc x
    by (rule hoare_pre [OF finish_rule]) (simp add: owing_0)
  show ?thesis
    unfolding settle_purchase_def Let_def fst_conv snd_conv w
    by (rule hoare_andthen [OF save]
          hoare_bind [OF add_ledger_rule [where dg' = ?dg and dp' = 0]]
          hoare_bind [OF add_ledger_rule [where dg' = 0 and dp' = 0]] fin | (simp; fail))+
qed

lemma purchase_keeps_books:
  "keeps_books (purchase_toman_subscription now uid plan key conf wallet grant c)"
  unfolding purchase_toman_subscription_def
  by (rule books_rules hoare_rules settle_purchase_books | (simp; fail) | linarith)+

text \<open>Asking again for an account one holds returns it and changes nothing.\<close>

lemma get_account_again:
  assumes "holding uid acc s"
  shows "get_or_create_billing_account uid s = (Inr acc, s)"
proof -
  let ?A = "billing_accounts (work s)"
  obtain aid a where acc: "acc = (aid, a)" by fastforce
  have t: "t_wf ?A" "one_account ?A" and a: "t_get ?A aid = Some a" "ba_user_id a = uid"
    using assms by (simp_all add: acc holding_def on_both_def books_def books_but_def tables_but_def)
  from a have "t_first (\<lambda>_ a. ba_user_id a = uid) ?A \<noteq> None"
    by (auto simp: t_first_None_iff dest: t_get_SomeD)
  then obtain j b where f: "t_first (\<lambda>_ a. ba_user_id a = uid) ?A = Some (j, b)" by auto
  note g = t_first_SomeD [OF f]
  have "j = aid" using t(2) g t_get_SomeD [OF a(1)] a(2) by (auto simp: one_account_iff)
  with t_first_Some_get [OF t(1) f] a(1) f show ?thesis
    by (simp add: acc get_or_create_billing_account_def run_simps)
qed

lemma holding_account_again [books_rules]:
  "hoare (holding uid acc) (get_or_create_billing_account uid) (\<lambda>x. holding uid acc) (\<lambda>_. in_books)"
  by (simp add: hoare_def get_account_again)

text \<open>The quote of a top-up writes neither table.\<close>

lemma quote_topup_holding [books_rules]:
  "hoare (holding uid acc) (quote_toman_topup_payment now uid n)
     (\<lambda>q. holding uid acc) (\<lambda>_. in_books)"
  unfolding quote_toman_topup_payment_def Let_def
  by (rule hoare_bind holding_account_again frame_rules hoare_ret | assumption)+

lemma spend_rule:
  assumes "0 < c" and "\<not> available_toman (snd acc) < c"
    and "\<And>a x. hoare (holding uid (fst acc, a)) (k x) (\<lambda>_. in_books) (\<lambda>_. in_books)"
  defines "g \<equiv> min (or0 (gift_balance_toman (snd acc))) c"
  shows "hoare (holding uid acc)
      (andthen (save_account (fst acc) (spent_account (snd acc) g (c - g)))
      (bind (add_ledger (new_ledger_entry uid (fst acc, spent_account (snd acc) g (c - g))
               am (- g) (- (c - g)) t r ue key m)) k))
      (\<lambda>_. in_books) (\<lambda>_. in_books)"
  using assms(1,2) spent_account_books [of _ "fst acc" "snd acc" c]
  by (intro post_one_rule assms(3)) (simp_all add: g_def)

lemma charge_balances_books:
  assumes "0 < q_billable_cost_toman q"
  shows "hoare (holding uid acc) (charge_balances now uid acc q us tier ue key md c)
     (\<lambda>_. in_books) (\<lambda>_. in_books)"
  unfolding charge_balances_def Let_def fst_conv snd_conv
  by (intro hoare_if holding_ret spend_rule finish_rule assms)

lemma check_permission_keeps_books:
  "keeps_books (check_chat_usage_permission_toman now uid model i out)"
  unfolding check_chat_usage_permission_toman_def Let_def
  by (rule books_rules hoare_rules)+

lemma charge_keeps_books:
  "keeps_books (charge_chat_usage_toman now uid model i out ue key md c)"
  unfolding charge_chat_usage_toman_def Let_def
  by (rule books_rules hoare_rules charge_balances_books | (simp; fail))+

lemma generic_charge_keeps_books:
  "keeps_books (charge_generic_usage_toman uid cost ty reason ue key md c)"
  unfolding charge_generic_usage_toman_def Let_def fst_conv snd_conv
  by (rule hoare_bind hoare_option hoare_if books_rules spend_rule finish_rule | (simp; fail))+

lemma topup_keeps_books:
  "keeps_books (apply_toman_topup now uid n key md c)"
  unfolding apply_toman_topup_def Let_def fst_conv snd_conv
  by (rule hoare_bind hoare_option hoare_if books_rules post_one_rule finish_rule
        | (simp add: topped_up_account_books; fail))+

lemma owing_nothing: "owing uid acc 0 0 = holding uid acc"
  by (rule ext) (rule owing_0)

lemma mark_discount_rule [books_rules]:
  "hoare (holding uid (aid, a))
     (save_account aid (a\<lparr>first_topup_discount_used := True, version := v\<rparr>))
     (\<lambda>_. holding uid (aid, a\<lparr>first_topup_discount_used := True, version := v\<rparr>)) (\<lambda>_. in_books)"
  using save_account_rule [of "a\<lparr>first_topup_discount_used := True, version := v\<rparr>" "(aid, a)" 0 0 uid]
  by (simp add: account_books_def owing_nothing)

lemma mark_discount_keeps_books:
  "keeps_books (mark_first_topup_discount_used uid key md c)"
proof -
  have flag: "hoare (holding uid (aid, a)) (save_account aid (a\<lparr>first_topup_discount_used := True\<rparr>))
      (\<lambda>_. holding uid (aid, a\<lparr>first_topup_discount_used := True\<rparr>)) (\<lambda>_. in_books)" for aid a
    using mark_discount_rule [of uid aid a "version a"] by simp
  have entry: "hoare (holding uid acc) (bind (add_ledger (new_ledger_entry u acc 0 0 0 t r ue k m)) f)
      (\<lambda>_. in_books) (\<lambda>_. in_books)"
    if "\<And>x. hoare (holding uid acc) (f x) (\<lambda>_. in_books) (\<lambda>_. in_books)" for acc u t r ue k m f
    using that add_ledger_rule [of "new_ledger_entry u acc 0 0 0 t r ue k m" acc 0 0 0 0 uid]
    by (intro hoare_bind [where R = "\<lambda>_. holding uid acc"]) (simp_all add: owing_nothing)
  show ?thesis
    unfolding mark_first_topup_discount_used_def Let_def
    by (rule hoare_bind hoare_andthen hoare_option hoare_prod hoare_if flag entry books_rules finish_rule
         | hypsubst)+
qed
section \<open>Any sequence of calls\<close>

text \<open>
  What a session goes through: the operations of the service, in any order and for any users,
  arguments and instants, whatever each of them answers or raises, with commits and rollbacks
  of the session in between.
\<close>

inductive billing_step :: "session \<Rightarrow> session \<Rightarrow> bool" where
  purchase: "billing_step s (snd (purchase_toman_subscription now uid plan key conf wal grant c s))"
| topup: "billing_step s (snd (apply_toman_topup now uid n key md c s))"
| mark: "billing_step s (snd (mark_first_topup_discount_used uid key md c s))"
| check: "billing_step s (snd (check_chat_usage_permission_toman now uid model i out s))"
| charge: "billing_step s (snd (charge_chat_usage_toman now uid model i out ue key md c s))"
| generic: "billing_step s (snd (charge_generic_usage_toman uid cost ty reason ue key md c s))"
| commit: "billing_step s (snd (commit s))"
| rollback: "billing_step s (snd (rollback s))"

definition fresh_books :: "db \<Rightarrow> bool" where
  "fresh_books d \<longleftrightarrow> billing_accounts d = [] \<and> toman_ledger d = [] \<and> payment_requests d = []"

inductive billing_reachable :: "session \<Rightarrow> bool" where
  start: "fresh_books (work s) \<Longrightarrow> fresh_books (durable s) \<Longrightarrow> billing_reachable s"
| step: "billing_reachable s \<Longrightarrow> billing_step s t \<Longrightarrow> billing_reachable t"

inductive_cases billing_stepE: "billing_step s t"

lemma books_empty: "fresh_books d \<Longrightarrow> books d"
  by (simp add: fresh_books_def requests_positive_def books_def books_but_def tables_but_def t_wf_def one_account_iff ledger_refs_iff
      keys_unique_iff balances_but_iff)

lemma keeps_booksD: "keeps_books m \<Longrightarrow> in_books s \<Longrightarrow> in_books (snd (m s))"
  by (rule preservesD [OF hoare_preserves])

lemmas operations_keep_books =
  purchase_keeps_books topup_keeps_books mark_discount_keeps_books
  check_permission_keeps_books charge_keeps_books generic_charge_keeps_books

lemma billing_step_books: "billing_step s t \<Longrightarrow> in_books s \<Longrightarrow> in_books t"
  by (erule billing_stepE)
     (simp_all add: operations_keep_books [THEN keeps_booksD], simp_all add: on_both_def run_simps)

lemma reachable_in_books: "billing_reachable s \<Longrightarrow> in_books s"
  by (induction rule: billing_reachable.induct)
     (simp_all add: on_both_def books_empty, metis billing_step_books on_both_def)

end
