(* ===== verification/Wallet.thy ===== *)
theory Wallet
  imports Toman_Safety
begin

text \<open>
  \<open>pbozi/backend/app/services/wallet_service.py\<close>: the USD wallet of a user in micro-dollars,
  its ledger, credits and debits.

  The session's identity map hands out one object per row, so a function that takes \<open>user\<close>
  takes the user's id here and reads the current row. The reflection on model names in the source
  (\<open>hasattr\<close>) is resolved against \<open>models.py\<close>: there is a \<open>Wallet\<close> with
  \<open>available_minor\<close>, \<open>balance_minor\<close> and \<open>version\<close>, and no
  \<open>WalletLedgerEntry\<close> or \<open>LedgerEntry\<close>, so entries are \<open>CreditLedgerEntry\<close> rows.
\<close>

definition MICRO_USD_PER_USD :: "int" where
  "MICRO_USD_PER_USD = (1000000 :: int)"

record wallet_result =
  w_ok :: bool
  w_balance_minor :: int
  w_balance_usd :: pyfloat
  w_ledger_entry :: "credit_ledger_entry obj option"
  w_reason :: "string option"

definition usd_to_minor :: "pyfloat option \<Rightarrow> int" where
  "usd_to_minor usd =
     round_half_up ((case usd of None \<Rightarrow> 0 | Some x \<Rightarrow> x) * of_int MICRO_USD_PER_USD)"

definition minor_to_usd :: "int \<Rightarrow> pyfloat" where
  "minor_to_usd m = of_int m / of_int MICRO_USD_PER_USD"

text \<open>The row of a user the caller holds as an object.\<close>

definition the_user :: "int \<Rightarrow> user_preference act" where
  "the_user uid =
     bind (query (\<lambda>d. t_get (users d) uid)) (\<lambda>r.
     case r of None \<Rightarrow> raise (AttributeError ''id'') | Some u \<Rightarrow> ret u)"

definition save_user :: "int \<Rightarrow> user_preference \<Rightarrow> unit act" where
  "save_user uid u = update (\<lambda>d. d\<lparr>users := t_put uid u (users d)\<rparr>)"

definition new_wallet :: "int \<Rightarrow> user_preference \<Rightarrow> wallet" where
  "new_wallet uid u =
     \<lparr>w_user_id = uid, w_currency = ''USD'',
      balance_minor = Some (usd_to_minor (credit_balance_usd u)),
      available_minor = Some (usd_to_minor (credit_balance_usd u)),
      held_minor = Some 0, w_allow_negative = False, w_version = Some 0\<rparr>"

definition get_or_create_wallet :: "int \<Rightarrow> wallet obj act" where
  "get_or_create_wallet uid =
     bind (query (\<lambda>d. t_first (\<lambda>_ w. w_user_id w = uid) (wallets d))) (\<lambda>found.
     case found of
       Some w \<Rightarrow> ret w
     | None \<Rightarrow>
         bind (the_user uid) (\<lambda>u.
         bind (query (\<lambda>d. t_next (wallets d))) (\<lambda>wid.
         andthen (update (\<lambda>d. d\<lparr>wallets := t_add (new_wallet uid u) (wallets d)\<rparr>))
         (ret (wid, new_wallet uid u)))))"

definition get_balance_minor :: "int \<Rightarrow> int act" where
  "get_balance_minor uid =
     bind (get_or_create_wallet uid) (\<lambda>(_, w). ret (max 0 (or0 (available_minor w))))"

definition has_credit :: "int \<Rightarrow> int \<Rightarrow> bool act" where
  "has_credit uid amt =
     bind (the_user uid) (\<lambda>u.
     if is_admin u then ret True
     else if amt \<le> 0 then ret True
     else bind (get_balance_minor uid) (\<lambda>b. ret (amt \<le> b)))"

definition new_credit_ledger_entry ::
  "int \<Rightarrow> int \<Rightarrow> int \<Rightarrow> wallet obj \<Rightarrow> string \<Rightarrow> string option \<Rightarrow> dict option \<Rightarrow>
   credit_ledger_entry" where
  "new_credit_ledger_entry uid amt balance_after w entry_type reason metadata =
     \<lparr>cl_user_id = uid,
      wallet_id = Some (fst w),
      amount_delta_usd = minor_to_usd amt,
      amount_minor = Some amt,
      balance_after_minor = Some balance_after,
      available_after_minor = Some balance_after,
      held_after_minor = held_minor (snd w),
      cl_currency = w_currency (snd w),
      direction = (if 0 \<le> amt then ''credit'' else ''debit''),
      cl_entry_type = entry_type,
      cl_status = ''posted'',
      cl_reason = reason,
      cl_usage_event_id = None,
      cl_idempotency_key = None,
      cl_metadata_json = (case metadata of None \<Rightarrow> [] | Some m \<Rightarrow> m)\<rparr>"

definition moved_wallet :: "wallet \<Rightarrow> int \<Rightarrow> wallet" where
  "moved_wallet w new_balance =
     w\<lparr>balance_minor := Some new_balance, available_minor := Some new_balance,
       w_version := Some (or0 (w_version w) + 1)\<rparr>"

definition apply_credit_delta ::
  "int \<Rightarrow> int \<Rightarrow> string \<Rightarrow> string option \<Rightarrow> dict option \<Rightarrow> bool \<Rightarrow> bool \<Rightarrow> wallet_result act" where
  "apply_credit_delta uid amt entry_type reason metadata allow_negative do_commit =
     bind (get_balance_minor uid) (\<lambda>current.
     bind (the_user uid) (\<lambda>u.
     if amt < 0 \<and> \<not> allow_negative \<and> current + amt < 0 \<and> \<not> is_admin u
     then ret \<lparr>w_ok = False, w_balance_minor = current, w_balance_usd = minor_to_usd current,
               w_ledger_entry = None, w_reason = Some ''insufficient_credit''\<rparr>
     else
       bind (get_or_create_wallet uid) (\<lambda>w.
       let new_balance = current + amt;
           e = new_credit_ledger_entry uid amt new_balance w entry_type reason metadata
       in bind (query (\<lambda>d. t_next (credit_ledger d))) (\<lambda>lid.
          andthen (update (\<lambda>d. d\<lparr>credit_ledger := t_add e (credit_ledger d)\<rparr>))
          (andthen (update (\<lambda>d. d\<lparr>wallets :=
                      t_put (fst w) (moved_wallet (snd w) new_balance) (wallets d)\<rparr>))
          (andthen (save_user uid (u\<lparr>credit_balance_usd := Some (minor_to_usd new_balance)\<rparr>))
          (andthen (commit_or_flush do_commit)
          (ret \<lparr>w_ok = True, w_balance_minor = max 0 new_balance,
                w_balance_usd = minor_to_usd (max 0 new_balance),
                w_ledger_entry = Some (lid, e), w_reason = None\<rparr>))))))))"

definition credit ::
  "int \<Rightarrow> int \<Rightarrow> string \<Rightarrow> string option \<Rightarrow> dict option \<Rightarrow> bool \<Rightarrow> wallet_result act" where
  "credit uid amt entry_type reason metadata do_commit =
     apply_credit_delta uid \<bar>amt\<bar> entry_type reason metadata False do_commit"

definition debit ::
  "int \<Rightarrow> int \<Rightarrow> string \<Rightarrow> string option \<Rightarrow> dict option \<Rightarrow> bool \<Rightarrow> wallet_result act" where
  "debit uid amt entry_type reason metadata do_commit =
     bind (the_user uid) (\<lambda>u.
     if is_admin u
     then bind (get_balance_minor uid) (\<lambda>b.
          ret \<lparr>w_ok = True, w_balance_minor = b, w_balance_usd = minor_to_usd b,
               w_ledger_entry = None, w_reason = Some ''admin_bypass''\<rparr>)
     else apply_credit_delta uid (- \<bar>amt\<bar>) entry_type reason metadata False do_commit)"

definition credit_usd ::
  "int \<Rightarrow> pyfloat option \<Rightarrow> string \<Rightarrow> string option \<Rightarrow> dict option \<Rightarrow> bool \<Rightarrow> wallet_result act" where
  "credit_usd uid usd = credit uid (usd_to_minor usd)"

definition debit_usd ::
  "int \<Rightarrow> pyfloat option \<Rightarrow> string \<Rightarrow> string option \<Rightarrow> dict option \<Rightarrow> bool \<Rightarrow> wallet_result act" where
  "debit_usd uid usd = debit uid (usd_to_minor usd)"

section \<open>Evaluation\<close>

text \<open>What the user has: the wallet's row, or the one that would be created for them.\<close>

definition wallet_of :: "db \<Rightarrow> int \<Rightarrow> wallet obj option" where
  "wallet_of d uid = t_first (\<lambda>_ w. w_user_id w = uid) (wallets d)"

definition balance_of :: "db \<Rightarrow> int \<Rightarrow> int" where
  "balance_of d uid =
     (case wallet_of d uid of
        Some (_, w) \<Rightarrow> max 0 (or0 (available_minor w))
      | None \<Rightarrow> (case t_get (users d) uid of
                   None \<Rightarrow> 0 | Some u \<Rightarrow> max 0 (usd_to_minor (credit_balance_usd u))))"

definition open_wallet :: "int \<Rightarrow> user_preference \<Rightarrow> db \<Rightarrow> db" where
  "open_wallet uid u d =
     (if wallet_of d uid = None then d\<lparr>wallets := t_add (new_wallet uid u) (wallets d)\<rparr> else d)"

lemma the_user_run [run_simps]:
  "t_get (users (work s)) uid = Some u \<Longrightarrow> the_user uid s = (Inr u, s)"
  by (simp add: the_user_def run_simps)

lemma save_user_run [run_simps]:
  "save_user uid u s = (Inr (), s\<lparr>work := (work s)\<lparr>users := t_put uid u (users (work s))\<rparr>\<rparr>)"
  by (simp add: save_user_def run_simps)

lemma wallet_of_open:
  "wallet_of (open_wallet uid u d) uid =
    (case wallet_of d uid of None \<Rightarrow> Some (t_next (wallets d), new_wallet uid u) | Some w \<Rightarrow> Some w)"
  by (auto simp: open_wallet_def wallet_of_def t_first_add new_wallet_def split: option.splits)

lemma get_or_create_wallet_run:
  assumes "t_get (users (work s)) uid = Some u"
  shows "get_or_create_wallet uid s =
    (Inr (the (wallet_of (open_wallet uid u (work s)) uid)), s\<lparr>work := open_wallet uid u (work s)\<rparr>)"
  using assms unfolding get_or_create_wallet_def wallet_of_open
  by (auto simp: run_simps open_wallet_def wallet_of_def split: option.splits)

lemma open_wallet_simps [simp]:
  "users (open_wallet uid u d) = users d" "credit_ledger (open_wallet uid u d) = credit_ledger d"
  "open_wallet uid v (open_wallet uid u d) = open_wallet uid u d"
  by (simp_all add: open_wallet_def wallet_of_def t_first_add new_wallet_def split: option.split)

lemma balance_of_open:
  assumes "t_get (users d) uid = Some u" and "the (wallet_of (open_wallet uid u d) uid) = (wid, w)"
  shows "max 0 (or0 (available_minor w)) = balance_of d uid"
  using assms by (auto simp: wallet_of_open balance_of_def new_wallet_def split: option.splits)

text \<open>The database after a delta that is applied.\<close>

definition delta_db ::
  "int \<Rightarrow> user_preference \<Rightarrow> int \<Rightarrow> credit_ledger_entry \<Rightarrow> wallet obj \<Rightarrow> db \<Rightarrow> db" where
  "delta_db uid u bal e w d =
     (let o1 = open_wallet uid u d
      in o1\<lparr>credit_ledger := t_add e (credit_ledger d),
            wallets := t_put (fst w) (moved_wallet (snd w) bal) (wallets o1),
            users := t_put uid (u\<lparr>credit_balance_usd := Some (minor_to_usd bal)\<rparr>) (users d)\<rparr>)"

lemma apply_credit_delta_run:
  assumes u: "t_get (users (work s)) uid = Some u"
  defines "cur \<equiv> balance_of (work s) uid"
    and "w \<equiv> the (wallet_of (open_wallet uid u (work s)) uid)"
  shows "apply_credit_delta uid amt ty rs md neg c s =
    (if amt < 0 \<and> \<not> neg \<and> cur + amt < 0 \<and> \<not> is_admin u
     then (Inr \<lparr>w_ok = False, w_balance_minor = cur, w_balance_usd = minor_to_usd cur,
             w_ledger_entry = None, w_reason = Some ''insufficient_credit''\<rparr>,
           s\<lparr>work := open_wallet uid u (work s)\<rparr>)
     else let e = new_credit_ledger_entry uid amt (cur + amt) w ty rs md;
              d = delta_db uid u (cur + amt) e w (work s)
       in (Inr \<lparr>w_ok = True, w_balance_minor = max 0 (cur + amt),
                w_balance_usd = minor_to_usd (max 0 (cur + amt)),
                w_ledger_entry = Some (t_next (credit_ledger (work s)), e), w_reason = None\<rparr>,
           if c then s\<lparr>work := d, durable := d\<rparr> else s\<lparr>work := d\<rparr>))"
proof -
  obtain wid w' where w: "w = (wid, w')" by fastforce
  have b: "get_balance_minor uid s = (Inr cur, s\<lparr>work := open_wallet uid u (work s)\<rparr>)"
    using balance_of_open [OF u] get_or_create_wallet_run [OF u] w
    by (simp add: get_balance_minor_def run_simps w_def cur_def)
  show ?thesis
    using get_or_create_wallet_run [of "s\<lparr>work := open_wallet uid u (work s)\<rparr>" uid u] u
    by (simp add: apply_credit_delta_def run_simps b Let_def delta_db_def w_def)
qed

lemma balance_of_delta:
  assumes u: "t_get (users d) uid = Some u" and w: "the (wallet_of (open_wallet uid u d) uid) = w"
  shows "balance_of (delta_db uid u bal e w d) uid = max 0 bal"
proof -
  have "wallet_of (open_wallet uid u d) uid = Some w"
    using w by (auto simp: wallet_of_open split: option.splits)
  then have f: "t_first (\<lambda>_ x. w_user_id x = uid) (wallets (open_wallet uid u d)) = Some (fst w, snd w)"
    by (simp add: wallet_of_def)
  have "w_user_id (moved_wallet (snd w) bal) = uid"
    using t_first_SomeD [OF f] by (simp add: moved_wallet_def)
  then have "wallet_of (delta_db uid u bal e w d) uid = Some (fst w, moved_wallet (snd w) bal)"
    using t_first_put [OF f] by (simp add: wallet_of_def delta_db_def Let_def)
  then show ?thesis by (simp add: balance_of_def moved_wallet_def)
qed

lemma balance_of_opened:
  assumes "t_get (users d) uid = Some u"
  shows "balance_of (open_wallet uid u d) uid = balance_of d uid"
proof -
  obtain wid w where w: "the (wallet_of (open_wallet uid u d) uid) = (wid, w)" by fastforce
  moreover have "wallet_of (open_wallet uid u d) uid \<noteq> None"
    by (simp add: wallet_of_open split: option.split)
  ultimately have "wallet_of (open_wallet uid u d) uid = Some (wid, w)" by auto
  with balance_of_open [OF assms w] show ?thesis by (simp add: balance_of_def)
qed

lemma delta_db_ledger [simp]:
  "credit_ledger (delta_db uid u bal e w d) = t_add e (credit_ledger d)"
  "users (delta_db uid u bal e w d) = t_put uid (u\<lparr>credit_balance_usd := Some (minor_to_usd bal)\<rparr>) (users d)"
  by (simp_all add: delta_db_def Let_def)

section \<open>The wallet as a prepaid account\<close>

definition debit_pay :: "int \<Rightarrow> string \<Rightarrow> bool \<Rightarrow> int \<Rightarrow> session \<Rightarrow> bool \<times> session" where
  "debit_pay uid ty c amt s =
     (case debit uid amt ty None None c s of
        (Inl _, t) \<Rightarrow> (False, t) | (Inr r, t) \<Rightarrow> (w_ok r, t))"

definition plain_user :: "int \<Rightarrow> session \<Rightarrow> bool" where
  "plain_user uid s \<longleftrightarrow> (\<exists>u. t_get (users (work s)) uid = Some u \<and> \<not> is_admin u)"

lemma balance_of_nonneg: "0 \<le> balance_of d uid"
  by (simp add: balance_of_def split: option.split)

lemma debit_pay_run:
  assumes u: "t_get (users (work s)) uid = Some u" "\<not> is_admin u"
  shows "fst (debit_pay uid ty c amt s) = (\<bar>amt\<bar> \<le> balance_of (work s) uid)"
    and "balance_of (work (snd (debit_pay uid ty c amt s))) uid =
      balance_of (work s) uid - (if \<bar>amt\<bar> \<le> balance_of (work s) uid then \<bar>amt\<bar> else 0)"
    and "plain_user uid (snd (debit_pay uid ty c amt s))"
  using u balance_of_nonneg [of "work s" uid]
    apply_credit_delta_run [OF u(1), where amt = "- \<bar>amt\<bar>" and neg = False and ty = ty
        and rs = None and md = None and c = c]
    balance_of_delta [OF u(1) refl] balance_of_opened [OF u(1)]
  by (auto simp: debit_pay_def debit_def run_simps Let_def plain_user_def row_simps)

interpretation purse: prepaid "plain_user uid" "\<lambda>s. balance_of (work s) uid" "debit_pay uid ty c"
  for uid ty c
proof (unfold_locales, goal_cases)
  case (1 s)
  show ?case by (rule balance_of_nonneg)
next
  case (2 s n)
  then show ?case using debit_pay_run(3) by (auto simp: plain_user_def)
next
  case (3 s n)
  then obtain u where "t_get (users (work s)) uid = Some u" "\<not> is_admin u"
    by (auto simp: plain_user_def)
  from debit_pay_run(1) [OF this, of ty c n] 3 show ?case by simp
next
  case (4 s n)
  then obtain u where "t_get (users (work s)) uid = Some u" "\<not> is_admin u"
    by (auto simp: plain_user_def)
  from debit_pay_run(1,2) [OF this, of ty c n] 4 show ?case by simp
qed

section \<open>The Toman books\<close>

text \<open>No wallet operation touches the Toman accounts or their ledger.\<close>

lemma frames_the_user [frames_rules]: "frames (the_user uid)"
  unfolding the_user_def by (rule frames_rules)+

lemma frames_save_user [frames_rules]: "frames (save_user uid u)"
  unfolding save_user_def by (rule frames_update) (simp add: same_books_def)

lemma frames_get_or_create_wallet [frames_rules]: "frames (get_or_create_wallet uid)"
  unfolding get_or_create_wallet_def
  by (rule frames_rules frames_update | (simp add: same_books_def; fail))+

lemma frames_apply_credit_delta [frames_rules]: "frames (apply_credit_delta uid amt ty rs md neg c)"
  unfolding apply_credit_delta_def get_balance_minor_def Let_def
  by (rule frames_rules frames_update | (simp add: same_books_def; fail))+

lemma frames_credit_usd [frames_rules]: "frames (credit_usd uid x ty rs md c)"
  unfolding credit_usd_def credit_def by (rule frames_rules)

section \<open>Properties\<close>

text \<open>
  Converting micro-dollars to dollars and back is exact, and converting dollars to
  micro-dollars never loses more than half a micro-dollar.
\<close>

theorem micro_dollars_round_trip:
  "usd_to_minor (Some (minor_to_usd m)) = m \<and>
   \<bar>minor_to_usd (usd_to_minor (Some x)) - x\<bar> \<le> 1 / 2000000"
proof
  show "usd_to_minor (Some (minor_to_usd m)) = m"
    by (simp add: usd_to_minor_def minor_to_usd_def MICRO_USD_PER_USD_def)
  have "\<bar>(of_int (round_half_up (x * 1000000)) - x * 1000000) / 1000000\<bar> \<le> 1 / 2000000"
    using round_half_up_near [of "x * 1000000"] by simp
  then show "\<bar>minor_to_usd (usd_to_minor (Some x)) - x\<bar> \<le> 1 / 2000000"
    by (simp add: usd_to_minor_def minor_to_usd_def MICRO_USD_PER_USD_def diff_divide_distrib)
qed

text \<open>
  C3. A debit of a user who is not an administrator is all or nothing: it succeeds exactly when
  the balance covers the amount, and then the balance falls by the amount and one ledger row
  records it; otherwise the balance and the ledger stay. The balance never becomes negative.
\<close>

theorem debit_all_or_nothing:
  assumes "t_get (users (work s)) uid = Some u" and "\<not> is_admin u"
  shows "case debit uid amt ty rs md c s of
     (Inl e, t) \<Rightarrow> False
   | (Inr r, t) \<Rightarrow>
       w_ok r = (\<bar>amt\<bar> \<le> balance_of (work s) uid) \<and>
       balance_of (work t) uid = balance_of (work s) uid - (if w_ok r then \<bar>amt\<bar> else 0) \<and>
       0 \<le> balance_of (work t) uid \<and>
       map snd (credit_ledger (work t)) = map snd (credit_ledger (work s)) @
         (case w_ledger_entry r of None \<Rightarrow> [] | Some (_, e) \<Rightarrow> [e]) \<and>
       (w_ok r \<longrightarrow> (\<exists>k e. w_ledger_entry r = Some (k, e) \<and> amount_minor e = Some (- \<bar>amt\<bar>) \<and>
                   balance_after_minor e = Some (balance_of (work t) uid)))"
proof -
  note u = assms(1)
  have pos: "0 \<le> balance_of (work s) uid"
    by (simp add: balance_of_def split: option.split)
  show ?thesis
    using assms pos apply_credit_delta_run [OF u, where amt = "- \<bar>amt\<bar>" and neg = False and ty = ty and rs = rs and md = md and c = c]
      balance_of_delta [OF u refl] balance_of_opened [OF u]
    by (auto simp: debit_def run_simps Let_def t_add_def new_credit_ledger_entry_def)
qed

text \<open>Half a dollar in the wallet, a debit of 30 cents.\<close>

theorem debit_all_or_nothing_witness:
  "case debit 1 300000 ''debit'' None None True
      (open_session (empty_db\<lparr>users := [(1, sample_user)]\<rparr>)) of
     (Inl e, t) \<Rightarrow> False
   | (Inr r, t) \<Rightarrow> w_ok r \<and> balance_of (work t) 1 = 200000"
proof -
  let ?s = "open_session (empty_db\<lparr>users := [(1, sample_user)]\<rparr>)"
  have b: "balance_of (work ?s) 1 = 500000" by code_simp
  have "t_get (users (work ?s)) 1 = Some sample_user" "\<not> is_admin sample_user"
    by (simp_all add: open_session_def t_get_def sample_user_def)
  from debit_all_or_nothing [OF this, of 300000 "''debit''" None None True] b show ?thesis
    by (auto split: prod.splits sum.splits)
qed

end
