(* ===== verification/Trial.thy ===== *)
theory Trial
  imports Wallet
begin

text \<open>
  \<open>pbozi/backend/app/services/trial_service.py\<close>: the trial subscription, granted once per
  user. Texts are represented by English tags; an instant inside a JSON document is its number.
\<close>

text \<open>
  What a caller passes as \<open>user_id\<close>: the key the function asks for, or the user object
  itself, which the database driver cannot bind as a parameter of the query.
\<close>

datatype user_ref = ById int | ByObject int

definition grant_trial_subscription ::
  "instant \<Rightarrow> user_ref \<Rightarrow> string \<Rightarrow> user_subscription obj act" where
  "grant_trial_subscription now ref reason =
     (case ref of
        ByObject _ \<Rightarrow> raise (StatementError ''Error binding parameter'')
      | ById uid \<Rightarrow>
     bind (query (\<lambda>d. t_get (users d) uid)) (\<lambda>found.
     case found of
       None \<Rightarrow> raise (TrialServiceError ''User not found'')
     | Some user \<Rightarrow>
     if trial_used user then raise (TrialServiceError ''User has already used a trial'')
     else
     bind (query (\<lambda>d. t_first (\<lambda>_ _. True) (trial_configs d))) (\<lambda>config_row.
     case config_row of
       None \<Rightarrow> raise (TrialServiceError ''Trial configuration is not enabled or missing plan_id'')
     | Some (_, config) \<Rightarrow>
     if \<not> tc_is_enabled config \<or> or0 (tc_plan_id config) = 0
     then raise (TrialServiceError ''Trial configuration is not enabled or missing plan_id'')
     else
     bind (query (\<lambda>d. t_first (\<lambda>_ u. us_user_id u = uid \<and> us_status u = ''active'')
                        (user_subscriptions d))) (\<lambda>active.
     if active \<noteq> None then raise (TrialServiceError ''User already has an active subscription'')
     else
       let pid = or0 (tc_plan_id config);
           expires = now + hours (duration_hours config)
       in bind (add_subscription (new_subscription uid pid now expires)) (\<lambda>(sid, sub).
          bind (catch (assign_subscription_pool (sid, sub))
                 (\<lambda>_. raise (TrialServiceError ''Failed to assign capacity pool''))) (\<lambda>(pool, _).
          andthen (save_user uid (user\<lparr>trial_used := True\<rparr>))
          (andthen (update (\<lambda>d. d\<lparr>admin_actions := t_add
              \<lparr>admin_user_id = None, action_type = ''grant_trial'', target_type = ''user'',
               target_id = Some uid, before_json = None,
               after_json = Some [(''subscription_plan_id'', JInt pid),
                                  (''expires_at'', JInt expires)],
               aa_reason = Some reason\<rparr> (admin_actions d)\<rparr>))
          (andthen commit
          (andthen (on_cond (or0 (telegram_user_id user) \<noteq> 0)
                      (send (SendMessage (or0 (telegram_user_id user))
                         (str_or (welcome_message config) ''trial activated''))))
          (ret (sid, sub\<lparr>pool_id := Some pool\<rparr>)))))))))))"


lemma frames_grant_trial [frames_rules]: "frames (grant_trial_subscription now ref reason)"
  unfolding grant_trial_subscription_def Let_def
  by (cases ref) (simp_all only: user_ref.case,
      (rule frames_rules frames_update | (simp add: same_books_def; fail))+)

section \<open>What a grant does\<close>

lemma assign_frame:
  assumes "assign_subscription_pool (sid, sub) s = (r, t)"
  shows "users (work t) = users (work s)" and "durable t = durable s" and "outbox t = outbox s"
    and "\<And>x. r = Inr x \<Longrightarrow> pool_id sub = None \<Longrightarrow>
      user_subscriptions (work t) =
        t_put sid (sub\<lparr>pool_id := Some (fst x)\<rparr>) (user_subscriptions (work s))"
    and "r = Inl e \<Longrightarrow> t = s"
  using assms by (cases rule: assign_subscription_pool_cases [of sub s sid]; auto)+

lemma new_subscription_fields [simp]:
  "pool_id (new_subscription uid p a b) = None" "us_user_id (new_subscription uid p a b) = uid"
  "us_status (new_subscription uid p a b) = ''active''" "expires_at (new_subscription uid p a b) = b"
  "plan_id (new_subscription uid p a b) = p"
  by (simp_all add: new_subscription_def)

lemma assign_new_subscription:
  assumes "assign_subscription_pool (t_next T, new_subscription uid p a b)
      (s\<lparr>work := (work s)\<lparr>user_subscriptions := t_add (new_subscription uid p a b) T\<rparr>\<rparr>) =
      (Inr (pid, q), t)"
  shows "t_get (user_subscriptions (work t)) (t_next T) =
      Some ((new_subscription uid p a b)\<lparr>pool_id := Some pid\<rparr>) \<and> users (work t) = users (work s)"
  using assign_frame(1,4) [OF assms] by (simp add: row_simps)

lemma grant_trial_success:
  assumes "grant_trial_subscription now (ById uid) reason s = (Inr (sid, sub), t)"
  shows "us_user_id sub = uid \<and> us_status sub = ''active'' \<and> pool_id sub \<noteq> None \<and>
    (\<exists>cid c. (cid, c) \<in> set (trial_configs (work s)) \<and> tc_is_enabled c \<and>
       expires_at sub = now + hours (duration_hours c)) \<and>
    (\<exists>user. t_get (users (work t)) uid = Some user \<and> trial_used user) \<and>
    t_get (user_subscriptions (work t)) sid = Some sub \<and> durable t = work t"
  using assms
  by (auto simp: grant_trial_subscription_def Let_def run_simps row_simps add_subscription_def save_user_run
        dest!: assign_new_subscription t_first_SomeD
      split: option.splits prod.splits if_splits sum.splits; blast)

text \<open>A first trial of 48 hours, in a pool with room.\<close>

definition trial_scene :: session where
  "trial_scene = open_session (empty_db\<lparr>
     users := [(1, sample_user)],
     trial_configs := [(1, \<lparr>tc_plan_id = Some 3, duration_hours = 48, tc_is_enabled = True,
                            apply_automatically = False, welcome_message = None\<rparr>)],
     capacity_pools := [(1, sample_pool)]\<rparr>)"


end
