(* ===== verification/Accounts.thy ===== *)
theory Accounts
  imports Trial
begin

text \<open>
  \<open>pbozi/backend/app/services/account_service.py\<close>: phone numbers, onboarding state, the
  starter credit of a new account, and finding, restoring or creating the user of a Telegram id.
  \<open>env_admin\<close> is the value of the environment variable \<open>ADMIN_ID\<close>.
\<close>

section \<open>Phone numbers and onboarding\<close>

definition is_admin_telegram_id :: "string \<Rightarrow> int \<Rightarrow> int option \<Rightarrow> bool" where
  "is_admin_telegram_id env_admin tg admin_tg =
     (let adm = (case admin_tg of
                   Some a \<Rightarrow> Some a
                 | None \<Rightarrow> if env_admin \<noteq> [] \<and> list_all is_digit env_admin
                           then int_of_str env_admin else None)
      in adm \<noteq> None \<and> adm = Some tg)"

definition normalize_phone_number :: "string option \<Rightarrow> string \<Rightarrow> string option" where
  "normalize_phone_number phone country =
     (let raw = strip (str_or phone []) in
      if raw = [] then None
      else let has_plus = starts_with raw ''+'';
               digits = filter is_digit raw
           in if digits = [] then None
              else if has_plus then Some (''+'' @ digits)
              else if starts_with digits ''00'' \<and> 2 < length digits
              then Some (''+'' @ drop 2 digits)
              else if country \<noteq> [] \<and> starts_with digits ''0''
              then Some (''+'' @ country @ drop 1 digits)
              else if country \<noteq> [] \<and> length digits \<le> 10
              then Some (''+'' @ country @ digits)
              else Some (''+'' @ digits))"

record account_onboarding_state =
  missing_phone :: bool
  missing_preferred_name :: bool
  onboarding_completed :: bool

definition PENDING_STATUSES :: "string list" where
  "PENDING_STATUSES =
  [''pending'', ''pending_onboarding'', ''onboarding'', ''needs_onboarding'']"

definition onboarding_state :: "user_preference \<Rightarrow> account_onboarding_state" where
  "onboarding_state u =
     (if is_admin u
      then \<lparr>missing_phone = False, missing_preferred_name = False, onboarding_completed = True\<rparr>
      else let no_phone = (strip (str_or (phone_number u) []) = []);
               no_name = (strip (str_or (preferred_name u) []) = []);
               status = lower (strip (str_or (account_status u) []))
           in \<lparr>missing_phone = no_phone, missing_preferred_name = no_name,
               onboarding_completed =
                 (\<not> no_phone \<and> \<not> no_name \<and> status \<notin> set PENDING_STATUSES)\<rparr>)"

text \<open>Returns whether the status changed, and the user after it.\<close>

definition mark_onboarding_state :: "user_preference \<Rightarrow> bool \<times> user_preference" where
  "mark_onboarding_state u =
     (if is_admin u then (False, u)
      else let desired = (if onboarding_completed (onboarding_state u) then ''active''
                          else ''pending_onboarding'')
           in if account_status u = Some desired then (False, u)
              else (True, u\<lparr>account_status := Some desired\<rparr>))"

definition mark_user :: "int \<Rightarrow> unit act" where
  "mark_user uid = bind (the_user uid) (\<lambda>u. save_user uid (snd (mark_onboarding_state u)))"

section \<open>The starter credit\<close>

definition gift_account :: "user_billing_account \<Rightarrow> int \<Rightarrow> user_billing_account" where
  "gift_account a n =
     a\<lparr>gift_balance_toman := Some (or0 (gift_balance_toman a) + n),
       total_gift_granted_toman := Some (or0 (total_gift_granted_toman a) + n)\<rparr>"

definition apply_starter_credit :: "int \<Rightarrow> bool act" where
  "apply_starter_credit uid =
     bind (query (\<lambda>d. t_count (\<lambda>_ e. cl_user_id e = uid \<and> cl_entry_type e = ''starter_credit'')
                        (credit_ledger d))) (\<lambda>existing_usd.
     bind (query (\<lambda>d. t_count (\<lambda>_ e. tl_user_id e = uid \<and> tl_entry_type e = ''starter_gift_credit'')
                        (toman_ledger d))) (\<lambda>existing_toman.
     if 0 < existing_usd \<and> 0 < existing_toman then ret False
     else
     bind (query (\<lambda>d. t_first (\<lambda>_ c. sc_is_active c) (starter_configs d))) (\<lambda>found.
     case found of
       None \<Rightarrow> ret False
     | Some (cid, config) \<Rightarrow>
     if sc_amount_usd config \<le> 0 \<and> sc_amount_toman config \<le> 0 then ret False
     else
       let usd = (0 < sc_amount_usd config \<and> existing_usd = 0);
           toman = (0 < sc_amount_toman config \<and> existing_toman = 0);
           n = sc_amount_toman config
       in andthen (on_cond usd
            (bind (credit_usd uid (Some (sc_amount_usd config)) ''starter_credit''
                     (Some ''Account signup bonus'') (Some [(''config_id'', JInt cid)]) False)
               (\<lambda>_. ret ())))
          (andthen (on_cond toman
            (bind (get_or_create_billing_account uid) (\<lambda>account.
             let acc = (fst account, gift_account (snd account) n)
             in andthen (save_account (fst acc) (snd acc))
                (bind (add_ledger (new_ledger_entry uid acc n n 0 ''starter_gift_credit''
                         (Some ''Account signup bonus'') None None
                         (Some [(''config_id'', JInt cid)]))) (\<lambda>_. ret ())))))
          (ret (usd \<or> toman))))))"

section \<open>Finding and creating users\<close>

definition get_user_by_telegram_id :: "int \<Rightarrow> user_preference obj option act" where
  "get_user_by_telegram_id tg =
     bind (query (\<lambda>d. t_select (\<lambda>_ u. telegram_user_id u = Some tg) (users d))) scalar_one_or_none"

definition get_user_by_phone :: "string option \<Rightarrow> user_preference obj option act" where
  "get_user_by_phone phone =
     (case normalize_phone_number phone ''98'' of
        None \<Rightarrow> ret None
      | Some normalized \<Rightarrow>
          let candidates = [normalized, dropWhile (\<lambda>c. c = CHR ''+'') normalized] @
                (if starts_with normalized ''+98'' then [''0'' @ drop 3 normalized] else [])
          in bind (query (\<lambda>d. t_select (\<lambda>_ u. phone_number u \<in> Some ` set candidates) (users d)))
               scalar_one_or_none)"

text \<open>The flush of a user row: \<open>telegram_user_id\<close> is a unique column.\<close>

definition flush_user :: "int \<Rightarrow> user_preference \<Rightarrow> unit act" where
  "flush_user uid u =
     bind (query (\<lambda>d. t_first (\<lambda>i v. i \<noteq> uid \<and> telegram_user_id v \<noteq> None \<and>
                                      telegram_user_id v = telegram_user_id u) (users d))) (\<lambda>other.
     if other \<noteq> None then andthen rollback (raise IntegrityError) else save_user uid u)"

definition new_user ::
  "instant \<Rightarrow> int \<Rightarrow> string option \<Rightarrow> string option \<Rightarrow> string option \<Rightarrow> string option \<Rightarrow> bool \<Rightarrow>
   user_preference" where
  "new_user now tg first uname pref phone adm =
     \<lparr>telegram_user_id = Some tg, first_name = first, username = uname, preferred_name = pref,
      phone_number = phone,
      account_status = Some (if adm then ''active'' else ''pending_onboarding''),
      credit_balance_usd = Some 0, is_admin = adm, is_pro = False, total_charged_usd = Some 0,
      trial_used = False, referral_campaign_id = None,
      lp_status = Some ''not_started'', lp_summary = None, lp_prompt = None, lp_profile = JNull,
      lp_onboarding = JNull, lp_completed_at = None, created_at = now\<rparr>"

text \<open>\<open>if x and user.x != x: user.x = x\<close>.\<close>

definition overwrite :: "string option \<Rightarrow> string option \<Rightarrow> string option" where
  "overwrite new old = (case new of None \<Rightarrow> old | Some s \<Rightarrow> if s = [] then old else Some s)"

definition restored_user ::
  "user_preference \<Rightarrow> int \<Rightarrow> string option \<Rightarrow> string option \<Rightarrow> string option \<Rightarrow> string option \<Rightarrow>
   bool \<Rightarrow> user_preference" where
  "restored_user u tg first uname pref phone adm =
     u\<lparr>telegram_user_id := Some tg, first_name := overwrite first (first_name u),
       username := overwrite uname (username u),
       preferred_name := overwrite pref (preferred_name u),
       phone_number := overwrite phone (phone_number u),
       is_admin := (is_admin u \<or> adm)\<rparr>"

definition signup_user :: "instant \<Rightarrow> user_preference \<Rightarrow> int act" where
  "signup_user now u =
     bind (query (\<lambda>d. t_next (users d))) (\<lambda>uid.
     andthen (update (\<lambda>d. d\<lparr>users := t_add u (users d)\<rparr>))
     (bind (apply_starter_credit uid) (\<lambda>_.
      bind (query (\<lambda>d. t_first (\<lambda>_ _. True) (trial_configs d))) (\<lambda>config.
      andthen (on_cond (case config of None \<Rightarrow> False | Some (_, c) \<Rightarrow> apply_automatically c)
                 (catch (bind (grant_trial_subscription now (ById uid)
                                 ''Automatically granted on signup'') (\<lambda>_. ret ()))
                    (\<lambda>_. ret ())))
      (ret uid)))))"

definition create_or_restore_user ::
  "instant \<Rightarrow> string \<Rightarrow> int \<Rightarrow> string option \<Rightarrow> string option \<Rightarrow> string option \<Rightarrow> string option \<Rightarrow>
   int option \<Rightarrow> bool option \<Rightarrow> bool \<Rightarrow> int act" where
  "create_or_restore_user now env_admin tg first uname phone pref admin_tg is_adm do_commit =
     (let normalized = normalize_phone_number phone ''98'';
          adm = (is_adm = Some True \<or> is_admin_telegram_id env_admin tg admin_tg)
      in bind (query (\<lambda>d. t_first (\<lambda>_ u. telegram_user_id u = Some tg \<or>
                             normalized \<noteq> None \<and> phone_number u = normalized) (users d))) (\<lambda>found.
         bind (case found of
                 None \<Rightarrow> signup_user now (new_user now tg first uname pref normalized adm)
               | Some (uid, u) \<Rightarrow>
                   andthen (flush_user uid (restored_user u tg first uname pref normalized adm))
                     (ret uid)) (\<lambda>uid.
         andthen (mark_user uid) (andthen (on_cond do_commit commit) (ret uid)))))"

definition update_contact_profile ::
  "int \<Rightarrow> string option \<Rightarrow> string option \<Rightarrow> bool \<Rightarrow> unit act" where
  "update_contact_profile uid phone pref do_commit =
     bind (the_user uid) (\<lambda>u.
     let u1 = (if phone \<noteq> None then u\<lparr>phone_number := normalize_phone_number phone ''98''\<rparr> else u);
         u2 = (case pref of
                 None \<Rightarrow> u1
               | Some n \<Rightarrow> u1\<lparr>preferred_name := (if strip n = [] then None else Some (strip n))\<rparr>)
     in andthen (save_user uid (snd (mark_onboarding_state u2))) (on_cond do_commit commit))"


section \<open>The Toman books\<close>

lemma gift_account_books:
  "account_books L i a 0 0 \<Longrightarrow> 0 \<le> n \<Longrightarrow> account_books L i (gift_account a n) n 0"
  by (simp add: account_books_def gift_account_def)

lemma gift_account_user [simp]: "ba_user_id (gift_account a n) = ba_user_id a"
  by (simp add: gift_account_def)

text \<open>A gift of \<open>n\<close> Toman entered in the ledger, as a sign-up bonus or a promo code does.\<close>

lemma gift_rule:
  assumes "0 \<le> n" and "\<And>a x. hoare (holding uid (fst acc, a)) (k x) (\<lambda>_. in_books) (\<lambda>_. in_books)"
  shows "hoare (holding uid acc)
      (andthen (save_account (fst acc) (gift_account (snd acc) n))
      (bind (add_ledger (new_ledger_entry uid (fst acc, gift_account (snd acc) n) n n 0 t r ue key m)) k))
      (\<lambda>_. in_books) (\<lambda>_. in_books)"
  using assms(1) by (intro post_one_rule assms(2)) (simp_all add: gift_account_books)

lemma starter_credit_keeps_books: "keeps_books (apply_starter_credit uid)"
  unfolding apply_starter_credit_def Let_def fst_conv snd_conv
  by (intro keeps_rules frames_rules [THEN keeps_frames] keeps_account gift_rule keeps_holding)
     simp_all

lemma frames_grow_users [frames_rules]: "frames (update (\<lambda>d. d\<lparr>users := f (users d)\<rparr>))"
  by (rule frames_update) (simp add: same_books_def)

lemma frames_mark_user [frames_rules]: "frames (mark_user uid)"
  unfolding mark_user_def by (rule frames_rules)+

lemma signup_keeps_books: "keeps_books (signup_user now u)"
  unfolding signup_user_def
  by (intro keeps_rules starter_credit_keeps_books frames_rules [THEN keeps_frames])

lemma flush_user_keeps_books: "keeps_books (flush_user uid u)"
  unfolding flush_user_def by (intro keeps_rules frames_rules [THEN keeps_frames])

lemma create_or_restore_keeps_books:
  "keeps_books (create_or_restore_user now env tg first uname phone pref adm is_adm c)"
  unfolding create_or_restore_user_def Let_def
  by (intro keeps_rules signup_keeps_books flush_user_keeps_books frames_rules [THEN keeps_frames])

section \<open>Phone numbers\<close>

lemma strip_plus_digits:
  assumes "ds \<noteq> []" and "list_all is_digit ds"
  shows "strip (CHR ''+'' # ds) = CHR ''+'' # ds"
proof -
  obtain xs x where ds: "ds = xs @ [x]" using assms(1) by (cases ds rule: rev_cases) auto
  have "is_digit x" using assms(2) by (simp add: ds)
  then have "\<not> is_space x" by (auto simp: is_digit_def is_space_def)
  moreover have "\<not> is_space CHR ''+''" by code_simp
  ultimately show ?thesis by (simp add: strip_def ds)
qed

lemma digits_filter [simp]: "list_all is_digit (filter is_digit s)"
  by (simp add: list_all_iff)

lemma normalize_plus:
  assumes "ds \<noteq> []" and "list_all is_digit ds"
  shows "normalize_phone_number (Some (CHR ''+'' # ds)) c = Some (CHR ''+'' # ds)"
proof -
  have "filter is_digit ds = ds" using assms(2) by (simp add: list_all_iff)
  moreover have "\<not> is_digit CHR ''+''" by code_simp
  ultimately show ?thesis
    using assms by (simp add: normalize_phone_number_def str_or_def strip_plus_digits starts_with_def)
qed

lemma normalize_shape:
  assumes "normalize_phone_number p c = Some q" and "c \<noteq> []" and "list_all is_digit c"
  shows "\<exists>ds. q = CHR ''+'' # ds \<and> ds \<noteq> [] \<and> list_all is_digit ds"
  using assms
  by (auto simp: normalize_phone_number_def Let_def list_all_iff
      dest!: in_set_dropD split: if_splits)

text \<open>
  A normalized phone number is a plus sign and digits only, and normalizing it again, with
  whatever country code, changes nothing.
\<close>

theorem normalized_phone_is_normal:
  assumes "normalize_phone_number p c = Some q" and "c \<noteq> []" and "list_all is_digit c"
  shows "hd q = CHR ''+'' \<and> tl q \<noteq> [] \<and> list_all is_digit (tl q) \<and>
    normalize_phone_number (Some q) c' = Some q"
  using normalize_shape [OF assms] normalize_plus by auto

theorem normalized_phone_is_normal_witness:
  "normalize_phone_number (normalize_phone_number (Some '' 0912-123 45 67 '') ''98'') ''98'' =
    Some ''+989121234567''"
proof -
  have "normalize_phone_number (Some '' 0912-123 45 67 '') ''98'' = Some ''+989121234567''"
    by code_simp
  from normalized_phone_is_normal [OF this, of "''98''"] this show ?thesis by (simp add: is_digit_def)
qed

section \<open>Onboarding\<close>

text \<open>
  An account that waits for its onboarding is never made active by this service: the pending
  status itself counts against completion, so completing the profile leaves it pending.
\<close>

lemma pending_stays_pending:
  assumes "\<not> is_admin u" and "account_status u = Some ''pending_onboarding''"
  shows "mark_onboarding_state u = (False, u)"
proof -
  have "lower (strip ''pending_onboarding'') \<in> set PENDING_STATUSES" by code_simp
  then show ?thesis
    using assms by (simp add: mark_onboarding_state_def onboarding_state_def Let_def str_or_def)
qed

text \<open>
  A sign-up while no pool has room: the trial is refused and the refusal swallowed, but the
  subscription it added stays in the session and is committed with the account, live, without a
  pool, and with the trial still unused.
\<close>

lemma signup_without_capacity_keeps_subscription:
  "let d = durable (snd (create_or_restore_user 5 [] 700 None None None None None None True
        (open_session (empty_db\<lparr>trial_configs :=
           [(1, \<lparr>tc_plan_id = Some 3, duration_hours = 48, tc_is_enabled = True,
                 apply_automatically = True, welcome_message = None\<rparr>)]\<rparr>))))
   in map (\<lambda>(_, u). (us_user_id u, us_status u, pool_id u)) (user_subscriptions d) =
        [(1, ''active'', None)] \<and>
      map (\<lambda>(_, u). trial_used u) (users d) = [False]"
  by code_simp

end
