(* ===== verification/Promo.thy ===== *)
theory Promo
  imports Accounts
begin

text \<open>
  \<open>pbozi/backend/app/services/promo_code_service.py\<close>: redeeming a promo code for a bonus
  in Toman gift credit or in the USD wallet, within the code's limits. Error texts that print an
  amount are represented by their fixed part.
\<close>

definition normalize_promo_code :: "string option \<Rightarrow> string" where
  "normalize_promo_code c =
     filter (\<lambda>x. x \<noteq> CHR '' '') (upper (strip (str_or c [])))"

text \<open>
  \<open>int(round(n * x / 100.0))\<close> in floating point: the integer operand is converted, the
  product and the quotient are rounded to binary64, and \<open>round\<close> rounds halves to even.
\<close>

definition float_percent :: "int \<Rightarrow> pyfloat \<Rightarrow> int" where
  "float_percent n x = round_half_even (fl (fl (fl (of_int n) * fl x) / 100))"

definition bonus_minor :: "promo_code \<Rightarrow> int \<Rightarrow> int" where
  "bonus_minor p charge_minor =
     (if bonus_type p = ''percent''
      then max 0 (float_percent charge_minor (coerce_float (bonus_value_usd p) 0))
      else max 0 (usd_to_minor (Some (coerce_float (bonus_value_usd p) 0))))"

definition bonus_toman :: "promo_code \<Rightarrow> int \<Rightarrow> int" where
  "bonus_toman p charge_toman =
     (if bonus_type p = ''percent''
      then max 0 (float_percent charge_toman (of_int (or0 (bonus_value_toman p))))
      else max 0 (or0 (bonus_value_toman p)))"

definition count_redemptions :: "int \<Rightarrow> int \<Rightarrow> db \<Rightarrow> int" where
  "count_redemptions pid uid d =
     t_count (\<lambda>_ r. promo_code_id r = pid \<and> pr_user_id r = uid) (promo_redemptions d)"

definition add_redemption :: "promo_code_redemption \<Rightarrow> promo_code_redemption obj act" where
  "add_redemption r =
     bind (query (\<lambda>d. t_next (promo_redemptions d))) (\<lambda>rid.
     andthen (update (\<lambda>d. d\<lparr>promo_redemptions := t_add r (promo_redemptions d)\<rparr>)) (ret (rid, r)))"

text \<open>Lines 100 to 164: the Toman branch, from the amounts to the redemption row.\<close>

definition promo_account :: "user_billing_account \<Rightarrow> int \<Rightarrow> user_billing_account" where
  "promo_account a n = (gift_account a n)\<lparr>version := Some (or0 (version a) + 1)\<rparr>"

definition redeem_toman ::
  "int \<Rightarrow> promo_code obj \<Rightarrow> int \<Rightarrow> string \<Rightarrow> bool \<Rightarrow> promo_code_redemption obj act" where
  "redeem_toman uid promo charge_toman source_tag credit_charge =
     (let p = snd promo;
          bonus = bonus_toman p charge_toman;
          credited = (if credit_charge then charge_toman else 0);
          total = credited + bonus
      in if charge_toman < or0 (minimum_charge_toman p)
         then raise (PromoCodeRedemptionError ''minimum charge for this code'')
         else if bonus \<le> 0
         then raise (PromoCodeRedemptionError ''promo code bonus is zero for this charge amount'')
         else if total \<le> 0
         then raise (PromoCodeRedemptionError ''total credit amount is invalid'')
         else
           bind (get_or_create_billing_account uid) (\<lambda>account.
           let acc = (fst account, promo_account (snd account) total) in
           andthen (save_account (fst acc) (snd acc))
           (bind (add_ledger (new_ledger_entry uid acc total total 0 ''promo_code_credit''
                    (Some (''promo code '' @ code p)) None None
                    (Some [(''promo_code_id'', JInt (fst promo)), (''promo_code'', JStr (code p)),
                           (''charge_amount_toman'', JInt charge_toman),
                           (''credited_charge_amount_toman'', JInt credited),
                           (''bonus_amount_toman'', JInt bonus),
                           (''credit_charge_amount'', JBool credit_charge),
                           (''source'', JStr source_tag)]))) (\<lambda>e.
            let row = \<lparr>promo_code_id = fst promo, pr_user_id = uid, charge_amount_usd = 0,
                       charge_amount_toman = charge_toman, bonus_amount_usd = 0,
                       bonus_amount_toman = bonus, total_credit_usd = 0, total_credit_toman = total,
                       credit_ledger_entry_id = None, toman_ledger_entry_id = None\<rparr>
            in bind (add_redemption row) (\<lambda>(rid, r).
               andthen commit
               (let r' = r\<lparr>toman_ledger_entry_id := Some (fst e)\<rparr>
                in andthen (update (\<lambda>d. d\<lparr>promo_redemptions :=
                              t_put rid r' (promo_redemptions d)\<rparr>))
                   (andthen commit (ret (rid, r')))))))))"

text \<open>
  Lines 166 to 219: the USD branch. \<open>total_charged_usd\<close> holds the exact value of its double.
\<close>

definition charge_user :: "int \<Rightarrow> pyfloat \<Rightarrow> unit act" where
  "charge_user uid usd =
     bind (the_user uid) (\<lambda>u.
     let charged = fl (fl (coerce_float (total_charged_usd u) 0) + fl usd)
     in save_user uid (u\<lparr>total_charged_usd := Some charged,
                         is_pro := (is_pro u \<or> 1 \<le> charged)\<rparr>))"

definition redeem_usd ::
  "int \<Rightarrow> promo_code obj \<Rightarrow> pyfloat \<Rightarrow> string \<Rightarrow> bool \<Rightarrow> promo_code_redemption obj act" where
  "redeem_usd uid promo usd source_tag credit_charge =
     (let p = snd promo;
          charge_minor = usd_to_minor (Some usd);
          bonus = bonus_minor p charge_minor;
          credited = (if credit_charge then charge_minor else 0);
          total = credited + bonus
      in if charge_minor < 0
         then raise (PromoCodeRedemptionError ''charge_amount must be zero or greater'')
         else if charge_minor < usd_to_minor (Some (coerce_float (minimum_charge_usd p) 0))
         then raise (PromoCodeRedemptionError ''minimum charge for this code'')
         else if bonus \<le> 0
         then raise (PromoCodeRedemptionError ''promo code bonus is zero for this charge amount'')
         else if total \<le> 0
         then raise (PromoCodeRedemptionError ''total credit amount is invalid'')
         else
           bind (apply_credit_delta uid total ''promo_code_credit''
                   (Some (''promo code '' @ code p))
                   (Some [(''promo_code_id'', JInt (fst promo)), (''promo_code'', JStr (code p)),
                          (''charge_amount_minor'', JInt charge_minor),
                          (''credited_charge_amount_minor'', JInt credited),
                          (''bonus_amount_minor'', JInt bonus),
                          (''credit_charge_amount'', JBool credit_charge),
                          (''source'', JStr source_tag)]) False False) (\<lambda>w.
           if \<not> w_ok w
           then raise (PromoCodeRedemptionError (str_or (w_reason w) ''failed to apply promo credit''))
           else
             andthen (on_cond (0 < usd) (charge_user uid usd))
             (bind (add_redemption
                \<lparr>promo_code_id = fst promo, pr_user_id = uid,
                 charge_amount_usd = minor_to_usd charge_minor, charge_amount_toman = 0,
                 bonus_amount_usd = minor_to_usd bonus, bonus_amount_toman = 0,
                 total_credit_usd = minor_to_usd total, total_credit_toman = 0,
                 credit_ledger_entry_id = map_option fst (w_ledger_entry w),
                 toman_ledger_entry_id = None\<rparr>) (\<lambda>r.
              andthen commit (ret r)))))"

text \<open>
  Line 65 compares the aware \<open>expires_at\<close> with the naive \<open>_utcnow()\<close>, which Python
  refuses with a TypeError.
\<close>

definition redeem_promo_code_for_user ::
  "int \<Rightarrow> string option \<Rightarrow> pyfloat \<Rightarrow> int \<Rightarrow> string \<Rightarrow> bool \<Rightarrow> promo_code_redemption obj act" where
  "redeem_promo_code_for_user uid code_arg usd toman source_tag credit_charge =
     (let normalized = normalize_promo_code code_arg in
      if normalized = [] then raise (PromoCodeRedemptionError ''code is required'')
      else
      bind (query (\<lambda>d. t_first (\<lambda>_ p. code p = normalized) (promo_codes d))) (\<lambda>found.
      case found of
        None \<Rightarrow> raise (PromoCodeRedemptionError ''promo code is invalid or inactive'')
      | Some (pid, p) \<Rightarrow>
      if \<not> pc_is_active p then raise (PromoCodeRedemptionError ''promo code is invalid or inactive'')
      else if pc_expires_at p \<noteq> None
      then raise (TypeError ''can't compare offset-naive and offset-aware datetimes'')
      else
      bind (query (\<lambda>d. t_count (\<lambda>_ r. promo_code_id r = pid) (promo_redemptions d))) (\<lambda>total.
      if (case max_redemptions_total p of None \<Rightarrow> False | Some n \<Rightarrow> n \<le> total)
      then raise (PromoCodeRedemptionError ''promo code redemption limit reached'')
      else
      bind (query (count_redemptions pid uid)) (\<lambda>mine.
      if 0 < or0 (max_redemptions_per_user p) \<and> or0 (max_redemptions_per_user p) \<le> mine
      then raise (PromoCodeRedemptionError ''you have already used this promo code'')
      else if str_or (pc_currency p) ''USD'' = ''TOMAN''
      then redeem_toman uid (pid, p) toman source_tag credit_charge
      else redeem_usd uid (pid, p) usd source_tag credit_charge))))"

section \<open>The Toman books\<close>

lemma promo_account_books:
  "account_books L i a 0 0 \<Longrightarrow> 0 \<le> n \<Longrightarrow> account_books L i (promo_account a n) n 0"
  by (simp add: account_books_def promo_account_def gift_account_def)

lemma promo_account_user [simp]: "ba_user_id (promo_account a n) = ba_user_id a"
  by (simp add: promo_account_def)

lemma frames_redemptions [frames_rules]:
  "frames (update (\<lambda>d. d\<lparr>promo_redemptions := f (promo_redemptions d)\<rparr>))"
  by (rule frames_update) (simp add: same_books_def)

lemma frames_add_redemption [frames_rules]: "frames (add_redemption r)"
  unfolding add_redemption_def by (rule frames_rules)+

lemma frames_charge_user [frames_rules]: "frames (charge_user uid usd)"
  unfolding charge_user_def Let_def by (rule frames_rules)+

lemma frames_redeem_usd [frames_rules]: "frames (redeem_usd uid p usd src c)"
  unfolding redeem_usd_def Let_def by (rule frames_rules)+

lemma redeem_toman_keeps_books: "keeps_books (redeem_toman uid p n src c)"
  unfolding redeem_toman_def Let_def fst_conv snd_conv
  by (intro keeps_if keeps_raise keeps_account post_one_rule)
     (simp_all add: promo_account_books,
      intro keeps_holding keeps_frames frames_rules conjI impI)

lemma redeem_keeps_books: "keeps_books (redeem_promo_code_for_user uid c usd n src cc)"
  unfolding redeem_promo_code_for_user_def Let_def
  by (intro keeps_rules redeem_toman_keeps_books frames_rules [THEN keeps_frames])

section \<open>Limits\<close>

lemmas leaves_redemptions_defs =
  get_or_create_billing_account_def save_account_def add_ledger_def get_or_create_wallet_def
  the_user_def get_balance_minor_def

lemma leaves_redemptions [leaves_rules]:
  "leaves promo_redemptions (get_or_create_billing_account uid)"
  "leaves promo_redemptions (save_account i a)"
  "leaves promo_redemptions (add_ledger e)"
  "leaves promo_redemptions (apply_credit_delta uid amt ty rs md neg c)"
  "leaves promo_redemptions (charge_user uid usd)"
  unfolding leaves_redemptions_defs apply_credit_delta_def charge_user_def save_user_def Let_def
  by ((rule leaves_rules | (simp; fail))+)

text \<open>A redemption adds one row, for the code and the user.\<close>

definition redemptions_where :: "(int \<Rightarrow> int \<Rightarrow> bool) \<Rightarrow> session \<Rightarrow> int" where
  "redemptions_where Q s =
     t_count (\<lambda>_ r. Q (promo_code_id r) (pr_user_id r)) (promo_redemptions (work s))"

lemma redeem_toman_adds:
  assumes "redeem_toman uid (pid, p) n src cc s = (Inr r, t)"
  shows "redemptions_where Q t = redemptions_where Q s + (if Q pid uid then 1 else 0)"
  using assms
  by (auto simp: redeem_toman_def redemptions_where_def Let_def run_simps add_redemption_def
        t_count_add t_count_put set_t_add
      split: if_splits option.splits prod.splits sum.splits
      dest!: leaves_redemptions(1-3) [THEN leavesD])

lemma redeem_usd_adds:
  assumes "redeem_usd uid (pid, p) usd src cc s = (Inr r, t)"
  shows "redemptions_where Q t = redemptions_where Q s + (if Q pid uid then 1 else 0)"
  using assms
  by (auto simp: redeem_usd_def redemptions_where_def Let_def run_simps add_redemption_def
        t_count_add
      split: if_splits option.splits prod.splits sum.splits
      dest!: leaves_redemptions(4-5) [THEN leavesD])

lemma redeem_success:
  assumes "redeem_promo_code_for_user uid c usd n src cc s = (Inr r, t)"
  shows "\<exists>pid p. (pid, p) \<in> set (promo_codes (work s)) \<and> pc_is_active p \<and>
    code p = normalize_promo_code c \<and>
    (\<forall>m. max_redemptions_total p = Some m \<longrightarrow> redemptions_where (\<lambda>i _. i = pid) s < m) \<and>
    (0 < or0 (max_redemptions_per_user p) \<longrightarrow>
       redemptions_where (\<lambda>i j. i = pid \<and> j = uid) s < or0 (max_redemptions_per_user p)) \<and>
    (redeem_toman uid (pid, p) n src cc s = (Inr r, t) \<or>
     redeem_usd uid (pid, p) usd src cc s = (Inr r, t))"
  using assms
  by (fastforce simp: redeem_promo_code_for_user_def run_simps Let_def count_redemptions_def
      redemptions_where_def not_le
      split: if_splits option.splits prod.splits dest!: t_first_SomeD)

text \<open>
  C5. A promo code is never redeemed beyond its limits: a redemption that succeeds is of an
  active code with the normalized text, adds exactly one redemption of that code by that user,
  and afterwards neither the code's total nor the user's own count exceeds its limit.
\<close>

theorem promo_limits_hold:
  assumes "redeem_promo_code_for_user uid c usd n src cc s = (Inr r, t)"
  shows "\<exists>pid p. (pid, p) \<in> set (promo_codes (work s)) \<and> pc_is_active p \<and>
    code p = normalize_promo_code c \<and>
    redemptions_where (\<lambda>i _. i = pid) t = redemptions_where (\<lambda>i _. i = pid) s + 1 \<and>
    (\<forall>j. j \<noteq> pid \<longrightarrow> redemptions_where (\<lambda>i _. i = j) t = redemptions_where (\<lambda>i _. i = j) s) \<and>
    (\<forall>m. max_redemptions_total p = Some m \<longrightarrow> redemptions_where (\<lambda>i _. i = pid) t \<le> m) \<and>
    (0 < or0 (max_redemptions_per_user p) \<longrightarrow>
       redemptions_where (\<lambda>i j. i = pid \<and> j = uid) t \<le> or0 (max_redemptions_per_user p))"
proof -
  from redeem_success [OF assms] obtain pid p where
    p: "(pid, p) \<in> set (promo_codes (work s))" "pc_is_active p" "code p = normalize_promo_code c"
    and lim: "\<forall>m. max_redemptions_total p = Some m \<longrightarrow> redemptions_where (\<lambda>i _. i = pid) s < m"
      "0 < or0 (max_redemptions_per_user p) \<longrightarrow>
       redemptions_where (\<lambda>i j. i = pid \<and> j = uid) s < or0 (max_redemptions_per_user p)"
    and run: "redeem_toman uid (pid, p) n src cc s = (Inr r, t) \<or>
      redeem_usd uid (pid, p) usd src cc s = (Inr r, t)"
    by blast
  from run have "redemptions_where Q t = redemptions_where Q s + (if Q pid uid then 1 else 0)" for Q
    using redeem_toman_adds redeem_usd_adds by blast
  with p lim show ?thesis by (intro exI [of _ pid] exI [of _ p]) auto
qed

text \<open>Ten percent on a charge of 50000 Toman.\<close>

definition promo_scene :: session where
  "promo_scene = open_session (empty_db\<lparr>
     users := [(1, sample_user)],
     promo_codes := [(4, \<lparr>code = ''BOZ10'', bonus_type = ''percent'', pc_currency = Some ''TOMAN'',
       bonus_value_usd = None, bonus_value_toman = Some 10, minimum_charge_usd = None,
       minimum_charge_toman = Some 10000, max_redemptions_total = Some 1,
       max_redemptions_per_user = Some 1, pc_is_active = True, pc_expires_at = None\<rparr>)]\<rparr>)"

theorem promo_limits_hold_witness:
  "\<exists>r t pid. redeem_promo_code_for_user 1 (Some '' boz 10'') 0 50000 ''account'' True promo_scene =
      (Inr r, t) \<and>
    redemptions_where (\<lambda>i _. i = pid) t = redemptions_where (\<lambda>i _. i = pid) promo_scene + 1"
proof -
  have "case redeem_promo_code_for_user 1 (Some '' boz 10'') 0 50000 ''account'' True promo_scene of
      (Inl e, t) \<Rightarrow> False | (Inr x, t) \<Rightarrow> True"
    by code_simp
  then obtain r t where
    run: "redeem_promo_code_for_user 1 (Some '' boz 10'') 0 50000 ''account'' True promo_scene = (Inr r, t)"
    by (auto split: prod.splits sum.splits)
  from promo_limits_hold [OF this] run show ?thesis by blast
qed

text \<open>
  A code with an expiry date, past or future, can never be redeemed: comparing the two kinds of
  date is a TypeError.
\<close>

lemma expiring_code_never_redeemed:
  assumes "t_first (\<lambda>_ p. code p = normalize_promo_code c) (promo_codes (work s)) = Some (pid, p)"
    and "normalize_promo_code c \<noteq> []" and "pc_is_active p" and "pc_expires_at p = Some e"
  shows "redeem_promo_code_for_user uid c usd n src cc s =
    (Inl (TypeError ''can't compare offset-naive and offset-aware datetimes''), s)"
  using assms by (simp add: redeem_promo_code_for_user_def run_simps)

end
