(* ===== verification/Group_Billing.thy ===== *)
theory Group_Billing
  imports Wallet
begin

text \<open>
  \<open>pbozi/backend/app/services/group_billing_service.py\<close>: what starts the assistant in a
  group, who shares the cost of a group request and how, whether everybody can pay, and the
  record of a group request. Text is ASCII: the Persian letters and punctuation the source adds
  do not occur.
\<close>

section \<open>Triggers\<close>

definition DEFAULT_GROUP_TRIGGER_PHRASES :: "string list" where
  "DEFAULT_GROUP_TRIGGER_PHRASES = [''hey doctor boz'']"

definition TRIGGER_PUNCTUATION :: "char list" where
  "TRIGGER_PUNCTUATION =
  [CHR '' '', CHR 0x09, CHR 0x0D, CHR 0x0A, CHR '':'', CHR '','', CHR ''-'', CHR ''!'', CHR ''?'', CHR ''.'']"

fun words_from :: "string \<Rightarrow> string \<Rightarrow> string list" where
  "words_from cur [] = (if cur = [] then [] else [rev cur])"
| "words_from cur (c # cs) =
     (if is_space c then (if cur = [] then words_from [] cs else rev cur # words_from [] cs)
      else words_from (c # cur) cs)"

text \<open>\<open>" ".join(words)\<close>.\<close>

abbreviation join_words :: "string list \<Rightarrow> string" where
  "join_words \<equiv> join_with '' ''"

definition collapse_spaces :: "string \<Rightarrow> string" where
  "collapse_spaces s = join_words (words_from [] (strip s))"

text \<open>The loop over the phrases: cleaned, non-empty, each once, in order.\<close>

fun clean_phrases :: "string list \<Rightarrow> json list \<Rightarrow> string list" where
  "clean_phrases seen [] = []"
| "clean_phrases seen (JStr p # ps) =
     (let cleaned = lower (collapse_spaces p) in
      if cleaned = [] \<or> cleaned \<in> set seen then clean_phrases seen ps
      else cleaned # clean_phrases (cleaned # seen) ps)"
| "clean_phrases seen (_ # ps) = clean_phrases seen ps"

definition normalize_trigger_phrases :: "json list option \<Rightarrow> json list option \<Rightarrow> string list" where
  "normalize_trigger_phrases raw fallback =
     (let source = (case raw of Some ps \<Rightarrow> ps
                    | None \<Rightarrow> (case fallback of Some ps \<Rightarrow> ps
                              | None \<Rightarrow> map JStr DEFAULT_GROUP_TRIGGER_PHRASES));
          normalized = clean_phrases [] source
      in if normalized \<noteq> [] then normalized
         else clean_phrases [] (map JStr DEFAULT_GROUP_TRIGGER_PHRASES))"

fun find_trigger :: "string \<Rightarrow> string list \<Rightarrow> (string \<times> string) option" where
  "find_trigger txt [] = None"
| "find_trigger txt (t # ts) =
     (let lowered = lower txt in
      if lowered = t then Some (t, [])
      else if \<not> starts_with lowered t then find_trigger txt ts
      else if length t < length lowered \<and> \<not> is_space (lowered ! length t) \<and>
              lowered ! length t \<notin> set TRIGGER_PUNCTUATION
      then find_trigger txt ts
      else Some (t, dropWhile (\<lambda>c. c \<in> set TRIGGER_PUNCTUATION) (drop (length t) txt)))"

definition detect_group_trigger :: "string option \<Rightarrow> json list option \<Rightarrow> (string \<times> string) option" where
  "detect_group_trigger txt phrases =
     (let normalized_text = collapse_spaces (str_or txt []) in
      if normalized_text = [] then None
      else find_trigger normalized_text (normalize_trigger_phrases phrases None))"

section \<open>Splitting a cost\<close>

definition list_active_billing_members :: "int \<Rightarrow> telegram_group_member obj list act" where
  "list_active_billing_members gid =
     query (\<lambda>d. sort_key (\<lambda>(i, m). (m_user_id m, i))
       (t_select (\<lambda>_ m. m_group_id m = gid \<and> m_status m = ''active'' \<and> shared_billing_enabled m)
         (group_members d)))"

definition split_cost_minor_with_remainder_rule ::
  "int \<Rightarrow> int list \<Rightarrow> int option \<Rightarrow> (int \<times> int) list" where
  "split_cost_minor_with_remainder_rule total_cost user_ids remainder_user =
     (let ordered_ids = sort (remdups (filter (\<lambda>u. 0 < u) user_ids)) in
      case ordered_ids of
        [] \<Rightarrow> []
      | first # _ \<Rightarrow>
          let total = max 0 total_cost;
              n = int (length ordered_ids);
              base_share = total div n;
              remainder = total mod n;
              anchor = (case remainder_user of None \<Rightarrow> first
                        | Some u \<Rightarrow> if u \<in> set ordered_ids then u else first)
          in if remainder \<le> 0 then map (\<lambda>u. (u, base_share)) ordered_ids
             else map (\<lambda>u. (u, base_share + (if u = anchor then remainder else 0))) ordered_ids)"

section \<open>The precheck\<close>

record billing_precheck_member =
  bm_user_id :: int
  bm_telegram_user_id :: "int option"
  required_share_minor :: int
  bm_balance_minor :: int
  bm_has_credit :: bool
  bm_is_admin :: bool

record billing_precheck_result =
  bp_ok :: bool
  bp_reason :: "string option"
  bp_estimated_cost_minor :: int
  bp_split_member_count :: int
  shares_minor :: "(int \<times> int) list"
  bp_members :: "billing_precheck_member list"

definition refused_precheck :: "string \<Rightarrow> int \<Rightarrow> int \<Rightarrow> billing_precheck_result" where
  "refused_precheck reason cost n =
     \<lparr>bp_ok = False, bp_reason = Some reason, bp_estimated_cost_minor = max 0 cost,
      bp_split_member_count = n, shares_minor = [], bp_members = []\<rparr>"

definition precheck_member ::
  "(int \<times> int) list \<Rightarrow> telegram_group_member obj \<Rightarrow> billing_precheck_member act" where
  "precheck_member shares = (\<lambda>(_, m).
     let required = or0 (map_of shares (m_user_id m)) in
     bind (query (\<lambda>d. t_get (users d) (m_user_id m))) (\<lambda>user.
     case user of
       None \<Rightarrow> ret \<lparr>bm_user_id = m_user_id m, bm_telegram_user_id = m_telegram_user_id m,
                   required_share_minor = required, bm_balance_minor = 0, bm_has_credit = False,
                   bm_is_admin = False\<rparr>
     | Some u \<Rightarrow>
         bind (get_balance_minor (m_user_id m)) (\<lambda>balance.
         bind (has_credit (m_user_id m) required) (\<lambda>can_pay.
         ret \<lparr>bm_user_id = m_user_id m, bm_telegram_user_id = telegram_user_id u,
              required_share_minor = required, bm_balance_minor = balance,
              bm_has_credit = can_pay, bm_is_admin = is_admin u\<rparr>))))"

definition estimate_split_and_strict_precheck ::
  "int \<Rightarrow> int \<Rightarrow> int option \<Rightarrow> billing_precheck_result act" where
  "estimate_split_and_strict_precheck gid cost remainder_user =
     bind (query (\<lambda>d. t_get (telegram_groups d) gid)) (\<lambda>group.
     case group of
       None \<Rightarrow> ret (refused_precheck ''group_not_found'' cost 0)
     | Some g \<Rightarrow>
       if lower (str_or (g_status g) []) \<noteq> ''active''
       then ret (refused_precheck ''group_inactive'' cost 0)
       else
         bind (list_active_billing_members gid) (\<lambda>members.
         let n = int (length members) in
         if n < max 1 (if or0 (min_active_members g) = 0 then 1 else or0 (min_active_members g))
         then ret (refused_precheck ''not_enough_active_members'' cost n)
         else
           let shares = split_cost_minor_with_remainder_rule cost
                          (map (\<lambda>(_, m). m_user_id m) members) remainder_user
           in bind (for_each (precheck_member shares) members) (\<lambda>states.
              let all_ok = list_all bm_has_credit states
              in ret \<lparr>bp_ok = all_ok,
                      bp_reason = (if all_ok then None else Some ''insufficient_credit_member''),
                      bp_estimated_cost_minor = max 0 cost, bp_split_member_count = n,
                      shares_minor = shares, bp_members = states\<rparr>)))"

section \<open>The record of a group request\<close>

record group_usage_share_input =
  gi_user_id :: int
  gi_estimated_share_minor :: int
  gi_actual_share_minor :: int
  gi_ledger_entry_id :: "int option"
  gi_status :: string
  gi_error :: "string option"
  gi_metadata_json :: "dict option"
  gi_completed_at :: "instant option"

definition COMPLETED_SHARE_STATUSES :: "string list" where
  "COMPLETED_SHARE_STATUSES = [''posted'', ''charged'', ''completed'']"

definition share_row ::
  "instant \<Rightarrow> int \<Rightarrow> int \<Rightarrow> group_usage_share_input \<Rightarrow> group_usage_share" where
  "share_row now eid gid i =
     \<lparr>group_usage_event_id = eid, gs_group_id = gid, gs_user_id = gi_user_id i,
      gs_ledger_entry_id = gi_ledger_entry_id i,
      gs_estimated_share_minor = max 0 (gi_estimated_share_minor i),
      gs_actual_share_minor = max 0 (gi_actual_share_minor i),
      gs_status = gi_status i, gs_error = gi_error i,
      gs_metadata_json = (case gi_metadata_json i of None \<Rightarrow> [] | Some m \<Rightarrow> m),
      gs_completed_at =
        (if gi_completed_at i = None \<and> gi_status i \<in> set COMPLETED_SHARE_STATUSES then Some now
         else gi_completed_at i)\<rparr>"

definition add_share :: "group_usage_share \<Rightarrow> group_usage_share obj act" where
  "add_share r =
     bind (query (\<lambda>d. t_next (group_usage_shares d))) (\<lambda>k.
     andthen (update (\<lambda>d. d\<lparr>group_usage_shares := t_add r (group_usage_shares d)\<rparr>)) (ret (k, r)))"

text \<open>
  \<open>event\<close> is the row built from the arguments, without the fields the function computes.
  \<open>request_id\<close> is a unique column.
\<close>

definition event_row :: "instant \<Rightarrow> group_usage_event \<Rightarrow> int \<Rightarrow> group_usage_event" where
  "event_row now e n =
     e\<lparr>ge_estimated_cost_minor := max 0 (ge_estimated_cost_minor e),
       ge_actual_cost_minor := max 0 (ge_actual_cost_minor e),
       split_member_count := n,
       ge_completed_at :=
         (if ge_status e \<in> set [''completed'', ''failed'', ''billing_failed''] then Some now else None)\<rparr>"

definition persist_group_usage_event_and_shares ::
  "instant \<Rightarrow> group_usage_event \<Rightarrow> group_usage_share_input list \<Rightarrow> bool \<Rightarrow>
   (group_usage_event obj \<times> group_usage_share obj list) act" where
  "persist_group_usage_event_and_shares now event shares do_commit =
     bind (query (\<lambda>d. if str_or (request_id event) [] = [] then None
                      else t_first (\<lambda>_ e. request_id e = request_id event) (group_usage_events d)))
       (\<lambda>existing.
     case existing of
       Some (eid, e) \<Rightarrow>
         bind (query (\<lambda>d. t_select (\<lambda>_ r. group_usage_event_id r = eid) (group_usage_shares d)))
           (\<lambda>rows. ret ((eid, e), rows))
     | None \<Rightarrow>
         let row = event_row now event (int (length shares)) in
         bind (query (\<lambda>d. request_id event \<noteq> None \<and>
                          t_first (\<lambda>_ e. request_id e = request_id event) (group_usage_events d) \<noteq> None))
           (\<lambda>taken.
         if taken then andthen rollback (raise IntegrityError)
         else
           bind (query (\<lambda>d. t_next (group_usage_events d))) (\<lambda>eid.
           andthen (update (\<lambda>d. d\<lparr>group_usage_events := t_add row (group_usage_events d)\<rparr>))
           (bind (for_each (\<lambda>i. add_share (share_row now eid (ge_group_id event) i)) shares) (\<lambda>rows.
            andthen (on_cond do_commit commit) (ret ((eid, row), rows)))))))"

section \<open>Properties of the split\<close>

lemma sum_list_const: "sum_list (map (\<lambda>_. c) xs) = int (length xs) * (c :: int)"
  by (induction xs) (simp_all add: algebra_simps)

lemma sum_list_bonus:
  "distinct xs \<Longrightarrow> a \<in> set xs \<Longrightarrow>
    sum_list (map (\<lambda>u. b + (if u = a then r else 0)) xs) = int (length xs) * b + (r :: int)"
proof (induction xs)
  case (Cons x xs)
  show ?case
  proof (cases "x = a")
    case True
    with Cons.prems have "a \<notin> set xs" by simp
    then have "map (\<lambda>u. b + (if u = a then r else 0)) xs = map (\<lambda>_. b) xs" by auto
    then have "sum_list (map (\<lambda>u. b + (if u = a then r else 0)) xs) = int (length xs) * b"
      by (simp only: sum_list_const)
    with True show ?thesis by (simp add: algebra_simps)
  next
    case False
    with Cons show ?thesis by (simp add: algebra_simps)
  qed
qed simp

text \<open>
  C6. The split loses nothing: with at least one billable member the shares add up to the cost
  exactly, every billable member has one share, no share is negative, and two shares differ by
  less than the number of members, and then only at the one member who takes the remainder.
\<close>

theorem split_is_exact_and_fair:
  assumes "\<exists>u \<in> set ids. 0 < u"
  shows "let sh = split_cost_minor_with_remainder_rule cost ids rmd in
    sum_list (map snd sh) = max 0 cost \<and>
    distinct (map fst sh) \<and> set (map fst sh) = {u \<in> set ids. 0 < u} \<and>
    (\<exists>base anchor. 0 \<le> base \<and> (\<forall>(u, x) \<in> set sh.
       if u = anchor then base \<le> x \<and> x < base + int (length sh) else x = base))"
proof -
  define sh where "sh = split_cost_minor_with_remainder_rule cost ids rmd"
  define os where "os = sort (remdups (filter (\<lambda>u. 0 < u) ids))"
  have os: "distinct os" "set os = {u \<in> set ids. 0 < u}" by (auto simp: os_def)
  obtain u where "u \<in> set ids" "0 < u" using assms by blast
  then have "u \<in> set os" by (simp add: os(2))
  then have "os \<noteq> []" by (cases os) simp_all
  then obtain f fs where fs: "os = f # fs" by (cases os) auto
  define n where "n = int (length os)"
  define a where "a = (case rmd of None \<Rightarrow> f | Some u \<Rightarrow> if u \<in> set os then u else f)"
  define q r where "q = max 0 cost div n" and "r = max 0 cost mod n"
  have n: "0 < n" by (simp add: n_def fs)
  have a: "a \<in> set os" by (auto simp: a_def fs split: option.split)
  have r: "0 \<le> r" "r < n" and q: "0 \<le> q" and qr: "n * q + r = max 0 cost"
    using n by (simp_all add: q_def r_def pos_imp_zdiv_nonneg_iff)
  have "sh = (if r \<le> 0 then map (\<lambda>u. (u, q)) os
              else map (\<lambda>u. (u, q + (if u = a then r else 0))) os)"
    unfolding sh_def split_cost_minor_with_remainder_rule_def Let_def os_def [symmetric]
    by (simp only: fs list.case a_def q_def r_def n_def)
  then have sh: "sh = map (\<lambda>u. (u, q + (if u = a then r else 0))) os"
    using r(1) by (cases "r = 0") simp_all
  have fst_sh: "map fst sh = os" by (simp add: sh comp_def)
  have "sum_list (map snd sh) = n * q + r"
    using sum_list_bonus [OF os(1) a] by (simp add: sh comp_def n_def)
  then have "sum_list (map snd sh) = max 0 cost" by (simp add: qr)
  moreover have "\<forall>(u, x) \<in> set sh. if u = a then q \<le> x \<and> x < q + int (length sh) else x = q"
    using r by (auto simp: sh n_def)
  ultimately show ?thesis
    unfolding Let_def sh_def [symmetric] fst_sh using os q by blast
qed

theorem split_is_exact_and_fair_witness:
  "split_cost_minor_with_remainder_rule 1000 [7, 3, 0, 3, 5] (Some 5) = [(3, 333), (5, 334), (7, 333)] \<and>
   sum_list (map snd (split_cost_minor_with_remainder_rule 1000 [7, 3, 0, 3, 5] (Some 5))) = 1000"
proof -
  have "\<exists>u \<in> set [7, 3, 0, 3, 5 :: int]. 0 < u" by simp
  from split_is_exact_and_fair [OF this, where cost = 1000 and rmd = "Some 5"]
  have "sum_list (map snd (split_cost_minor_with_remainder_rule 1000 [7, 3, 0, 3, 5] (Some 5))) = 1000"
    by (simp add: Let_def)
  moreover have "split_cost_minor_with_remainder_rule 1000 [7, 3, 0, 3, 5] (Some 5) =
      [(3, 333), (5, 334), (7, 333)]" by code_simp
  ultimately show ?thesis by simp
qed

section \<open>Properties of the precheck\<close>

text \<open>The wallets a precheck opens change nobody's balance.\<close>

definition same_money :: "db \<Rightarrow> session \<Rightarrow> bool" where
  "same_money d s \<longleftrightarrow> users (work s) = users d \<and> balance_of (work s) = balance_of d"

lemma balance_of_open_any:
  assumes "t_get (users d) uid = Some u"
  shows "balance_of (open_wallet uid u d) = balance_of d"
proof
  fix v
  show "balance_of (open_wallet uid u d) v = balance_of d v"
  proof (cases "v = uid")
    case True
    then show ?thesis using balance_of_opened [OF assms] by simp
  next
    case False
    then have "wallet_of (open_wallet uid u d) v = wallet_of d v"
      by (auto simp: open_wallet_def wallet_of_def t_first_add new_wallet_def split: option.split)
    then show ?thesis unfolding balance_of_def open_wallet_simps by simp
  qed
qed

lemma get_balance_minor_rule:
  assumes "t_get (users d) uid = Some u"
  shows "hoare (same_money d) (get_balance_minor uid)
    (\<lambda>b s. same_money d s \<and> b = balance_of d uid) (\<lambda>_ _. False)"
proof (rule hoareI)
  fix s assume i: "same_money d s"
  then have u: "t_get (users (work s)) uid = Some u" using assms by (simp add: same_money_def)
  obtain wid w where w: "the (wallet_of (open_wallet uid u (work s)) uid) = (wid, w)" by fastforce
  show "case get_balance_minor uid s of (Inl e, s') \<Rightarrow> False
      | (Inr b, s') \<Rightarrow> same_money d s' \<and> b = balance_of d uid"
    using i balance_of_open [OF u w] balance_of_open_any [OF u]
    by (simp add: get_balance_minor_def run_simps get_or_create_wallet_run [OF u] w same_money_def)
qed

lemma has_credit_rule:
  assumes "t_get (users d) uid = Some u"
  shows "hoare (same_money d) (has_credit uid n)
    (\<lambda>b s. same_money d s \<and> b = (is_admin u \<or> n \<le> balance_of d uid)) (\<lambda>_ _. False)"
proof -
  have pos: "0 \<le> balance_of d uid" by (simp add: balance_of_def split: option.split)
  have user: "hoare (same_money d) (the_user uid) (\<lambda>v s. v = u \<and> same_money d s) (\<lambda>_ _. False)"
    using assms by (simp add: hoare_def the_user_run same_money_def)
  show ?thesis
    unfolding has_credit_def
    using pos by (intro hoare_bind [OF user] hoareI)
       (auto simp: run_simps dest: hoareD [OF get_balance_minor_rule [OF assms]]
          hoareE [OF get_balance_minor_rule [OF assms]] split: prod.splits sum.splits)
qed

lemma precheck_member_rule:
  "hoare (same_money d) (precheck_member sh (i, m))
    (\<lambda>st s. same_money d s \<and> bm_has_credit st =
       (case t_get (users d) (m_user_id m) of
          None \<Rightarrow> False
        | Some u \<Rightarrow> is_admin u \<or> or0 (map_of sh (m_user_id m)) \<le> balance_of d (m_user_id m)))
    (\<lambda>_ _. False)"
proof (cases "t_get (users d) (m_user_id m)")
  case None
  then show ?thesis
    by (intro hoareI) (simp add: precheck_member_def Let_def run_simps same_money_def)
next
  case (Some u)
  note b = get_balance_minor_rule [OF Some] and c = has_credit_rule [OF Some]
  have u: "t_get (users (work s)) (m_user_id m) = Some u" if "same_money d s" for s
    using that Some by (simp add: same_money_def)
  show ?thesis
    by (rule hoareI)
       (auto simp: precheck_member_def Let_def run_simps u Some split: prod.splits sum.splits
          dest!: hoareD [OF b, rotated] hoareE [OF b, rotated] hoareD [OF c, rotated]
            hoareE [OF c, rotated])
qed

lemma hoare_for_each_all:
  assumes "\<And>x. hoare I (f x) (\<lambda>y s. I s \<and> P x y) E"
  shows "hoare I (for_each f xs) (\<lambda>ys s. I s \<and> list_all2 P xs ys) E"
proof (induction xs)
  case Nil
  show ?case unfolding for_each.simps by (rule hoare_ret) simp
next
  case (Cons x xs)
  show ?case
    unfolding for_each.simps
  proof (rule hoare_bind [OF assms])
    fix y
    show "hoare (\<lambda>s. I s \<and> P x y) (bind (for_each f xs) (\<lambda>ys. ret (y # ys)))
        (\<lambda>ys s. I s \<and> list_all2 P (x # xs) ys) E"
    proof (rule hoare_bind)
      show "hoare (\<lambda>s. I s \<and> P x y) (for_each f xs) (\<lambda>ys s. (I s \<and> list_all2 P xs ys) \<and> P x y) E"
        using Cons.IH by (auto simp: hoare_def split: prod.splits sum.splits)
    qed (auto intro!: hoare_ret)
  qed
qed

lemma precheck_states:
  "hoare (same_money d) (for_each (precheck_member sh) ms)
    (\<lambda>sts s. same_money d s \<and> list_all2 (\<lambda>(i, m) st. bm_has_credit st =
       (case t_get (users d) (m_user_id m) of
          None \<Rightarrow> False
        | Some u \<Rightarrow> is_admin u \<or> or0 (map_of sh (m_user_id m)) \<le> balance_of d (m_user_id m))) ms sts)
    (\<lambda>_ _. False)"
  using hoare_for_each_all [where f = "precheck_member sh" and I = "same_money d"
      and E = "\<lambda>_ _. False"] precheck_member_rule by fastforce

definition billing_members :: "int \<Rightarrow> db \<Rightarrow> telegram_group_member obj list" where
  "billing_members gid d =
     t_select (\<lambda>_ m. m_group_id m = gid \<and> m_status m = ''active'' \<and> shared_billing_enabled m)
       (group_members d)"

text \<open>
  The precheck is strict: it never raises and changes nobody's balance, and when it answers
  yes, every billing member of the group exists and is an administrator or owns at least the
  share the answer states for them.
\<close>

theorem precheck_ok_means_all_can_pay:
  assumes "estimate_split_and_strict_precheck gid cost rmd s = (Inr r, t)" and "bp_ok r"
  shows "users (work t) = users (work s) \<and> balance_of (work t) = balance_of (work s) \<and>
    shares_minor r = split_cost_minor_with_remainder_rule cost
      (map (\<lambda>(_, m). m_user_id m) (sort_key (\<lambda>(i, m). (m_user_id m, i)) (billing_members gid (work s)))) rmd \<and>
    (\<forall>(i, m) \<in> set (billing_members gid (work s)). \<exists>u.
       t_get (users (work s)) (m_user_id m) = Some u \<and>
       (is_admin u \<or> or0 (map_of (shares_minor r) (m_user_id m)) \<le> balance_of (work s) (m_user_id m)))"
proof -
  let ?ms = "sort_key (\<lambda>(i, m). (m_user_id m, i)) (billing_members gid (work s))"
  let ?sh = "split_cost_minor_with_remainder_rule cost (map (\<lambda>(_, m). m_user_id m) ?ms) rmd"
  from assms obtain sts where run: "for_each (precheck_member ?sh) ?ms s = (Inr sts, t)"
    and sts: "list_all bm_has_credit sts" and sh: "shares_minor r = ?sh"
    by (auto simp: estimate_split_and_strict_precheck_def run_simps Let_def refused_precheck_def
        list_active_billing_members_def billing_members_def
        split: option.splits if_splits prod.splits sum.splits)
  have "same_money (work s) s" by (simp add: same_money_def)
  from hoareD [OF precheck_states this run]
  have t: "same_money (work s) t" and all: "list_all2 (\<lambda>(i, m) st. bm_has_credit st =
       (case t_get (users (work s)) (m_user_id m) of
          None \<Rightarrow> False
        | Some u \<Rightarrow> is_admin u \<or> or0 (map_of ?sh (m_user_id m)) \<le> balance_of (work s) (m_user_id m))) ?ms sts"
    by auto
  have "\<exists>u. t_get (users (work s)) (m_user_id m) = Some u \<and>
      (is_admin u \<or> or0 (map_of ?sh (m_user_id m)) \<le> balance_of (work s) (m_user_id m))"
    if "(i, m) \<in> set (billing_members gid (work s))" for i m
  proof -
    from that have "(i, m) \<in> set ?ms" by simp
    then obtain k where k: "k < length ?ms" "?ms ! k = (i, m)" by (metis in_set_conv_nth)
    with all sts have "case t_get (users (work s)) (m_user_id m) of None \<Rightarrow> False
        | Some u \<Rightarrow> is_admin u \<or> or0 (map_of ?sh (m_user_id m)) \<le> balance_of (work s) (m_user_id m)"
      by (auto simp: list_all2_conv_all_nth list_all_length)
    then show ?thesis by (auto split: option.splits)
  qed
  with t sh show ?thesis by (auto simp: same_money_def)
qed

text \<open>Two members share 600000 micro-dollars; both have half a dollar.\<close>

definition group_scene :: session where
  "group_scene = open_session (empty_db\<lparr>
     users := [(1, sample_user), (2, sample_user\<lparr>telegram_user_id := Some 701\<rparr>)],
     telegram_groups := [(9, \<lparr>g_telegram_chat_id = 50, g_title = None, g_chat_type = ''group'',
       trigger_phrases_json = JNull, g_created_by_user_id = None, g_status = Some ''active'', min_active_members = Some 2\<rparr>)],
     group_members := [
       (1, \<lparr>m_group_id = 9, m_user_id = 1, m_telegram_user_id = Some 700, m_status = ''active'',
            shared_billing_enabled = True, last_opt_in_at = None, last_opt_out_at = None\<rparr>),
       (2, \<lparr>m_group_id = 9, m_user_id = 2, m_telegram_user_id = Some 701, m_status = ''active'',
            shared_billing_enabled = True, last_opt_in_at = None, last_opt_out_at = None\<rparr>)]\<rparr>)"

theorem precheck_ok_means_all_can_pay_witness:
  "case estimate_split_and_strict_precheck 9 600000 None group_scene of
     (Inl e, t) \<Rightarrow> False
   | (Inr r, t) \<Rightarrow> bp_ok r \<and> balance_of (work t) = balance_of (work group_scene)"
proof -
  have "case estimate_split_and_strict_precheck 9 600000 None group_scene of
      (Inl e, t) \<Rightarrow> False | (Inr r, t) \<Rightarrow> bp_ok r"
    by code_simp
  then obtain r t where run: "estimate_split_and_strict_precheck 9 600000 None group_scene = (Inr r, t)"
    and ok: "bp_ok r"
    by (auto split: prod.splits sum.splits)
  from precheck_ok_means_all_can_pay [OF run ok] run ok show ?thesis by simp
qed

section \<open>Properties of the record and of triggers\<close>

lemma add_share_run:
  "add_share r s = (Inr (t_next (group_usage_shares (work s)), r),
    s\<lparr>work := (work s)\<lparr>group_usage_shares := t_add r (group_usage_shares (work s))\<rparr>\<rparr>)"
  by (simp add: add_share_def run_simps)

lemma add_shares_run:
  "\<exists>rows. for_each (\<lambda>i. add_share (f i)) is s = (Inr rows, s\<lparr>work := (work s)\<lparr>group_usage_shares :=
     foldl (\<lambda>t i. t_add (f i) t) (group_usage_shares (work s)) is\<rparr>\<rparr>) \<and> map snd rows = map f is"
proof (induction "is" arbitrary: s)
  case (Cons i js)
  let ?s = "s\<lparr>work := (work s)\<lparr>group_usage_shares := t_add (f i) (group_usage_shares (work s))\<rparr>\<rparr>"
  from Cons.IH [of ?s] obtain rows where
    "for_each (\<lambda>i. add_share (f i)) js ?s = (Inr rows, ?s\<lparr>work := (work ?s)\<lparr>group_usage_shares :=
       foldl (\<lambda>t i. t_add (f i) t) (group_usage_shares (work ?s)) js\<rparr>\<rparr>)" "map snd rows = map f js"
    by blast
  then show ?case by (simp add: run_simps add_share_run [of "f i" s])
qed (simp add: run_simps)

text \<open>
  A group request with a request id is recorded once: recording it again, with whatever
  other data, returns the event of the first time and writes nothing.
\<close>

theorem group_request_recorded_once:
  assumes "persist_group_usage_event_and_shares now ev shs c s = (Inr ((eid, e), rows), t)"
    and "request_id ev = Some k" and "k \<noteq> []" and "request_id ev' = Some k"
  shows "case persist_group_usage_event_and_shares now' ev' shs' c' t of
     (Inl _, _) \<Rightarrow> False
   | (Inr ((eid', e'), _), t') \<Rightarrow> (eid', e') = (eid, e) \<and> t' = t"
proof -
  have "t_first (\<lambda>_ x. request_id x = Some k) (group_usage_events (work t)) = Some (eid, e)"
  proof (cases "t_first (\<lambda>_ x. request_id x = Some k) (group_usage_events (work s))")
    case (Some x)
    then show ?thesis using assms(1-3)
      by (simp add: persist_group_usage_event_and_shares_def run_simps str_or_def Let_def
          split: prod.splits list.splits)
  next
    case None
    let ?row = "event_row now ev (int (length shs))"
    let ?s = "s\<lparr>work := (work s)\<lparr>group_usage_events := t_add ?row (group_usage_events (work s))\<rparr>\<rparr>"
    obtain rows' where rows': "for_each (\<lambda>i. add_share (share_row now (t_next (group_usage_events (work s)))
        (ge_group_id ev) i)) shs ?s = (Inr rows', ?s\<lparr>work := (work ?s)\<lparr>group_usage_shares :=
        foldl (\<lambda>t i. t_add (share_row now (t_next (group_usage_events (work s))) (ge_group_id ev) i) t)
          (group_usage_shares (work ?s)) shs\<rparr>\<rparr>)"
      using add_shares_run by blast
    have row: "request_id ?row = Some k" using assms(2) by (simp add: event_row_def)
    show ?thesis using assms(1-3) None rows' row
      by (auto simp: persist_group_usage_event_and_shares_def run_simps str_or_def Let_def
          t_first_add split: list.splits if_splits)
  qed
  with assms(3,4) show ?thesis
    by (simp add: persist_group_usage_event_and_shares_def run_simps str_or_def split: list.splits)
qed

text \<open>One request for two members, delivered twice; the second time with no shares at all.\<close>

definition request_scene :: group_usage_event where
  "request_scene =
     \<lparr>ge_group_id = 9, ge_usage_event_id = None, triggered_by_user_id = Some 1,
      request_id = Some ''r1'', telegram_chat_id = None, telegram_message_id = None,
      operation_type = ''chat'', ge_estimated_cost_minor = 500, ge_actual_cost_minor = 400,
      split_member_count = 0, ge_status = ''completed'', ge_error = None, ge_metadata_json = [],
      ge_completed_at = None\<rparr>"

definition share_scene :: "int \<Rightarrow> group_usage_share_input" where
  "share_scene u =
     \<lparr>gi_user_id = u, gi_estimated_share_minor = 250, gi_actual_share_minor = 200,
      gi_ledger_entry_id = None, gi_status = ''charged'', gi_error = None,
      gi_metadata_json = None, gi_completed_at = None\<rparr>"

theorem group_request_recorded_once_witness:
  "case persist_group_usage_event_and_shares 5 request_scene [share_scene 1, share_scene 2] True
      group_scene of
     (Inl _, _) \<Rightarrow> False
   | (Inr _, t) \<Rightarrow>
       snd (persist_group_usage_event_and_shares 9 request_scene [] True t) = t \<and>
       length (group_usage_shares (work t)) = 2"
proof -
  let ?m = "persist_group_usage_event_and_shares 5 request_scene [share_scene 1, share_scene 2] True"
  have first: "case ?m group_scene of (Inl _, _) \<Rightarrow> False
      | (Inr _, t) \<Rightarrow> length (group_usage_shares (work t)) = 2"
    by code_simp
  then obtain eid e rows t where run: "?m group_scene = (Inr ((eid, e), rows), t)"
    by (auto split: prod.splits sum.splits)
  have "request_id request_scene = Some ''r1''" by (simp add: request_scene_def)
  from group_request_recorded_once [OF run this _ this, of 9 "[]" True] first run show ?thesis
    by (auto split: prod.splits sum.splits)
qed

end
