(* ===== verification/Link_Codes.thy ===== *)
theory Link_Codes
  imports Models
begin

text \<open>
  \<open>pbozi/backend/app/link_code_routes.py\<close>: one-time codes that link a web account to a
  Telegram user, and the in-memory rate limiter in front of their validation. The code drawn by
  \<open>secrets.choice\<close> and the clock are arguments; the limiter's store is passed and returned.
\<close>

section \<open>The rate limiter\<close>

definition RATE_LIMIT_WINDOW :: "int" where
  "RATE_LIMIT_WINDOW = microseconds 60"

definition RATE_LIMIT_MAX_ATTEMPTS :: "nat" where
  "RATE_LIMIT_MAX_ATTEMPTS = (10 :: nat)"

type_synonym rate_limit_store = "string \<Rightarrow> (instant \<times> string) list"

definition check_rate_limit ::
  "instant \<Rightarrow> string \<Rightarrow> string \<Rightarrow> rate_limit_store \<Rightarrow> bool \<times> rate_limit_store" where
  "check_rate_limit now client_ip c store =
     (let entries = filter (\<lambda>(ts, _). now - ts < RATE_LIMIT_WINDOW) (store client_ip) in
      if RATE_LIMIT_MAX_ATTEMPTS \<le> length entries then (False, store(client_ip := entries))
      else (True, store(client_ip := entries @ [(now, c)])))"

section \<open>Creating and validating\<close>

record link_code_out =
  lo_code :: string
  lo_expires_at :: instant
  lo_user_name :: string

record link_code_validate_response =
  lv_telegram_user_id :: "int option"
  lv_first_name :: "string option"
  lv_username :: "string option"
  lv_is_admin :: bool
  lv_is_pro :: bool
  lv_preferred_name :: "string option"

definition code_live :: "instant \<Rightarrow> link_code \<Rightarrow> bool" where
  "code_live now c \<longleftrightarrow> \<not> used c \<and> now < lc_expires_at c"

definition retire_codes :: "instant \<Rightarrow> int \<Rightarrow> link_code table \<Rightarrow> link_code table" where
  "retire_codes now uid t =
     map (\<lambda>(i, c). (i, if user_preference_id c = uid \<and> code_live now c then c\<lparr>used := True\<rparr> else c)) t"

definition display_name :: "int \<Rightarrow> user_preference \<Rightarrow> string" where
  "display_name tg u =
     str_or (preferred_name u) (str_or (first_name u) (str_or (username u) (''User '' @ str_int tg)))"

definition create_link_code :: "instant \<Rightarrow> int \<Rightarrow> string \<Rightarrow> link_code_out act" where
  "create_link_code now tg drawn =
     bind (bind (query (\<lambda>d. t_select (\<lambda>_ u. telegram_user_id u = Some tg) (users d)))
             scalar_one_or_none) (\<lambda>found.
     case found of
       None \<Rightarrow> raise (HTTPException 404 ''User not found'')
     | Some (uid, u) \<Rightarrow>
         andthen (update (\<lambda>d. d\<lparr>link_codes := retire_codes now uid (link_codes d)\<rparr>))
         (bind (query (\<lambda>d. t_first (\<lambda>_ c. lc_code c = drawn) (link_codes d))) (\<lambda>taken.
          if taken \<noteq> None then andthen rollback (raise IntegrityError)
          else
            let row = \<lparr>lc_code = drawn, user_preference_id = uid,
                       lc_expires_at = now + microseconds 300, used = False\<rparr>
            in andthen (update (\<lambda>d. d\<lparr>link_codes := t_add row (link_codes d)\<rparr>))
               (andthen commit
               (ret \<lparr>lo_code = drawn, lo_expires_at = lc_expires_at row,
                     lo_user_name = display_name tg u\<rparr>)))))"

definition redeem_link_code :: "instant \<Rightarrow> string \<Rightarrow> link_code_validate_response act" where
  "redeem_link_code now c =
     bind (bind (query (\<lambda>d. t_select (\<lambda>_ x. lc_code x = c \<and> code_live now x) (link_codes d)))
             scalar_one_or_none) (\<lambda>found.
     case found of
       None \<Rightarrow> raise (HTTPException 404 ''Invalid or expired code'')
     | Some (lid, x) \<Rightarrow>
     bind (query (\<lambda>d. t_get (users d) (user_preference_id x))) (\<lambda>user.
     case user of
       None \<Rightarrow> raise (HTTPException 404 ''User not found'')
     | Some u \<Rightarrow>
         andthen (update (\<lambda>d. d\<lparr>link_codes := t_put lid (x\<lparr>used := True\<rparr>) (link_codes d)\<rparr>))
         (andthen commit
         (ret \<lparr>lv_telegram_user_id = telegram_user_id u, lv_first_name = first_name u,
               lv_username = username u, lv_is_admin = is_admin u, lv_is_pro = is_pro u,
               lv_preferred_name = preferred_name u\<rparr>))))"

definition validate_link_code ::
  "instant \<Rightarrow> string \<Rightarrow> string \<Rightarrow> rate_limit_store \<Rightarrow>
   rate_limit_store \<times> link_code_validate_response act" where
  "validate_link_code now client_ip c store =
     (case check_rate_limit now client_ip c store of
        (False, store') \<Rightarrow>
          (store', raise (HTTPException 429 ''Too many attempts. Please try again later.''))
      | (True, store') \<Rightarrow> (store', redeem_link_code now c))"

section \<open>The limiter admits at most ten attempts a minute\<close>

text \<open>The attempts of one client, oldest first, and the instants of those admitted.\<close>

fun admitted :: "string \<Rightarrow> rate_limit_store \<Rightarrow> (instant \<times> string) list \<Rightarrow> instant list" where
  "admitted ip store [] = []"
| "admitted ip store ((now, c) # rs) =
     (case check_rate_limit now ip c store of
        (ok, store') \<Rightarrow> (if ok then [now] else []) @ admitted ip store' rs)"

abbreviation in_window :: "instant \<Rightarrow> instant \<Rightarrow> bool" where
  "in_window now ts \<equiv> now - ts < RATE_LIMIT_WINDOW"

lemma filter_window_later:
  "last_t \<le> now \<Longrightarrow> filter (in_window now) (filter (in_window last_t) ts) = filter (in_window now) ts"
  by (induction ts) auto

lemma map_fst_filter: "map fst (filter (\<lambda>(t, _). P t) xs) = filter P (map fst xs)"
  by (induction xs) auto

lemma length_filter_weaker:
  "(\<And>x. x \<in> set xs \<Longrightarrow> P x \<Longrightarrow> Q x) \<Longrightarrow> length (filter P xs) \<le> length (filter Q xs)"
  by (induction xs) (auto intro: le_SucI)

text \<open>
  \<open>before\<close> are the instants admitted so far; the store keeps those of them that were in the
  window at the last attempt.
\<close>

lemma admitted_bounded:
  assumes "sorted (map fst rs)" and "\<forall>(t, c) \<in> set rs. last_t \<le> t"
    and "\<forall>t \<in> set before. t \<le> last_t"
    and "map fst (store ip) = filter (in_window last_t) before"
    and "\<forall>T. length (filter (\<lambda>t. in_window T t \<and> t \<le> T) before) \<le> RATE_LIMIT_MAX_ATTEMPTS"
  shows "length (filter (\<lambda>t. in_window T t \<and> t \<le> T) (before @ admitted ip store rs))
    \<le> RATE_LIMIT_MAX_ATTEMPTS"
  using assms
proof (induction rs arbitrary: store before last_t)
  case (Cons r rs)
  obtain now c where r: "r = (now, c)" by fastforce
  let ?es = "filter (\<lambda>(ts, _). in_window now ts) (store ip)"
  have le: "last_t \<le> now" using Cons.prems(2) r by simp
  have "map fst ?es = filter (in_window now) (map fst (store ip))"
    by (rule map_fst_filter)
  also have "\<dots> = filter (in_window now) before"
    unfolding Cons.prems(4) by (rule filter_window_later [OF le])
  finally have es: "map fst ?es = filter (in_window now) before" .
  have rs: "sorted (map fst rs)" "\<forall>(t, c) \<in> set rs. now \<le> t"
    using Cons.prems(1) r by (auto simp: case_prod_beta)
  have bef: "\<forall>t \<in> set before. t \<le> now" using Cons.prems(3) le by fastforce
  show ?case
  proof (cases "RATE_LIMIT_MAX_ATTEMPTS \<le> length ?es")
    case True
    have "length (filter (\<lambda>t. in_window T t \<and> t \<le> T) (before @ admitted ip (store(ip := ?es)) rs))
        \<le> RATE_LIMIT_MAX_ATTEMPTS"
      by (rule Cons.IH [OF rs bef _ Cons.prems(5)]) (simp add: es)
    with True show ?thesis by (simp add: r check_rate_limit_def)
  next
    case False
    have self: "0 < RATE_LIMIT_WINDOW" by (simp add: RATE_LIMIT_WINDOW_def microseconds_def)
    have few: "length (filter (in_window now) before) < RATE_LIMIT_MAX_ATTEMPTS"
      using False es by (metis length_map not_le)
    have "length (filter (\<lambda>t. in_window U t \<and> t \<le> U) (before @ [now])) \<le> RATE_LIMIT_MAX_ATTEMPTS" for U
    proof (cases "in_window U now \<and> now \<le> U")
      case True
      then have "length (filter (\<lambda>t. in_window U t \<and> t \<le> U) before)
          \<le> length (filter (in_window now) before)"
        by (intro length_filter_weaker) auto
      with few True show ?thesis by simp
    next
      case False
      then show ?thesis using Cons.prems(5) by auto
    qed
    then have "length (filter (\<lambda>t. in_window T t \<and> t \<le> T)
        ((before @ [now]) @ admitted ip (store(ip := ?es @ [(now, c)])) rs)) \<le> RATE_LIMIT_MAX_ATTEMPTS"
      using bef by (intro Cons.IH [OF rs]) (simp_all add: es self)
    with False show ?thesis by (simp add: r check_rate_limit_def)
  qed
qed simp



section \<open>Codes work once\<close>

text \<open>
  \<open>lc_code\<close> is a unique column, and the session's rows keep it so.
\<close>

definition codes_unique :: "db \<Rightarrow> bool" where
  "codes_unique d \<longleftrightarrow> distinct (map (\<lambda>(_, c). lc_code c) (link_codes d)) \<and> t_wf (link_codes d)"

lemma redeem_link_code_cases:
  assumes "redeem_link_code now c s = (Inr r, t)"
  obtains lid x u where "(lid, x) \<in> set (link_codes (work s))" "lc_code x = c" "code_live now x"
    "t_get (users (work s)) (user_preference_id x) = Some u" "lv_telegram_user_id r = telegram_user_id u"
    "link_codes (work t) = t_put lid (x\<lparr>used := True\<rparr>) (link_codes (work s))" "durable t = work t"
proof -
  let ?f = "t_select (\<lambda>_ x. lc_code x = c \<and> code_live now x) (link_codes (work s))"
  show thesis
  proof (cases ?f rule: scalar_one_or_none.cases)
    case (2 y)
    obtain lid x where y: "y = (lid, x)" by fastforce
    have "(lid, x) \<in> set ?f" using 2 y by simp
    then have "(lid, x) \<in> set (link_codes (work s))" "lc_code x = c" "code_live now x"
      by (simp_all add: t_select_def)
    moreover from assms 2 y obtain u where "t_get (users (work s)) (user_preference_id x) = Some u"
      by (auto simp: redeem_link_code_def run_simps split: option.splits)
    moreover from this assms 2 y have "lv_telegram_user_id r = telegram_user_id u"
      "link_codes (work t) = t_put lid (x\<lparr>used := True\<rparr>) (link_codes (work s))" "durable t = work t"
      by (auto simp: redeem_link_code_def run_simps)
    ultimately show thesis by (rule that)
  qed (use assms in \<open>simp_all add: redeem_link_code_def run_simps\<close>)
qed

lemma used_code_not_live: "\<not> code_live now (x\<lparr>used := True\<rparr>)"
  by (simp add: code_live_def)

lemma codes_unique_put:
  assumes "codes_unique d" and "(lid, x) \<in> set (link_codes d)"
  shows "codes_unique (d\<lparr>link_codes := t_put lid (x\<lparr>used := True\<rparr>) (link_codes d)\<rparr>)"
proof -
  have "\<And>y. (lid, y) \<in> set (link_codes d) \<Longrightarrow> y = x"
    using assms by (auto simp: codes_unique_def t_get_in)
  then have "map (\<lambda>(_, c). lc_code c) (t_put lid (x\<lparr>used := True\<rparr>) (link_codes d)) =
      map (\<lambda>(_, c). lc_code c) (link_codes d)"
    by (auto simp: t_put_def)
  then show ?thesis using assms(1) by (simp add: codes_unique_def)
qed

lemma unique_code:
  assumes "codes_unique d" and "(i, x) \<in> set (link_codes d)" and "(j, y) \<in> set (link_codes d)"
    and "lc_code x = lc_code y"
  shows "(i, x) = (j, y)"
proof -
  from assms(1) have "inj_on (\<lambda>(_, c). lc_code c) (set (link_codes d))"
    by (simp add: codes_unique_def distinct_map)
  from inj_onD [OF this _ assms(2,3)] assms(4) show ?thesis by simp
qed


definition link_scene :: session where
  "link_scene = open_session (empty_db\<lparr>users := [(1, sample_user)]\<rparr>)"


text \<open>
  Creating a code retires the user's other live codes, so a user never has two live codes.
\<close>

definition live_codes_of :: "instant \<Rightarrow> int \<Rightarrow> db \<Rightarrow> link_code list" where
  "live_codes_of now uid d =
     filter (\<lambda>c. user_preference_id c = uid \<and> code_live now c) (map snd (link_codes d))"

lemma live_codes_retired: "filter (\<lambda>c. user_preference_id c = uid \<and> code_live now c)
    (map snd (retire_codes now uid t)) = []"
  by (induction t) (auto simp: retire_codes_def used_code_not_live split: if_splits)

lemma create_link_code_one_live:
  assumes "create_link_code now tg drawn s = (Inr r, t)"
  shows "\<exists>uid u. (uid, u) \<in> set (users (work s)) \<and> telegram_user_id u = Some tg \<and>
    (\<exists>c. live_codes_of now uid (work t) = [c] \<and> lc_code c = drawn \<and> lo_code r = drawn)"
proof -
  let ?f = "t_select (\<lambda>_ u. telegram_user_id u = Some tg) (users (work s))"
  have fresh: "code_live now \<lparr>lc_code = drawn, user_preference_id = uid,
      lc_expires_at = now + microseconds 300, used = False\<rparr>" for uid
    by (simp add: code_live_def microseconds_def)
  show ?thesis
  proof (cases ?f rule: scalar_one_or_none.cases)
    case (2 y)
    obtain uid u where y: "y = (uid, u)" by fastforce
    have "(uid, u) \<in> set ?f" using 2 y by simp
    then have "(uid, u) \<in> set (users (work s))" "telegram_user_id u = Some tg"
      by (simp_all add: t_select_def)
    moreover from assms 2 y have "\<exists>c. live_codes_of now uid (work t) = [c] \<and> lc_code c = drawn \<and> lo_code r = drawn"
      using fresh [of uid]
      by (auto simp: create_link_code_def run_simps live_codes_of_def t_add_def live_codes_retired
          split: if_splits)
    ultimately show ?thesis by blast
  qed (use assms in \<open>simp_all add: create_link_code_def run_simps\<close>)
qed

end
