(* ===== verification/Payments.thy ===== *)
theory Payments
  imports Toman_Safety Wallet
begin

text \<open>
  \<open>pbozi/backend/app/payment_routes.py\<close>: payment methods, and the card-to-card payment
  requests users submit and administrators approve or reject. The password of the environment,
  the path of the stored receipt and the clock are arguments. The background tasks that notify
  users and administrators are entries of the outbox. Persian texts are English tags.
\<close>

section \<open>Helpers\<close>

definition verify_admin :: "string \<Rightarrow> string option \<Rightarrow> bool act" where
  "verify_admin admin_password credentials =
     (case credentials of
        None \<Rightarrow> raise (HTTPException 401 ''Unauthorized'')
      | Some c \<Rightarrow> if strip c \<noteq> admin_password then raise (HTTPException 401 ''Unauthorized'')
                  else ret True)"

text \<open>\<open>f"{amount:,}"\<close>: a comma between groups of three digits.\<close>

fun commas :: "string \<Rightarrow> string" where
  "commas (a # b # c # d # ds) = a # b # c # CHR '','' # commas (d # ds)"
| "commas ds = ds"

definition format_toman :: "int \<Rightarrow> string" where
  "format_toman amt =
     (if amt < 0 then CHR ''-'' # rev (commas (rev (str_int (- amt))))
      else rev (commas (rev (str_int amt))))"

definition user_by_telegram :: "int \<Rightarrow> user_preference obj act" where
  "user_by_telegram tg =
     bind (bind (query (\<lambda>d. t_select (\<lambda>_ u. telegram_user_id u = Some tg) (users d)))
             scalar_one_or_none) (\<lambda>found.
     case found of None \<Rightarrow> raise (HTTPException 404 ''user not found'') | Some u \<Rightarrow> ret u)"

definition record_admin_action ::
  "int option \<Rightarrow> string \<Rightarrow> string \<Rightarrow> int \<Rightarrow> string \<Rightarrow> dict option \<Rightarrow> dict option \<Rightarrow> unit act" where
  "record_admin_action adm action target tid reason before after =
     update (\<lambda>d. d\<lparr>admin_actions := t_add
       \<lparr>admin_user_id = adm, action_type = action, target_type = target, target_id = Some tid,
        before_json = before, after_json = after, aa_reason = Some reason\<rparr> (admin_actions d)\<rparr>)"

section \<open>Payment methods\<close>

definition list_payment_methods :: "payment_method obj list act" where
  "list_payment_methods =
     query (\<lambda>d. sort_key (\<lambda>(i, m). (sort_order m, i)) (payment_methods d))"

definition get_active_payment_methods :: "payment_method obj list act" where
  "get_active_payment_methods =
     query (\<lambda>d. sort_key (\<lambda>(i, m). (sort_order m, i))
                  (t_select (\<lambda>_ m. pm_is_active m) (payment_methods d)))"

definition create_payment_method :: "payment_method \<Rightarrow> payment_method obj act" where
  "create_payment_method data =
     bind (query (\<lambda>d. t_first (\<lambda>_ m. card_number m = card_number data) (payment_methods d)))
       (\<lambda>existing.
     if existing \<noteq> None then raise (HTTPException 400 ''card number already registered'')
     else bind (query (\<lambda>d. t_next (payment_methods d))) (\<lambda>mid.
       andthen (update (\<lambda>d. d\<lparr>payment_methods := t_add data (payment_methods d)\<rparr>))
       (andthen commit (ret (mid, data)))))"

text \<open>One assignment of \<open>update_data.items()\<close>.\<close>

datatype method_field =
    Card_Number string | Cardholder_Name string | Bank_Name string
  | Description "string option" | Is_Active bool | Sort_Order int

fun set_method_field :: "payment_method \<Rightarrow> method_field \<Rightarrow> payment_method" where
  "set_method_field m (Card_Number x) = m\<lparr>card_number := x\<rparr>"
| "set_method_field m (Cardholder_Name x) = m\<lparr>cardholder_name := x\<rparr>"
| "set_method_field m (Bank_Name x) = m\<lparr>bank_name := x\<rparr>"
| "set_method_field m (Description x) = m\<lparr>pm_description := x\<rparr>"
| "set_method_field m (Is_Active x) = m\<lparr>pm_is_active := x\<rparr>"
| "set_method_field m (Sort_Order x) = m\<lparr>sort_order := x\<rparr>"

definition update_payment_method :: "int \<Rightarrow> method_field list \<Rightarrow> payment_method obj act" where
  "update_payment_method mid data =
     bind (query (\<lambda>d. t_get (payment_methods d) mid)) (\<lambda>found.
     case found of
       None \<Rightarrow> raise (HTTPException 404 ''payment method not found'')
     | Some m \<Rightarrow>
         let m' = foldl set_method_field m data in
         bind (query (\<lambda>d. t_first (\<lambda>i x. i \<noteq> mid \<and> card_number x = card_number m')
                            (payment_methods d))) (\<lambda>clash.
         if clash \<noteq> None then andthen rollback (raise IntegrityError)
         else andthen (update (\<lambda>d. d\<lparr>payment_methods := t_put mid m' (payment_methods d)\<rparr>))
              (andthen commit (ret (mid, m')))))"

definition delete_payment_method :: "int \<Rightarrow> unit act" where
  "delete_payment_method mid =
     bind (query (\<lambda>d. t_get (payment_methods d) mid)) (\<lambda>found.
     case found of
       None \<Rightarrow> raise (HTTPException 404 ''payment method not found'')
     | Some _ \<Rightarrow>
         andthen (update (\<lambda>d. d\<lparr>payment_methods := t_del mid (payment_methods d)\<rparr>)) commit)"

section \<open>Payment requests\<close>

record payment_request_out =
  po_id :: int
  po_first_name :: "string option"
  po_username :: "string option"
  po_payment_type :: string
  po_request :: payment_request

definition payment_request_out_of ::
  "user_preference option \<Rightarrow> payment_request obj \<Rightarrow> payment_request_out" where
  "payment_request_out_of user = (\<lambda>(rid, q).
     \<lparr>po_id = rid,
      po_first_name = (case user of None \<Rightarrow> None | Some u \<Rightarrow> first_name u),
      po_username = (case user of None \<Rightarrow> None | Some u \<Rightarrow> username u),
      po_payment_type = str_or (payment_type q) ''topup'',
      po_request = q\<rparr>)"

definition request_user :: "payment_request \<Rightarrow> user_preference option act" where
  "request_user q = query (\<lambda>d. t_get (users d) (pq_user_id q))"

definition list_payment_requests :: "string option \<Rightarrow> nat \<Rightarrow> payment_request_out list act" where
  "list_payment_requests status limit =
     query (\<lambda>d. map (\<lambda>(i, q). payment_request_out_of (t_get (users d) (pq_user_id q)) (i, q))
       (take limit (sort_key (\<lambda>(i, q). - pq_created_at q)
         (t_select (\<lambda>_ q. str_or status [] = [] \<or> pq_status q = str_or status [])
            (payment_requests d)))))"

definition get_payment_request :: "int \<Rightarrow> payment_request_out act" where
  "get_payment_request rid =
     bind (query (\<lambda>d. t_get (payment_requests d) rid)) (\<lambda>found.
     case found of
       None \<Rightarrow> raise (HTTPException 404 ''payment request not found'')
     | Some q \<Rightarrow> bind (request_user q) (\<lambda>u. ret (payment_request_out_of u (rid, q))))"

definition create_payment_request ::
  "instant \<Rightarrow> int \<Rightarrow> int \<Rightarrow> string option \<Rightarrow> string \<Rightarrow> payment_request_out act" where
  "create_payment_request now tg amt descr receipt_path =
     bind (user_by_telegram tg) (\<lambda>(uid, u).
     if amt \<le> 0 then raise (HTTPException 400 ''amount must be greater than zero'')
     else
       let row = \<lparr>pq_user_id = uid, pq_amount_toman = amt, receipt_image_path = receipt_path,
                  pq_description = descr, payment_type = Some ''topup'', pq_plan_id = None,
                  pq_status = ''pending'', admin_note = None, approved_by = None,
                  approved_at = None, pq_created_at = now\<rparr>
       in bind (query (\<lambda>d. t_next (payment_requests d))) (\<lambda>rid.
          andthen (update (\<lambda>d. d\<lparr>payment_requests := t_add row (payment_requests d)\<rparr>))
          (andthen commit
          (andthen (send (NewPaymentNotice rid))
          (ret (payment_request_out_of (Some u) (rid, row)))))))"

definition get_user_payment_requests :: "int \<Rightarrow> nat \<Rightarrow> payment_request_out list act" where
  "get_user_payment_requests tg limit =
     bind (user_by_telegram tg) (\<lambda>(uid, u).
     query (\<lambda>d. map (payment_request_out_of (Some u))
       (take limit (sort_key (\<lambda>(i, q). - pq_created_at q)
         (t_select (\<lambda>_ q. pq_user_id q = uid) (payment_requests d))))))"

text \<open>
  The review's fields. \<open>verify_admin\<close> returns \<open>True\<close>, which Python takes for an
  \<open>int\<close>, so \<open>approved_by\<close> is 1 whoever the administrator is.
\<close>

definition reviewed ::
  "instant \<Rightarrow> string \<Rightarrow> string option \<Rightarrow> payment_request \<Rightarrow> payment_request" where
  "reviewed now status note q =
     q\<lparr>pq_status := status, admin_note := note, approved_by := Some 1, approved_at := Some now\<rparr>"

definition save_request :: "int \<Rightarrow> payment_request \<Rightarrow> unit act" where
  "save_request rid q =
     update (\<lambda>d. d\<lparr>payment_requests := t_put rid q (payment_requests d)\<rparr>)"

definition approved_note :: "string option \<Rightarrow> payment_request \<Rightarrow> string option" where
  "approved_note note q = (case note of None \<Rightarrow> admin_note q | Some n \<Rightarrow>
                             if n = [] then admin_note q else Some n)"

text \<open>Lines 246 to 288: a request that pays for a subscription.\<close>

definition approve_subscription ::
  "instant \<Rightarrow> int \<Rightarrow> payment_request \<Rightarrow> int \<Rightarrow> string option \<Rightarrow> unit act" where
  "approve_subscription now rid q pid note =
     bind (query (\<lambda>d. t_get (subscription_plans d) pid)) (\<lambda>found.
     case found of
       None \<Rightarrow> raise (HTTPException 404 ''subscription plan not found'')
     | Some plan \<Rightarrow>
         bind (purchase_toman_subscription now (pq_user_id q) (pid, plan)
                 (Some (''subscription:manual:'' @ str_int (pq_user_id q) @ '':'' @ str_int pid
                        @ '':'' @ str_int rid)) True (Some 0) True True) (\<lambda>result.
         if \<not> p_ok result then raise (AttributeError ''error'')
         else
           andthen (save_request rid (reviewed now ''approved'' (approved_note note q) q))
           (record_admin_action (Some 1) ''approve_subscription_payment'' ''payment_request'' rid
              (''approved subscription payment '' @ plan_name plan @ '' of user '' @
               str_int (pq_user_id q))
              (Some [])
              (Some [(''subscription_id'',
                      json_opt_int (map_option fst (p_subscription result)))]))))"

text \<open>Lines 290 to 338: any other request credits the paid balance.\<close>

definition paid_account :: "user_billing_account \<Rightarrow> int \<Rightarrow> user_billing_account" where
  "paid_account a n =
     a\<lparr>paid_balance_toman := Some (or0 (paid_balance_toman a) + n),
       total_paid_topup_toman := Some (or0 (total_paid_topup_toman a) + n),
       version := Some (or0 (version a) + 1)\<rparr>"

definition balances_json :: "user_billing_account \<Rightarrow> dict" where
  "balances_json a = [(''paid_balance_toman'', JInt (or0 (paid_balance_toman a))),
                      (''total_paid_topup_toman'', JInt (or0 (total_paid_topup_toman a)))]"

definition manual_payment_entry ::
  "int \<Rightarrow> user_billing_account obj \<Rightarrow> payment_request \<Rightarrow> toman_ledger_entry" where
  "manual_payment_entry rid acc q =
     \<lparr>tl_user_id = pq_user_id q, billing_account_id = fst acc, amount_toman = pq_amount_toman q,
      gift_delta_toman = 0, paid_delta_toman = pq_amount_toman q, gift_balance_after_toman = 0,
      paid_balance_after_toman = or0 (paid_balance_toman (snd acc)),
      tl_entry_type = ''manual_payment'', tl_status = ''posted'',
      tl_reason = Some ''manual payment approved'', tl_usage_event_id = None,
      tl_idempotency_key = None,
      tl_metadata_json = [(''payment_request_id'', JInt rid),
                          (''receipt_path'', JStr (receipt_image_path q))]\<rparr>"

definition approve_topup ::
  "instant \<Rightarrow> int \<Rightarrow> payment_request \<Rightarrow> string option \<Rightarrow> unit act" where
  "approve_topup now rid q note =
     bind (get_or_create_billing_account (pq_user_id q)) (\<lambda>account.
     let acc = (fst account, paid_account (snd account) (pq_amount_toman q)) in
     andthen (save_account (fst acc) (snd acc))
     (bind (add_ledger (manual_payment_entry rid acc q)) (\<lambda>_.
      andthen (save_request rid (reviewed now ''approved'' (approved_note note q) q))
      (record_admin_action (Some 1) ''approve_payment'' ''payment_request'' rid
         (''approved payment '' @ format_toman (pq_amount_toman q) @ '' of user '' @
          str_int (pq_user_id q))
         (Some (balances_json (snd account))) (Some (balances_json (snd acc)))))))"

definition notify_payment :: "int \<Rightarrow> bool \<Rightarrow> bool \<Rightarrow> payment_request_out act" where
  "notify_payment rid approved with_note =
     bind (query (\<lambda>d. t_get (payment_requests d) rid)) (\<lambda>found.
     case found of
       None \<Rightarrow> raise (AttributeError ''user'')
     | Some q \<Rightarrow>
         bind (request_user q) (\<lambda>user.
         let tg = (case user of None \<Rightarrow> 0 | Some u \<Rightarrow> or0 (telegram_user_id u)) in
         andthen (on_cond (tg \<noteq> 0) (send (PaymentResult tg approved (pq_amount_toman q)
                    (str_or (payment_type q) ''topup'') (if with_note then admin_note q else None))))
         (ret (payment_request_out_of user (rid, q)))))"

definition approve_payment_request ::
  "instant \<Rightarrow> int \<Rightarrow> string option \<Rightarrow> payment_request_out act" where
  "approve_payment_request now rid note =
     bind (query (\<lambda>d. t_get (payment_requests d) rid)) (\<lambda>found.
     case found of
       None \<Rightarrow> raise (HTTPException 404 ''payment request not found'')
     | Some q \<Rightarrow>
     if pq_status q \<noteq> ''pending'' then raise (HTTPException 400 ''request already reviewed'')
     else
     bind (request_user q) (\<lambda>user.
     if user = None then raise (HTTPException 404 ''user not found'')
     else
       andthen (if str_or (payment_type q) ''topup'' = ''subscription'' \<and> or0 (pq_plan_id q) \<noteq> 0
                then approve_subscription now rid q (or0 (pq_plan_id q)) note
                else approve_topup now rid q note)
       (andthen commit (notify_payment rid True False))))"

definition reject_payment_request :: "instant \<Rightarrow> int \<Rightarrow> string \<Rightarrow> payment_request_out act" where
  "reject_payment_request now rid note =
     bind (query (\<lambda>d. t_get (payment_requests d) rid)) (\<lambda>found.
     case found of
       None \<Rightarrow> raise (HTTPException 404 ''payment request not found'')
     | Some q \<Rightarrow>
     if pq_status q \<noteq> ''pending'' then raise (HTTPException 400 ''request already reviewed'')
     else
       andthen (save_request rid (reviewed now ''rejected'' (Some note) q))
       (andthen (record_admin_action (Some 1) ''reject_payment'' ''payment_request'' rid
          (''rejected payment '' @ format_toman (pq_amount_toman q) @ '': '' @ note) None None)
       (andthen commit (notify_payment rid False True))))"

section \<open>The Toman books\<close>

lemma frames_record_admin_action [frames_rules]: "frames (record_admin_action a b c d e f g)"
  unfolding record_admin_action_def by (rule frames_update) (simp add: same_books_def)

lemma frames_payment_methods [frames_rules]:
  "frames (update (\<lambda>d. d\<lparr>payment_methods := f (payment_methods d)\<rparr>))"
  by (rule frames_update) (simp add: same_books_def)

lemma frames_request_user [frames_rules]: "frames (request_user q)"
  unfolding request_user_def by (rule frames_rules)

lemma frames_notify_payment [frames_rules]: "frames (notify_payment rid a b)"
  unfolding notify_payment_def Let_def by (rule frames_rules)+

lemma frames_user_by_telegram [frames_rules]: "frames (user_by_telegram tg)"
  unfolding user_by_telegram_def by (rule frames_rules)+

lemma reviewed_amount [simp]: "pq_amount_toman (reviewed now st note q) = pq_amount_toman q"
  by (simp add: reviewed_def)

lemma books_write_requests:
  assumes "requests_positive R"
  shows "books d \<Longrightarrow> books (d\<lparr>payment_requests := R\<rparr>)"
  using assms by (simp add: books_def books_but_def)

lemma books_requests: "books d \<Longrightarrow> requests_positive (payment_requests d)"
  by (simp add: books_def books_but_def)

lemma save_request_keeps_books:
  assumes "0 < pq_amount_toman q"
  shows "keeps_books (save_request rid q)"
  unfolding save_request_def
proof (rule hoare_update)
  fix s assume b: "in_books s"
  then have "requests_positive (t_put rid q (payment_requests (work s)))"
    using assms books_requests [of "work s"]
    by (auto simp: requests_positive_def set_t_put on_both_def)
  with b show "in_books (s\<lparr>work := (work s)\<lparr>payment_requests := t_put rid q (payment_requests (work s))\<rparr>\<rparr>)"
    by (simp add: on_both_def books_write_requests)
qed

lemma get_request_rule:
  "hoare in_books (query (\<lambda>d. t_get (payment_requests d) rid))
     (\<lambda>found s. (\<forall>q. found = Some q \<longrightarrow> 0 < pq_amount_toman q) \<and> in_books s) E"
  by (rule hoare_query)
     (auto simp: on_both_def requests_positive_def dest!: books_requests t_get_SomeD)

lemma paid_account_books:
  "account_books L i a 0 0 \<Longrightarrow> 0 < n \<Longrightarrow> account_books L i (paid_account a n) 0 n"
  by (simp add: account_books_def paid_account_def)

lemma paid_account_user [simp]: "ba_user_id (paid_account a n) = ba_user_id a"
  by (simp add: paid_account_def)

lemma approve_topup_keeps_books:
  "0 < pq_amount_toman q \<Longrightarrow> keeps_books (approve_topup now rid q note)"
  unfolding approve_topup_def Let_def fst_conv snd_conv
  by (intro keeps_account post_one_rule)
     (simp_all add: manual_payment_entry_def paid_account_books,
      intro keeps_holding keeps_andthen save_request_keeps_books keeps_frames frames_rules, simp)

lemma approve_subscription_keeps_books:
  "0 < pq_amount_toman q \<Longrightarrow> keeps_books (approve_subscription now rid q pid note)"
  unfolding approve_subscription_def
  by (intro keeps_rules purchase_keeps_books save_request_keeps_books frames_rules [THEN keeps_frames])
     simp

lemma approve_keeps_books: "keeps_books (approve_payment_request now rid note)"
  unfolding approve_payment_request_def
  by (rule hoare_bind [OF get_request_rule], rule hoare_pure,
      intro keeps_rules approve_subscription_keeps_books approve_topup_keeps_books
        frames_rules [THEN keeps_frames]) simp_all

lemma reject_keeps_books: "keeps_books (reject_payment_request now rid note)"
  unfolding reject_payment_request_def
  by (rule hoare_bind [OF get_request_rule], rule hoare_pure,
      intro keeps_rules save_request_keeps_books frames_rules [THEN keeps_frames]) simp_all

lemma create_request_keeps_books: "keeps_books (create_payment_request now tg amt descr path)"
proof -
  have grow: "keeps_books (update (\<lambda>d. d\<lparr>payment_requests := t_add q (payment_requests d)\<rparr>))"
    if "0 < pq_amount_toman q" for q
  proof (rule hoare_update)
    fix s assume b: "in_books s"
    then have "requests_positive (t_add q (payment_requests (work s)))"
      using that books_requests [of "work s"]
      by (auto simp: requests_positive_def set_t_add on_both_def)
    with b show "in_books (s\<lparr>work := (work s)\<lparr>payment_requests := t_add q (payment_requests (work s))\<rparr>\<rparr>)"
      by (simp add: on_both_def books_write_requests)
  qed
  show ?thesis
    unfolding create_payment_request_def Let_def
    by (intro keeps_rules grow frames_rules [THEN keeps_frames]) simp
qed

end
