(* ===== verification/Toman_Lemmas.thy ===== *)
theory Toman_Lemmas
  imports Toman_Safety
begin

text \<open>
  What each operation of \<open>toman_billing_service.py\<close> does: evaluation lemmas over the account
  and the ledger of a user, and the properties of the purchase, the top-up and the charges.
\<close>

section \<open>The account of a user\<close>

definition account_of :: "db \<Rightarrow> int \<Rightarrow> user_billing_account obj option" where
  "account_of d uid = t_first (\<lambda>_ a. ba_user_id a = uid) (billing_accounts d)"

definition open_account :: "int \<Rightarrow> db \<Rightarrow> db" where
  "open_account uid d =
     (if account_of d uid = None
      then d\<lparr>billing_accounts := t_add (new_billing_account uid) (billing_accounts d)\<rparr> else d)"

definition the_account :: "db \<Rightarrow> int \<Rightarrow> user_billing_account obj" where
  "the_account d uid = the (account_of (open_account uid d) uid)"

definition gift_of :: "db \<Rightarrow> int \<Rightarrow> int" where
  "gift_of d uid =
     (case account_of d uid of None \<Rightarrow> 0 | Some (_, a) \<Rightarrow> or0 (gift_balance_toman a))"

definition paid_of :: "db \<Rightarrow> int \<Rightarrow> int" where
  "paid_of d uid =
     (case account_of d uid of None \<Rightarrow> 0 | Some (_, a) \<Rightarrow> or0 (paid_balance_toman a))"

definition toman_of :: "db \<Rightarrow> int \<Rightarrow> int" where
  "toman_of d uid = gift_of d uid + paid_of d uid"

lemma new_billing_account_fields [simp]:
  "ba_user_id (new_billing_account uid) = uid"
  "gift_balance_toman (new_billing_account uid) = Some 0"
  "paid_balance_toman (new_billing_account uid) = Some 0"
  "total_subscription_paid_toman (new_billing_account uid) = Some 0"
  "first_topup_discount_used (new_billing_account uid) = False"
  by (simp_all add: new_billing_account_def)

lemma account_of_open:
  "account_of (open_account uid d) uid = Some (the_account d uid)"
  by (auto simp: the_account_def open_account_def account_of_def t_first_add split: option.splits)

lemma get_account_run:
  "get_or_create_billing_account uid s =
    (Inr (the_account (work s) uid), s\<lparr>work := open_account uid (work s)\<rparr>)"
  by (auto simp: get_or_create_billing_account_def run_simps the_account_def open_account_def
      account_of_def t_first_add split: option.splits)

lemma open_account_idem [simp]: "open_account uid (open_account uid d) = open_account uid d"
  unfolding open_account_def [of uid "open_account uid d"] by (simp add: account_of_open)

lemma the_account_open [simp]: "the_account (open_account uid d) uid = the_account d uid"
  by (simp add: the_account_def)

lemma open_account_frame [simp]:
  "toman_ledger (open_account uid d) = toman_ledger d"
  "user_subscriptions (open_account uid d) = user_subscriptions d"
  "subscription_configs (open_account uid d) = subscription_configs d"
  "subscription_plans (open_account uid d) = subscription_plans d"
  "capacity_pools (open_account uid d) = capacity_pools d"
  "users (open_account uid d) = users d"
  "payment_requests (open_account uid d) = payment_requests d"
  "account_of (d\<lparr>toman_ledger := L\<rparr>) v = account_of d v"
  "account_of (d\<lparr>user_subscriptions := U\<rparr>) v = account_of d v"
  "account_of (d\<lparr>subscription_configs := C\<rparr>) v = account_of d v"
  "account_of (d\<lparr>capacity_pools := P\<rparr>) v = account_of d v"
  by (simp_all add: open_account_def account_of_def)

lemma balances_of_account:
  "gift_of d uid = or0 (gift_balance_toman (snd (the_account d uid)))"
  "paid_of d uid = or0 (paid_balance_toman (snd (the_account d uid)))"
  by (auto simp: gift_of_def paid_of_def the_account_def open_account_def account_of_def t_first_add
      split: option.splits)

lemma available_toman_account: "available_toman (snd (the_account d uid)) = toman_of d uid"
  by (simp add: available_toman_def toman_of_def balances_of_account)

lemma the_account_user [simp]: "ba_user_id (snd (the_account d uid)) = uid"
proof -
  obtain i a where "the_account d uid = (i, a)" by fastforce
  with account_of_open [of uid d] show ?thesis
    by (auto simp: account_of_def dest: t_first_SomeD)
qed

text \<open>The row an operation writes back is the one the user has afterwards.\<close>

lemma account_of_write:
  assumes "ba_user_id a' = uid"
  shows "account_of ((open_account uid d)\<lparr>billing_accounts :=
      t_put (fst (the_account d uid)) a' (billing_accounts (open_account uid d))\<rparr>) uid =
    Some (fst (the_account d uid), a')"
proof -
  have "t_first (\<lambda>_ a. ba_user_id a = uid) (billing_accounts (open_account uid d)) =
      Some (fst (the_account d uid), snd (the_account d uid))"
    using account_of_open [of uid d] by (simp add: account_of_def)
  from t_first_put [OF this] assms show ?thesis by (simp add: account_of_def)
qed

lemma add_ledger_run:
  "add_ledger e s =
    (if ledger_key_taken (work s) (tl_idempotency_key e)
     then (Inl IntegrityError, s\<lparr>work := durable s\<rparr>)
     else (Inr (t_next (toman_ledger (work s)), e),
           s\<lparr>work := (work s)\<lparr>toman_ledger := t_add e (toman_ledger (work s))\<rparr>\<rparr>))"
  by (simp add: add_ledger_def run_simps)

lemma save_account_run:
  "save_account i a s =
    (Inr (), s\<lparr>work := (work s)\<lparr>billing_accounts := t_put i a (billing_accounts (work s))\<rparr>\<rparr>)"
  by (simp add: save_account_def run_simps)

section \<open>Configuration\<close>

definition config_of :: "db \<Rightarrow> subscription_config" where
  "config_of d = (case t_first (\<lambda>_ _. True) (subscription_configs d) of
     None \<Rightarrow> default_subscription_config | Some (_, c) \<Rightarrow> c)"

definition open_config :: "db \<Rightarrow> db" where
  "open_config d =
     (if t_first (\<lambda>_ _. True) (subscription_configs d) = None
      then d\<lparr>subscription_configs := t_add default_subscription_config (subscription_configs d)\<rparr>
      else d)"

lemma get_config_run:
  "get_or_create_subscription_config s = (Inr (config_of (work s)), s\<lparr>work := open_config (work s)\<rparr>)"
  by (auto simp: get_or_create_subscription_config_def run_simps config_of_def open_config_def
      split: option.splits)

lemma open_config_frame [simp]:
  "billing_accounts (open_config d) = billing_accounts d"
  "toman_ledger (open_config d) = toman_ledger d"
  "user_subscriptions (open_config d) = user_subscriptions d"
  "subscription_plans (open_config d) = subscription_plans d"
  "capacity_pools (open_config d) = capacity_pools d"
  "users (open_config d) = users d"
  "payment_requests (open_config d) = payment_requests d"
  "account_of (open_config d) uid = account_of d uid"
  "config_of (open_config d) = config_of d"
  "config_of (open_account uid d) = config_of d"
  "open_config (open_config d) = open_config d"
  by (auto simp: open_config_def account_of_def config_of_def t_first_add open_account_def
      split: option.splits)

lemma open_account_config [simp]:
  "open_account uid (open_config (open_account uid d)) = open_config (open_account uid d)"
  unfolding open_account_def [of uid "open_config (open_account uid d)"]
  by (simp add: account_of_open)

lemma the_account_config [simp]: "the_account (open_config d) uid = the_account d uid"
  by (simp add: the_account_def open_account_def account_of_def)

lemma opened_balances [simp]:
  "gift_of (open_config d) uid = gift_of d uid" "paid_of (open_config d) uid = paid_of d uid"
  "gift_of (open_account uid d) uid = gift_of d uid" "paid_of (open_account uid d) uid = paid_of d uid"
  by (simp_all add: balances_of_account)

lemma opened_totals [simp]:
  "toman_of (open_config d) uid = toman_of d uid" "toman_of (open_account uid d) uid = toman_of d uid"
  by (simp_all add: toman_of_def)

lemma account_balances:
  "account_of d uid = Some (i, a) \<Longrightarrow> gift_of d uid = or0 (gift_balance_toman a)"
  "account_of d uid = Some (i, a) \<Longrightarrow> paid_of d uid = or0 (paid_balance_toman a)"
  by (simp_all add: gift_of_def paid_of_def)

lemma account_of_frames [simp]:
  "account_of (d\<lparr>billing_accounts := A, toman_ledger := L\<rparr>) v = account_of (d\<lparr>billing_accounts := A\<rparr>) v"
  by (simp add: account_of_def)

lemma gift_of_frames [simp]:
  "gift_of (d\<lparr>toman_ledger := L\<rparr>) v = gift_of d v" "paid_of (d\<lparr>toman_ledger := L\<rparr>) v = paid_of d v"
  "gift_of (d\<lparr>user_subscriptions := U\<rparr>) v = gift_of d v"
  "paid_of (d\<lparr>user_subscriptions := U\<rparr>) v = paid_of d v"
  "gift_of (d\<lparr>capacity_pools := P\<rparr>) v = gift_of d v" "paid_of (d\<lparr>capacity_pools := P\<rparr>) v = paid_of d v"
  by (simp_all add: gift_of_def paid_of_def)

text \<open>Writing the account back, then any number of writes to other tables.\<close>

lemma written_balances:
  assumes "billing_accounts d = billing_accounts (open_account uid e)" and "ba_user_id a' = uid"
    and "billing_accounts f = t_put (fst (the_account e uid)) a' (billing_accounts d)"
  shows "gift_of f uid = or0 (gift_balance_toman a')" and "paid_of f uid = or0 (paid_balance_toman a')"
proof -
  have "account_of f uid = Some (fst (the_account e uid), a')"
    using account_of_write [OF assms(2), of e] assms(1,3) by (simp add: account_of_def)
  then show "gift_of f uid = or0 (gift_balance_toman a')" "paid_of f uid = or0 (paid_balance_toman a')"
    by (simp_all add: account_balances)
qed

section \<open>Charging other usage\<close>

lemma usd_to_toman_run:
  "usd_to_toman x s = (Inr (round_toman ((case x of None \<Rightarrow> 0 | Some y \<Rightarrow> y) *
       of_int (positive_int (usd_to_toman_rate (config_of (work s))) DEFAULT_USD_TO_TOMAN_RATE))),
     s\<lparr>work := open_config (work s)\<rparr>)"
  by (simp add: usd_to_toman_def run_simps get_config_run Let_def)

lemma spent_account_fields [simp]:
  "ba_user_id (spent_account a g p) = ba_user_id a"
  "gift_balance_toman (spent_account a g p) = Some (or0 (gift_balance_toman a) - g)"
  "paid_balance_toman (spent_account a g p) = Some (or0 (paid_balance_toman a) - p)"
  by (simp_all add: spent_account_def)

section \<open>Charging a chat completion\<close>

lemma quote_chat_run:
  "\<exists>q. quote_chat_usage_toman model i out s = (Inr q, s\<lparr>work := open_config (work s)\<rparr>)"
  by (simp add: quote_chat_usage_toman_def run_simps get_config_run Let_def)

text \<open>What a charge against the balances does, when it charges.\<close>

definition charged ::
  "int \<Rightarrow> db \<Rightarrow> chat_usage_charge_result \<Rightarrow> db \<Rightarrow> bool" where
  "charged uid d r d' \<longleftrightarrow>
     (let cost = c_billable_cost_toman r
      in c_ok r \<and> 0 < cost \<and> cost \<le> toman_of d uid \<and>
         c_gift_spent_toman r = min (gift_of d uid) cost \<and>
         c_paid_spent_toman r = cost - c_gift_spent_toman r \<and>
         gift_of d' uid = gift_of d uid - c_gift_spent_toman r \<and>
         paid_of d' uid = paid_of d uid - c_paid_spent_toman r \<and>
         (\<exists>k e. c_ledger_entry r = Some (k, e) \<and> toman_ledger d' = t_add e (toman_ledger d) \<and>
            tl_user_id e = uid \<and> amount_toman e = - cost))"

definition money_kept :: "int \<Rightarrow> db \<Rightarrow> db \<Rightarrow> bool" where
  "money_kept uid d d' \<longleftrightarrow>
     gift_of d' uid = gift_of d uid \<and> paid_of d' uid = paid_of d uid \<and> toman_ledger d' = toman_ledger d"

lemma money_keptI:
  "billing_accounts d' = billing_accounts (open_account uid d) \<Longrightarrow> toman_ledger d' = toman_ledger d \<Longrightarrow>
    money_kept uid d d'"
  using opened_balances(3,4) [of uid d] unfolding money_kept_def gift_of_def paid_of_def account_of_def
  by simp

lemma charge_balances_run:
  assumes "charge_balances now uid (the_account d uid) q us tier ue key md c s = (Inr r, t)"
    and "billing_accounts (work s) = billing_accounts (open_account uid d)"
    and "toman_ledger (work s) = toman_ledger d" and "0 < q_billable_cost_toman q"
  shows "if c_reason r = None then charged uid d r (work t)
         else \<not> c_ok r \<and> toman_of d uid < c_billable_cost_toman r \<and> money_kept uid d (work t)"
proof (cases "available_toman (snd (the_account d uid)) < q_billable_cost_toman q")
  case True
  then show ?thesis
    using assms money_keptI [OF assms(2,3)]
    by (auto simp: charge_balances_def run_simps available_toman_account charge_result0_def)
next
  case False
  define a where "a = snd (the_account d uid)"
  define g where "g = min (or0 (gift_balance_toman a)) (q_billable_cost_toman q)"
  define p where "p = q_billable_cost_toman q - g"
  have t: "billing_accounts (work t) = t_put (fst (the_account d uid)) (spent_account a g p)
        (billing_accounts (work s))"
    and l: "\<exists>k e. c_ledger_entry r = Some (k, e) \<and> toman_ledger (work t) = t_add e (toman_ledger (work s)) \<and>
        tl_user_id e = uid \<and> amount_toman e = - q_billable_cost_toman q"
    and r: "c_ok r" "c_billable_cost_toman r = q_billable_cost_toman q" "c_gift_spent_toman r = g"
      "c_paid_spent_toman r = p" "c_reason r = None"
    using assms(1) False
    by (auto simp: charge_balances_def Let_def run_simps save_account_run add_ledger_run charge_result0_def
        new_ledger_entry_def simp flip: a_def g_def p_def split: if_splits)
  from written_balances [OF assms(2) _ t] l r False assms(3,4) show ?thesis
    by (simp add: charged_def available_toman_account g_def a_def p_def balances_of_account)
qed

text \<open>
  Between opening the account and writing it back, an operation reads the configuration and the
  subscription, and may write the subscription's windows: the account the user has and the
  ledger stay what they were.
\<close>

definition money_tables :: "db \<Rightarrow> user_billing_account table \<times> toman_ledger_entry table" where
  "money_tables d = (billing_accounts d, toman_ledger d)"

definition opened :: "int \<Rightarrow> db \<Rightarrow> session \<Rightarrow> bool" where
  "opened uid d s \<longleftrightarrow> money_tables (work s) = money_tables (open_account uid d)"

lemma opened_rule:
  "leaves money_tables m \<Longrightarrow> hoare (opened uid d) m (\<lambda>_. opened uid d) (\<lambda>_ _. True)"
  by (auto simp: hoare_def leaves_def opened_def split: prod.splits sum.splits)

lemma opened_account:
  "hoare (\<lambda>s. work s = d) (get_or_create_billing_account uid)
     (\<lambda>acc s. acc = the_account d uid \<and> opened uid d s) E"
  by (rule hoareI) (auto simp: get_account_run opened_def)

lemma opened_account_again:
  "hoare (opened uid d) (get_or_create_billing_account uid)
     (\<lambda>acc s. acc = the_account d uid \<and> opened uid d s) E"
proof (rule hoareI)
  fix s assume o: "opened uid d s"
  then have a: "account_of (work s) uid = Some (the_account d uid)"
    using account_of_open [of uid d] by (simp add: opened_def money_tables_def account_of_def)
  then have "open_account uid (work s) = work s" "the_account (work s) uid = the_account d uid"
    by (simp_all add: open_account_def the_account_def)
  with o show "case get_or_create_billing_account uid s of (Inl e, s') \<Rightarrow> E e s'
      | (Inr acc, s') \<Rightarrow> acc = the_account d uid \<and> opened uid d s'"
    by (simp add: get_account_run)
qed

lemma opened_kept: "opened uid d s \<Longrightarrow> money_kept uid d (work s)"
  by (rule money_keptI) (simp_all add: opened_def money_tables_def)

lemma leaves_money [leaves_rules]:
  "leaves money_tables get_or_create_subscription_config"
  "leaves money_tables (existing_ledger key)"
  "leaves money_tables (live_subscription now uid)"
  "leaves money_tables (tiered_plan us)"
  "leaves money_tables (save_subscription sid u)"
  by (auto simp: leaves_def get_config_run money_tables_def live_subscription_def run_simps
      tiered_plan_def save_subscription_def intro: arg_cong [where f = "\<lambda>s. (billing_accounts (work s), toman_ledger (work s))"]
      split: option.splits prod.splits)
     (metis existing_ledger_state snd_conv)+

lemma leaves_quotes [leaves_rules]:
  "leaves money_tables (quote_chat_usage_toman model i out)"
  "leaves money_tables (usd_to_toman x)"
  unfolding quote_chat_usage_toman_def usd_to_toman_def Let_def by (rule leaves_rules)+

lemmas opened_rules = leaves_rules [THEN opened_rule]

lemma opened_bind:
  "(hoare (opened uid d) (f (the_account d uid)) Q E) \<Longrightarrow>
    hoare (\<lambda>s. work s = d) (bind (get_or_create_billing_account uid) f) Q E"
  by (rule hoare_bind [OF opened_account]) (rule hoare_pure, simp)

text \<open>A user with 100 Toman of gift credit and 50 of paid credit.\<close>

definition credit_scene :: session where
  "credit_scene = open_session (empty_db\<lparr>billing_accounts :=
     [(1, (new_billing_account 7)\<lparr>gift_balance_toman := Some 100, paid_balance_toman := Some 50\<rparr>)]\<rparr>)"

definition chat_outcome :: "int \<Rightarrow> db \<Rightarrow> chat_usage_charge_result \<Rightarrow> session \<Rightarrow> bool" where
  "chat_outcome uid d r t \<longleftrightarrow>
     (charged uid d r (work t) \<or> money_kept uid d (work t)) \<and>
     (\<not> c_ok r \<longrightarrow> toman_of d uid < c_billable_cost_toman r)"

lemma chat_kept: "opened uid d s \<Longrightarrow> c_ok r \<Longrightarrow> chat_outcome uid d r s"
  by (simp add: chat_outcome_def opened_kept)

lemma charge_balances_outcome:
  "0 < q_billable_cost_toman q \<Longrightarrow> hoare (opened uid d)
     (charge_balances now uid (the_account d uid) q us tier ue key md c) (chat_outcome uid d) (\<lambda>_ _. True)"
  by (rule hoareI)
     (auto simp: opened_def money_tables_def chat_outcome_def charged_def Let_def
       dest!: charge_balances_run split: prod.splits sum.splits if_splits)

section \<open>Other usage as payments out of a prepaid account\<close>

definition rate_of :: "db \<Rightarrow> int" where
  "rate_of d = positive_int (usd_to_toman_rate (config_of d)) DEFAULT_USD_TO_TOMAN_RATE"

definition charge_pay :: "int \<Rightarrow> int \<Rightarrow> string \<Rightarrow> bool \<Rightarrow> int \<Rightarrow> session \<Rightarrow> bool \<times> session" where
  "charge_pay rate uid ty c n s =
     (case charge_generic_usage_toman uid (Some (of_int n / of_int rate)) ty ''usage'' None None None c s
      of (Inl _, t) \<Rightarrow> (False, t) | (Inr r, t) \<Rightarrow> (g_ok r, t))"

definition solvent :: "int \<Rightarrow> int \<Rightarrow> session \<Rightarrow> bool" where
  "solvent rate uid s \<longleftrightarrow>
     0 \<le> gift_of (work s) uid \<and> 0 \<le> paid_of (work s) uid \<and> rate_of (work s) = rate \<and> 0 < rate"

lemma rate_of_frames [simp]:
  "rate_of (open_config d) = rate_of d" "rate_of (open_account uid d) = rate_of d"
  "rate_of (d\<lparr>billing_accounts := A, toman_ledger := L\<rparr>) = rate_of d"
  by (simp_all add: rate_of_def) (simp add: config_of_def)

lemma charge_pay_run:
  fixes uid :: int and ty :: string and c :: bool
  assumes "rate_of (work s) = rate" and "0 < rate" and "0 \<le> n"
  defines "t \<equiv> snd (charge_pay rate uid ty c n s)"
    and "g \<equiv> min (gift_of (work s) uid) n"
  shows "fst (charge_pay rate uid ty c n s) = (n \<le> 0 \<or> n \<le> toman_of (work s) uid)"
    and "rate_of (work t) = rate"
    and "gift_of (work t) uid = gift_of (work s) uid - (if 0 < n \<and> n \<le> toman_of (work s) uid then g else 0)"
    and "paid_of (work t) uid = paid_of (work s) uid - (if 0 < n \<and> n \<le> toman_of (work s) uid then n - g else 0)"
proof -
  let ?d = "open_config (open_account uid (work s))"
  let ?acc = "the_account (work s) uid"
  have cost: "round_toman (of_int k) = k" for k
    by (simp add: round_toman_def)
  have g: "g = min (or0 (gift_balance_toman (snd ?acc))) n" by (simp add: g_def balances_of_account)
  have run: "fst (charge_pay rate uid ty c n s) = (n \<le> 0 \<or> n \<le> toman_of (work s) uid) \<and>
      (if n \<le> 0 \<or> toman_of (work s) uid < n then work t = ?d
       else \<exists>e. work t = ?d\<lparr>billing_accounts := t_put (fst ?acc) (spent_account (snd ?acc) g (n - g))
                (billing_accounts ?d), toman_ledger := t_add e (toman_ledger ?d)\<rparr>)"
    using assms(1,2) unfolding t_def
    by (auto simp: charge_pay_def charge_generic_usage_toman_def run_simps get_account_run existing_ledger_def
        usd_to_toman_run Let_def cost g available_toman_account save_account_run add_ledger_run
        new_ledger_entry_def ledger_key_taken_def rate_of_def)
  then show "fst (charge_pay rate uid ty c n s) = (n \<le> 0 \<or> n \<le> toman_of (work s) uid)" by blast
  show "rate_of (work t) = rate"
    using run assms(1) by (auto split: if_splits)
  note w = written_balances [of ?d uid "work s" "spent_account (snd ?acc) g (n - g)" "work t"]
  show "gift_of (work t) uid = gift_of (work s) uid - (if 0 < n \<and> n \<le> toman_of (work s) uid then g else 0)"
    using run w by (auto simp: balances_of_account split: if_splits)
  show "paid_of (work t) uid = paid_of (work s) uid - (if 0 < n \<and> n \<le> toman_of (work s) uid then n - g else 0)"
    using run w by (auto simp: balances_of_account split: if_splits)
qed

interpretation credit: prepaid "solvent rate uid" "\<lambda>s. toman_of (work s) uid" "charge_pay rate uid ty c"
  for rate uid ty c
proof (unfold_locales, goal_cases)
  case (1 s)
  then show ?case by (simp add: solvent_def toman_of_def)
next
  case (2 s n)
  then show ?case using charge_pay_run [of s rate n uid ty c] by (auto simp: solvent_def toman_of_def)
next
  case (3 s n)
  then show ?case using charge_pay_run(1) [of s rate n uid ty c] by (auto simp: solvent_def toman_of_def)
next
  case (4 s n)
  then show ?case
    using charge_pay_run [of s rate n uid ty c] by (auto simp: solvent_def toman_of_def)
qed



section \<open>When a chat completion is permitted\<close>

text \<open>The service's promise, stated on the database alone.\<close>

definition chat_cost :: "db \<Rightarrow> llm_model obj \<Rightarrow> int \<Rightarrow> int \<Rightarrow> int" where
  "chat_cost d model i out =
     (case quote_chat_usage_toman model i out (open_session d) of
        (Inl _, _) \<Rightarrow> 0 | (Inr q, _) \<Rightarrow> q_billable_cost_toman q)"

definition subscription_of :: "instant \<Rightarrow> int \<Rightarrow> db \<Rightarrow> user_subscription obj option" where
  "subscription_of now uid d =
     t_first (\<lambda>_ u. us_user_id u = uid \<and> sub_is_live now u) (user_subscriptions d)"

definition tier_covers :: "instant \<Rightarrow> int \<Rightarrow> db \<Rightarrow> bool" where
  "tier_covers now uid d \<longleftrightarrow>
     (case subscription_of now uid d of
        None \<Rightarrow> False
      | Some (_, u) \<Rightarrow>
          (case t_get (subscription_plans d) (plan_id u) of
             None \<Rightarrow> False
           | Some p \<Rightarrow> plan_type p = ''tiered_cooldown'' \<and>
               \<not> weekly_limit_hit p (weekly_reset now u) \<and> \<not> in_cooldown now p u))"

definition chat_permitted :: "instant \<Rightarrow> int \<Rightarrow> int \<Rightarrow> db \<Rightarrow> bool" where
  "chat_permitted now uid cost d \<longleftrightarrow>
     cost \<le> 0 \<or> cost \<le> toman_of d uid \<or> tier_covers now uid d"

lemma quote_cost:
  "\<exists>q. quote_chat_usage_toman model i out s = (Inr q, s\<lparr>work := open_config (work s)\<rparr>) \<and>
    q_billable_cost_toman q = chat_cost (work s) model i out"
  by (simp add: quote_chat_usage_toman_def run_simps get_config_run Let_def chat_cost_def open_session_def)

lemma chat_cost_config: "config_of d = config_of e \<Longrightarrow> chat_cost d model i out = chat_cost e model i out"
  by (simp add: chat_cost_def open_session_def quote_chat_usage_toman_def run_simps get_config_run Let_def)

lemma reset_windows [simp]:
  "in_cooldown now p (weekly_reset now u) = in_cooldown now p u"
  "in_cooldown now p (cooldown_reset now u) = in_cooldown now p u"
  "weekly_limit_hit p (cooldown_reset now u) = weekly_limit_hit p u"
  "us_user_id (cooldown_reset now u) = us_user_id u" "us_user_id (weekly_reset now u) = us_user_id u"
  "sub_is_live now (cooldown_reset now u) = sub_is_live now u"
  "sub_is_live now (weekly_reset now u) = sub_is_live now u"
  "plan_id (cooldown_reset now u) = plan_id u" "plan_id (weekly_reset now u) = plan_id u"
  by (auto simp: in_cooldown_def weekly_reset_def cooldown_reset_def weekly_limit_hit_def sub_is_live_def
      split: option.splits)

lemma weekly_reset_again [simp]:
  "weekly_limit_hit p (weekly_reset now (cooldown_reset now (weekly_reset now u))) =
    weekly_limit_hit p (weekly_reset now u)"
  by (auto simp: weekly_limit_hit_def weekly_reset_def cooldown_reset_def days_def microseconds_def
      split: option.splits if_splits)

lemma charge_balances_ok:
  "charge_balances now uid acc q us tier ue None md c s = (Inr r, t) \<Longrightarrow>
    c_ok r = (q_billable_cost_toman q \<le> available_toman (snd acc))"
  by (auto simp: charge_balances_def Let_def run_simps save_account_run add_ledger_run charge_result0_def
      new_ledger_entry_def ledger_key_taken_def split: if_splits)

lemma tier_covers_saved:
  assumes "subscription_of now uid d = Some (sid, u)"
  shows "tier_covers now uid (d\<lparr>user_subscriptions :=
      t_put sid (cooldown_reset now (weekly_reset now u)) (user_subscriptions d)\<rparr>) = tier_covers now uid d"
proof -
  let ?P = "\<lambda>_ u. us_user_id u = uid \<and> sub_is_live now u"
  have f: "t_first ?P (user_subscriptions d) = Some (sid, u)"
    using assms by (simp add: subscription_of_def)
  have "?P sid (cooldown_reset now (weekly_reset now u))" using t_first_SomeD [OF f] by simp
  from t_first_put [OF f this] assms show ?thesis
    by (simp add: tier_covers_def subscription_of_def split: option.split)
qed

lemma check_run:
  assumes "check_chat_usage_permission_toman now uid model i out s = (Inr r, t)"
  shows "c_ok r = chat_permitted now uid (chat_cost (work s) model i out) (work s)"
    and "toman_of (work t) uid = toman_of (work s) uid"
    and "config_of (work t) = config_of (work s)"
    and "tier_covers now uid (work t) = tier_covers now uid (work s)"
proof -
  let ?d = "open_config (open_account uid (work s))"
  obtain q where q: "quote_chat_usage_toman model i out (s\<lparr>work := open_account uid (work s)\<rparr>) =
      (Inr q, s\<lparr>work := ?d\<rparr>)"
    and cost: "q_billable_cost_toman q = chat_cost (work s) model i out"
    using quote_cost [of model i out "s\<lparr>work := open_account uid (work s)\<rparr>"]
      chat_cost_config [of "open_account uid (work s)" "work s"] by auto
  note unfold = check_chat_usage_permission_toman_def run_simps get_account_run q cost
    live_subscription_def tiered_plan_def Let_def charge_result0_def available_toman_account
    save_subscription_def
  show "c_ok r = chat_permitted now uid (chat_cost (work s) model i out) (work s)"
    using assms by (auto simp: unfold chat_permitted_def tier_covers_def subscription_of_def
        split: option.splits prod.splits if_splits)
  have t: "work t = ?d \<or> (\<exists>sid u. subscription_of now uid ?d = Some (sid, u) \<and>
      work t = ?d\<lparr>user_subscriptions := t_put sid (cooldown_reset now (weekly_reset now u)) (user_subscriptions ?d)\<rparr>)"
    using assms by (auto simp: unfold subscription_of_def split: option.splits prod.splits if_splits)
  have same: "tier_covers now uid ?d = tier_covers now uid (work s)"
    by (simp add: tier_covers_def subscription_of_def split: option.split)
  have config_frame: "config_of (e\<lparr>user_subscriptions := U\<rparr>) = config_of e" for e U
    by (simp add: config_of_def)
  show "toman_of (work t) uid = toman_of (work s) uid"
    using t by (auto simp: toman_of_def)
  show "config_of (work t) = config_of (work s)"
    using t config_frame by auto
  show "tier_covers now uid (work t) = tier_covers now uid (work s)"
    using t tier_covers_saved [of now uid ?d] same by auto
qed

lemma charge_run:
  assumes "charge_chat_usage_toman now uid model i out ue None md c s = (Inr r, t)"
  shows "c_ok r = chat_permitted now uid (chat_cost (work s) model i out) (work s)"
proof -
  obtain q where q: "quote_chat_usage_toman model i out (s\<lparr>work := open_account uid (work s)\<rparr>) =
      (Inr q, s\<lparr>work := open_config (open_account uid (work s))\<rparr>)"
    and cost: "q_billable_cost_toman q = chat_cost (work s) model i out"
    using quote_cost [of model i out "s\<lparr>work := open_account uid (work s)\<rparr>"]
      chat_cost_config [of "open_account uid (work s)" "work s"] by auto
  have sub: "subscription_of now uid (open_config (open_account uid (work s))) = subscription_of now uid (work s)"
    by (simp add: subscription_of_def)
  show ?thesis
    using assms
    by (auto simp: charge_chat_usage_toman_def run_simps get_account_run existing_ledger_def q cost
        live_subscription_def tiered_plan_def Let_def charge_result0_def chat_permitted_def tier_covers_def
        subscription_of_def available_toman_account save_subscription_def
        dest!: charge_balances_ok split: option.splits prod.splits if_splits)
qed

text \<open>
  A series of usage charges against an account with no negative balance never overdraws it:
  the balance falls by exactly the charges that were accepted and stays non-negative, and when
  it covers the whole series every charge is accepted.
\<close>

theorem usage_series_never_overdraws:
  assumes "solvent rate uid s" and "\<forall>n \<in> set ns. 0 \<le> n"
    and "pay_all (charge_pay rate uid ty c) ns s = (oks, t)"
  shows "toman_of (work t) uid = toman_of (work s) uid - paid_amount oks ns \<and>
    0 \<le> gift_of (work t) uid \<and> 0 \<le> paid_of (work t) uid \<and>
    (sum_list ns \<le> toman_of (work s) uid \<longrightarrow> list_all id oks)"
  using credit.series_exact [OF assms] credit.series_covered [OF assms(1,2), where ty = ty and c = c] assms(3)
  by (auto simp: solvent_def)

theorem usage_series_never_overdraws_witness:
  "case pay_all (charge_pay 50000 7 ''usage'' True) [60, 80, 30] credit_scene of
     (oks, t) \<Rightarrow> oks = [True, True, False] \<and> toman_of (work t) 7 = 10 \<and> 0 \<le> paid_of (work t) 7"
proof -
  have run: "fst (pay_all (charge_pay 50000 7 ''usage'' True) [60, 80, 30] credit_scene) = [True, True, False]"
    and start: "toman_of (work credit_scene) 7 = 150"
    by code_simp+
  have "solvent 50000 7 credit_scene" by code_simp
  moreover have "\<forall>n \<in> set [60, 80, 30 :: int]. 0 \<le> n" by simp
  ultimately show ?thesis
    using usage_series_never_overdraws [of 50000 7 credit_scene "[60, 80, 30]" "''usage''" True] run start
    by (cases "pay_all (charge_pay 50000 7 ''usage'' True) [60, 80, 30] credit_scene")
      (simp add: paid_amount_def)
qed



section \<open>Topping up\<close>

lemma existing_ledger_runs:
  "existing_ledger (Some k) s = (Inr x, s') \<Longrightarrow> k \<noteq> [] \<Longrightarrow>
    s' = s \<and> (case x of None \<Rightarrow> t_select (\<lambda>_ e. tl_idempotency_key e = Some k) (toman_ledger (work s)) = []
                     | Some e \<Rightarrow> t_select (\<lambda>_ e. tl_idempotency_key e = Some k) (toman_ledger (work s)) = [e])"
  by (cases "t_select (\<lambda>_ e. tl_idempotency_key e = Some k) (toman_ledger (work s))"
        rule: scalar_one_or_none.cases)
     (auto simp: existing_ledger_def run_simps)

lemma t_select_add:
  "t_select P (t_add r t) = t_select P t @ (if P (t_next t) r then [(t_next t, r)] else [])"
  by (simp add: t_select_def t_add_def)

lemma quote_topup_opened:
  "hoare (opened uid d) (quote_toman_topup_payment now uid n) (\<lambda>_. opened uid d) (\<lambda>_ _. True)"
  unfolding quote_toman_topup_payment_def Let_def
  by (rule hoare_bind [OF opened_account_again], rule hoare_pure)
     (rule hoare_bind opened_rules | (rule hoare_ret; assumption))+

text \<open>
  The quote of a top-up is sound: the credit is the requested amount, the price never lies
  below zero nor above the undiscounted price, which never lies below the credit; the discount
  applies to no more than the cap; and a user who already used the first-top-up discount, or
  who never paid for a subscription and has none, gets none.
\<close>

theorem topup_quote_bounds:
  assumes "quote_toman_topup_payment now uid n s = (Inr q, t)"
  shows "credit_amount_toman q = max 0 n \<and> credit_amount_toman q \<le> normal_payment_toman q \<and>
    0 \<le> payment_due_toman q \<and> payment_due_toman q \<le> normal_payment_toman q \<and>
    0 \<le> discount_toman q \<and> 0 \<le> discounted_credit_toman q \<and>
    discounted_credit_toman q \<le> credit_amount_toman q \<and>
    discounted_credit_toman q \<le> positive_int (first_topup_discount_cap_toman (config_of (work s)))
      DEFAULT_FIRST_TOPUP_DISCOUNT_CAP_TOMAN \<and>
    discount_applied q = (0 < discount_toman q) \<and>
    (first_topup_discount_used (snd (the_account (work s) uid)) \<longrightarrow> discount_toman q = 0)"
proof -
  have up: "n \<le> round_toman (of_int n * (1 + m / 100))" if "0 \<le> n" "0 \<le> m" for n m
    using round_half_up_mono [of "of_int n" "of_int n * (1 + m / 100)"] that
    by (simp add: round_toman_def algebra_simps)
  have pos: "0 \<le> round_toman x" if "0 \<le> x" for x
    using that by (simp add: round_toman_def round_half_up_nonneg)
  have zero: "round_toman 0 = 0" using round_half_up_of_int [of 0] by (simp add: round_toman_def)
  show ?thesis
    using assms
    by (auto simp: quote_toman_topup_payment_def run_simps get_account_run get_config_run Let_def
        live_subscription_def zero intro!: up pos mult_nonneg_nonneg divide_nonneg_nonneg)
       (auto simp: positive_int_def)
qed

text \<open>A subscriber's first top-up of 400000 Toman: half off, up to the cap of 300000.\<close>

definition subscriber_scene :: session where
  "subscriber_scene = open_session (empty_db\<lparr>billing_accounts :=
     [(1, (new_billing_account 7)\<lparr>total_subscription_paid_toman := Some 80000\<rparr>)]\<rparr>)"

theorem topup_quote_bounds_witness:
  "case quote_toman_topup_payment 0 7 400000 subscriber_scene of
     (Inl _, _) \<Rightarrow> False
   | (Inr q, _) \<Rightarrow> normal_payment_toman q = 500000 \<and> payment_due_toman q = 312500 \<and>
       payment_due_toman q \<le> normal_payment_toman q"
proof -
  have run: "case quote_toman_topup_payment 0 7 400000 subscriber_scene of
      (Inl _, _) \<Rightarrow> False
    | (Inr q, _) \<Rightarrow> normal_payment_toman q = 500000 \<and> payment_due_toman q = 312500"
    by code_simp
  then obtain q t where go: "quote_toman_topup_payment 0 7 400000 subscriber_scene = (Inr q, t)"
    by (auto split: prod.splits sum.splits)
  from topup_quote_bounds [OF go] run go show ?thesis by simp
qed

text \<open>The ending the operations share: write the account, enter one row, commit, answer.\<close>

lemma post_rule:
  assumes "ba_user_id a' = uid"
  shows "hoare (opened uid d)
    (andthen (save_account (fst (the_account d uid)) a')
      (bind (add_ledger e) (\<lambda>x. andthen (commit_or_flush c) (ret (f x)))))
    (\<lambda>r t. r = f (t_next (toman_ledger d), e) \<and>
       gift_of (work t) uid = or0 (gift_balance_toman a') \<and>
       paid_of (work t) uid = or0 (paid_balance_toman a') \<and>
       toman_ledger (work t) = t_add e (toman_ledger d)) (\<lambda>_ _. True)"
proof (rule hoareI)
  fix s assume "opened uid d s"
  then have o: "billing_accounts (work s) = billing_accounts (open_account uid d)"
    "toman_ledger (work s) = toman_ledger d"
    by (simp_all add: opened_def money_tables_def)
  note w = written_balances [OF o(1) assms, of "(work s)\<lparr>billing_accounts := t_put (fst (the_account d uid)) a'
      (billing_accounts (work s)), toman_ledger := t_add e (toman_ledger d)\<rparr>"]
  show "case andthen (save_account (fst (the_account d uid)) a')
      (bind (add_ledger e) (\<lambda>x. andthen (commit_or_flush c) (ret (f x)))) s of
      (Inl _, _) \<Rightarrow> True
    | (Inr r, t) \<Rightarrow> r = f (t_next (toman_ledger d), e) \<and>
       gift_of (work t) uid = or0 (gift_balance_toman a') \<and>
       paid_of (work t) uid = or0 (paid_balance_toman a') \<and>
       toman_ledger (work t) = t_add e (toman_ledger d)"
    using w by (auto simp: run_simps save_account_run add_ledger_run o ledger_key_taken_def)
qed

lemma existing_rule:
  assumes "k \<noteq> []"
  shows "hoare (opened uid d) (existing_ledger (Some k))
    (\<lambda>x s. t_select (\<lambda>_ e. tl_idempotency_key e = Some k) (toman_ledger d) =
        (case x of None \<Rightarrow> [] | Some e \<Rightarrow> [e]) \<and> opened uid d s) (\<lambda>_ _. True)"
proof (rule hoareI)
  fix s assume o: "opened uid d s"
  obtain x t where run: "existing_ledger (Some k) s = (x, t)" by fastforce
  show "case existing_ledger (Some k) s of (Inl _, _) \<Rightarrow> True
    | (Inr x, s') \<Rightarrow> t_select (\<lambda>_ e. tl_idempotency_key e = Some k) (toman_ledger d) =
        (case x of None \<Rightarrow> [] | Some e \<Rightarrow> [e]) \<and> opened uid d s'"
  proof (cases x)
    case (Inr y)
    with existing_ledger_runs [OF _ assms, of s y t] run o show ?thesis
      by (cases y) (simp_all add: opened_def money_tables_def)
  qed (simp add: run)
qed

lemma quote_rule:
  "hoare (opened uid d) (quote_toman_topup_payment now uid n)
     (\<lambda>q s. credit_amount_toman q = max 0 n \<and> opened uid d s) (\<lambda>_ _. True)"
  unfolding quote_toman_topup_payment_def Let_def
  by (rule hoare_bind [OF opened_account_again], rule hoare_pure)
     (rule hoare_bind opened_rules | (rule hoare_ret; simp add: positive_int_def; fail))+

lemma topped_up_fields [simp]:
  "ba_user_id (topped_up_account a q) = ba_user_id a"
  "gift_balance_toman (topped_up_account a q) = gift_balance_toman a"
  "paid_balance_toman (topped_up_account a q) = Some (or0 (paid_balance_toman a) + credit_amount_toman q)"
  by (simp_all add: topped_up_account_def)

definition topup_outcome :: "int \<Rightarrow> db \<Rightarrow> int \<Rightarrow> string \<Rightarrow> topup_result \<Rightarrow> session \<Rightarrow> bool" where
  "topup_outcome uid d n k r t \<longleftrightarrow>
     (case t_reason r of
        None \<Rightarrow> t_ok r \<and> 0 < n \<and> paid_of (work t) uid = paid_of d uid + n \<and>
          gift_of (work t) uid = gift_of d uid \<and>
          (\<exists>e. tl_idempotency_key e = Some k \<and> toman_ledger (work t) = t_add e (toman_ledger d) \<and>
            t_select (\<lambda>_ e. tl_idempotency_key e = Some k) (toman_ledger d) = [] \<and>
            t_ledger_entry r = Some (t_next (toman_ledger d), e))
      | Some why \<Rightarrow> money_kept uid d (work t) \<and>
          (case t_select (\<lambda>_ e. tl_idempotency_key e = Some k) (toman_ledger d) of
             [x] \<Rightarrow> t_ok r \<and> why = ''idempotent'' \<and> t_ledger_entry r = Some x
           | _ \<Rightarrow> \<not> t_ok r))"

lemma topup_run:
  assumes "k \<noteq> []"
  shows "hoare (\<lambda>z. work z = d) (apply_toman_topup now uid n (Some k) md c)
    (topup_outcome uid d n k) (\<lambda>_ _. True)"
  unfolding apply_toman_topup_def Let_def fst_conv snd_conv
proof (rule opened_bind, rule hoare_bind [OF existing_rule [OF assms]], rule hoare_pure,
    rule hoare_bind [OF quote_rule], rule hoare_pure, rule hoare_option, goal_cases)
  case (1 x q)
  then show ?case
    by (intro hoare_if hoare_post [OF post_rule] hoare_ret)
      (auto simp: topup_outcome_def opened_kept new_ledger_entry_def balances_of_account)
next
  case (2 x q e)
  then show ?case
    by (intro hoare_ret) (simp add: topup_outcome_def opened_kept)
qed

text \<open>
  A top-up with an idempotency key credits once. The first time the paid balance rises by the
  credit and one ledger row records it; any later top-up of that user with the same key, whatever its amount,
  answers with that row and changes no balance and no ledger row.
\<close>

theorem topup_credits_once:
  assumes "apply_toman_topup now uid n (Some k) md c s = (Inr r, t)" and "k \<noteq> []"
    and "t_reason r = None"
    and "apply_toman_topup now' uid n' (Some k) md' c' t = (Inr r', t')"
  shows "t_ok r \<and> 0 < n \<and> paid_of (work t) uid = paid_of (work s) uid + n \<and>
    gift_of (work t) uid = gift_of (work s) uid \<and>
    t_ok r' \<and> t_reason r' = Some ''idempotent'' \<and> t_ledger_entry r' = t_ledger_entry r \<and>
    money_kept uid (work t) (work t')"
proof -
  let ?sel = "t_select (\<lambda>_ e. tl_idempotency_key e = Some k)"
  have one: "topup_outcome uid (work s) n k r t"
    using hoareD [OF topup_run [OF assms(2)] refl assms(1)] .
  then obtain e where e: "?sel (toman_ledger (work s)) = []" "tl_idempotency_key e = Some k"
    "toman_ledger (work t) = t_add e (toman_ledger (work s))"
    "t_ledger_entry r = Some (t_next (toman_ledger (work s)), e)"
    using assms(3) by (auto simp: topup_outcome_def)
  then have sel: "?sel (toman_ledger (work t)) = [(t_next (toman_ledger (work s)), e)]"
    by (simp add: t_select_add)
  have "topup_outcome uid (work t) n' k r' t'"
    using hoareD [OF topup_run [OF assms(2)] refl assms(4)] .
  with one sel e assms(3) show ?thesis
    by (auto simp: topup_outcome_def t_select_add split: option.splits)
qed

theorem topup_credits_once_witness:
  "case apply_toman_topup 0 7 200 (Some ''k1'') None True credit_scene of
     (Inl _, _) \<Rightarrow> False
   | (Inr r, t) \<Rightarrow> paid_of (work t) 7 = 250 \<and>
       (case apply_toman_topup 5 7 900 (Some ''k1'') None True t of
          (Inl _, _) \<Rightarrow> False
        | (Inr r', t') \<Rightarrow> t_ledger_entry r' = t_ledger_entry r \<and> paid_of (work t') 7 = 250)"
proof -
  let ?first = "apply_toman_topup 0 7 200 (Some ''k1'') None True"
  let ?again = "apply_toman_topup 5 7 900 (Some ''k1'') None True"
  have start: "paid_of (work credit_scene) 7 = 50" by code_simp
  have run: "case ?first credit_scene of (Inl _, _) \<Rightarrow> False
      | (Inr r, t) \<Rightarrow> t_reason r = None \<and> (case ?again t of (Inl _, _) \<Rightarrow> False | (Inr _, _) \<Rightarrow> True)"
    by code_simp
  then obtain r t r' t' where go: "?first credit_scene = (Inr r, t)" "t_reason r = None"
    "?again t = (Inr r', t')"
    by (auto split: prod.splits sum.splits)
  from topup_credits_once [OF go(1) _ go(2,3)] go start show ?thesis by (simp add: money_kept_def)
qed

end
