(* ===== verification/Payment_Review.thy ===== *)
theory Payment_Review
  imports Payments Toman_Lemmas
begin

text \<open>
  The life of a payment request: pending, then approved or rejected, once; and what an approval
  credits.
\<close>

section \<open>A review is final\<close>

text \<open>Every route of the module, in any order, whatever it answers or raises.\<close>

inductive payment_step :: "session \<Rightarrow> session \<Rightarrow> bool" where
  create: "payment_step s (snd (create_payment_request now tg amt descr path s))"
| approve: "payment_step s (snd (approve_payment_request now rid note s))"
| reject: "payment_step s (snd (reject_payment_request now rid reason s))"
| new_method: "payment_step s (snd (create_payment_method row s))"
| change_method: "payment_step s (snd (update_payment_method mid data s))"
| drop_method: "payment_step s (snd (delete_payment_method mid s))"

inductive_cases payment_stepE: "payment_step s t"

inductive payment_run :: "session \<Rightarrow> session \<Rightarrow> bool" where
  stop: "payment_run s s"
| step: "payment_run s t \<Longrightarrow> payment_step t u \<Longrightarrow> payment_run s u"

definition settled :: "int \<Rightarrow> payment_request \<Rightarrow> db \<Rightarrow> bool" where
  "settled rid q d \<longleftrightarrow> t_get (payment_requests d) rid = Some q \<and> pq_status q \<noteq> ''pending''"

lemma settled_frame [intro]:
  "settled rid q d \<Longrightarrow> payment_requests e = payment_requests d \<Longrightarrow> settled rid q e"
  by (simp add: settled_def)

text \<open>An update of another table keeps a settled request.\<close>

lemma settled_update:
  "(\<And>d. payment_requests (f d) = payment_requests d) \<Longrightarrow> invar (settled rid q) (update f)"
  by (rule invar_update) auto

lemma settled_save:
  "r \<noteq> rid \<Longrightarrow> invar (settled rid q) (save_request r x)"
  unfolding save_request_def by (rule invar_update) (simp add: settled_def row_simps)

lemma settled_purchase: "invar (settled rid q) (purchase_toman_subscription now uid plan key conf wal grant c)"
  unfolding purchase_toman_subscription_def Let_def settle_purchase_def get_or_create_billing_account_def
    existing_ledger_def live_subscription_def get_or_create_subscription_config_def add_subscription_def
    assign_subscription_pool_def save_account_def add_ledger_def
  by (rule invar_rules settled_update | (simp; fail))+

lemma settled_record: "invar (settled rid q) (record_admin_action a b c d e f g)"
  unfolding record_admin_action_def by (rule settled_update) simp

lemma settled_notify: "invar (settled rid q) (notify_payment r a b)"
  unfolding notify_payment_def request_user_def Let_def by (rule invar_rules)+

lemma settled_approve: "invar (settled rid q) (approve_payment_request now r note)"
  unfolding approve_payment_request_def
proof (rule invar_query_bind, rule invar_option)
  fix d x
  assume d: "settled rid q d" and x: "t_get (payment_requests d) r = Some x"
  show "invar (settled rid q)
     (if pq_status x \<noteq> ''pending'' then raise (HTTPException 400 ''request already reviewed'')
      else bind (request_user x) (\<lambda>user.
        if user = None then raise (HTTPException 404 ''user not found'')
        else andthen (if str_or (payment_type x) ''topup'' = ''subscription'' \<and> or0 (pq_plan_id x) \<noteq> 0
                      then approve_subscription now r x (or0 (pq_plan_id x)) note
                      else approve_topup now r x note)
             (andthen commit (notify_payment r True False))))"
  proof (rule invar_if, goal_cases)
    case 2
    with d x have "r \<noteq> rid" by (auto simp: settled_def)
    then show ?case
      unfolding approve_subscription_def approve_topup_def request_user_def Let_def
        get_or_create_billing_account_def save_account_def add_ledger_def
      by (intro invar_rules settled_purchase settled_save settled_record settled_notify settled_update) simp_all
  qed (rule invar_rules)
qed (rule invar_rules)

lemma settled_reject: "invar (settled rid q) (reject_payment_request now r reason)"
  unfolding reject_payment_request_def
proof (rule invar_query_bind, rule invar_option)
  fix d x
  assume d: "settled rid q d" and x: "t_get (payment_requests d) r = Some x"
  show "invar (settled rid q)
     (if pq_status x \<noteq> ''pending'' then raise (HTTPException 400 ''request already reviewed'')
      else andthen (save_request r (reviewed now ''rejected'' (Some reason) x))
       (andthen (record_admin_action (Some 1) ''reject_payment'' ''payment_request'' r
          (''rejected payment '' @ format_toman (pq_amount_toman x) @ '': '' @ reason) None None)
       (andthen commit (notify_payment r False True))))"
  proof (rule invar_if, goal_cases)
    case 2
    with d x have "r \<noteq> rid" by (auto simp: settled_def)
    then show ?case by (intro invar_rules settled_save settled_record settled_notify)
  qed (rule invar_rules)
qed (rule invar_rules)

lemma settled_create: "invar (settled rid q) (create_payment_request now tg amt descr path)"
proof -
  have grow: "invar (settled rid q) (update (\<lambda>d. d\<lparr>payment_requests := t_add row (payment_requests d)\<rparr>))" for row
    by (rule invar_update) (auto simp: settled_def tbl.insert_keeps)
  show ?thesis
    unfolding create_payment_request_def user_by_telegram_def Let_def
    by (intro invar_rules grow)
qed

lemma settled_methods:
  "invar (settled rid q) (create_payment_method row)"
  "invar (settled rid q) (update_payment_method mid data)"
  "invar (settled rid q) (delete_payment_method mid)"
  unfolding create_payment_method_def update_payment_method_def delete_payment_method_def Let_def
  by (rule invar_rules settled_update | (simp; fail))+

lemmas settled_steps =
  settled_create settled_approve settled_reject settled_methods

lemma payment_step_settled:
  "payment_step s t \<Longrightarrow> on_both (settled rid q) s \<Longrightarrow> on_both (settled rid q) t"
  by (erule payment_stepE) (simp_all add: settled_steps [THEN invarD])

text \<open>
  C12. A review is final: once a payment request is approved or rejected, no sequence of calls
  of the payment routes, whatever they answer or raise, changes anything of it again.
\<close>

theorem reviewed_request_is_final:
  assumes "payment_run s t" and "t_get (payment_requests (work s)) rid = Some q"
    and "durable s = work s" and "pq_status q \<noteq> ''pending''"
  shows "t_get (payment_requests (work t)) rid = Some q \<and> t_get (payment_requests (durable t)) rid = Some q"
proof -
  from assms(1) have "on_both (settled rid q) s \<Longrightarrow> on_both (settled rid q) t"
    by (induction rule: payment_run.induct) (simp_all add: payment_step_settled)
  with assms(2-4) show ?thesis by (simp add: on_both_def settled_def)
qed

text \<open>A rejected request of 5000 Toman; an attempt to approve it changes nothing of it.\<close>

definition request_of :: "string \<Rightarrow> payment_request" where
  "request_of status =
     \<lparr>pq_user_id = 1, pq_amount_toman = 5000, receipt_image_path = ''r.jpg'', pq_description = None,
      payment_type = Some ''topup'', pq_plan_id = None, pq_status = status, admin_note = None,
      approved_by = None, approved_at = None, pq_created_at = 0\<rparr>"

definition review_scene :: "string \<Rightarrow> session" where
  "review_scene status = open_session (empty_db\<lparr>users := [(1, sample_user)],
     payment_requests := [(4, request_of status)]\<rparr>)"

theorem reviewed_request_is_final_witness:
  "t_get (payment_requests (work (snd (approve_payment_request 9 4 None (review_scene ''rejected''))))) 4 =
    Some (request_of ''rejected'')"
proof -
  have "payment_run (review_scene ''rejected'')
      (snd (approve_payment_request 9 4 None (review_scene ''rejected'')))"
    by (rule payment_run.step [OF payment_run.stop payment_step.approve])
  from reviewed_request_is_final [OF this, of 4 "request_of ''rejected''"] show ?thesis
    by (simp add: review_scene_def open_session_def t_get_def request_of_def)
qed

section \<open>What an approval credits\<close>

lemma paid_account_balances [simp]:
  "gift_balance_toman (paid_account a n) = gift_balance_toman a"
  "paid_balance_toman (paid_account a n) = Some (or0 (paid_balance_toman a) + n)"
  by (simp_all add: paid_account_def)

lemma approve_topup_run:
  fixes q :: payment_request and now :: instant and nt :: "string option"
  defines "uid \<equiv> pq_user_id q" and "q' \<equiv> reviewed now ''approved'' (approved_note nt q) q"
  shows "\<exists>t. approve_topup now rid q nt s = (Inr (), t) \<and>
    gift_of (work t) uid = gift_of (work s) uid \<and>
    paid_of (work t) uid = paid_of (work s) uid + pq_amount_toman q \<and>
    payment_requests (work t) = t_put rid q' (payment_requests (work s)) \<and>
    users (work t) = users (work s)"
proof -
  define acc where "acc = the_account (work s) uid"
  have u: "pq_user_id q = uid" by (simp add: uid_def)
  have "\<exists>t. approve_topup now rid q nt s = (Inr (), t) \<and>
    billing_accounts (work t) = t_put (fst acc) (paid_account (snd acc) (pq_amount_toman q))
      (billing_accounts (open_account uid (work s))) \<and>
    payment_requests (work t) = t_put rid q' (payment_requests (work s)) \<and>
    users (work t) = users (work s)"
    by (simp add: approve_topup_def u run_simps get_account_run Let_def save_account_run add_ledger_run
        manual_payment_entry_def ledger_key_taken_def save_request_def record_admin_action_def
        q'_def acc_def)
  then obtain t where t: "approve_topup now rid q nt s = (Inr (), t)"
    "billing_accounts (work t) = t_put (fst acc) (paid_account (snd acc) (pq_amount_toman q))
      (billing_accounts (open_account uid (work s)))"
    "payment_requests (work t) = t_put rid q' (payment_requests (work s))" "users (work t) = users (work s)"
    by blast
  from written_balances [OF refl _ t(2) [unfolded acc_def]] t show ?thesis
    by (simp add: acc_def balances_of_account)
qed

lemma approve_run:
  assumes q: "t_get (payment_requests (work s)) rid = Some q" and "pq_status q = ''pending''"
    and u: "t_get (users (work s)) (pq_user_id q) = Some u"
    and "str_or (payment_type q) ''topup'' \<noteq> ''subscription''"
  shows "\<exists>r t. approve_payment_request now rid note s = (Inr r, t) \<and>
    gift_of (work t) (pq_user_id q) = gift_of (work s) (pq_user_id q) \<and>
    paid_of (work t) (pq_user_id q) = paid_of (work s) (pq_user_id q) + pq_amount_toman q \<and>
    t_get (payment_requests (work t)) rid = Some (reviewed now ''approved'' (approved_note note q) q) \<and>
    durable t = work t"
proof -
  obtain t where t: "approve_topup now rid q note s = (Inr (), t)"
    "gift_of (work t) (pq_user_id q) = gift_of (work s) (pq_user_id q)"
    "paid_of (work t) (pq_user_id q) = paid_of (work s) (pq_user_id q) + pq_amount_toman q"
    "payment_requests (work t) = t_put rid (reviewed now ''approved'' (approved_note note q) q)
       (payment_requests (work s))" "users (work t) = users (work s)"
    using approve_topup_run [of now rid q "note" s] by blast
  let ?t = "t\<lparr>durable := work t\<rparr>"
  have got: "t_get (payment_requests (work ?t)) rid = Some (reviewed now ''approved'' (approved_note note q) q)"
    using t(4) q by (simp add: row_simps)
  have "\<exists>r t'. notify_payment rid True False ?t = (Inr r, t') \<and> work t' = work t \<and> durable t' = work t"
    using got by (simp add: notify_payment_def request_user_def run_simps Let_def)
  then obtain r t' where n: "notify_payment rid True False ?t = (Inr r, t')" "work t' = work t"
    "durable t' = work t" by blast
  have "approve_payment_request now rid note s = (Inr r, t')"
    using assms t(1) n(1) by (simp add: approve_payment_request_def run_simps request_user_def)
  with t n got show ?thesis by auto
qed

lemma review_again:
  assumes "t_get (payment_requests (work t)) rid = Some q" and "pq_status q \<noteq> ''pending''"
  shows "approve_payment_request now rid note t = (Inl (HTTPException 400 ''request already reviewed''), t)"
    and "reject_payment_request now rid reason t = (Inl (HTTPException 400 ''request already reviewed''), t)"
  using assms by (simp_all add: approve_payment_request_def reject_payment_request_def run_simps)

text \<open>
  C13. Approving a pending top-up request of an existing user succeeds, is committed, and raises
  the paid balance by exactly the requested amount; a second review, either way, is refused with
  status 400 and changes nothing.
\<close>

theorem approval_credits_exactly_once:
  assumes "t_get (payment_requests (work s)) rid = Some q" and "pq_status q = ''pending''"
    and "t_get (users (work s)) (pq_user_id q) = Some u"
    and "str_or (payment_type q) ''topup'' \<noteq> ''subscription''"
  shows "\<exists>r t. approve_payment_request now rid note s = (Inr r, t) \<and> durable t = work t \<and>
    paid_of (work t) (pq_user_id q) = paid_of (work s) (pq_user_id q) + pq_amount_toman q \<and>
    gift_of (work t) (pq_user_id q) = gift_of (work s) (pq_user_id q) \<and>
    approve_payment_request now' rid note' t = (Inl (HTTPException 400 ''request already reviewed''), t) \<and>
    reject_payment_request now' rid reason t = (Inl (HTTPException 400 ''request already reviewed''), t)"
proof -
  obtain r t where t: "approve_payment_request now rid note s = (Inr r, t)" "durable t = work t"
    "paid_of (work t) (pq_user_id q) = paid_of (work s) (pq_user_id q) + pq_amount_toman q"
    "gift_of (work t) (pq_user_id q) = gift_of (work s) (pq_user_id q)"
    "t_get (payment_requests (work t)) rid = Some (reviewed now ''approved'' (approved_note note q) q)"
    using approve_run [OF assms] by blast
  have "pq_status (reviewed now ''approved'' (approved_note note q) q) \<noteq> ''pending''"
    by (simp add: reviewed_def)
  from review_again [OF t(5) this] t show ?thesis by blast
qed

theorem approval_credits_exactly_once_witness:
  "\<exists>r t. approve_payment_request 9 4 None (review_scene ''pending'') = (Inr r, t) \<and>
    paid_of (work t) 1 = 5000"
proof -
  have "t_get (payment_requests (work (review_scene ''pending''))) 4 = Some (request_of ''pending'')"
    "t_get (users (work (review_scene ''pending''))) (pq_user_id (request_of ''pending'')) = Some sample_user"
    "pq_status (request_of ''pending'') = ''pending''"
    "str_or (payment_type (request_of ''pending'')) ''topup'' \<noteq> ''subscription''"
    "paid_of (work (review_scene ''pending'')) 1 = 0"
    "pq_user_id (request_of ''pending'') = 1" "pq_amount_toman (request_of ''pending'') = 5000"
    by code_simp+
  from approval_credits_exactly_once [OF this(1,3,2,4)] this(5-7) show ?thesis by fastforce
qed

section \<open>Amounts as text\<close>

lemma filter_commas: "filter (\<lambda>c. c \<noteq> CHR '','') (commas ds) = filter (\<lambda>c. c \<noteq> CHR '','') ds"
  by (induction ds rule: commas.induct) auto

lemma filter_rev_commas:
  "filter (\<lambda>c. c \<noteq> CHR '','') (rev (commas (rev ds))) = filter (\<lambda>c. c \<noteq> CHR '','') ds"
proof -
  have "filter (\<lambda>c. c \<noteq> CHR '','') (rev (commas (rev ds))) =
      rev (filter (\<lambda>c. c \<noteq> CHR '','') (commas (rev ds)))" by (simp add: rev_filter)
  also have "\<dots> = filter (\<lambda>c. c \<noteq> CHR '','') ds" by (simp add: filter_commas rev_filter)
  finally show ?thesis .
qed

lemma digits_no_comma: "filter (\<lambda>c. c \<noteq> CHR '','') (digits_of n) = digits_of n"
  using digits_of_digits digit_chars by (intro filter_True) blast

text \<open>
  The text of an amount reads back: without its thousands separators it is a numeral that
  Python's \<open>int\<close> turns into the amount, whatever its sign and size.
\<close>

theorem amount_text_round_trip:
  "int_of_str (filter (\<lambda>c. c \<noteq> CHR '','') (format_toman n)) = Some n"
proof (cases "n < 0")
  case True
  then have "filter (\<lambda>c. c \<noteq> CHR '','') (format_toman n) = CHR ''-'' # digits_of (nat (- n))"
    by (simp add: format_toman_def str_int_def filter_rev_commas digits_no_comma)
  with True show ?thesis by (simp add: int_of_minus)
next
  case False
  then have "filter (\<lambda>c. c \<noteq> CHR '','') (format_toman n) = digits_of (nat n)"
    by (simp add: format_toman_def str_int_def filter_rev_commas digits_no_comma)
  with False show ?thesis by (simp add: int_of_digits)
qed

end
