(* ===== verification/Toman_Purchase.thy ===== *)
theory Toman_Purchase
  imports Toman_Lemmas
begin

text \<open>What buying a subscription does, and what a refused purchase leaves alone.\<close>

definition opened_subs :: "int \<Rightarrow> db \<Rightarrow> session \<Rightarrow> bool" where
  "opened_subs uid d s \<longleftrightarrow> opened uid d s \<and> user_subscriptions (work s) = user_subscriptions d"

lemma opened_subs_rule:
  "leaves money_tables m \<Longrightarrow> leaves user_subscriptions m \<Longrightarrow>
    hoare (opened_subs uid d) m (\<lambda>_. opened_subs uid d) (\<lambda>_ _. True)"
  by (auto simp: hoare_def leaves_def opened_subs_def opened_def split: prod.splits sum.splits)

lemma opened_subs_account:
  "hoare (opened_subs uid d) (f (the_account d uid)) Q E \<Longrightarrow>
    hoare (\<lambda>s. work s = d) (bind (get_or_create_billing_account uid) f) Q E"
  by (rule hoare_bind [where R = "\<lambda>acc s. acc = the_account d uid \<and> opened_subs uid d s"])
     (auto simp: hoare_def get_account_run opened_subs_def opened_def)

lemma t_del_add [simp]: "t_del (t_next t) (t_add r t) = t"
proof -
  have "filter (\<lambda>(j, _). j \<noteq> t_next t) t = t"
    by (rule filter_True) (use t_next_gt in fastforce)
  then show ?thesis by (simp add: t_del_def t_add_def)
qed

lemma purchased_account_fields [simp]:
  "ba_user_id (purchased_account a w dg g p) = ba_user_id a"
  "gift_balance_toman (purchased_account a w dg g p) = Some (or0 (gift_balance_toman a) + dg)"
  "0 \<le> w \<Longrightarrow> or0 (paid_balance_toman (purchased_account a w dg g p)) = or0 (paid_balance_toman a) - w"
  by (simp_all add: purchased_account_def Let_def)

lemma post_two_run:
  assumes "andthen (save_account i a) (bind (add_ledger e) (\<lambda>x. bind (add_ledger f) (\<lambda>y.
      andthen (commit_or_flush c) (ret (g x y))))) s = (Inr r, t)"
  shows "(\<exists>k k'. r = g (k, e) (k', f)) \<and>
    billing_accounts (work t) = t_put i a (billing_accounts (work s)) \<and>
    user_subscriptions (work t) = user_subscriptions (work s) \<and>
    map snd (toman_ledger (work t)) = map snd (toman_ledger (work s)) @ [e, f]"
  using assms
  by (auto simp: run_simps save_account_run add_ledger_run t_add_def split: if_splits)

lemma settle_run:
  assumes "settle_purchase uid (the_account d uid) plan (sid, u) price gift w ext key conf grant c s = (Inr r, t)"
    and "billing_accounts (work s) = billing_accounts (open_account uid d)" and "0 \<le> w"
  shows "p_ok r \<and> p_reason r = None \<and> p_subscription r = Some (sid, u) \<and> p_payment_toman r = price \<and>
    p_gift_credit_toman r = gift \<and> p_wallet_payment_toman r = w \<and> p_external_payment_toman r = ext \<and>
    paid_of (work t) uid = paid_of d uid - w \<and>
    gift_of (work t) uid = gift_of d uid + (if grant then gift else 0) \<and>
    user_subscriptions (work t) = user_subscriptions (work s) \<and>
    (\<exists>p g. map snd (toman_ledger (work t)) = map snd (toman_ledger (work s)) @ [p, g] \<and>
       amount_toman p = price \<and> amount_toman g = gift)"
proof -
  define a where "a = purchased_account (snd (the_account d uid)) w (if grant then gift else 0) gift price"
  have "p_ok r \<and> p_reason r = None \<and> p_subscription r = Some (sid, u) \<and> p_payment_toman r = price \<and>
    p_gift_credit_toman r = gift \<and> p_wallet_payment_toman r = w \<and> p_external_payment_toman r = ext \<and>
    billing_accounts (work t) = t_put (fst (the_account d uid)) a (billing_accounts (work s)) \<and>
    user_subscriptions (work t) = user_subscriptions (work s) \<and>
    (\<exists>p g. map snd (toman_ledger (work t)) = map snd (toman_ledger (work s)) @ [p, g] \<and>
       amount_toman p = price \<and> amount_toman g = gift)"
    using post_two_run [OF assms(1) [unfolded settle_purchase_def Let_def fst_conv snd_conv]]
    by (auto simp: a_def purchase_result0_def new_ledger_entry_def)
  moreover from this have
    "gift_of (work t) uid = or0 (gift_balance_toman a)" "paid_of (work t) uid = or0 (paid_balance_toman a)"
    using written_balances [OF assms(2), of a "work t"] by (simp_all add: a_def)
  ultimately show ?thesis using assms(3) by (simp add: a_def balances_of_account)
qed

definition purchase_outcome ::
  "instant \<Rightarrow> int \<Rightarrow> subscription_plan obj \<Rightarrow> bool \<Rightarrow> int option \<Rightarrow> bool \<Rightarrow> db \<Rightarrow> purchase_result \<Rightarrow> session \<Rightarrow> bool" where
  "purchase_outcome now uid plan conf wal grant d r t \<longleftrightarrow>
     (if p_reason r = None then
        p_ok r \<and> subscription_of now uid d = None \<and>
        0 \<le> p_wallet_payment_toman r \<and> p_wallet_payment_toman r \<le> paid_of d uid \<and>
        p_wallet_payment_toman r + p_external_payment_toman r = p_payment_toman r \<and>
        (conf \<or> p_external_payment_toman r \<le> 0) \<and>
        (conf \<and> wal = None \<longrightarrow> p_wallet_payment_toman r = 0) \<and>
        paid_of (work t) uid = paid_of d uid - p_wallet_payment_toman r \<and>
        gift_of (work t) uid = gift_of d uid + (if grant then p_gift_credit_toman r else 0) \<and>
        (\<exists>sid u. p_subscription r = Some (sid, u) \<and> t_get (user_subscriptions (work t)) sid = Some u \<and>
           us_user_id u = uid \<and> plan_id u = fst plan \<and> pool_id u \<noteq> None \<and>
           us_status u = ''active'' \<and> expires_at u = now + days 30)
      else money_kept uid d (work t) \<and> user_subscriptions (work t) = user_subscriptions d \<and>
        (p_ok r \<longrightarrow> p_subscription r = None))"

lemma refused_purchase:
  "opened_subs uid d s \<Longrightarrow> p_reason r \<noteq> None \<Longrightarrow> p_ok r \<longrightarrow> p_subscription r = None \<Longrightarrow> purchase_outcome now uid plan conf wal grant d r s"
  by (auto simp: purchase_outcome_def opened_subs_def opened_kept)

text \<open>From the new subscription on.\<close>

lemma enrol_run:
  assumes "subscription_of now uid d = None" and "0 \<le> w" and "w \<le> paid_of d uid" and "w + ext = price"
    and "conf \<or> ext \<le> 0" and "conf \<and> wal = None \<longrightarrow> w = 0"
    and "\<And>i u k. p_reason (no i u k) \<noteq> None \<and> \<not> p_ok (no i u k)"
  shows "hoare (opened_subs uid d)
    (bind (add_subscription (new_subscription uid (fst plan) now (now + days 30))) (\<lambda>(sid, sub).
       bind (attempt (assign_subscription_pool (sid, sub))) (\<lambda>pool.
       case pool of
         Inl e \<Rightarrow> (case capacity_error_code e of
             None \<Rightarrow> raise e
           | Some k \<Rightarrow> andthen (update (\<lambda>d. d\<lparr>user_subscriptions := t_del sid (user_subscriptions d)\<rparr>))
               (ret (no sid sub k)))
       | Inr (pid, _) \<Rightarrow> settle_purchase uid (the_account d uid) plan (sid, sub\<lparr>pool_id := Some pid\<rparr>)
           price gift w ext key conf grant c)))
    (purchase_outcome now uid plan conf wal grant d) (\<lambda>_ _. True)"
    (is "hoare _ ?m _ _")
proof (rule hoareI)
  fix s assume o: "opened_subs uid d s"
  then have b: "billing_accounts (work s) = billing_accounts (open_account uid d)"
    "toman_ledger (work s) = toman_ledger d" "user_subscriptions (work s) = user_subscriptions d"
    by (simp_all add: opened_subs_def opened_def money_tables_def)
  let ?sub = "new_subscription uid (fst plan) now (now + days 30)"
  let ?sid = "t_next (user_subscriptions d)"
  let ?s = "s\<lparr>work := (work s)\<lparr>user_subscriptions := t_add ?sub (user_subscriptions d)\<rparr>\<rparr>"
  have sub: "pool_id ?sub = None" by (simp add: new_subscription_def)
  show "case ?m s of (Inl _, _) \<Rightarrow> True | (Inr r, t) \<Rightarrow> purchase_outcome now uid plan conf wal grant d r t"
  proof (cases rule: assign_subscription_pool_cases [of ?sub ?s ?sid])
    case (kept pid p)
    with sub show ?thesis by simp
  next
    case (refused msg)
    with o b show ?thesis
      by (simp add: run_simps add_subscription_def refused_purchase assms(7) opened_subs_def opened_def
          money_tables_def)
  next
    case (assigned pid p)
    let ?u = "?sub\<lparr>pool_id := Some pid\<rparr>"
    let ?t = "?s\<lparr>work := (work ?s)\<lparr>user_subscriptions := t_put ?sid ?u (user_subscriptions (work ?s)),
        capacity_pools := t_put pid (p\<lparr>active_users := min (max 0 (active_users p) + 1) (max 0 (max_users p))\<rparr>)
          (capacity_pools (work ?s))\<rparr>\<rparr>"
    have m: "?m s = settle_purchase uid (the_account d uid) plan (?sid, ?u) price gift w ext key conf grant c ?t"
      using assigned b by (simp add: run_simps add_subscription_def)
    obtain x t where x: "settle_purchase uid (the_account d uid) plan (?sid, ?u) price gift w ext key conf grant c ?t = (x, t)"
      by fastforce
    show ?thesis
    proof (cases x)
      case (Inr r)
      have subs: "user_subscriptions (work ?t) = t_add ?u (user_subscriptions d)" by simp
      have "billing_accounts (work ?t) = billing_accounts (open_account uid d)" using b(1) by simp
      note settled = settle_run [OF x [unfolded Inr] this assms(2), unfolded subs]
      have "t_get (user_subscriptions (work t)) ?sid = Some ?u" using settled by (simp add: row_simps)
      moreover have "us_user_id ?u = uid \<and> plan_id ?u = fst plan \<and> pool_id ?u \<noteq> None \<and>
          us_status ?u = ''active'' \<and> expires_at ?u = now + days 30"
        by (simp add: new_subscription_def)
      ultimately have "purchase_outcome now uid plan conf wal grant d r t"
        unfolding purchase_outcome_def using settled assms(1-6) by simp
      then show ?thesis unfolding m x Inr by simp
    next
      case (Inl e)
      then show ?thesis unfolding m x by simp
    qed
  qed
qed

lemma leaves_subscriptions [leaves_rules]:
  "leaves user_subscriptions get_or_create_subscription_config"
  "leaves user_subscriptions (existing_ledger key)"
  by (auto simp: leaves_def get_config_run) (metis existing_ledger_state snd_conv)

lemma existing_opened:
  "hoare (opened_subs uid d) (existing_ledger key) (\<lambda>_. opened_subs uid d) (\<lambda>_ _. True)"
  by (intro opened_subs_rule leaves_rules)

lemma config_opened:
  "hoare (opened_subs uid d) get_or_create_subscription_config (\<lambda>_. opened_subs uid d) (\<lambda>_ _. True)"
  by (intro opened_subs_rule leaves_rules)

lemma live_opened:
  "hoare (opened_subs uid d) (live_subscription now uid)
     (\<lambda>x s. x = subscription_of now uid d \<and> opened_subs uid d s) (\<lambda>_ _. True)"
  by (simp add: live_subscription_def hoare_def run_simps opened_subs_def subscription_of_def)

lemma purchase_run:
  "hoare (\<lambda>z. work z = d) (purchase_toman_subscription now uid plan key conf wal grant c)
     (purchase_outcome now uid plan conf wal grant d) (\<lambda>_ _. True)"
  unfolding purchase_toman_subscription_def Let_def
proof (rule opened_subs_account, rule hoare_bind [OF existing_opened], rule hoare_option, goal_cases)
  case (1 x)
  show ?case
  proof (rule hoare_bind [OF live_opened], rule hoare_pure, rule hoare_option, goal_cases)
    case (1 sub)
    show ?case
    proof (rule hoare_bind [OF config_opened], intro hoare_if, goal_cases)
      case (3 cfg)
      with \<open>sub = subscription_of now uid d\<close> \<open>sub = None\<close> show ?case
        by (intro enrol_run) (auto simp: balances_of_account purchase_result0_def positive_int_def)
    qed (auto intro!: hoare_ret refused_purchase simp: purchase_result0_def)
  qed (auto intro!: hoare_ret refused_purchase simp: purchase_result0_def)
qed (auto intro!: hoare_ret refused_purchase simp: purchase_result0_def)


text \<open>With 90000 Toman of paid credit and a free seat, the plan of 80000 is bought.\<close>

definition purchase_scene :: session where
  "purchase_scene = open_session (empty_db\<lparr>
     billing_accounts := [(1, (new_billing_account 7)\<lparr>paid_balance_toman := Some 90000\<rparr>)],
     capacity_pools := [(3, sample_pool)]\<rparr>)"


end
