(* ===== verification/User_Subscription.thy ===== *)
theory User_Subscription
  imports Accounts Toman_Purchase
begin

text \<open>
  \<open>pbozi/backend/app/user_subscription_routes.py\<close>: what a user does through the web
  application. A route works in a session of its own, so a raise discards what was not
  committed (\<open>run_request\<close>). The ledger listing, a pure read ordered by a column that is not
  modelled, is left out.
\<close>

section \<open>Dates\<close>

text \<open>\<open>datetime.date().isoformat()\<close>: the proleptic Gregorian date of an instant.\<close>

definition civil_date :: "int \<Rightarrow> int \<times> int \<times> int" where
  "civil_date day =
     (let z = day + 719468;
          era = z div 146097;
          doe = z mod 146097;
          yoe = (doe - doe div 1460 + doe div 36524 - doe div 146096) div 365;
          doy = doe - (365 * yoe + yoe div 4 - yoe div 100);
          mp = (5 * doy + 2) div 153;
          month = (if mp < 10 then mp + 3 else mp - 9)
      in (yoe + era * 400 + (if month \<le> 2 then 1 else 0), month, doy - (153 * mp + 2) div 5 + 1))"

definition zero_pad :: "nat \<Rightarrow> int \<Rightarrow> string" where
  "zero_pad w n = replicate (w - length (str_int n)) CHR ''0'' @ str_int n"

definition iso_date :: "instant \<Rightarrow> string" where
  "iso_date now =
     (case civil_date (now div days 1) of
        (y, m, d) \<Rightarrow> zero_pad 4 y @ ''-'' @ zero_pad 2 m @ ''-'' @ zero_pad 2 d)"

section \<open>Views\<close>

record billing_account_out =
  bo_user_id :: int
  bo_gift_balance_toman :: int
  bo_paid_balance_toman :: int
  bo_total_balance_toman :: int
  bo_total_gift_granted_toman :: int
  bo_total_gift_spent_toman :: int
  bo_total_paid_topup_toman :: int
  bo_total_paid_spent_toman :: int
  bo_total_subscription_paid_toman :: int
  bo_first_topup_discount_used :: bool

definition billing_account_out_of :: "user_billing_account \<Rightarrow> billing_account_out" where
  "billing_account_out_of a =
     \<lparr>bo_user_id = ba_user_id a,
      bo_gift_balance_toman = or0 (gift_balance_toman a),
      bo_paid_balance_toman = or0 (paid_balance_toman a),
      bo_total_balance_toman = or0 (gift_balance_toman a) + or0 (paid_balance_toman a),
      bo_total_gift_granted_toman = or0 (total_gift_granted_toman a),
      bo_total_gift_spent_toman = or0 (total_gift_spent_toman a),
      bo_total_paid_topup_toman = or0 (total_paid_topup_toman a),
      bo_total_paid_spent_toman = or0 (total_paid_spent_toman a),
      bo_total_subscription_paid_toman = or0 (total_subscription_paid_toman a),
      bo_first_topup_discount_used = first_topup_discount_used a\<rparr>"

record subscription_status_out =
  so_id :: int
  so_plan_id :: int
  so_plan_name :: "string option"
  so_plan_type :: "string option"
  so_status :: string
  so_purchased_at :: instant
  so_expires_at :: instant
  is_active_now :: bool
  so_cooldown_spent_toman :: int
  so_cooldown_limit_toman :: int
  so_cooldown_hours :: int
  so_cooldown_ends_at :: "instant option"
  is_in_cooldown :: bool
  cooldown_remaining_seconds :: "int option"
  so_weekly_spent_toman :: int
  so_weekly_limit_toman :: int
  so_week_resets_at :: "instant option"

text \<open>\<open>int((t - now).total_seconds())\<close> of a later instant.\<close>

definition seconds_until :: "instant \<Rightarrow> instant option \<Rightarrow> int option" where
  "seconds_until now t =
     (case t of None \<Rightarrow> None
      | Some e \<Rightarrow> if now < e then Some ((e - now) div microseconds 1) else None)"

definition subscription_status_out_of ::
  "instant \<Rightarrow> subscription_plan option \<Rightarrow> user_subscription obj \<Rightarrow> subscription_status_out" where
  "subscription_status_out_of now plan = (\<lambda>(sid, u).
     \<lparr>so_id = sid, so_plan_id = plan_id u,
      so_plan_name = map_option plan_name plan, so_plan_type = map_option plan_type plan,
      so_status = us_status u, so_purchased_at = purchased_at u, so_expires_at = expires_at u,
      is_active_now = (us_status u = ''active'' \<and> now < expires_at u),
      so_cooldown_spent_toman = or0 (cooldown_spent_toman u),
      so_cooldown_limit_toman = (case plan of None \<Rightarrow> 0 | Some p \<Rightarrow> cooldown_limit_toman p),
      so_cooldown_hours = (case plan of None \<Rightarrow> 0 | Some p \<Rightarrow> cooldown_hours p),
      so_cooldown_ends_at = cooldown_ends_at u,
      is_in_cooldown = (seconds_until now (cooldown_ends_at u) \<noteq> None),
      cooldown_remaining_seconds = seconds_until now (cooldown_ends_at u),
      so_weekly_spent_toman = or0 (weekly_spent_toman u),
      so_weekly_limit_toman = (case plan of None \<Rightarrow> 0 | Some p \<Rightarrow> weekly_limit_toman p),
      so_week_resets_at = week_resets_at u\<rparr>)"

definition status_out :: "instant \<Rightarrow> user_subscription obj option \<Rightarrow> subscription_status_out option act" where
  "status_out now sub =
     (case sub of
        None \<Rightarrow> ret None
      | Some (sid, u) \<Rightarrow>
          bind (query (\<lambda>d. t_get (subscription_plans d) (plan_id u))) (\<lambda>plan.
          ret (Some (subscription_status_out_of now plan (sid, u)))))"

section \<open>Routes\<close>

definition resolve_user :: "instant \<Rightarrow> string \<Rightarrow> int \<Rightarrow> int act" where
  "resolve_user now env_admin tg =
     bind (get_user_by_telegram_id tg) (\<lambda>found.
     case found of
       Some (uid, _) \<Rightarrow> ret uid
     | None \<Rightarrow> create_or_restore_user now env_admin tg None None None None None None True)"

definition list_active_plans :: "subscription_plan obj list act" where
  "list_active_plans = query (\<lambda>d. t_select (\<lambda>_ p. plan_is_active p) (subscription_plans d))"

definition get_billing_account :: "instant \<Rightarrow> string \<Rightarrow> int \<Rightarrow> billing_account_out act" where
  "get_billing_account now env_admin tg =
     bind (resolve_user now env_admin tg) (\<lambda>uid.
     bind (get_or_create_billing_account uid) (\<lambda>(aid, a).
     andthen commit (ret (billing_account_out_of a))))"

definition get_user_subscription ::
  "instant \<Rightarrow> string \<Rightarrow> int \<Rightarrow> subscription_status_out option act" where
  "get_user_subscription now env_admin tg =
     bind (resolve_user now env_admin tg) (\<lambda>uid.
     bind (query (\<lambda>d. t_first_by (\<lambda>_ u. - expires_at u)
            (t_select (\<lambda>_ u. us_user_id u = uid \<and> us_status u = ''active'') (user_subscriptions d))))
       (status_out now))"

record web_purchase_out =
  wp_subscription_id :: int
  wp_plan_name :: string
  wp_expires_at :: instant
  wp_gift_credit_toman :: int

definition web_purchase_key :: "instant \<Rightarrow> int \<Rightarrow> int \<Rightarrow> string" where
  "web_purchase_key now uid pid =
     ''web-sub:'' @ str_int uid @ '':'' @ str_int pid @ '':'' @ iso_date now"

definition purchase_subscription ::
  "instant \<Rightarrow> string \<Rightarrow> int \<Rightarrow> int \<Rightarrow> web_purchase_out act" where
  "purchase_subscription now env_admin tg pid =
     bind (resolve_user now env_admin tg) (\<lambda>uid.
     bind (query (\<lambda>d. t_get (subscription_plans d) pid)) (\<lambda>found.
     case found of
       None \<Rightarrow> raise (HTTPException 400 ''Plan not found or inactive'')
     | Some plan \<Rightarrow>
     if \<not> plan_is_active plan then raise (HTTPException 400 ''Plan not found or inactive'')
     else
     bind (purchase_toman_subscription now uid (pid, plan) (Some (web_purchase_key now uid pid))
             True None True True) (\<lambda>result.
     if \<not> p_ok result then raise (HTTPException 400 (str_or (p_reason result) ''purchase_failed''))
     else
       (case p_subscription result of
          None \<Rightarrow> raise (AttributeError ''id'')
        | Some (sid, u) \<Rightarrow>
            ret \<lparr>wp_subscription_id = sid, wp_plan_name = plan_name plan, wp_expires_at = expires_at u,
                 wp_gift_credit_toman = p_gift_credit_toman result\<rparr>))))"

text \<open>\<open>Query(..., gt=0)\<close>: the framework answers 422 before the handler runs.\<close>

definition get_topup_quote :: "instant \<Rightarrow> string \<Rightarrow> int \<Rightarrow> int \<Rightarrow> topup_quote act" where
  "get_topup_quote now env_admin tg amt =
     (if amt \<le> 0 then raise (HTTPException 422 ''amount_toman'')
      else bind (resolve_user now env_admin tg) (\<lambda>uid. quote_toman_topup_payment now uid amt))"

definition apply_topup :: "instant \<Rightarrow> string \<Rightarrow> int \<Rightarrow> int \<Rightarrow> (int \<times> int) act" where
  "apply_topup now env_admin tg amt =
     bind (resolve_user now env_admin tg) (\<lambda>uid.
     if amt \<le> 0 then raise (HTTPException 400 ''Invalid topup amount'')
     else
     bind (apply_toman_topup now uid amt None (Some [(''source'', JStr ''web'')]) True) (\<lambda>result.
     if \<not> t_ok result then raise (HTTPException 400 (str_or (t_reason result) ''topup_failed''))
     else ret (credit_amount_toman (t_quote result), available_toman (snd (t_account result)))))"

record usage_permission_out =
  can_chat :: bool
  up_reason :: "string option"
  up_billing_account :: billing_account_out
  up_subscription :: "subscription_status_out option"
  up_billable_cost_toman :: int
  up_cooldown_remaining_seconds :: "int option"

definition check_usage_permission ::
  "instant \<Rightarrow> string \<Rightarrow> int \<Rightarrow> int option \<Rightarrow> int \<Rightarrow> int \<Rightarrow> usage_permission_out act" where
  "check_usage_permission now env_admin tg mid input_tokens output_tokens =
     bind (resolve_user now env_admin tg) (\<lambda>uid.
     bind (get_or_create_billing_account uid) (\<lambda>(aid, a).
     bind (query (\<lambda>d. if or0 mid = 0 then None
                      else map_option (\<lambda>m. (or0 mid, m)) (t_get (llm_models d) (or0 mid)))) (\<lambda>found.
     case found of
       Some model \<Rightarrow>
         bind (check_chat_usage_permission_toman now uid model input_tokens output_tokens) (\<lambda>result.
         bind (live_subscription now uid) (\<lambda>sub.
         bind (status_out now sub) (\<lambda>out.
         ret \<lparr>can_chat = c_ok result,
              up_reason = (if c_ok result then None else c_reason result),
              up_billing_account = billing_account_out_of a, up_subscription = out,
              up_billable_cost_toman = c_billable_cost_toman result,
              up_cooldown_remaining_seconds =
                (if c_ok result then None
                 else case sub of None \<Rightarrow> None | Some (_, u) \<Rightarrow> seconds_until now (cooldown_ends_at u))\<rparr>)))
     | None \<Rightarrow>
         bind (live_subscription now uid) (\<lambda>sub.
         bind (status_out now sub) (\<lambda>out.
         ret \<lparr>can_chat = (0 < available_toman a \<or> sub \<noteq> None), up_reason = None,
              up_billing_account = billing_account_out_of a, up_subscription = out,
              up_billable_cost_toman = 0, up_cooldown_remaining_seconds = None\<rparr>)))))"

record trial_claim_out =
  tr_ok :: bool
  tr_subscription_id :: "int option"
  tr_expires_at :: "instant option"
  tr_reason :: "string option"

text \<open>The route hands the user object, not its id, to the trial service.\<close>

definition claim_trial :: "instant \<Rightarrow> string \<Rightarrow> int \<Rightarrow> trial_claim_out act" where
  "claim_trial now env_admin tg =
     bind (resolve_user now env_admin tg) (\<lambda>uid.
     bind (the_user uid) (\<lambda>u.
     if trial_used u
     then ret \<lparr>tr_ok = False, tr_subscription_id = None, tr_expires_at = None,
               tr_reason = Some ''trial_already_used''\<rparr>
     else bind (grant_trial_subscription now (ByObject uid) ''Admin manually granted trial'')
       (\<lambda>(sid, sub). ret \<lparr>tr_ok = True, tr_subscription_id = Some sid,
                           tr_expires_at = Some (expires_at sub), tr_reason = None\<rparr>)))"

section \<open>The Toman books\<close>

lemma frames_get_by_telegram [frames_rules]: "frames (get_user_by_telegram_id tg)"
  unfolding get_user_by_telegram_id_def by (rule frames_rules)+

lemma resolve_user_keeps_books: "keeps_books (resolve_user now env tg)"
  unfolding resolve_user_def
  by (intro keeps_rules create_or_restore_keeps_books frames_rules [THEN keeps_frames])

lemma frames_status_out [frames_rules]: "frames (status_out now sub)"
  unfolding status_out_def by (rule frames_rules)+

lemma web_purchase_keeps_books: "keeps_books (purchase_subscription now env tg pid)"
  unfolding purchase_subscription_def
  by (intro keeps_rules resolve_user_keeps_books purchase_keeps_books frames_rules [THEN keeps_frames])

lemma web_topup_keeps_books: "keeps_books (apply_topup now env tg amt)"
  unfolding apply_topup_def
  by (intro keeps_rules resolve_user_keeps_books topup_keeps_books)

lemma web_account_keeps_books: "keeps_books (get_billing_account now env tg)"
  unfolding get_billing_account_def
  by (rule keeps_bind [OF resolve_user_keeps_books])
     (intro keeps_account hoare_prod keeps_holding keeps_rules frames_rules [THEN keeps_frames])

lemma web_permission_keeps_books: "keeps_books (check_usage_permission now env tg mid i out)"
  unfolding check_usage_permission_def
  by (rule keeps_bind [OF resolve_user_keeps_books])
     (intro keeps_account hoare_prod keeps_holding keeps_rules check_permission_keeps_books
        frames_rules [THEN keeps_frames] frames_live_subscription [THEN keeps_frames])

lemma web_claim_keeps_books: "keeps_books (claim_trial now env tg)"
  unfolding claim_trial_def
  by (intro keeps_rules resolve_user_keeps_books frames_rules [THEN keeps_frames])

section \<open>What the routes give away\<close>

text \<open>The user the routes act for, when they exist already.\<close>

definition known_user :: "int \<Rightarrow> int \<Rightarrow> session \<Rightarrow> bool" where
  "known_user tg uid s \<longleftrightarrow> (\<exists>u. t_select (\<lambda>_ u. telegram_user_id u = Some tg) (users (work s)) = [(uid, u)])"

lemma resolve_known: "known_user tg uid s \<Longrightarrow> resolve_user now env tg s = (Inr uid, s)"
  by (auto simp: known_user_def resolve_user_def get_user_by_telegram_id_def run_simps)

text \<open>
  A purchase through the web application that succeeds leaves the buyer with an active
  subscription and the plan's gift credit, and takes nothing from the paid balance: the route
  tells the billing service that the price was paid, and no payment backs it.
\<close>

theorem web_purchase_takes_nothing:
  assumes "known_user tg uid s" and "purchase_subscription now env tg pid s = (Inr r, t)"
  shows "paid_of (work t) uid = paid_of (work s) uid \<and>
    gift_of (work t) uid = gift_of (work s) uid + wp_gift_credit_toman r \<and>
    (\<exists>u. t_get (user_subscriptions (work t)) (wp_subscription_id r) = Some u \<and> us_user_id u = uid \<and>
       plan_id u = pid \<and> us_status u = ''active'' \<and> expires_at u = now + days 30)"
proof -
  obtain plan x where plan: "t_get (subscription_plans (work s)) pid = Some plan"
    and run: "purchase_toman_subscription now uid (pid, plan) (Some (web_purchase_key now uid pid))
      True None True True s = (Inr x, t)" and ok: "p_ok x"
    and sub: "\<exists>u. p_subscription x = Some (wp_subscription_id r, u)"
    and gift: "wp_gift_credit_toman r = p_gift_credit_toman x"
    using assms(2) resolve_known [OF assms(1)]
    by (auto simp: purchase_subscription_def run_simps split: option.splits if_splits prod.splits sum.splits)
  from hoareD [OF purchase_run refl run] have "purchase_outcome now uid (pid, plan) True None True (work s) x t" .
  with ok sub gift show ?thesis by (auto simp: purchase_outcome_def split: if_splits)
qed

definition web_scene :: session where
  "web_scene = open_session (empty_db\<lparr>users := [(1, sample_user)],
     subscription_plans := [(2, sample_plan)], capacity_pools := [(3, sample_pool)]\<rparr>)"

theorem web_purchase_takes_nothing_witness:
  "case purchase_subscription 0 [] 700 2 web_scene of
     (Inl _, _) \<Rightarrow> False
   | (Inr r, t) \<Rightarrow> paid_of (work t) 1 = 0 \<and> gift_of (work t) 1 = 100000"
proof -
  have start: "paid_of (work web_scene) 1 = 0" "gift_of (work web_scene) 1 = 0" by code_simp+
  have run: "case purchase_subscription 0 [] 700 2 web_scene of (Inl _, _) \<Rightarrow> False
      | (Inr r, _) \<Rightarrow> wp_gift_credit_toman r = 100000"
    by code_simp
  then obtain r t where go: "purchase_subscription 0 [] 700 2 web_scene = (Inr r, t)"
    "wp_gift_credit_toman r = 100000"
    by (auto split: prod.splits sum.splits)
  have "known_user 700 1 web_scene"
    by (simp add: known_user_def web_scene_def open_session_def t_select_def sample_user_def)
  from web_purchase_takes_nothing [OF this go(1)] go(2) start show ?thesis by (simp add: go(1))
qed

text \<open>The trial route answers only that the trial was used, or fails: it never grants one.\<close>

lemma web_claim_never_grants:
  assumes "claim_trial now env tg s = (Inr r, t)"
  shows "\<not> tr_ok r \<and> tr_reason r = Some ''trial_already_used''"
  using assms
  by (auto simp: claim_trial_def grant_trial_subscription_def run_simps split: prod.splits sum.splits if_splits)

text \<open>A second purchase of the same plan on the same day fails instead of answering with the first.\<close>

lemma web_purchase_retry_fails:
  assumes "known_user tg uid s" and "t_get (subscription_plans (work s)) pid = Some plan" and "plan_is_active plan"
    and "t_select (\<lambda>_ e. tl_idempotency_key e = Some (web_purchase_key now uid pid)) (toman_ledger (work s)) = [e]"
  shows "fst (purchase_subscription now env tg pid s) = Inl (AttributeError ''id'')"
proof -
  have "existing_ledger (Some (web_purchase_key now uid pid)) (s\<lparr>work := open_account uid (work s)\<rparr>) =
      (Inr (Some e), s\<lparr>work := open_account uid (work s)\<rparr>)"
    using assms(4) by (simp add: existing_ledger_def web_purchase_key_def run_simps)
  then show ?thesis
    using assms(2,3) resolve_known [OF assms(1)]
    by (simp add: purchase_subscription_def purchase_toman_subscription_def run_simps get_account_run
        purchase_result0_def)
qed

end
