(* ===== verification/Admin_Subscription.thy ===== *)
theory Admin_Subscription
  imports Toman_Purchase
begin

text \<open>
  \<open>pbozi/backend/app/admin_subscription_routes.py\<close>: the billing configuration, the plans with
  their rules, and cancelling and reactivating subscriptions. The router itself demands no
  administrator. Deleting a plan deletes its rules, subscriptions and their quotas
  (\<open>cascade="all, delete-orphan"\<close>). The bot's message is an entry of the outbox.
\<close>

section \<open>Configuration\<close>

text \<open>The row \<open>_get_or_create_config\<close> returned, changed by \<open>f\<close>.\<close>

definition config_write :: "(subscription_config \<Rightarrow> subscription_config) \<Rightarrow> unit act" where
  "config_write f = update (\<lambda>d.
     case t_first (\<lambda>_ _. True) (subscription_configs d) of
       None \<Rightarrow> d
     | Some (i, c) \<Rightarrow> d\<lparr>subscription_configs := t_put i (f c) (subscription_configs d)\<rparr>)"

definition committed_config :: "subscription_config act" where
  "committed_config = bind get_or_create_subscription_config (\<lambda>c. andthen commit (ret c))"

definition get_config :: "subscription_config act" where
  "get_config = committed_config"

text \<open>
  The payload: the outer option tells whether the field was sent, the inner one whether it is
  null.
\<close>

record config_update =
  cu_is_enabled :: "bool option option"
  cu_monthly_price_toman :: "int option option"
  cu_gift_credit_toman :: "int option option"
  cu_first_topup_discount_cap_toman :: "int option option"
  cu_usd_to_toman_rate :: "int option option"
  cu_api_markup_percent :: "pyfloat option option"
  cu_first_topup_discount_percent :: "pyfloat option option"

definition set_int_field ::
  "string \<Rightarrow> int option option \<Rightarrow> (int \<Rightarrow> subscription_config \<Rightarrow> subscription_config) \<Rightarrow> unit act" where
  "set_int_field name sent set_it =
     (case sent of
        None \<Rightarrow> ret ()
      | Some v \<Rightarrow> if or0 v < 0 then raise (HTTPException 400 (name @ '' must be zero or greater''))
                  else config_write (set_it (or0 v)))"

definition set_percent_field ::
  "string \<Rightarrow> pyfloat option option \<Rightarrow> (pyfloat \<Rightarrow> subscription_config \<Rightarrow> subscription_config) \<Rightarrow> unit act" where
  "set_percent_field name sent set_it =
     (case sent of
        None \<Rightarrow> ret ()
      | Some v \<Rightarrow>
          let x = (case v of None \<Rightarrow> 0 | Some y \<Rightarrow> y)
          in if x < 0 then raise (HTTPException 400 (name @ '' must be zero or greater''))
             else config_write (set_it x))"

definition update_config :: "config_update \<Rightarrow> subscription_config act" where
  "update_config data =
     bind committed_config (\<lambda>_.
     andthen (case cu_is_enabled data of
                Some (Some b) \<Rightarrow> config_write (\<lambda>c. c\<lparr>is_enabled := b\<rparr>)
              | _ \<Rightarrow> ret ())
     (andthen (set_int_field ''monthly_price_toman'' (cu_monthly_price_toman data)
                (\<lambda>n c. c\<lparr>cfg_monthly_price_toman := Some n\<rparr>))
     (andthen (set_int_field ''gift_credit_toman'' (cu_gift_credit_toman data)
                (\<lambda>n c. c\<lparr>cfg_gift_credit_toman := Some n\<rparr>))
     (andthen (set_int_field ''first_topup_discount_cap_toman'' (cu_first_topup_discount_cap_toman data)
                (\<lambda>n c. c\<lparr>first_topup_discount_cap_toman := Some n\<rparr>))
     (andthen (set_int_field ''usd_to_toman_rate'' (cu_usd_to_toman_rate data)
                (\<lambda>n c. c\<lparr>usd_to_toman_rate := Some n\<rparr>))
     (andthen (set_percent_field ''api_markup_percent'' (cu_api_markup_percent data)
                (\<lambda>x c. c\<lparr>api_markup_percent := Some x\<rparr>))
     (andthen (set_percent_field ''first_topup_discount_percent'' (cu_first_topup_discount_percent data)
                (\<lambda>x c. c\<lparr>first_topup_discount_percent := Some x\<rparr>))
     (andthen commit
     get_or_create_subscription_config))))))))"

section \<open>Subscriptions\<close>

record admin_subscription_out =
  ao_id :: int
  ao_telegram_user_id :: "int option"
  ao_first_name :: "string option"
  ao_username :: "string option"
  ao_phone_number :: "string option"
  ao_gift_balance_toman :: int
  ao_paid_balance_toman :: int
  ao_total_balance_toman :: int
  ao_plan_name :: "string option"
  ao_pool_name :: "string option"
  ao_subscription :: user_subscription
  ao_is_active_now :: bool

definition subscription_out_of :: "instant \<Rightarrow> user_subscription obj \<Rightarrow> admin_subscription_out act" where
  "subscription_out_of now = (\<lambda>(sid, u).
     bind (query (\<lambda>d. t_get (users d) (us_user_id u))) (\<lambda>user.
     bind (query (\<lambda>d. t_get (subscription_plans d) (plan_id u))) (\<lambda>plan.
     bind (query (\<lambda>d. case pool_id u of None \<Rightarrow> None | Some p \<Rightarrow> t_get (capacity_pools d) p)) (\<lambda>pool.
     bind (if user = None then ret None
           else bind (query (\<lambda>d. t_select (\<lambda>_ a. ba_user_id a = us_user_id u) (billing_accounts d)))
                  scalar_one_or_none) (\<lambda>account.
     let gift = (case account of None \<Rightarrow> 0 | Some (_, a) \<Rightarrow> or0 (gift_balance_toman a));
         paid = (case account of None \<Rightarrow> 0 | Some (_, a) \<Rightarrow> or0 (paid_balance_toman a))
     in ret \<lparr>ao_id = sid,
             ao_telegram_user_id = Option.bind user telegram_user_id,
             ao_first_name = Option.bind user first_name,
             ao_username = Option.bind user username,
             ao_phone_number = Option.bind user phone_number,
             ao_gift_balance_toman = gift, ao_paid_balance_toman = paid,
             ao_total_balance_toman = gift + paid,
             ao_plan_name = map_option plan_name plan, ao_pool_name = map_option cp_name pool,
             ao_subscription = u,
             ao_is_active_now = (us_status u = ''active'' \<and> now < expires_at u)\<rparr>)))))"

definition list_user_subscriptions ::
  "instant \<Rightarrow> string option \<Rightarrow> admin_subscription_out list act" where
  "list_user_subscriptions now status =
     bind (query (\<lambda>d. sort_key (\<lambda>(i, u). (- purchased_at u, - i))
            (t_select (\<lambda>_ u. str_or status [] = [] \<or> status = Some ''all'' \<or> us_status u = str_or status [])
               (user_subscriptions d)))) (for_each (subscription_out_of now))"

definition recalculate_pool :: "instant \<Rightarrow> int option \<Rightarrow> unit act" where
  "recalculate_pool now pool =
     (case pool of
        None \<Rightarrow> ret ()
      | Some p \<Rightarrow> bind (recalculate_pool_active_users now p) (\<lambda>_. ret ()))"

text \<open>The message to the subscriber, and the view of the row as it is then.\<close>

definition notify_subscriber :: "instant \<Rightarrow> int \<Rightarrow> admin_subscription_out act" where
  "notify_subscriber now sid =
     bind (query (\<lambda>d. t_get (user_subscriptions d) sid)) (\<lambda>found.
     case found of
       None \<Rightarrow> raise (AttributeError ''user'')
     | Some u \<Rightarrow>
         bind (query (\<lambda>d. Option.bind (t_get (users d) (us_user_id u)) telegram_user_id)) (\<lambda>tg.
         bind (query (\<lambda>d. map_option plan_name (t_get (subscription_plans d) (plan_id u)))) (\<lambda>plan.
         andthen (on_cond (or0 tg \<noteq> 0)
           (send (SendMessage (or0 tg)
              ((case plan of None \<Rightarrow> ''subscription'' | Some n \<Rightarrow> n) @
               (if us_status u = ''active'' then '' activated'' else '' cancelled'')))))
         (subscription_out_of now (sid, u)))))"

definition cancel_user_subscription :: "instant \<Rightarrow> int \<Rightarrow> admin_subscription_out act" where
  "cancel_user_subscription now sid =
     bind (query (\<lambda>d. t_get (user_subscriptions d) sid)) (\<lambda>found.
     case found of
       None \<Rightarrow> raise (HTTPException 404 ''Subscription not found'')
     | Some u \<Rightarrow>
         andthen (save_subscription sid (u\<lparr>us_status := ''cancelled''\<rparr>))
         (andthen (recalculate_pool now (pool_id u))
         (andthen commit (notify_subscriber now sid))))"

definition reactivate_user_subscription :: "instant \<Rightarrow> int \<Rightarrow> admin_subscription_out act" where
  "reactivate_user_subscription now sid =
     bind (query (\<lambda>d. t_get (user_subscriptions d) sid)) (\<lambda>found.
     case found of
       None \<Rightarrow> raise (HTTPException 404 ''Subscription not found'')
     | Some u \<Rightarrow>
         let u1 = u\<lparr>us_status := ''active''\<rparr>;
             u2 = (if expires_at u \<le> now then u1\<lparr>expires_at := now + days 30\<rparr> else u1)
         in andthen (save_subscription sid u2)
            (andthen (recalculate_pool now (pool_id u))
            (andthen commit (notify_subscriber now sid))))"

section \<open>Plans and rules\<close>

definition list_plans :: "subscription_plan obj list act" where
  "list_plans = query subscription_plans"

text \<open>\<open>name\<close> is a unique column.\<close>

definition create_plan :: "subscription_plan \<Rightarrow> subscription_plan obj act" where
  "create_plan plan =
     bind (query (\<lambda>d. t_first (\<lambda>_ p. plan_name p = plan_name plan) (subscription_plans d))) (\<lambda>clash.
     if clash \<noteq> None then andthen rollback (raise IntegrityError)
     else bind (query (\<lambda>d. t_next (subscription_plans d))) (\<lambda>pid.
       andthen (update (\<lambda>d. d\<lparr>subscription_plans := t_add plan (subscription_plans d)\<rparr>))
       (andthen commit (ret (pid, plan)))))"

datatype plan_field =
    Plan_Name string | Plan_Type string | Monthly_Price "int option" | Gift_Credit "int option"
  | Cooldown_Limit int | Cooldown_Hours int | Weekly_Limit int | Plan_Agentic bool | Plan_Active bool

fun set_plan_field :: "subscription_plan \<Rightarrow> plan_field \<Rightarrow> subscription_plan" where
  "set_plan_field p (Plan_Name x) = p\<lparr>plan_name := x\<rparr>"
| "set_plan_field p (Plan_Type x) = p\<lparr>plan_type := x\<rparr>"
| "set_plan_field p (Monthly_Price x) = p\<lparr>monthly_price_toman := x\<rparr>"
| "set_plan_field p (Gift_Credit x) = p\<lparr>gift_credit_toman := x\<rparr>"
| "set_plan_field p (Cooldown_Limit x) = p\<lparr>cooldown_limit_toman := x\<rparr>"
| "set_plan_field p (Cooldown_Hours x) = p\<lparr>cooldown_hours := x\<rparr>"
| "set_plan_field p (Weekly_Limit x) = p\<lparr>weekly_limit_toman := x\<rparr>"
| "set_plan_field p (Plan_Agentic x) = p\<lparr>is_agentic := x\<rparr>"
| "set_plan_field p (Plan_Active x) = p\<lparr>plan_is_active := x\<rparr>"

definition update_plan :: "int \<Rightarrow> plan_field list \<Rightarrow> subscription_plan obj act" where
  "update_plan pid data =
     bind (query (\<lambda>d. t_get (subscription_plans d) pid)) (\<lambda>found.
     case found of
       None \<Rightarrow> raise (HTTPException 404 ''Plan not found'')
     | Some p \<Rightarrow>
         let p' = foldl set_plan_field p data in
         bind (query (\<lambda>d. t_first (\<lambda>i x. i \<noteq> pid \<and> plan_name x = plan_name p') (subscription_plans d)))
           (\<lambda>clash.
         if clash \<noteq> None then andthen rollback (raise IntegrityError)
         else andthen (update (\<lambda>d. d\<lparr>subscription_plans := t_put pid p' (subscription_plans d)\<rparr>))
              (andthen commit (ret (pid, p')))))"

definition t_drop :: "(int \<Rightarrow> 'r \<Rightarrow> bool) \<Rightarrow> 'r table \<Rightarrow> 'r table" where
  "t_drop P t = t_select (\<lambda>i r. \<not> P i r) t"

definition cascade_delete_plan :: "int \<Rightarrow> db \<Rightarrow> db" where
  "cascade_delete_plan pid d =
     (let subs = fst ` set (t_select (\<lambda>_ u. plan_id u = pid) (user_subscriptions d))
      in d\<lparr>subscription_quotas := t_drop (\<lambda>_ q. user_subscription_id q \<in> subs) (subscription_quotas d),
           user_subscriptions := t_drop (\<lambda>_ u. plan_id u = pid) (user_subscriptions d),
           plan_rules := t_drop (\<lambda>_ r. ru_plan_id r = pid) (plan_rules d),
           subscription_plans := t_del pid (subscription_plans d)\<rparr>)"

definition delete_plan :: "int \<Rightarrow> unit act" where
  "delete_plan pid =
     bind (query (\<lambda>d. t_get (subscription_plans d) pid)) (\<lambda>found.
     if found = None then raise (HTTPException 404 ''Plan not found'')
     else andthen (update (cascade_delete_plan pid)) commit)"

definition list_rules :: "int \<Rightarrow> subscription_plan_rule obj list act" where
  "list_rules pid = query (\<lambda>d. t_select (\<lambda>_ r. ru_plan_id r = pid) (plan_rules d))"

definition create_rule :: "int \<Rightarrow> subscription_plan_rule \<Rightarrow> subscription_plan_rule obj act" where
  "create_rule pid rule =
     bind (query (\<lambda>d. t_next (plan_rules d))) (\<lambda>rid.
     andthen (update (\<lambda>d. d\<lparr>plan_rules := t_add (rule\<lparr>ru_plan_id := pid\<rparr>) (plan_rules d)\<rparr>))
     (andthen commit (ret (rid, rule\<lparr>ru_plan_id := pid\<rparr>))))"

definition delete_rule :: "int \<Rightarrow> unit act" where
  "delete_rule rid =
     bind (query (\<lambda>d. t_get (plan_rules d) rid)) (\<lambda>found.
     on_cond (found \<noteq> None)
       (andthen (update (\<lambda>d. d\<lparr>plan_rules := t_del rid (plan_rules d)\<rparr>)) commit))"

section \<open>Validated configuration\<close>

definition nonneg :: "'a :: linordered_idom option \<Rightarrow> bool" where
  "nonneg x \<longleftrightarrow> (case x of None \<Rightarrow> True | Some n \<Rightarrow> 0 \<le> n)"

lemma nonneg_simps [simp]: "nonneg None" "nonneg (Some n) = (0 \<le> n)"
  by (simp_all add: nonneg_def)

definition prices_fine :: "subscription_config \<Rightarrow> bool" where
  "prices_fine c \<longleftrightarrow>
     nonneg (cfg_monthly_price_toman c) \<and> nonneg (cfg_gift_credit_toman c) \<and>
     nonneg (first_topup_discount_cap_toman c) \<and> nonneg (usd_to_toman_rate c) \<and>
     nonneg (api_markup_percent c) \<and> nonneg (first_topup_discount_percent c)"

definition prices_ok :: "db \<Rightarrow> bool" where
  "prices_ok d \<longleftrightarrow> (\<forall>(i, c) \<in> set (subscription_configs d). prices_fine c)"

text \<open>What holds while the fields are written: the committed state stays the one before.\<close>

definition updating :: "db \<Rightarrow> session \<Rightarrow> bool" where
  "updating d s \<longleftrightarrow> prices_ok (work s) \<and> durable s = d"

lemma updating_then:
  "hoare (updating d) m (\<lambda>_. updating d) (\<lambda>_. updating d) \<Longrightarrow>
    hoare (updating d) k Q (\<lambda>_. updating d) \<Longrightarrow> hoare (updating d) (andthen m k) Q (\<lambda>_. updating d)"
  by (rule hoare_andthen)

lemma updating_write:
  assumes "\<And>c. prices_fine c \<Longrightarrow> prices_fine (f c)"
  shows "hoare (updating d) (config_write f) (\<lambda>_. updating d) E"
  unfolding config_write_def updating_def
proof (rule hoare_update)
  fix s assume s: "prices_ok (work s) \<and> durable s = d"
  let ?first = "t_first (\<lambda>_ _. True) (subscription_configs (work s))"
  have "prices_ok (case ?first of None \<Rightarrow> work s
    | Some (i, c) \<Rightarrow> (work s)\<lparr>subscription_configs := t_put i (f c) (subscription_configs (work s))\<rparr>)"
  proof (cases ?first)
    case (Some x)
    obtain i c where x: "x = (i, c)" by fastforce
    with Some have "(i, c) \<in> set (subscription_configs (work s))" by (auto dest: t_first_SomeD)
    with s assms have "prices_fine (f c)" by (auto simp: prices_ok_def)
    with s Some x show ?thesis by (auto simp: prices_ok_def set_t_put)
  qed (use s in simp)
  with s show "prices_ok (work (s\<lparr>work := case ?first of None \<Rightarrow> work s
      | Some (i, c) \<Rightarrow> (work s)\<lparr>subscription_configs := t_put i (f c) (subscription_configs (work s))\<rparr>\<rparr>)) \<and>
    durable (s\<lparr>work := case ?first of None \<Rightarrow> work s
      | Some (i, c) \<Rightarrow> (work s)\<lparr>subscription_configs := t_put i (f c) (subscription_configs (work s))\<rparr>\<rparr>) = d"
    by simp
qed

lemma updating_int:
  assumes "\<And>n c. 0 \<le> n \<Longrightarrow> prices_fine c \<Longrightarrow> prices_fine (f n c)"
  shows "hoare (updating d) (set_int_field name v f) (\<lambda>_. updating d) (\<lambda>_. updating d)"
  unfolding set_int_field_def
  by (intro hoare_option hoare_if hoare_ret hoare_raise updating_write) (use assms in auto)

lemma updating_percent:
  assumes "\<And>x c. 0 \<le> x \<Longrightarrow> prices_fine c \<Longrightarrow> prices_fine (f x c)"
  shows "hoare (updating d) (set_percent_field name v f) (\<lambda>_. updating d) (\<lambda>_. updating d)"
  unfolding set_percent_field_def Let_def
  by (intro hoare_option hoare_if hoare_ret hoare_raise updating_write) (use assms in auto)

lemma prices_open_config: "prices_ok d \<Longrightarrow> prices_ok (open_config d)"
  by (auto simp: prices_ok_def prices_fine_def open_config_def set_t_add default_subscription_config_def
      DEFAULT_MONTHLY_PRICE_TOMAN_def DEFAULT_GIFT_CREDIT_TOMAN_def DEFAULT_API_MARKUP_PERCENT_def
      DEFAULT_FIRST_TOPUP_DISCOUNT_PERCENT_def DEFAULT_FIRST_TOPUP_DISCOUNT_CAP_TOMAN_def
      DEFAULT_USD_TO_TOMAN_RATE_def)

lemma updating_enabled:
  "hoare (updating d) (case v of Some (Some b) \<Rightarrow> config_write (\<lambda>c. c\<lparr>is_enabled := b\<rparr>) | _ \<Rightarrow> ret ())
     (\<lambda>_. updating d) (\<lambda>_. updating d)"
  by (cases v) (auto intro!: hoare_option hoare_ret updating_write simp: prices_fine_def)

lemma update_config_run:
  "hoare (\<lambda>s. prices_ok (work s) \<and> work s = d) (update_config data)
     (\<lambda>_ t. prices_ok (work t) \<and> prices_ok (durable t)) (\<lambda>_. updating (open_config d))"
  unfolding update_config_def
proof (rule hoare_bind [where R = "\<lambda>_. updating (open_config d)"], goal_cases)
  case 1
  show ?case
    by (auto simp: hoare_def committed_config_def run_simps get_config_run updating_def prices_open_config)
next
  case (2 x)
  have last: "hoare (updating (open_config d)) (andthen commit get_or_create_subscription_config)
      (\<lambda>_ t. prices_ok (work t) \<and> prices_ok (durable t)) (\<lambda>_. updating (open_config d))"
    by (auto simp: hoare_def run_simps get_config_run updating_def prices_open_config)
  show ?case
    by (intro updating_then [OF updating_enabled] updating_then [OF updating_int]
        updating_then [OF updating_percent] last) (simp_all add: prices_fine_def)
qed

text \<open>
  No request stores a negative price, cap, rate or percentage, and an update that is refused
  for one of its fields changes nothing of what is committed, whatever the other fields say.
\<close>

theorem config_update_validates:
  assumes "prices_ok (work s)" and "update_config data s = (x, t)"
  shows "prices_ok (work t) \<and>
    (case x of Inl e \<Rightarrow> durable t = open_config (work s) | Inr c \<Rightarrow> prices_ok (durable t))"
proof -
  have "case update_config data s of
      (Inl e, t) \<Rightarrow> updating (open_config (work s)) t
    | (Inr c, t) \<Rightarrow> prices_ok (work t) \<and> prices_ok (durable t)"
    by (rule hoare_run [OF update_config_run]) (simp add: assms(1))
  with assms(2) show ?thesis by (auto simp: updating_def split: sum.splits)
qed

text \<open>A rate of 60000 together with a price of -1: refused, and the rate stays.\<close>

definition bad_update :: config_update where
  "bad_update =
     \<lparr>cu_is_enabled = None, cu_monthly_price_toman = None, cu_gift_credit_toman = Some (Some (- 1)),
      cu_first_topup_discount_cap_toman = None, cu_usd_to_toman_rate = Some (Some 60000),
      cu_api_markup_percent = None, cu_first_topup_discount_percent = None\<rparr>"

theorem config_update_validates_witness:
  "durable (snd (update_config bad_update (open_session empty_db))) = open_config empty_db"
proof -
  have "prices_ok (work (open_session empty_db))"
    by (simp add: prices_ok_def open_session_def empty_db_def)
  moreover have "case fst (update_config bad_update (open_session empty_db)) of Inl _ \<Rightarrow> True | Inr _ \<Rightarrow> False"
    by code_simp
  ultimately show ?thesis
    using config_update_validates [of "open_session empty_db" bad_update
        "fst (update_config bad_update (open_session empty_db))"
        "snd (update_config bad_update (open_session empty_db))"]
    by (auto simp: open_session_def split: sum.splits)
qed

section \<open>Seats and references\<close>

definition pool_load :: "instant \<Rightarrow> int \<Rightarrow> db \<Rightarrow> int" where
  "pool_load now p d = t_count (\<lambda>_ u. pool_id u = Some p \<and> sub_is_live now u) (user_subscriptions d)"

definition recounted :: "instant \<Rightarrow> int \<Rightarrow> db \<Rightarrow> bool" where
  "recounted now p d \<longleftrightarrow> map_option active_users (t_get (capacity_pools d) p) \<in> {None, Some (pool_load now p d)}"

lemma pool_load_frame [simp]: "pool_load now p (d\<lparr>capacity_pools := P\<rparr>) = pool_load now p d"
  by (simp add: pool_load_def)

lemma recalculate_run:
  "\<exists>t. recalculate_pool now (Some p) s = (Inr (), t) \<and> recounted now p (work t) \<and>
    user_subscriptions (work t) = user_subscriptions (work s) \<and> users (work t) = users (work s) \<and>
    subscription_plans (work t) = subscription_plans (work s) \<and>
    billing_accounts (work t) = billing_accounts (work s)"
  by (auto simp: recalculate_pool_def recalculate_pool_active_users_def run_simps Let_def recounted_def
      pool_load_def row_simps split: option.splits)

lemma subscription_out_state: "subscription_out_of now (sid, u) s = (Inr x, t) \<Longrightarrow> t = s"
  by (auto simp: subscription_out_of_def run_simps Let_def split: if_splits option.splits sum.splits prod.splits
      dest: arg_cong [where f = snd])

lemma notify_state:
  "notify_subscriber now sid s = (Inr x, t) \<Longrightarrow> work t = work s \<and> durable t = durable s"
  by (auto simp: notify_subscriber_def run_simps split: option.splits if_splits dest!: subscription_out_state)

text \<open>
  Cancelling a subscription that sits in a capacity pool ends it and recounts the pool: the
  committed seat count is the number of subscriptions of that pool that are still live.
\<close>

theorem cancellation_frees_the_seat:
  assumes "cancel_user_subscription now sid s = (Inr r, t)"
    and "t_get (user_subscriptions (work s)) sid = Some u" and "pool_id u = Some p"
  shows "recounted now p (work t) \<and> durable t = work t \<and>
    (\<exists>u'. t_get (user_subscriptions (work t)) sid = Some u' \<and> \<not> sub_is_live now u' \<and> us_user_id u' = us_user_id u)"
proof -
  let ?u = "u\<lparr>us_status := ''cancelled''\<rparr>"
  let ?s = "s\<lparr>work := (work s)\<lparr>user_subscriptions := t_put sid ?u (user_subscriptions (work s))\<rparr>\<rparr>"
  obtain z where z: "recalculate_pool now (Some p) ?s = (Inr (), z)" "recounted now p (work z)"
    "user_subscriptions (work z) = user_subscriptions (work ?s)"
    using recalculate_run [of now p ?s] by blast
  have "notify_subscriber now sid (z\<lparr>durable := work z\<rparr>) = (Inr r, t)"
    using assms z(1) by (simp add: cancel_user_subscription_def run_simps save_subscription_def)
  from notify_state [OF this] z assms(2) show ?thesis
    by (auto simp: row_simps sub_is_live_def)
qed

definition seat_scene :: session where
  "seat_scene = open_session (empty_db\<lparr>
     users := [(1, sample_user)], subscription_plans := [(2, sample_plan)],
     capacity_pools := [(3, sample_pool\<lparr>active_users := 1\<rparr>)],
     user_subscriptions := [(4, (new_subscription 1 2 0 (days 30))\<lparr>pool_id := Some 3\<rparr>)]\<rparr>)"

theorem cancellation_frees_the_seat_witness:
  "map_option active_users (t_get (capacity_pools (work (snd (cancel_user_subscription 0 4 seat_scene)))) 3) = Some 0"
proof -
  obtain r t where go: "cancel_user_subscription 0 4 seat_scene = (r, t)" by fastforce
  have run: "case fst (cancel_user_subscription 0 4 seat_scene) of Inl _ \<Rightarrow> False | Inr _ \<Rightarrow> True"
    and pool: "t_get (capacity_pools (work (snd (cancel_user_subscription 0 4 seat_scene)))) 3 \<noteq> None"
    and load: "pool_load 0 3 (work (snd (cancel_user_subscription 0 4 seat_scene))) = 0"
    by code_simp+
  then obtain x where x: "r = Inr x" using go by (cases r) auto
  have "t_get (user_subscriptions (work seat_scene)) 4 = Some ((new_subscription 1 2 0 (days 30))\<lparr>pool_id := Some 3\<rparr>)"
    by (simp add: seat_scene_def open_session_def t_get_def)
  from cancellation_frees_the_seat [OF go [unfolded x] this] pool load show ?thesis
    by (auto simp: recounted_def go)
qed

text \<open>
  Reactivating recounts too, but looks at no capacity: a pool with one seat ends with two.
\<close>

definition full_scene :: session where
  "full_scene = open_session (empty_db\<lparr>
     users := [(1, sample_user)], subscription_plans := [(2, sample_plan)],
     capacity_pools := [(3, sample_pool\<lparr>active_users := 1, max_users := 1\<rparr>)],
     user_subscriptions := [(4, (new_subscription 1 2 0 (days 30))\<lparr>pool_id := Some 3\<rparr>),
       (5, (new_subscription 1 2 0 (days 30))\<lparr>pool_id := Some 3, us_status := ''cancelled''\<rparr>)]\<rparr>)"

lemma reactivation_overfills_pool:
  "map_option (\<lambda>p. (active_users p, max_users p))
     (t_get (capacity_pools (durable (snd (reactivate_user_subscription 0 5 full_scene)))) 3) = Some (2, 1)"
  by code_simp

text \<open>Every reference of a subscription, a rule or a quota row leads to a row.\<close>

definition references_ok :: "db \<Rightarrow> bool" where
  "references_ok d \<longleftrightarrow>
     (\<forall>(i, u) \<in> set (user_subscriptions d). t_get (subscription_plans d) (plan_id u) \<noteq> None) \<and>
     (\<forall>(i, r) \<in> set (plan_rules d). t_get (subscription_plans d) (ru_plan_id r) \<noteq> None) \<and>
     (\<forall>(i, q) \<in> set (subscription_quotas d). \<exists>u. (user_subscription_id q, u) \<in> set (user_subscriptions d))"

lemma in_t_select [simp]: "(i, r) \<in> set (t_select P t) \<longleftrightarrow> (i, r) \<in> set t \<and> P i r"
  by (auto simp: t_select_def)

lemma cascade_keeps_references:
  assumes "references_ok d"
  shows "references_ok (cascade_delete_plan pid d)"
proof -
  let ?e = "cascade_delete_plan pid d"
  note parts = cascade_delete_plan_def Let_def t_drop_def
  have "t_get (subscription_plans ?e) (plan_id u) \<noteq> None" if "(i, u) \<in> set (user_subscriptions ?e)" for i u
    using that assms by (auto simp: parts row_simps references_ok_def)
  moreover have "t_get (subscription_plans ?e) (ru_plan_id r) \<noteq> None" if "(i, r) \<in> set (plan_rules ?e)" for i r
    using that assms by (auto simp: parts row_simps references_ok_def)
  moreover have "\<exists>u. (user_subscription_id q, u) \<in> set (user_subscriptions ?e)"
    if q: "(i, q) \<in> set (subscription_quotas ?e)" for i q
  proof -
    from q have old: "(i, q) \<in> set (subscription_quotas d)"
      and kept: "user_subscription_id q \<notin> fst ` set (t_select (\<lambda>_ u. plan_id u = pid) (user_subscriptions d))"
      by (simp_all add: parts)
    obtain u where u: "(user_subscription_id q, u) \<in> set (user_subscriptions d)"
      using assms old by (auto simp: references_ok_def)
    have "plan_id u \<noteq> pid"
    proof
      assume "plan_id u = pid"
      with u have "(user_subscription_id q, u) \<in> set (t_select (\<lambda>_ u. plan_id u = pid) (user_subscriptions d))"
        by simp
      with kept show False by (metis fst_conv image_eqI)
    qed
    with u show ?thesis by (auto simp: parts)
  qed
  ultimately show ?thesis by (auto simp: references_ok_def)
qed

text \<open>
  Deleting a plan leaves no dangling reference: when every subscription, rule and quota row
  refers to an existing row before, it does so after, in what is committed too; and an unknown
  plan is refused with status 404, changing nothing.
\<close>

theorem plan_deletion_keeps_references:
  assumes "references_ok (work s)" and "delete_plan pid s = (x, t)"
  shows "references_ok (work t) \<and>
    (if t_get (subscription_plans (work s)) pid = None
     then x = Inl (HTTPException 404 ''Plan not found'') \<and> t = s
     else x = Inr () \<and> durable t = work t \<and> t_get (subscription_plans (work t)) pid = None \<and>
       capacity_pools (work t) = capacity_pools (work s))"
  using assms cascade_keeps_references [OF assms(1), of pid]
  by (auto simp: delete_plan_def run_simps cascade_delete_plan_def Let_def row_simps split: if_splits)

theorem plan_deletion_keeps_references_witness:
  "references_ok (work (snd (delete_plan 2 seat_scene))) \<and>
   user_subscriptions (work (snd (delete_plan 2 seat_scene))) = []"
proof -
  have "references_ok (work seat_scene)"
    by (simp add: references_ok_def seat_scene_def open_session_def empty_db_def new_subscription_def t_get_def)
  moreover have "user_subscriptions (work (snd (delete_plan 2 seat_scene))) = []" by code_simp
  ultimately show ?thesis
    using plan_deletion_keeps_references [of seat_scene 2 "fst (delete_plan 2 seat_scene)"
        "snd (delete_plan 2 seat_scene)"] by simp
qed

text \<open>After that deletion the pool still counts the seat of the deleted subscription.\<close>

lemma plan_deletion_leaks_seat:
  "map_option active_users (t_get (capacity_pools (durable (snd (delete_plan 2 seat_scene)))) 3) = Some 1 \<and>
   pool_load 0 3 (durable (snd (delete_plan 2 seat_scene))) = 0"
  by code_simp

section \<open>The Toman books\<close>

lemma keeps_update: "(\<And>d. same_books d (f d)) \<Longrightarrow> keeps_books (update f)"
  by (rule keeps_frames [OF frames_update])

lemma frames_recalculate [frames_rules]: "frames (recalculate_pool now p)"
  unfolding recalculate_pool_def recalculate_pool_active_users_def
  by (rule frames_rules frames_update | (simp add: same_books_def; fail))+

lemma frames_subscription_out [frames_rules]: "frames (subscription_out_of now x)"
  unfolding subscription_out_of_def Let_def by (rule frames_rules | simp)+

lemma frames_notify_subscriber [frames_rules]: "frames (notify_subscriber now sid)"
  unfolding notify_subscriber_def by (rule frames_rules)+

lemma frames_config_write [frames_rules]: "frames (config_write f)"
  unfolding config_write_def
  by (rule frames_update) (simp add: same_books_def split: option.split)

lemma admin_routes_keep_books:
  "keeps_books (update_config data)" "keeps_books (cancel_user_subscription now sid)"
  "keeps_books (reactivate_user_subscription now sid)" "keeps_books (create_plan plan)"
  "keeps_books (update_plan pid pdata)" "keeps_books (delete_plan pid)"
  unfolding update_config_def committed_config_def set_int_field_def set_percent_field_def
    cancel_user_subscription_def reactivate_user_subscription_def create_plan_def update_plan_def
    delete_plan_def Let_def
  by (intro keeps_rules keeps_update frames_rules [THEN keeps_frames] frames_config [THEN keeps_frames];
      simp add: same_books_def cascade_delete_plan_def Let_def)+

end
