(* ===== verification/Usage.thy ===== *)
theory Usage
  imports User_Subscription
begin

text \<open>
  \<open>pbozi/backend/app/services/usage_metering.py\<close> and
  \<open>pbozi/backend/app/services/subscription_service.py\<close>: reading a provider's token counts,
  estimating them, the usage event of a request, and what a request costs a subscriber whose plan
  carries free chats and a discount per model.

  A usage report is a JSON object. \<open>shw\<close> stands for Python's \<open>str\<close> on the JSON values
  whose text the model does not spell out (floats, lists and objects).
\<close>

section \<open>Token counts\<close>

record usage_tokens =
  input_tokens :: int
  output_tokens :: int

definition total_tokens :: "usage_tokens \<Rightarrow> int" where
  "total_tokens t = input_tokens t + output_tokens t"

definition all_digits :: "string \<Rightarrow> bool" where
  "all_digits s \<longleftrightarrow> s \<noteq> [] \<and> list_all is_digit s"

fun parse_usage_token :: "json \<Rightarrow> int" where
  "parse_usage_token (JBool b) = 0"
| "parse_usage_token (JInt n) = max 0 n"
| "parse_usage_token (JFloat x) = max 0 (trunc x)"
| "parse_usage_token (JStr s) =
     (if all_digits (strip s)
      then (case int_of_str (strip s) of None \<Rightarrow> 0 | Some n \<Rightarrow> n) else 0)"
| "parse_usage_token _ = 0"

text \<open>The first of the keys whose count is not zero.\<close>

fun first_count :: "dict \<Rightarrow> string list \<Rightarrow> int" where
  "first_count u [] = 0"
| "first_count u (k # ks) =
     (let n = parse_usage_token (dict_get u k) in if n = 0 then first_count u ks else n)"

fun extract_usage_tokens :: "json \<Rightarrow> usage_tokens" where
  "extract_usage_tokens (JDict u) =
     (let i = first_count u [''prompt_tokens'', ''input_tokens'', ''prompt_token_count'',
                             ''cached_prompt_tokens''];
          c = first_count u [''completion_tokens'', ''output_tokens'', ''candidates_token_count''];
          all_tokens = parse_usage_token (dict_get u ''total_tokens'');
          out = (if c = 0 then if i < all_tokens then all_tokens - i else c else c)
      in \<lparr>input_tokens = i, output_tokens = out\<rparr>)"
| "extract_usage_tokens _ = \<lparr>input_tokens = 0, output_tokens = 0\<rparr>"

definition sum_usage_tokens :: "json list \<Rightarrow> usage_tokens" where
  "sum_usage_tokens usages =
     foldl (\<lambda>acc u. let t = extract_usage_tokens u in
              \<lparr>input_tokens = input_tokens acc + input_tokens t,
               output_tokens = output_tokens acc + output_tokens t\<rparr>)
       \<lparr>input_tokens = 0, output_tokens = 0\<rparr> usages"

definition estimate_text_tokens :: "string option \<Rightarrow> int" where
  "estimate_text_tokens text =
     (let t = str_or text [] in if t = [] then 1 else max 1 ((int (length t) + 3) div 4))"

text \<open>\<open>str(x)\<close> and \<open>str(x or "")\<close>.\<close>

fun py_str :: "(json \<Rightarrow> string) \<Rightarrow> json \<Rightarrow> string" where
  "py_str shw JNull = ''None''"
| "py_str shw (JBool b) = (if b then ''True'' else ''False'')"
| "py_str shw (JInt n) = str_int n"
| "py_str shw (JStr s) = s"
| "py_str shw j = shw j"

definition py_str_or_empty :: "(json \<Rightarrow> string) \<Rightarrow> json \<Rightarrow> string" where
  "py_str_or_empty shw j = (if truthy j then py_str shw j else [])"

definition part_tokens :: "(json \<Rightarrow> string) \<Rightarrow> json \<Rightarrow> int" where
  "part_tokens shw part =
     (case part of
        JDict p \<Rightarrow>
          (case dict_get p ''type'' of
             JStr k \<Rightarrow>
               if k = ''text'' then estimate_text_tokens (Some (py_str_or_empty shw (dict_get p ''text'')))
               else if k = ''image_url'' then 250
               else estimate_text_tokens (Some (py_str shw part))
           | _ \<Rightarrow> estimate_text_tokens (Some (py_str shw part)))
      | _ \<Rightarrow> estimate_text_tokens (Some (py_str shw part)))"

definition message_tokens :: "(json \<Rightarrow> string) \<Rightarrow> dict \<Rightarrow> int" where
  "message_tokens shw msg =
     max 2 (int (length (py_str_or_empty shw (dict_get msg ''role'')))) +
     (case dict_get msg ''content'' of
        JStr s \<Rightarrow> estimate_text_tokens (Some s)
      | JList parts \<Rightarrow> sum_list (map (part_tokens shw) parts)
      | c \<Rightarrow> estimate_text_tokens (Some (py_str shw c)))"

definition estimate_messages_tokens :: "(json \<Rightarrow> string) \<Rightarrow> dict list \<Rightarrow> int" where
  "estimate_messages_tokens shw messages = max (sum_list (map (message_tokens shw) messages)) 1"

definition usage_cost_usd :: "llm_model \<Rightarrow> int \<Rightarrow> int \<Rightarrow> pyfloat" where
  "usage_cost_usd model i out =
     (let price_in = fl (case pricing_input model of None \<Rightarrow> 0 | Some p \<Rightarrow> p);
          price_out = fl (case pricing_output model of None \<Rightarrow> 0 | Some p \<Rightarrow> p)
      in max 0 (fl (fl (fl (fl (of_int i) / 1000000) * price_in) +
                    fl (fl (fl (of_int out) / 1000000) * price_out))))"

section \<open>Usage events\<close>

text \<open>
  The event is built from the values whose names are columns of \<open>UsageEvent\<close>. Its user is
  not nullable: without one the flush fails and rolls the transaction back.
\<close>

definition create_usage_event ::
  "int option \<Rightarrow> int option \<Rightarrow> int option \<Rightarrow> string option \<Rightarrow> string option \<Rightarrow> int option \<Rightarrow>
   int option \<Rightarrow> int option \<Rightarrow> string \<Rightarrow> string \<Rightarrow> string \<Rightarrow> dict option \<Rightarrow> bool \<Rightarrow>
   usage_event obj act" where
  "create_usage_event uid chat_id message_id provider_name mname provider_id model_id file_id
     channel operation status metadata do_commit =
     (let e = \<lparr>ue_user_id = uid, ue_chat_id = chat_id, ue_message_id = message_id,
               ue_uploaded_file_id = file_id, ue_operation_type = operation, ue_channel = channel,
               ue_provider_id = provider_id, provider_name_snapshot = provider_name,
               ue_model_id = model_id, model_name_snapshot = mname,
               ue_pricing_snapshot = None, ue_request_id = None,
               ue_input_tokens = 0, ue_output_tokens = 0, ue_total_tokens = 0,
               usage_source = ''estimated'', ue_estimated_cost_minor = 0, ue_actual_cost_minor = 0, ue_status = status,
               ue_error = None,
               ue_metadata_json = (case metadata of None \<Rightarrow> [] | Some m \<Rightarrow> m),
               ue_completed_at = None\<rparr>
      in if uid = None then andthen rollback (raise IntegrityError)
         else bind (query (\<lambda>d. t_next (usage_events d))) (\<lambda>eid.
           andthen (update (\<lambda>d. d\<lparr>usage_events := t_add e (usage_events d)\<rparr>))
           (andthen (commit_or_flush do_commit)
           (ret (eid, e)))))"

text \<open>
  The metadata are merged into the dictionary the row already holds. When that dictionary is not
  empty it is changed in place and assigned back as the same object, which SQLAlchemy does not
  take for a change: the row keeps its old metadata, and only an uncommitted event object shows
  the new ones.
\<close>

definition stored_metadata :: "dict \<Rightarrow> dict option \<Rightarrow> dict" where
  "stored_metadata old metadata =
     (case metadata of None \<Rightarrow> old | Some m \<Rightarrow> if old = [] then dict_merge [] m else old)"

definition shown_metadata :: "dict \<Rightarrow> dict option \<Rightarrow> dict" where
  "shown_metadata old metadata =
     (case metadata of None \<Rightarrow> old | Some m \<Rightarrow> dict_merge old m)"

definition completed_event ::
  "instant \<Rightarrow> json \<Rightarrow> int option \<Rightarrow> int option \<Rightarrow> pyfloat option \<Rightarrow> int option \<Rightarrow>
   string option \<Rightarrow> string \<Rightarrow> string option \<Rightarrow> usage_event \<Rightarrow> usage_event" where
  "completed_event now usage i out cost_usd cost_minor source status err e =
     (let tokens = extract_usage_tokens usage;
          input_count = (case i of Some n \<Rightarrow> n | None \<Rightarrow> input_tokens tokens);
          output_count = (case out of Some n \<Rightarrow> n | None \<Rightarrow> output_tokens tokens);
          minor = (case cost_minor of Some n \<Rightarrow> n
                   | None \<Rightarrow> (case cost_usd of None \<Rightarrow> ue_actual_cost_minor e
                              | Some c \<Rightarrow> usd_to_minor (Some c)))
      in e\<lparr>ue_input_tokens := input_count, ue_output_tokens := output_count,
           ue_total_tokens := input_count + output_count, ue_actual_cost_minor := minor,
           usage_source := (case source of None \<Rightarrow> usage_source e | Some x \<Rightarrow> x),
           ue_status := (if err = None then status else ''failed''), ue_error := err,
           ue_completed_at := Some now\<rparr>)"

definition complete_usage_event ::
  "instant \<Rightarrow> int option \<Rightarrow> json \<Rightarrow> int option \<Rightarrow> int option \<Rightarrow> pyfloat option \<Rightarrow> int option \<Rightarrow>
   string option \<Rightarrow> string \<Rightarrow> string option \<Rightarrow> dict option \<Rightarrow> bool \<Rightarrow> usage_event obj option act" where
  "complete_usage_event now event usage i out cost_usd cost_minor source status err metadata do_commit =
     (case event of
        None \<Rightarrow> ret None
      | Some eid \<Rightarrow>
          bind (query (\<lambda>d. t_get (usage_events d) eid)) (\<lambda>found.
          case found of
            None \<Rightarrow> raise (AttributeError ''input_tokens'')
          | Some e \<Rightarrow>
              let e' = completed_event now usage i out cost_usd cost_minor source status err e;
                  row = e'\<lparr>ue_metadata_json := stored_metadata (ue_metadata_json e) metadata\<rparr>
              in andthen (update (\<lambda>d. d\<lparr>usage_events := t_put eid row (usage_events d)\<rparr>))
                 (andthen (commit_or_flush do_commit)
                 (ret (Some (eid, if do_commit then row
                    else e'\<lparr>ue_metadata_json := shown_metadata (ue_metadata_json e) metadata\<rparr>))))))"

section \<open>Subscription quotas\<close>

record plan_purchase_result =
  pp_ok :: bool
  pp_subscription :: "user_subscription obj option"
  pp_quotas :: "user_subscription_quota list option"
  pp_error :: "string option"

definition purchase_plan ::
  "instant \<Rightarrow> int \<Rightarrow> subscription_plan obj \<Rightarrow> plan_purchase_result act" where
  "purchase_plan now uid plan =
     bind (purchase_toman_subscription now uid plan
             (Some (''subscription:'' @ str_int uid @ '':'' @ str_int (fst plan) @ '':'' @ iso_date now))
             False None True True) (\<lambda>result.
     if \<not> p_ok result
     then ret \<lparr>pp_ok = False, pp_subscription = None, pp_quotas = None,
               pp_error = Some (str_or (p_reason result) ''purchase_failed'')\<rparr>
     else ret \<lparr>pp_ok = True, pp_subscription = p_subscription result, pp_quotas = Some [],
               pp_error = None\<rparr>)"

definition quota_map :: "user_subscription_quota \<Rightarrow> (string \<times> int) list" where
  "quota_map q = (case chat_token_quotas_json q of None \<Rightarrow> [] | Some m \<Rightarrow> m)"

definition discounted :: "pyfloat \<Rightarrow> pyfloat \<Rightarrow> pyfloat" where
  "discounted cost percent = fl (cost * fl (1 - fl (fl percent / 100)))"

definition excess_cost :: "pyfloat \<Rightarrow> int \<Rightarrow> int \<Rightarrow> pyfloat" where
  "excess_cost cost excess toks =
     fl (cost * (if 0 < toks then fl (of_int excess / of_int toks) else 0))"

definition find_quota :: "instant \<Rightarrow> int \<Rightarrow> int \<Rightarrow> db \<Rightarrow> user_subscription_quota obj list" where
  "find_quota now uid mid d =
     t_select (\<lambda>_ q. uq_model_id q = mid \<and>
        (case t_get (user_subscriptions d) (user_subscription_id q) of
           None \<Rightarrow> False
         | Some u \<Rightarrow> us_user_id u = uid \<and> us_status u = ''active'' \<and> now < expires_at u))
       (subscription_quotas d)"

definition save_quota :: "int \<Rightarrow> user_subscription_quota \<Rightarrow> unit act" where
  "save_quota qid q =
     andthen (update (\<lambda>d. d\<lparr>subscription_quotas := t_put qid q (subscription_quotas d)\<rparr>)) commit"

text \<open>The request settled against the row found.\<close>

definition charge_quota ::
  "int \<Rightarrow> user_subscription_quota \<Rightarrow> string \<Rightarrow> pyfloat \<Rightarrow> int \<Rightarrow> int \<Rightarrow> (pyfloat \<times> bool) act" where
  "charge_quota qid q chat cost toks free =
     (case map_of (quota_map q) chat of
        Some remaining \<Rightarrow>
          if toks \<le> remaining
          then andthen (save_quota qid
                 (q\<lparr>chat_token_quotas_json := Some (AList.update chat (remaining - toks) (quota_map q))\<rparr>))
               (ret (0, True))
          else andthen (save_quota qid
                 (q\<lparr>chat_token_quotas_json := Some (AList.update chat 0 (quota_map q))\<rparr>))
               (ret (discounted (excess_cost cost (toks - remaining) toks) (uq_discount_percent q), True))
      | None \<Rightarrow>
          if 0 < free_chats_remaining q
          then andthen (save_quota qid
                 (q\<lparr>free_chats_remaining := free_chats_remaining q - 1,
                    chat_token_quotas_json :=
                      Some (AList.update chat (max 0 (free - toks)) (quota_map q))\<rparr>))
               (ret (if toks \<le> free then 0
                     else discounted (excess_cost cost (toks - free) toks) (uq_discount_percent q), True))
          else ret (discounted cost (uq_discount_percent q), True))"

definition evaluate_usage_cost ::
  "instant \<Rightarrow> int \<Rightarrow> int \<Rightarrow> int \<Rightarrow> pyfloat \<Rightarrow> int \<Rightarrow> int \<Rightarrow> int \<Rightarrow> (pyfloat \<times> bool) act" where
  "evaluate_usage_cost now uid mid chat_id cost i out free =
     bind (query (\<lambda>d. t_first (\<lambda>_ _. True) (subscription_configs d))) (\<lambda>cfg.
     if (case cfg of None \<Rightarrow> False | Some (_, c) \<Rightarrow> \<not> is_enabled c) then ret (cost, False)
     else
     bind (query (find_quota now uid mid)) (\<lambda>rows.
     bind (scalar_one_or_none rows) (\<lambda>found.
     case found of
       None \<Rightarrow> ret (cost, False)
     | Some (qid, q) \<Rightarrow> charge_quota qid q (str_int chat_id) cost (i + out) free)))"

section \<open>Floats\<close>

lemma discount_factor_bounds:
  assumes "0 \<le> p" and "p \<le> 100"
  shows "0 \<le> fl (1 - fl (fl p / 100))" and "fl (1 - fl (fl p / 100)) \<le> 1"
proof -
  have "0 \<le> fl p" "fl p \<le> 100" using assms fl_le_of_int [of p 100] by (simp_all add: fl_nonneg)
  then have q: "0 \<le> fl (fl p / 100)" "fl (fl p / 100) \<le> 1"
    using fl_le_of_int [of "fl p / 100" 1] by (simp_all add: fl_nonneg)
  then show "0 \<le> fl (1 - fl (fl p / 100))" by (simp add: fl_nonneg)
  show "fl (1 - fl (fl p / 100)) \<le> 1" using q fl_le_of_int [of "1 - fl (fl p / 100)" 1] by simp
qed

lemma fl_part_bounds:
  assumes "fl cost = cost" and "0 \<le> cost" and "0 \<le> k" and "k \<le> 1"
  shows "0 \<le> fl (cost * k)" and "fl (cost * k) \<le> cost"
  using assms fl_mono_nonneg [of "cost * k" cost] mult_left_mono [of k 1 cost] by (simp_all add: fl_nonneg)

text \<open>Rounding a float changes nothing.\<close>

lemma fl_scaled:
  assumes "0 < x" and "ilog2 x = e" and "x = of_int k * pow2 (e - 52)"
  shows "fl x = x"
proof -
  have "x / pow2 (e - 52) = of_int k" using assms(3) by simp
  with fl_pos_eq [OF assms(1)] assms(2,3) show ?thesis by simp
qed

lemma fl_pow2: "fl (pow2 e) = pow2 e"
proof (rule fl_scaled)
  show "ilog2 (pow2 e) = e" by (rule ilog2_unique) (simp_all add: pow2_less_iff)
  show "pow2 e = of_int (2 ^ 52) * pow2 (e - 52)" by (rule pow2_scale)
qed simp

lemma fl_fl:
  assumes "0 \<le> x"
  shows "fl (fl x) = fl x"
proof (cases "x = 0")
  case False
  with assms have x: "0 < x" by simp
  note b = fl_binade [OF x]
  show ?thesis
  proof (cases "fl x < pow2 (ilog2 x + 1)")
    case True
    show ?thesis
    proof (rule fl_scaled)
      show "0 < fl x" by (rule fl_pos [OF x])
      then show "ilog2 (fl x) = ilog2 x" using b(1) True by (rule ilog2_unique)
      show "fl x = of_int (round_half_even (x / pow2 (ilog2 x - 52))) * pow2 (ilog2 x - 52)"
        by (rule fl_pos_eq [OF x])
    qed
  next
    case False
    with b(2) have "fl x = pow2 (ilog2 x + 1)" by simp
    then show ?thesis by (simp add: fl_pow2)
  qed
qed simp

lemma discounted_bounds:
  assumes "fl cost = cost" and "0 \<le> cost" and "0 \<le> p" and "p \<le> 100"
  shows "0 \<le> discounted cost p" and "discounted cost p \<le> cost"
  using fl_part_bounds [OF assms(1,2) discount_factor_bounds [OF assms(3,4)]]
  by (simp_all add: discounted_def)

lemma excess_bounds:
  assumes "fl cost = cost" and "0 \<le> cost" and "0 \<le> r" and "r < n"
  shows "0 \<le> excess_cost cost (n - r) n" and "excess_cost cost (n - r) n \<le> cost"
    and "fl (excess_cost cost (n - r) n) = excess_cost cost (n - r) n"
proof -
  let ?k = "fl (of_int (n - r) / of_int n)"
  have x: "0 \<le> (of_int (n - r) / of_int n :: rat)" "(of_int (n - r) / of_int n :: rat) \<le> 1"
    using assms(3,4) by (simp_all add: field_simps)
  then have k: "0 \<le> ?k" "?k \<le> 1" using fl_le_of_int [OF x(1), of 1] by (simp_all add: fl_nonneg)
  from fl_part_bounds [OF assms(1,2) k] assms(3,4)
  show "0 \<le> excess_cost cost (n - r) n" "excess_cost cost (n - r) n \<le> cost"
    by (simp_all add: excess_cost_def)
  show "fl (excess_cost cost (n - r) n) = excess_cost cost (n - r) n"
    using assms(2) k(1) by (simp only: excess_cost_def) (rule fl_fl, simp)
qed

section \<open>What the quotas give away\<close>

text \<open>The tokens a quota row can still give: what its chats have left, and its unopened chats.\<close>

definition allowance :: "user_subscription_quota \<Rightarrow> int" where
  "allowance q = sum_list (map snd (quota_map q)) + 100000 * free_chats_remaining q"

definition quota_fine :: "user_subscription_quota \<Rightarrow> bool" where
  "quota_fine q \<longleftrightarrow> distinct (map fst (quota_map q)) \<and> (\<forall>n \<in> snd ` set (quota_map q). 0 \<le> n) \<and>
     0 \<le> free_chats_remaining q"

definition quotas_fine :: "db \<Rightarrow> bool" where
  "quotas_fine d \<longleftrightarrow> t_wf (subscription_quotas d) \<and> (\<forall>(i, q) \<in> set (subscription_quotas d). quota_fine q)"

lemma update_new: "map_of m k = None \<Longrightarrow> AList.update k v m = m @ [(k, v)]"
  by (induction m) (auto split: if_splits)

lemma update_old_sum:
  "distinct (map fst m) \<Longrightarrow> map_of m k = Some r \<Longrightarrow>
    sum_list (map snd (AList.update k v m)) = sum_list (map snd m) - r + (v :: int)"
  by (induction m) (auto split: if_splits)

lemma update_values: "snd ` set (AList.update k v m) \<subseteq> insert v (snd ` set m)"
  by (induction m) auto

lemma quota_map_written [simp]:
  "quota_map (q\<lparr>chat_token_quotas_json := Some m\<rparr>) = m"
  "quota_map (q\<lparr>free_chats_remaining := f, chat_token_quotas_json := Some m\<rparr>) = m"
  by (simp_all add: quota_map_def)

lemma update_nonneg:
  "\<forall>n \<in> snd ` set m. 0 \<le> n \<Longrightarrow> 0 \<le> (v :: int) \<Longrightarrow> \<forall>n \<in> snd ` set (AList.update k v m). 0 \<le> n"
  using update_values [of k v m] by blast

lemma quota_fine_update:
  assumes "quota_fine q" and "0 \<le> v"
  shows "quota_fine (q\<lparr>chat_token_quotas_json := Some (AList.update k v (quota_map q))\<rparr>)"
    and "0 \<le> f \<Longrightarrow> quota_fine (q\<lparr>free_chats_remaining := f,
      chat_token_quotas_json := Some (AList.update k v (quota_map q))\<rparr>)"
proof -
  from assms(1) have q: "distinct (map fst (quota_map q))" "\<forall>n \<in> snd ` set (quota_map q). 0 \<le> n"
    "0 \<le> free_chats_remaining q"
    unfolding quota_fine_def by blast+
  note new = distinct_update [OF q(1), of k v] update_nonneg [OF q(2) assms(2), of k]
  show "quota_fine (q\<lparr>chat_token_quotas_json := Some (AList.update k v (quota_map q))\<rparr>)"
    unfolding quota_fine_def quota_map_written by (intro conjI new) (simp add: q(3))
  show "quota_fine (q\<lparr>free_chats_remaining := f,
      chat_token_quotas_json := Some (AList.update k v (quota_map q))\<rparr>)" if "0 \<le> f"
    unfolding quota_fine_def quota_map_written by (intro conjI new) (simp add: that)
qed

lemma quotas_fine_put:
  assumes "quotas_fine d" and "quota_fine q"
  shows "quotas_fine (d\<lparr>subscription_quotas := t_put i q (subscription_quotas d)\<rparr>)"
  using assms set_t_put [of i q "subscription_quotas d"]
  by (simp add: quotas_fine_def) blast

lemma find_quota_get:
  "quotas_fine d \<Longrightarrow> (i, q) \<in> set (find_quota now uid mid d) \<Longrightarrow>
    t_get (subscription_quotas d) i = Some q \<and> quota_fine q"
  by (auto simp: find_quota_def t_select_def quotas_fine_def t_get_in)

text \<open>One chat request settled against one quota row.\<close>

definition settled_usage ::
  "user_subscription_quota \<Rightarrow> pyfloat \<Rightarrow> int \<Rightarrow> pyfloat \<Rightarrow> user_subscription_quota \<Rightarrow> bool" where
  "settled_usage q cost n price q' \<longleftrightarrow>
     (let given = allowance q - allowance q' in
      0 \<le> given \<and> given \<le> n \<and> uq_model_id q' = uq_model_id q \<and>
      price = (if given = n then 0 else discounted (excess_cost cost (n - given) n) (uq_discount_percent q)))"

lemma quota_value_nonneg: "quota_fine q \<Longrightarrow> map_of (quota_map q) k = Some r \<Longrightarrow> 0 \<le> r"
  by (force simp: quota_fine_def dest: map_of_SomeD)

lemma settle_known_chat:
  assumes "quota_fine q" and "map_of (quota_map q) k = Some r" and "0 < n"
  shows "n \<le> r \<Longrightarrow> settled_usage q cost n 0
      (q\<lparr>chat_token_quotas_json := Some (AList.update k (r - n) (quota_map q))\<rparr>)"
    and "r < n \<Longrightarrow> settled_usage q cost n (discounted (excess_cost cost (n - r) n) (uq_discount_percent q))
      (q\<lparr>chat_token_quotas_json := Some (AList.update k 0 (quota_map q))\<rparr>)"
  using assms quota_value_nonneg [OF assms(1,2)] update_old_sum [of "quota_map q" k r]
  by (simp_all add: settled_usage_def allowance_def quota_fine_def)

lemma settle_new_chat:
  assumes "map_of (quota_map q) k = None" and "0 < n"
  shows "settled_usage q cost n
      (if n \<le> 100000 then 0 else discounted (excess_cost cost (n - 100000) n) (uq_discount_percent q))
      (q\<lparr>free_chats_remaining := free_chats_remaining q - 1,
         chat_token_quotas_json := Some (AList.update k (max 0 (100000 - n)) (quota_map q))\<rparr>)"
  using assms by (simp add: settled_usage_def allowance_def update_new)

lemma settle_unfree:
  "fl cost = cost \<Longrightarrow> 0 < n \<Longrightarrow> settled_usage q cost n (discounted cost (uq_discount_percent q)) q"
  by (simp add: settled_usage_def excess_cost_def)

lemma charge_quota_settles:
  assumes "quotas_fine (work s)" and "t_get (subscription_quotas (work s)) qid = Some q" and "quota_fine q"
    and "fl cost = cost" and "0 < n" and "charge_quota qid q chat cost n 100000 s = (Inr (price, applied), t)"
  shows "applied \<and> quotas_fine (work t) \<and>
    (\<exists>q'. t_get (subscription_quotas (work t)) qid = Some q' \<and> settled_usage q cost n price q') \<and>
    (\<forall>j. j \<noteq> qid \<longrightarrow> t_get (subscription_quotas (work t)) j = t_get (subscription_quotas (work s)) j)"
proof (cases "map_of (quota_map q) chat")
  case None
  then show ?thesis
  proof (cases "0 < free_chats_remaining q")
    case True
    with None assms settle_new_chat [OF None assms(5), of cost] show ?thesis
      by (auto simp: charge_quota_def save_quota_def run_simps row_simps
          intro!: quotas_fine_put quota_fine_update)
  next
    case False
    with None assms settle_unfree [OF assms(4,5), of q] show ?thesis
      by (auto simp: charge_quota_def run_simps)
  qed
next
  case (Some r)
  note settle = settle_known_chat [OF assms(3) Some assms(5), of cost]
  from Some assms settle show ?thesis
    by (auto simp: charge_quota_def save_quota_def run_simps row_simps not_le split: if_splits
        intro!: quotas_fine_put quota_fine_update)
qed

text \<open>
  C14. Every token of a chat request is either taken from the subscriber's quota or paid for. When
  the service answers that a subscription applied, it settled the request against one quota row of
  the subscriber for that model: the row's allowance, over all its chats opened or not, went down
  by some number of the request's tokens and never below zero, every other row is unchanged, and
  the price is the discounted share of the cost that the remaining tokens make up. Otherwise the
  price is the standard cost and nothing changed.
\<close>

theorem tokens_paid_or_deducted:
  assumes "quotas_fine (work s)" and "fl cost = cost" and "0 \<le> i" and "0 \<le> out" and "0 < i + out"
    and "evaluate_usage_cost now uid mid chat cost i out 100000 s = (Inr (price, applied), t)"
  shows "quotas_fine (work t) \<and>
    (if applied then \<exists>qid q q'. (qid, q) \<in> set (find_quota now uid mid (work s)) \<and>
       t_get (subscription_quotas (work t)) qid = Some q' \<and> settled_usage q cost (i + out) price q' \<and>
       (\<forall>j. j \<noteq> qid \<longrightarrow> t_get (subscription_quotas (work t)) j = t_get (subscription_quotas (work s)) j)
     else price = cost \<and> t = s)"
proof -
  consider (std) "price = cost" "\<not> applied" "t = s"
    | (quota) qid q where "find_quota now uid mid (work s) = [(qid, q)]"
        "charge_quota qid q (str_int chat) cost (i + out) 100000 s = (Inr (price, applied), t)"
    using assms(6) by (cases "find_quota now uid mid (work s)" rule: scalar_one_or_none.cases)
      (auto simp: evaluate_usage_cost_def run_simps split: if_splits)
  then show ?thesis
  proof cases
    case std
    with assms(1) show ?thesis by simp
  next
    case quota
    then have q: "(qid, q) \<in> set (find_quota now uid mid (work s))" by simp
    from charge_quota_settles [OF assms(1) _ _ assms(2,5) quota(2)] find_quota_get [OF assms(1) q] q
    show ?thesis by auto
  qed
qed

definition quota_scene :: session where
  "quota_scene = open_session (empty_db\<lparr>user_subscriptions := [(4, new_subscription 1 2 0 (days 30))],
     subscription_quotas := [(9, \<lparr>user_subscription_id = 4, uq_model_id = 5, free_chats_remaining = 1,
       chat_token_quotas_json = Some [(''77'', 300)], uq_discount_percent = 50\<rparr>)]\<rparr>)"

theorem tokens_paid_or_deducted_witness:
  "case evaluate_usage_cost 0 1 5 77 2 300 300 100000 quota_scene of
     (Inl _, _) \<Rightarrow> False
   | (Inr (price, applied), t) \<Rightarrow> price = 1 / 2 \<and> applied \<and>
       map (\<lambda>(i, q). (i, allowance q)) (subscription_quotas (work t)) = [(9, 100000)] \<and> quotas_fine (work t)"
proof -
  have run: "case evaluate_usage_cost 0 1 5 77 2 300 300 100000 quota_scene of (Inl _, _) \<Rightarrow> False
      | (Inr (price, applied), t) \<Rightarrow> price = 1 / 2 \<and> applied \<and>
          map (\<lambda>(i, q). (i, allowance q)) (subscription_quotas (work t)) = [(9, 100000)]"
    by code_simp
  then obtain price applied t where go: "evaluate_usage_cost 0 1 5 77 2 300 300 100000 quota_scene = (Inr (price, applied), t)"
    by (auto split: prod.splits sum.splits)
  have "quotas_fine (work quota_scene)"
    by (simp add: quotas_fine_def quota_fine_def quota_map_def quota_scene_def open_session_def t_wf_def)
  moreover have "fl 2 = 2" using fl_of_int [of 2] by simp
  ultimately have "quotas_fine (work t)" using tokens_paid_or_deducted [OF _ _ _ _ _ go] by simp
  with run go show ?thesis by simp
qed

text \<open>
  A quota or a discount never raises the price: for a plan whose discount is a percentage,
  the price of a request lies between zero and its standard cost.
\<close>

theorem discount_never_raises_price:
  assumes "fl cost = cost" and "0 \<le> cost" and "0 \<le> i" and "0 \<le> out" and "0 \<le> free"
    and "\<forall>(qid, q) \<in> set (find_quota now uid mid (work s)).
      quota_fine q \<and> 0 \<le> uq_discount_percent q \<and> uq_discount_percent q \<le> 100"
    and "evaluate_usage_cost now uid mid chat cost i out free s = (Inr (price, applied), t)"
  shows "0 \<le> price \<and> price \<le> cost"
proof -
  consider (std) "price = cost"
    | (quota) qid q where "find_quota now uid mid (work s) = [(qid, q)]"
        "charge_quota qid q (str_int chat) cost (i + out) free s = (Inr (price, applied), t)"
    using assms(7) by (cases "find_quota now uid mid (work s)" rule: scalar_one_or_none.cases)
      (auto simp: evaluate_usage_cost_def run_simps split: if_splits)
  then show ?thesis
  proof cases
    case std
    with assms(2) show ?thesis by simp
  next
    case quota
    let ?p = "uq_discount_percent q"
    from quota(1) assms(6) have q: "quota_fine q" "0 \<le> ?p" "?p \<le> 100" by simp_all
    have excess: "0 \<le> discounted (excess_cost cost (n - r) n) ?p \<and> discounted (excess_cost cost (n - r) n) ?p \<le> cost"
      if "0 \<le> r" "r < n" for r n
      using that discounted_bounds [OF excess_bounds(3,1) q(2,3)] excess_bounds(2) [OF assms(1,2), of r n]
        assms(1,2) by force
    have "0 \<le> r" if "map_of (quota_map q) k = Some r" for k r
      using quota_value_nonneg [OF q(1) that] .
    with excess discounted_bounds [OF assms(1,2) q(2,3)] quota(2) assms(2,3,4,5) show ?thesis
      by (fastforce simp: charge_quota_def save_quota_def run_simps not_le split: if_splits option.splits)
  qed
qed

theorem discount_never_raises_price_witness:
  "case evaluate_usage_cost 0 1 5 77 2 300 300 100000 quota_scene of
     (Inl _, _) \<Rightarrow> False | (Inr (price, _), _) \<Rightarrow> 0 \<le> price \<and> price \<le> 2"
proof -
  have "case evaluate_usage_cost 0 1 5 77 2 300 300 100000 quota_scene of (Inl _, _) \<Rightarrow> False | (Inr _, _) \<Rightarrow> True"
    by code_simp
  then obtain price applied t where go: "evaluate_usage_cost 0 1 5 77 2 300 300 100000 quota_scene = (Inr (price, applied), t)"
    by (auto split: prod.splits sum.splits)
  have "\<forall>(qid, q) \<in> set (find_quota 0 1 5 (work quota_scene)).
      quota_fine q \<and> 0 \<le> uq_discount_percent q \<and> uq_discount_percent q \<le> 100"
    by (auto simp: find_quota_def t_select_def quota_fine_def quota_map_def quota_scene_def open_session_def)
  moreover have "fl 2 = 2" using fl_of_int [of 2] by simp
  ultimately have "0 \<le> price \<and> price \<le> 2" using discount_never_raises_price [OF _ _ _ _ _ _ go] by simp
  with go show ?thesis by simp
qed

text \<open>A second completion's metadata are lost: the row already holds some.\<close>

lemma completion_metadata_lost:
  assumes "t_get (usage_events (work s)) eid = Some e" and "ue_metadata_json e \<noteq> []"
    and "complete_usage_event now (Some eid) usage i out c m src status err (Some extra) True s = (Inr r, t)"
  shows "map_option ue_metadata_json (t_get (usage_events (work t)) eid) = Some (ue_metadata_json e)"
  using assms
  by (auto simp: complete_usage_event_def stored_metadata_def run_simps Let_def row_simps)

section \<open>Token counts are counts\<close>

lemma parse_usage_token_nonneg [simp]: "0 \<le> parse_usage_token j"
proof (cases j)
  case (JStr s)
  have "0 \<le> n" if "all_digits w" "int_of_str w = Some n" for w n
  proof -
    have w: "w \<noteq> []" "list_all is_digit w" using that(1) by (simp_all add: all_digits_def)
    then have "is_digit (hd w)" "is_digit (last w)" by (auto simp: list_all_iff)
    then have "strip w = w" "hd w \<noteq> CHR ''-''"
      using digit_chars w(1) by (auto intro!: strip_id)
    with that(2) w(1) show ?thesis
      by (cases w) (auto simp: int_of_str_def split: if_splits)
  qed
  with JStr show ?thesis by (auto split: option.splits)
qed (simp_all add: max_def)

lemma first_count_nonneg [simp]: "0 \<le> first_count u ks"
  by (induction ks) (simp_all add: Let_def)

lemma extract_usage_tokens_nonneg:
  "0 \<le> input_tokens (extract_usage_tokens j) \<and> 0 \<le> output_tokens (extract_usage_tokens j)"
  by (cases j rule: extract_usage_tokens.cases) (simp_all del: first_count.simps add: Let_def)

section \<open>The Toman books\<close>

lemma frames_add_event [frames_rules]:
  "frames (update (\<lambda>d. d\<lparr>usage_events := t_add e (usage_events d)\<rparr>))"
  by (rule frames_update) (simp add: same_books_def)

lemma create_event_keeps_books: "keeps_books (create_usage_event u a b c d e f g h k l m n)"
  unfolding create_usage_event_def Let_def
  by (intro keeps_rules frames_rules [THEN keeps_frames])

lemma frames_complete_event [frames_rules]:
  "frames (complete_usage_event a b c d e f g h k l m n)"
  unfolding complete_usage_event_def Let_def
  by (intro frames_rules frames_update) (simp_all add: same_books_def)

lemma frames_evaluate_cost [frames_rules]: "frames (evaluate_usage_cost now uid mid chat c i out free)"
  unfolding evaluate_usage_cost_def charge_quota_def save_quota_def
  by (intro frames_rules frames_update) (simp_all add: same_books_def)

lemma purchase_plan_keeps_books: "keeps_books (purchase_plan now uid plan)"
  unfolding purchase_plan_def by (intro keeps_rules purchase_keeps_books)

end
