(* ===== verification/Idempotency.thy ===== *)
theory Idempotency
  imports Usage
begin

text \<open>
  \<open>pbozi/backend/app/services/idempotency_service.py\<close>: the key of a Telegram update and the
  log of the updates already handled.

  An update is a JSON object, or an object with the same attributes. The reflection on model and
  column names is resolved against \<open>models.py\<close>: the log is \<open>TelegramUpdateLog\<close>, its key column
  \<open>update_key\<close>, its metadata column \<open>metadata_json\<close>, and its \<open>processed_at\<close> is
  \<open>created_at\<close>.
\<close>

section \<open>The key of an update\<close>

text \<open>\<open>_get_attr\<close> and \<open>_nested_attr\<close>: scalars and lists have none of the attributes.\<close>

fun get_attr :: "json \<Rightarrow> string \<Rightarrow> json" where
  "get_attr (JDict d) k = dict_get d k"
| "get_attr _ k = JNull"

fun nested_attr :: "json \<Rightarrow> string list \<Rightarrow> json" where
  "nested_attr j [] = j"
| "nested_attr j (k # ks) = (if j = JNull then JNull else nested_attr (get_attr j k) ks)"

fun first_present :: "json list \<Rightarrow> json" where
  "first_present [] = JNull"
| "first_present (j # js) = (if j \<noteq> JNull then j else first_present js)"

definition update_chat_id :: "json \<Rightarrow> json" where
  "update_chat_id u = first_present
     [nested_attr u [''effective_chat'', ''id''],
      nested_attr u [''message'', ''chat'', ''id''],
      nested_attr u [''callback_query'', ''message'', ''chat'', ''id''],
      nested_attr u [''edited_message'', ''chat'', ''id''],
      nested_attr u [''channel_post'', ''chat'', ''id'']]"

definition update_message_id :: "json \<Rightarrow> json" where
  "update_message_id u = first_present
     [nested_attr u [''effective_message'', ''message_id''],
      nested_attr u [''message'', ''message_id''],
      nested_attr u [''callback_query'', ''message'', ''message_id''],
      nested_attr u [''edited_message'', ''message_id''],
      nested_attr u [''channel_post'', ''message_id'']]"

definition callback_query_id :: "json \<Rightarrow> json" where
  "callback_query_id u = nested_attr u [''callback_query'', ''id'']"

definition build_update_key :: "(json \<Rightarrow> string) \<Rightarrow> json \<Rightarrow> string option" where
  "build_update_key shw u =
     (if get_attr u ''update_id'' \<noteq> JNull
      then Some (''telegram:update:'' @ py_str shw (get_attr u ''update_id''))
      else if callback_query_id u \<noteq> JNull
      then Some (''telegram:callback:'' @ py_str shw (callback_query_id u))
      else if update_chat_id u \<noteq> JNull \<and> update_message_id u \<noteq> JNull
      then Some (''telegram:chat:'' @ py_str shw (update_chat_id u) @ '':message:''
                 @ py_str shw (update_message_id u))
      else None)"

section \<open>The log\<close>

definition log_row :: "string \<Rightarrow> db \<Rightarrow> telegram_update_log obj option" where
  "log_row key d = t_first (\<lambda>_ r. update_key r = Some key) (update_logs d)"

definition was_processed :: "string option \<Rightarrow> bool act" where
  "was_processed key =
     (if str_or key [] = [] then ret False
      else query (\<lambda>d. log_row (str_or key []) d \<noteq> None))"

text \<open>
  The insert. \<open>update_id\<close> and \<open>update_key\<close> are unique and \<open>update_id\<close> is not nullable.
\<close>

definition insert_log ::
  "instant \<Rightarrow> int option \<Rightarrow> string \<Rightarrow> dict \<Rightarrow> telegram_update_log obj act" where
  "insert_log now uid key metadata =
     (case uid of
        None \<Rightarrow> raise IntegrityError
      | Some n \<Rightarrow>
          bind (query (\<lambda>d. t_first (\<lambda>_ r. update_id r = n \<or> update_key r = Some key) (update_logs d)))
          (\<lambda>clash.
          if clash \<noteq> None then raise IntegrityError
          else
            let row = \<lparr>update_id = n, update_key = Some key, log_telegram_user_id = None,
                       log_chat_id = None, log_update_type = None, log_status = ''processed'',
                       log_metadata_json = metadata, log_created_at = now, log_completed_at = None\<rparr>
            in bind (query (\<lambda>d. t_next (update_logs d))) (\<lambda>lid.
               andthen (update (\<lambda>d. d\<lparr>update_logs := t_add row (update_logs d)\<rparr>)) (ret (lid, row)))))"

text \<open>The values the service fills in do not include \<open>update_id\<close>.\<close>

definition mark_processed ::
  "instant \<Rightarrow> string option \<Rightarrow> dict option \<Rightarrow> telegram_update_log obj option act" where
  "mark_processed now key metadata =
     (if str_or key [] = [] then ret None
      else
        bind (query (log_row (str_or key []))) (\<lambda>existing.
        case existing of
          Some r \<Rightarrow> ret (Some r)
        | None \<Rightarrow>
            catch (bind (insert_log now None (str_or key [])
                     (case metadata of None \<Rightarrow> [] | Some m \<Rightarrow> m)) (\<lambda>r. ret (Some r)))
              (\<lambda>_. ret None)))"

definition should_skip_update :: "(json \<Rightarrow> string) \<Rightarrow> json \<Rightarrow> bool act" where
  "should_skip_update shw u = was_processed (build_update_key shw u)"

section \<open>What a key identifies\<close>

text \<open>
  The identity of an update whose identifiers have the types Telegram documents: integers, and a
  string for a callback query.
\<close>

datatype update_ref =
    ByUpdate int
  | ByCallback string
  | ByMessage int int
  | NoIdentity

definition message_ref :: "json \<Rightarrow> json \<Rightarrow> update_ref option" where
  "message_ref chat msg =
     (case (chat, msg) of
        (JInt c, JInt m) \<Rightarrow> Some (ByMessage c m)
      | (JNull, _) \<Rightarrow> Some NoIdentity
      | (_, JNull) \<Rightarrow> Some NoIdentity
      | _ \<Rightarrow> None)"

definition ref_of :: "json \<Rightarrow> update_ref option" where
  "ref_of u =
     (case get_attr u ''update_id'' of
        JInt n \<Rightarrow> Some (ByUpdate n)
      | JNull \<Rightarrow>
          (case callback_query_id u of
             JStr c \<Rightarrow> Some (ByCallback c)
           | JNull \<Rightarrow> message_ref (update_chat_id u) (update_message_id u)
           | _ \<Rightarrow> None)
      | _ \<Rightarrow> None)"

fun key_of_ref :: "update_ref \<Rightarrow> string option" where
  "key_of_ref (ByUpdate n) = Some (''telegram:update:'' @ str_int n)"
| "key_of_ref (ByCallback c) = Some (''telegram:callback:'' @ c)"
| "key_of_ref (ByMessage c m) =
     Some (''telegram:chat:'' @ str_int c @ '':message:'' @ str_int m)"
| "key_of_ref NoIdentity = None"

lemma build_key_ref: "ref_of u = Some r \<Longrightarrow> build_update_key shw u = key_of_ref r"
  by (auto simp: ref_of_def message_ref_def build_update_key_def split: json.splits)

lemma str_int_no_colon: "CHR '':'' \<notin> set (str_int n)"
  using str_int_chars [of "CHR '':''" n] by (auto simp: is_digit_def)

lemma colon_split:
  assumes "CHR '':'' \<notin> set a" and "CHR '':'' \<notin> set b" and "a @ CHR '':'' # x = b @ CHR '':'' # y"
  shows "a = b \<and> x = y"
  using assms
proof (induction a arbitrary: b)
  case Nil
  then show ?case by (cases b) auto
next
  case (Cons c a)
  then show ?case by (cases b) auto
qed

lemma key_of_ref_inject: "key_of_ref r = key_of_ref r' \<longleftrightarrow> r = r'"
proof
  assume eq: "key_of_ref r = key_of_ref r'"
  show "r = r'"
  proof (cases r)
    case (ByMessage c m)
    with eq show ?thesis
      using colon_split [OF str_int_no_colon str_int_no_colon, of c _ _]
      by (cases r') (auto dest: colon_split [OF str_int_no_colon str_int_no_colon])
  qed (use eq in \<open>cases r'; simp\<close>)+
qed simp



text \<open>The bookkeeping never records an update: the insert lacks the mandatory id.\<close>

lemma mark_processed_records_nothing:
  "snd (mark_processed now key metadata s) = s"
  "log_row (str_or key []) (work s) = None \<Longrightarrow> fst (mark_processed now key metadata s) = Inr None"
  by (simp_all add: mark_processed_def insert_log_def run_simps split: option.split)

lemma frames_mark_processed [frames_rules]: "frames (mark_processed now key metadata)"
  by (simp add: frames_def mark_processed_records_nothing)

lemma frames_should_skip [frames_rules]: "frames (should_skip_update shw u)"
  unfolding should_skip_update_def was_processed_def by (rule frames_rules)+

end
