(* ===== verification/Projects.thy ===== *)
theory Projects
  imports Toman_Safety
begin

text \<open>
  \<open>pbozi/backend/app/services/project_sharing.py\<close>: share tokens, sharing a project with a
  group, who sees which project, and the copy a recipient gets of a shared project with its
  documents.

  The random tokens are arguments. The copy's files live in a file system that is threaded
  through as the list of the paths that exist; \<open>copies\<close> says whether \<open>shutil.copy2\<close> of one
  path to another succeeds and whether it leaves a file at the target. The vector index (\<open>app.rag\<close>), copied last and after the commit, is
  not modelled.
\<close>

section \<open>Paths\<close>

text \<open>\<open>os.path.join\<close>, \<open>basename\<close> and \<open>splitext\<close> on POSIX.\<close>

definition path_join :: "string \<Rightarrow> string \<Rightarrow> string" where
  "path_join dir name =
     (if starts_with name ''/'' then name
      else if dir = [] \<or> last dir = CHR ''/'' then dir @ name
      else dir @ ''/'' @ name)"

definition basename :: "string \<Rightarrow> string" where
  "basename p = rev (takeWhile (\<lambda>c. c \<noteq> CHR ''/'') (rev p))"

text \<open>
  The extension of a base name starts at its last dot, unless only dots stand before that dot.
\<close>

definition splitext :: "string \<Rightarrow> string \<times> string" where
  "splitext b =
     (let after_dot = rev (takeWhile (\<lambda>c. c \<noteq> CHR ''.'') (rev b));
          stem = take (length b - length after_dot - 1) b
      in if CHR ''.'' \<notin> set b \<or> list_all (\<lambda>c. c = CHR ''.'') stem then (b, [])
         else (stem, CHR ''.'' # after_dot))"

definition project_upload_dir :: "string \<Rightarrow> int \<Rightarrow> string" where
  "project_upload_dir upload_root pid = path_join upload_root (''project_'' @ str_int pid)"

text \<open>
  The loop over the numbered candidates. Only finitely many paths exist, so it ends: the fuel is
  one more than their number.
\<close>

definition numbered_path :: "string \<Rightarrow> string \<times> string \<Rightarrow> nat \<Rightarrow> string" where
  "numbered_path dir parts n =
     path_join dir (fst parts @ ''_'' @ str_int (int n) @ snd parts)"

fun next_free :: "nat \<Rightarrow> string list \<Rightarrow> string \<Rightarrow> string \<times> string \<Rightarrow> nat \<Rightarrow> string option" where
  "next_free 0 fs dir parts n = None"
| "next_free (Suc fuel) fs dir parts n =
     (let p = numbered_path dir parts n
      in if p \<in> set fs then next_free fuel fs dir parts (Suc n) else Some p)"

definition unique_destination_path :: "string list \<Rightarrow> string \<Rightarrow> string \<Rightarrow> string option" where
  "unique_destination_path fs dir name =
     (let safe_name = basename (if name = [] then ''document'' else name);
          candidate = path_join dir safe_name
      in if candidate \<in> set fs
         then next_free (length fs + 1) fs dir (splitext safe_name) 1
         else Some candidate)"

section \<open>Share tokens\<close>

definition token_taken :: "db \<Rightarrow> int \<Rightarrow> string \<Rightarrow> bool" where
  "token_taken d pid token \<longleftrightarrow>
     t_first (\<lambda>i p. i \<noteq> pid \<and> share_token p = Some token) (projects d) \<noteq> None"

text \<open>
  \<open>project.share_token = token; commit\<close>: the unique constraint refuses a token of another
  project, and the rollback that follows discards the whole transaction.
\<close>

fun try_tokens :: "int \<Rightarrow> string list \<Rightarrow> string act" where
  "try_tokens pid [] = raise (ValueError ''Could not create a unique project share token'')"
| "try_tokens pid (token # tokens) =
     bind (query (\<lambda>d. token_taken d pid token)) (\<lambda>taken.
     if taken then andthen rollback (try_tokens pid tokens)
     else bind (query (\<lambda>d. t_get (projects d) pid)) (\<lambda>p.
       case p of
         None \<Rightarrow> raise (AttributeError ''share_token'')
       | Some pr \<Rightarrow>
           andthen (update (\<lambda>d. d\<lparr>projects := t_put pid (pr\<lparr>share_token := Some token\<rparr>) (projects d)\<rparr>))
           (andthen commit (ret token))))"

definition ensure_project_share_token :: "string list \<Rightarrow> int \<Rightarrow> string act" where
  "ensure_project_share_token tokens pid =
     bind (query (\<lambda>d. t_get (projects d) pid)) (\<lambda>p.
     case p of
       None \<Rightarrow> raise (AttributeError ''share_token'')
     | Some pr \<Rightarrow>
         if str_or (share_token pr) [] \<noteq> [] then ret (str_or (share_token pr) [])
         else try_tokens pid (take 5 tokens))"

definition get_project_by_share_token :: "string option \<Rightarrow> project obj option act" where
  "get_project_by_share_token token =
     (let t = strip (str_or token []) in
      if t = [] then ret None
      else bind (query (\<lambda>d. t_select (\<lambda>_ p. share_token p = Some t) (projects d)))
             scalar_one_or_none)"

section \<open>Groups and visibility\<close>

definition share_project_with_group :: "int \<Rightarrow> int \<Rightarrow> int \<Rightarrow> project_group_share obj act" where
  "share_project_with_group pid gid by_uid =
     bind (query (\<lambda>d. t_select (\<lambda>_ x. ps_project_id x = pid \<and> ps_group_id x = gid) (project_shares d)))
       (\<lambda>rows. bind (scalar_one_or_none rows) (\<lambda>existing.
     case existing of
       Some x \<Rightarrow> ret x
     | None \<Rightarrow>
         let row = \<lparr>ps_project_id = pid, ps_group_id = gid, shared_by_user_id = by_uid\<rparr>
         in bind (query (\<lambda>d. t_next (project_shares d))) (\<lambda>sid.
            andthen (update (\<lambda>d. d\<lparr>project_shares := t_add row (project_shares d)\<rparr>))
            (andthen commit (ret (sid, row))))))"

text \<open>\<open>order_by(Project.created_at.desc(), Project.id.desc())\<close>.\<close>

definition newest_first :: "project table \<Rightarrow> project table" where
  "newest_first ps = sort_key (\<lambda>(i, p). (- proj_created_at p, - i)) ps"

definition shared_with :: "db \<Rightarrow> int \<Rightarrow> int \<Rightarrow> bool" where
  "shared_with d gid pid \<longleftrightarrow>
     t_first (\<lambda>_ x. ps_project_id x = pid \<and> ps_group_id x = gid) (project_shares d) \<noteq> None"

definition is_public :: "project \<Rightarrow> bool" where
  "is_public p \<longleftrightarrow> owner_user_id p = None \<or> share_token p \<noteq> None"

definition list_group_shared_projects :: "int \<Rightarrow> project obj list act" where
  "list_group_shared_projects gid =
     query (\<lambda>d. newest_first (t_select (\<lambda>i _. shared_with d gid i) (projects d)))"

definition list_visible_projects :: "int \<Rightarrow> user_preference \<Rightarrow> project obj list act" where
  "list_visible_projects uid u =
     (if \<not> is_admin u \<and> \<not> is_pro u then ret []
      else query (\<lambda>d. newest_first (t_select (\<lambda>_ p. owner_user_id p = Some uid) (projects d))))"

definition list_group_public_projects :: "project obj list act" where
  "list_group_public_projects =
     query (\<lambda>d. newest_first (t_select (\<lambda>_ p. is_public p) (projects d)))"

definition get_group_public_project :: "int \<Rightarrow> int option \<Rightarrow> project obj option act" where
  "get_group_public_project pid gid =
     bind (query (\<lambda>d. t_select (\<lambda>i p. i = pid \<and>
       (if or0 gid \<noteq> 0 then shared_with d (or0 gid) pid else is_public p)) (projects d)))
     scalar_one_or_none"

definition user_can_access_project :: "int \<Rightarrow> user_preference \<Rightarrow> int \<Rightarrow> project obj option act" where
  "user_can_access_project uid u pid =
     (if \<not> is_admin u \<and> \<not> is_pro u then ret None
      else bind (query (\<lambda>d. t_select (\<lambda>i p. i = pid \<and> (is_admin u \<or> owner_user_id p = Some uid))
             (projects d))) scalar_one_or_none)"

definition newline :: string where "newline = [CHR 0x0A]"

definition build_project_instructions_prompt :: "project option \<Rightarrow> string" where
  "build_project_instructions_prompt proj =
     (case proj of
        None \<Rightarrow> []
      | Some p \<Rightarrow>
          let description = strip (str_or (proj_description p) []);
              instructions = strip (str_or (proj_instructions p) [])
          in if description = [] \<and> instructions = [] then []
             else ''Project instructions for this chat:''
               @ (if description = [] then [] else newline @ ''- Description: '' @ description)
               @ (if instructions = [] then [] else newline @ ''- Instructions: '' @ instructions)
               @ newline @ ''- Treat these as project-specific guidance unless the user explicitly overrides them.'')"

section \<open>Copying a shared project\<close>

text \<open>
  One document: where its file goes, if it has one that exists and the copy succeeds. The paths
  that exist afterwards are returned with the row.
\<close>

definition copy_file ::
  "(string \<Rightarrow> string \<Rightarrow> bool \<times> bool) \<Rightarrow> string list \<Rightarrow> string \<Rightarrow> project_document \<Rightarrow>
   string option \<times> string list" where
  "copy_file copies fs dir doc =
     (let src = str_or (file_path doc) [] in
      if src = [] \<or> src \<notin> set fs then (None, fs)
      else case unique_destination_path fs dir (str_or (filename doc) (basename src)) of
             None \<Rightarrow> (None, fs)
           | Some target \<Rightarrow>
               (case copies src target of (ok, file_left) \<Rightarrow>
                (if ok then Some target else None, if ok \<or> file_left then target # fs else fs)))"

definition copied_document :: "int \<Rightarrow> string option \<Rightarrow> project_document obj \<Rightarrow> project_document" where
  "copied_document pid target = (\<lambda>(did, doc).
     \<lparr>doc_project_id = Some pid,
      filename = Some (case str_or target [] of
         [] \<Rightarrow> str_or (filename doc) (''missing_'' @ str_int did)
       | c # cs \<Rightarrow> basename (c # cs)),
      file_type = file_type doc,
      file_path = target,
      chunk_count = chunk_count doc,
      doc_status = (if target = None \<and> 0 < chunk_count doc then ''indexed'' else ''pending'')\<rparr>)"

fun copy_documents ::
  "(string \<Rightarrow> string \<Rightarrow> bool \<times> bool) \<Rightarrow> string \<Rightarrow> int \<Rightarrow> string list \<Rightarrow> project_document obj list \<Rightarrow>
   ((int \<times> int) list \<times> string list) act" where
  "copy_documents copies dir pid fs [] = ret ([], fs)"
| "copy_documents copies dir pid fs (doc # docs) =
     (case copy_file copies fs dir (snd doc) of (target, fs') \<Rightarrow>
      bind (query (\<lambda>d. t_next (documents d))) (\<lambda>did.
      andthen (update (\<lambda>d. d\<lparr>documents := t_add (copied_document pid target doc) (documents d)\<rparr>))
      (bind (copy_documents copies dir pid fs' docs) (\<lambda>(ids, fs'').
       ret ((fst doc, did) # ids, fs'')))))"

definition copied_project :: "instant \<Rightarrow> int \<Rightarrow> project obj \<Rightarrow> project" where
  "copied_project now uid = (\<lambda>(src_id, src).
     \<lparr>proj_name = proj_name src, proj_description = proj_description src,
      proj_instructions = proj_instructions src, owner_user_id = Some uid, share_token = None,
      shared_from_project_id = Some src_id, proj_created_at = now\<rparr>)"

definition project_documents :: "int \<Rightarrow> db \<Rightarrow> project_document obj list" where
  "project_documents pid d =
     sort_key fst (t_select (\<lambda>_ x. doc_project_id x = Some pid) (documents d))"

definition copy_project_for_user ::
  "(string \<Rightarrow> string \<Rightarrow> bool \<times> bool) \<Rightarrow> string list \<Rightarrow> string \<Rightarrow> instant \<Rightarrow> string option \<Rightarrow> int \<Rightarrow>
   (project obj \<times> string list) act" where
  "copy_project_for_user copies fs upload_root now token uid =
     bind (get_project_by_share_token token) (\<lambda>source.
     case source of
       None \<Rightarrow> raise (ValueError ''Project share link is invalid or expired'')
     | Some src \<Rightarrow>
     bind (query (\<lambda>d. t_select (\<lambda>_ p. owner_user_id p = Some uid \<and>
             shared_from_project_id p = Some (fst src)) (projects d))) (\<lambda>rows.
     bind (scalar_one_or_none rows) (\<lambda>existing.
     case existing of
       Some p \<Rightarrow> ret (p, fs)
     | None \<Rightarrow>
     bind (query (\<lambda>d. t_next (projects d))) (\<lambda>pid.
     andthen (update (\<lambda>d. d\<lparr>projects := t_add (copied_project now uid src) (projects d)\<rparr>))
     (bind (query (project_documents (fst src))) (\<lambda>docs.
      bind (copy_documents copies (project_upload_dir upload_root pid) pid fs docs) (\<lambda>(ids, fs').
      andthen commit (ret ((pid, copied_project now uid src), fs')))))))))"

section \<open>The destination of a copied file\<close>

lemma numbered_path_inject: "numbered_path dir parts m = numbered_path dir parts n \<longleftrightarrow> m = n"
proof -
  have "starts_with (fst parts @ ''_'' @ x) ''/'' = starts_with (fst parts @ ''_'' @ y) ''/''" for x y
    by (cases "fst parts") (simp_all add: starts_with_def)
  then show ?thesis
    by (auto simp: numbered_path_def path_join_def)
qed

lemma next_free_None:
  "next_free fuel fs dir parts n = None \<Longrightarrow> k < fuel \<Longrightarrow> numbered_path dir parts (n + k) \<in> set fs"
proof (induction fuel arbitrary: n k)
  case (Suc fuel)
  then have here: "numbered_path dir parts n \<in> set fs" and rest: "next_free fuel fs dir parts (Suc n) = None"
    by (auto simp: Let_def split: if_splits)
  show ?case
  proof (cases k)
    case (Suc j)
    with Suc.IH [OF rest, of j] Suc.prems(2) show ?thesis by simp
  qed (simp add: here)
qed simp

lemma next_free_finds:
  assumes "length fs < fuel"
  shows "\<exists>p. next_free fuel fs dir parts n = Some p"
proof (rule ccontr)
  assume "\<nexists>p. next_free fuel fs dir parts n = Some p"
  then have "(\<lambda>k. numbered_path dir parts (n + k)) ` {..< fuel} \<subseteq> set fs"
    using next_free_None [of fuel fs dir parts n] by blast
  then have "card ((\<lambda>k. numbered_path dir parts (n + k)) ` {..< fuel}) \<le> card (set fs)"
    by (rule card_mono [OF finite_set])
  moreover have "inj_on (\<lambda>k. numbered_path dir parts (n + k)) {..< fuel}"
    by (simp add: inj_on_def numbered_path_inject)
  ultimately have "fuel \<le> card (set fs)" by (simp add: card_image)
  with assms card_length [of fs] show False by simp
qed

lemma next_free_fresh: "next_free fuel fs dir parts n = Some p \<Longrightarrow> p \<notin> set fs"
  by (induction fuel arbitrary: n) (auto simp: Let_def split: if_splits)

text \<open>
  C16. The search for a free path in the copy's directory ends, whatever exists there, and yields
  a path at which nothing exists: copying a document overwrites no file.
\<close>

theorem destination_search_ends:
  "\<exists>p. unique_destination_path fs dir name = Some p \<and> p \<notin> set fs"
proof -
  let ?safe = "basename (if name = [] then ''document'' else name)"
  obtain p where "next_free (length fs + 1) fs dir (splitext ?safe) 1 = Some p"
    using next_free_finds [of fs "length fs + 1"] by (metis less_add_one)
  with next_free_fresh [OF this] show ?thesis
    by (auto simp: unique_destination_path_def Let_def)
qed

section \<open>The copy\<close>

lemma copy_file_keeps: "copy_file copies fs dir doc = (target, fs') \<Longrightarrow> set fs \<subseteq> set fs'"
  by (auto simp: copy_file_def Let_def split: if_splits option.splits prod.splits)

text \<open>What of a document its copy repeats.\<close>

definition doc_content :: "project_document \<Rightarrow> string option \<times> int" where
  "doc_content doc = (file_type doc, chunk_count doc)"

lemma copy_documents_spec:
  "\<exists>new ids fs'. copy_documents copies dir pid fs docs s =
      (Inr (ids, fs'), s\<lparr>work := (work s)\<lparr>documents := documents (work s) @ new\<rparr>\<rparr>) \<and>
    map (\<lambda>(_, x). doc_content x) new = map (\<lambda>(_, x). doc_content x) docs \<and>
    (\<forall>x \<in> set new. doc_project_id (snd x) = Some pid) \<and> map fst ids = map fst docs \<and>
    map snd ids = map fst new \<and> set fs \<subseteq> set fs'"
proof (induction docs arbitrary: fs s)
  case Nil
  then show ?case by (simp add: run_simps)
next
  case (Cons doc docs)
  obtain target fs1 where f: "copy_file copies fs dir (snd doc) = (target, fs1)" by fastforce
  let ?row = "(t_next (documents (work s)), copied_document pid target doc)"
  let ?s = "s\<lparr>work := (work s)\<lparr>documents := documents (work s) @ [?row]\<rparr>\<rparr>"
  from Cons.IH [of fs1 ?s] obtain new ids fs2 where
    "copy_documents copies dir pid fs1 docs ?s =
      (Inr (ids, fs2), ?s\<lparr>work := (work ?s)\<lparr>documents := documents (work ?s) @ new\<rparr>\<rparr>)"
    and "map (\<lambda>(_, x). doc_content x) new = map (\<lambda>(_, x). doc_content x) docs"
    and "\<forall>x \<in> set new. doc_project_id (snd x) = Some pid" and "map fst ids = map fst docs"
    and "map snd ids = map fst new" and "set fs1 \<subseteq> set fs2" by blast
  with copy_file_keeps [OF f] show ?case
    by (intro exI [of _ "?row # new"] exI [of _ "(fst doc, fst ?row) # ids"] exI [of _ fs2])
       (auto simp: run_simps f t_add_def copied_document_def doc_content_def split: prod.splits)
qed


text \<open>A project of two documents, one with a file, shared with user 8.\<close>

definition sample_project :: project where
  "sample_project = \<lparr>proj_name = ''thesis'', proj_description = None, proj_instructions = Some ''cite'',
     owner_user_id = Some 7, share_token = Some ''tok'', shared_from_project_id = None, proj_created_at = 0\<rparr>"

definition project_scene :: session where
  "project_scene = open_session (empty_db\<lparr>projects := [(3, sample_project)],
     documents := [(1, \<lparr>doc_project_id = Some 3, filename = Some ''a.pdf'', file_type = Some ''pdf'',
       file_path = Some ''up/a.pdf'', chunk_count = 4, doc_status = ''indexed''\<rparr>)]\<rparr>)"


text \<open>What a user may open is theirs, or they are an administrator.\<close>

lemma access_is_own:
  assumes "user_can_access_project uid u pid s = (Inr (Some p), t)"
  shows "fst p = pid \<and> p \<in> set (projects (work s)) \<and>
    (is_admin u \<or> is_pro u \<and> owner_user_id (snd p) = Some uid)"
proof -
  let ?rows = "t_select (\<lambda>i p. i = pid \<and> (is_admin u \<or> owner_user_id p = Some uid)) (projects (work s))"
  have "?rows = [p]" "is_admin u \<or> is_pro u"
    using assms by (cases ?rows rule: scalar_one_or_none.cases;
        auto simp: user_can_access_project_def run_simps split: if_splits)+
  then have "p \<in> set ?rows" "is_admin u \<or> is_pro u" by simp_all
  then show ?thesis by (auto simp: t_select_def)
qed

section \<open>The Toman books\<close>

lemma keeps_write_project:
  "keeps_books (update (\<lambda>d. d\<lparr>projects := f d\<rparr>))" "keeps_books (update (\<lambda>d. d\<lparr>documents := g d\<rparr>))"
  by (rule keeps_frames, rule frames_update, simp add: same_books_def)+

lemma try_tokens_keeps_books: "keeps_books (try_tokens pid tokens)"
proof (induction tokens)
  case (Cons token tokens)
  then show ?case
    by (simp, intro keeps_rules keeps_frames [OF frames_query] keeps_frames [OF frames_commit] keeps_write_project)
qed (simp add: keeps_raise)

lemma copy_documents_keeps_books: "keeps_books (copy_documents copies dir pid fs docs)"
proof (induction docs arbitrary: fs)
  case (Cons doc docs)
  then show ?case
    by (simp, intro keeps_rules keeps_frames [OF frames_query] keeps_write_project)
qed (simp add: keeps_ret)

lemma copy_project_keeps_books: "keeps_books (copy_project_for_user copies fs dir now token uid)"
  unfolding copy_project_for_user_def get_project_by_share_token_def Let_def
  by (intro keeps_rules copy_documents_keeps_books keeps_frames [OF frames_query] keeps_frames [OF frames_commit]
      keeps_frames [OF frames_scalar] keeps_write_project)

end
