(* ===== verification/Feedback.thy ===== *)
theory Feedback
  imports Toman_Safety
begin

text \<open>
  \<open>pbozi/backend/app/services/feedback_service.py\<close>: when a reply is followed by a request to
  rate it, and the ratings.

  \<open>smalltalk_re\<close> stands for the compiled pattern's \<open>match\<close>, whose words are Persian and
  English; \<open>roll\<close> is what \<open>random.random()\<close> returns, a number in \<open>[0, 1)\<close>.
\<close>

section \<open>Eligibility\<close>

definition DEFAULT_MIN_REPLY_CHARS :: "int" where
  "DEFAULT_MIN_REPLY_CHARS = (120 :: int)"

definition DEFAULT_PROBABILITY :: "pyfloat" where
  "DEFAULT_PROBABILITY = (18 / 100 :: pyfloat)"

definition DEFAULT_COOLDOWN_SECONDS :: "int" where
  "DEFAULT_COOLDOWN_SECONDS = (15 * 60 :: int)"

record rating_decision =
  should_request :: bool
  rd_reason :: string

text \<open>\<open>len(s.split())\<close>.\<close>

fun count_words :: "bool \<Rightarrow> string \<Rightarrow> nat" where
  "count_words in_word [] = 0"
| "count_words in_word (c # cs) =
     (if is_space c then count_words False cs
      else (if in_word then 0 else 1) + count_words True cs)"

definition is_smalltalk :: "(string \<Rightarrow> bool) \<Rightarrow> string option \<Rightarrow> bool" where
  "is_smalltalk smalltalk_re text =
     (let normalized = strip (str_or text []) in
      if normalized = [] then True
      else if length normalized \<le> 18 \<and> smalltalk_re normalized then True
      else count_words False normalized \<le> 3 \<and> smalltalk_re normalized)"

definition basic_rating_decision ::
  "(string \<Rightarrow> bool) \<Rightarrow> pyfloat \<Rightarrow> string option \<Rightarrow> string option \<Rightarrow> int \<Rightarrow> pyfloat \<Rightarrow> rating_decision" where
  "basic_rating_decision smalltalk_re roll user_text assistant_text min_reply_chars probability =
     (if str_or assistant_text [] = [] \<or> int (length (strip (str_or assistant_text []))) < min_reply_chars
      then \<lparr>should_request = False, rd_reason = ''reply_too_short''\<rparr>
      else if is_smalltalk smalltalk_re user_text
      then \<lparr>should_request = False, rd_reason = ''user_smalltalk''\<rparr>
      else if is_smalltalk smalltalk_re assistant_text
      then \<lparr>should_request = False, rd_reason = ''assistant_smalltalk''\<rparr>
      else if probability < 1 \<and> max 0 probability \<le> roll
      then \<lparr>should_request = False, rd_reason = ''sampled_out''\<rparr>
      else \<lparr>should_request = True, rd_reason = ''eligible''\<rparr>)"

section \<open>Ratings\<close>

text \<open>The user is given by id, or by Telegram id, or not at all.\<close>

definition recently_requested_or_rated :: "instant \<Rightarrow> int option \<Rightarrow> int option \<Rightarrow> int \<Rightarrow> bool act" where
  "recently_requested_or_rated now uid tg cooldown_seconds =
     (let cutoff = now - microseconds (max 0 cooldown_seconds) in
      case (uid, tg) of
        (Some u, _) \<Rightarrow>
          query (\<lambda>d. t_first (\<lambda>_ e. cutoff \<le> fb_created_at e \<and> fb_user_id e = Some u) (feedback_entries d) \<noteq> None)
      | (None, Some t) \<Rightarrow>
          query (\<lambda>d. t_first (\<lambda>_ e. cutoff \<le> fb_created_at e \<and> fb_telegram_user_id e = Some t) (feedback_entries d) \<noteq> None)
      | (None, None) \<Rightarrow> ret False)"

definition should_request_rating ::
  "(string \<Rightarrow> bool) \<Rightarrow> pyfloat \<Rightarrow> instant \<Rightarrow> int option \<Rightarrow> int option \<Rightarrow> string option \<Rightarrow> string option \<Rightarrow>
   int \<Rightarrow> pyfloat \<Rightarrow> int \<Rightarrow> rating_decision act" where
  "should_request_rating smalltalk_re roll now uid tg user_text assistant_text min_reply_chars
     probability cooldown_seconds =
     (let decision = basic_rating_decision smalltalk_re roll user_text assistant_text min_reply_chars probability
      in if \<not> should_request decision then ret decision
         else bind (recently_requested_or_rated now uid tg cooldown_seconds) (\<lambda>recent.
           ret (if recent then \<lparr>should_request = False, rd_reason = ''cooldown''\<rparr> else decision)))"

definition create_feedback_entry ::
  "instant \<Rightarrow> (int \<times> user_preference) option \<Rightarrow> int option \<Rightarrow> int option \<Rightarrow> int option \<Rightarrow> int \<Rightarrow>
   string option \<Rightarrow> string option \<Rightarrow> string \<Rightarrow> string option \<Rightarrow> bool \<Rightarrow> feedback_entry obj act" where
  "create_feedback_entry now user tg chat_id message_id rating annotation raw_text source sample do_commit =
     (let e = \<lparr>fb_user_id = map_option fst user,
               fb_telegram_user_id =
                 (case tg of Some t \<Rightarrow> Some t | None \<Rightarrow> Option.bind user (\<lambda>(_, u). telegram_user_id u)),
               fb_chat_id = chat_id, fb_message_id = message_id,
               rating_value = (if 0 < rating then 1 else -1), fb_note = annotation,
               reaction_raw_text = raw_text, fb_source = source, sample_reason = sample,
               fb_created_at = now\<rparr>
      in bind (query (\<lambda>d. t_next (feedback_entries d))) (\<lambda>fid.
         andthen (update (\<lambda>d. d\<lparr>feedback_entries := t_add e (feedback_entries d)\<rparr>))
         (andthen (commit_or_flush do_commit) (ret (fid, e)))))"

section \<open>The cooldown\<close>

text \<open>
  What happens to the ratings between two requests: any number of ratings by anyone, with any
  answers to the eligibility question in between.
\<close>

inductive feedback_run :: "session \<Rightarrow> session \<Rightarrow> bool" where
  stop: "feedback_run s s"
| rate: "feedback_run s t \<Longrightarrow>
    feedback_run s (snd (create_feedback_entry now user tg c m r annotation raw src smp do_commit t))"
| ask: "feedback_run s t \<Longrightarrow>
    feedback_run s (snd (should_request_rating sre roll now uid tg ut reply mn p cd t))"

lemma ask_reads_only: "snd (should_request_rating sre roll now uid tg ut reply mn p cd s) = s"
  by (auto simp: should_request_rating_def recently_requested_or_rated_def run_simps Let_def
      split: option.split)

lemma ratings_stay:
  "feedback_run s t \<Longrightarrow> set (feedback_entries (work s)) \<subseteq> set (feedback_entries (work t))"
  by (induction rule: feedback_run.induct)
     (auto simp: ask_reads_only create_feedback_entry_def run_simps Let_def set_t_add)

text \<open>
  A user who rated a reply is not asked again before the cooldown is over, whatever they and
  the others rate in the meantime, and whatever the reply, the dice and the sampling rate are.
\<close>

theorem no_request_within_cooldown:
  assumes "create_feedback_entry now (Some (uid, u)) tg c m r annotation raw src smp do_commit s = (Inr e, t)"
    and "feedback_run t t'"
    and "later \<le> now + microseconds (max 0 cooldown)"
    and "should_request_rating sre roll later (Some uid) tg' ut reply mn p cooldown t' = (Inr decision, t'')"
  shows "\<not> should_request decision"
proof
  assume asked: "should_request decision"
  have "e \<in> set (feedback_entries (work t)) \<and> fb_user_id (snd e) = Some uid \<and> fb_created_at (snd e) = now"
    using assms(1) by (auto simp: create_feedback_entry_def run_simps Let_def set_t_add)
  with ratings_stay [OF assms(2)]
  have e: "e \<in> set (feedback_entries (work t'))" "fb_user_id (snd e) = Some uid" "fb_created_at (snd e) = now"
    by auto
  have "t_first (\<lambda>_ x. later - microseconds (max 0 cooldown) \<le> fb_created_at x \<and> fb_user_id x = Some uid)
      (feedback_entries (work t')) = None"
    using assms(4) asked
    by (auto simp: should_request_rating_def recently_requested_or_rated_def run_simps Let_def
        simp del: not_None_eq not_Some_eq split: if_splits)
  from t_first_NoneD [OF this, of "fst e" "snd e"] e assms(3) show False by simp
qed

theorem no_request_within_cooldown_witness:
  "\<exists>t decision. should_request_rating (\<lambda>_. False) (1 / 10) (hours 0 + 60) (Some 3) None (Some ''why?'')
      (Some (replicate 200 CHR ''x'')) DEFAULT_MIN_REPLY_CHARS DEFAULT_PROBABILITY DEFAULT_COOLDOWN_SECONDS t =
      (Inr decision, t) \<and> rd_reason decision = ''cooldown'' \<and> \<not> should_request decision"
proof -
  let ?s = "open_session empty_db"
  let ?c = "create_feedback_entry 0 (Some (3, sample_user)) None None None 1 None None ''b'' None True"
  let ?q = "should_request_rating (\<lambda>_. False) (1 / 10) (hours 0 + 60) (Some 3) None (Some ''why?'')
      (Some (replicate 200 CHR ''x'')) DEFAULT_MIN_REPLY_CHARS DEFAULT_PROBABILITY DEFAULT_COOLDOWN_SECONDS"
  have "case ?c ?s of (Inl _, _) \<Rightarrow> False | (Inr e, t) \<Rightarrow>
      (case ?q t of (Inl _, _) \<Rightarrow> False | (Inr decision, _) \<Rightarrow> rd_reason decision = ''cooldown'')"
    by code_simp
  then obtain e t decision t' where c: "?c ?s = (Inr e, t)" and q: "?q t = (Inr decision, t')"
    and r: "rd_reason decision = ''cooldown''"
    by (auto split: prod.splits sum.splits)
  have "hours 0 + 60 \<le> (0 :: int) + microseconds (max 0 DEFAULT_COOLDOWN_SECONDS)"
    by (simp add: hours_def microseconds_def DEFAULT_COOLDOWN_SECONDS_def)
  from no_request_within_cooldown [OF c feedback_run.stop this q] have "\<not> should_request decision" .
  moreover have "t' = t" using ask_reads_only [of "\<lambda>_. False" "1 / 10" "hours 0 + 60"] q by (metis snd_conv)
  ultimately show ?thesis using q r by blast
qed

lemma frames_create_feedback [frames_rules]:
  "frames (create_feedback_entry now user tg c m r annotation raw src smp do_commit)"
  unfolding create_feedback_entry_def Let_def
  by (intro frames_rules frames_update) (simp add: same_books_def)

end
