(* ===== verification/Tips.thy ===== *)
theory Tips
  imports Toman_Safety
begin

text \<open>
  The tips: \<open>pbozi/backend/app/tips_logic.py\<close> (sending one, and the buttons under it),
  \<open>tips_scheduler.py\<close> (the periodic job) and \<open>admin_tips_routes.py\<close>.

  \<open>deliver chat tip\<close> says whether \<open>bot.send_message\<close> succeeds. The pauses and the automatic
  deletion of a message change no state. The delivery log goes through a session of its own, with
  an \<open>INSERT\<close> into a table that no model declares; whether it succeeds or not is ignored by the
  code, and it is not modelled.
\<close>

section \<open>Sending a tip\<close>

definition dismissed :: "db \<Rightarrow> int \<Rightarrow> int \<Rightarrow> bool" where
  "dismissed d uid tid \<longleftrightarrow>
     t_first (\<lambda>_ x. td_user_id x = uid \<and> td_tip_id x = tid) (tip_dismissals d) \<noteq> None"

text \<open>\<open>db.add(UserTipDismissal(...))\<close> with its flush: the pair is unique.\<close>

definition add_dismissal :: "int \<Rightarrow> int \<Rightarrow> unit act" where
  "add_dismissal uid tid =
     bind (query (\<lambda>d. dismissed d uid tid)) (\<lambda>there.
     if there then andthen rollback (raise IntegrityError)
     else update (\<lambda>d. d\<lparr>tip_dismissals :=
            t_add \<lparr>td_user_id = uid, td_tip_id = tid\<rparr> (tip_dismissals d)\<rparr>))"

definition active_tips :: "string \<Rightarrow> db \<Rightarrow> tip obj list" where
  "active_tips key d = t_select (\<lambda>_ t. trigger_key t = key \<and> tip_is_active t) (tips d)"

definition maybe_send_tip :: "(int \<Rightarrow> int \<Rightarrow> bool) \<Rightarrow> int \<Rightarrow> int \<Rightarrow> string \<Rightarrow> unit act" where
  "maybe_send_tip deliver chat uid key =
     catch
       (bind (query (active_tips key)) (\<lambda>rows.
        bind (scalar_one_or_none rows) (\<lambda>found.
        case found of
          None \<Rightarrow> ret ()
        | Some (tid, t) \<Rightarrow>
            bind (query (\<lambda>d. dismissed d uid tid)) (\<lambda>gone.
            on_cond (\<not> gone \<and> deliver chat tid) (send (SendTip chat (tip_content t) tid))))))
       (\<lambda>_. ret ())"

text \<open>\<open>s.replace(p, "")\<close>.\<close>

function remove_all :: "string \<Rightarrow> string \<Rightarrow> string" where
  "remove_all p [] = []"
| "remove_all p (c # cs) =
     (if p \<noteq> [] \<and> starts_with (c # cs) p then remove_all p (drop (length p) (c # cs))
      else c # remove_all p cs)"
  by pat_completeness auto
termination by (relation "measure (\<lambda>(_, s). length s)") (auto simp: length_greater_0_conv [symmetric] simp del: length_greater_0_conv)

text \<open>
  The buttons. Deleting the message and answering the query may fail, which the code ignores; the
  outbox lists the attempts.
\<close>

definition handle_tip_callback :: "string \<Rightarrow> int \<Rightarrow> unit act" where
  "handle_tip_callback pressed uid =
     catch
       (if starts_with pressed ''tip_got_it_''
        then andthen (send DeleteCallbackMessage) (send (AnswerCallback ''message deleted''))
        else if starts_with pressed ''tip_dismiss_''
        then (case int_of_str (remove_all ''tip_dismiss_'' pressed) of
                None \<Rightarrow> raise (ValueError ''invalid literal for int()'')
              | Some tid \<Rightarrow>
                  bind (query (\<lambda>d. dismissed d uid tid)) (\<lambda>existing.
                  andthen (on_cond (\<not> existing) (andthen (add_dismissal uid tid) commit))
                  (andthen (send DeleteCallbackMessage)
                  (send (AnswerCallback ''this tip will not be shown again'')))))
        else ret ())
       (\<lambda>_. send (AnswerCallback ''an error occurred''))"

section \<open>The scheduler\<close>

definition eligible_for :: "instant \<Rightarrow> tip obj \<Rightarrow> db \<Rightarrow> int \<Rightarrow> user_preference \<Rightarrow> bool" where
  "eligible_for now t d uid u \<longleftrightarrow>
     created_at u \<le> now - days (min_account_age_days (snd t)) \<and> telegram_user_id u \<noteq> None \<and>
     account_status u = Some ''active'' \<and> \<not> dismissed d uid (fst t)"

definition get_eligible_users_for_tip :: "instant \<Rightarrow> tip obj \<Rightarrow> nat \<Rightarrow> user_preference obj list act" where
  "get_eligible_users_for_tip now t limit =
     query (\<lambda>d. take limit (t_select (eligible_for now t d) (users d)))"

definition send_scheduled :: "(int \<Rightarrow> int \<Rightarrow> bool) \<Rightarrow> tip obj \<Rightarrow> user_preference obj \<Rightarrow> unit act" where
  "send_scheduled deliver t u =
     andthen (maybe_send_tip deliver (or0 (telegram_user_id (snd u))) (fst u) (trigger_key (snd t)))
     (andthen (add_dismissal (fst u) (fst t)) commit)"

definition scheduled_tips :: "db \<Rightarrow> tip obj list" where
  "scheduled_tips d = t_select (\<lambda>_ t. tip_is_active t \<and> tip_type t = ''scheduled'') (tips d)"

definition process_scheduled_tips :: "instant \<Rightarrow> (int \<Rightarrow> int \<Rightarrow> bool) \<Rightarrow> unit act" where
  "process_scheduled_tips now deliver =
     catch
       (bind (query scheduled_tips) (\<lambda>ts.
        bind (for_each (\<lambda>t.
          bind (get_eligible_users_for_tip now t 50) (\<lambda>us.
          for_each (send_scheduled deliver t) us)) ts)
        (\<lambda>_. ret ())))
       (\<lambda>_. ret ())"

section \<open>Administration\<close>

definition list_tips :: "tip obj list act" where
  "list_tips = query tips"

definition create_tip :: "tip \<Rightarrow> tip obj act" where
  "create_tip t =
     bind (query (\<lambda>d. t_first (\<lambda>_ x. trigger_key x = trigger_key t) (tips d))) (\<lambda>existing.
     if existing \<noteq> None then raise (HTTPException 400 ''Trigger key already exists'')
     else bind (query (\<lambda>d. t_next (tips d))) (\<lambda>tid.
       andthen (update (\<lambda>d. d\<lparr>tips := t_add t (tips d)\<rparr>))
       (andthen commit (ret (tid, t)))))"

text \<open>The fields a request sets; a null is an error for the two mandatory columns.\<close>

datatype tip_field =
    SetTriggerKey "string option"
  | SetTipType string
  | SetContent "string option"
  | SetTipActive bool
  | SetDelay int
  | SetAutoDelete int
  | SetMinAge int

fun set_tip_field :: "tip \<Rightarrow> tip_field \<Rightarrow> tip" where
  "set_tip_field t (SetTriggerKey k) = (case k of None \<Rightarrow> t | Some x \<Rightarrow> t\<lparr>trigger_key := x\<rparr>)"
| "set_tip_field t (SetTipType x) = t\<lparr>tip_type := x\<rparr>"
| "set_tip_field t (SetContent c) = (case c of None \<Rightarrow> t | Some x \<Rightarrow> t\<lparr>tip_content := x\<rparr>)"
| "set_tip_field t (SetTipActive b) = t\<lparr>tip_is_active := b\<rparr>"
| "set_tip_field t (SetDelay n) = t\<lparr>delay_seconds := n\<rparr>"
| "set_tip_field t (SetAutoDelete n) = t\<lparr>auto_delete_seconds := n\<rparr>"
| "set_tip_field t (SetMinAge n) = t\<lparr>min_account_age_days := n\<rparr>"

definition nulls_mandatory :: "tip_field list \<Rightarrow> bool" where
  "nulls_mandatory fs \<longleftrightarrow> list_ex (\<lambda>f. f = SetTriggerKey None \<or> f = SetContent None) fs"

definition update_tip :: "int \<Rightarrow> tip_field list \<Rightarrow> tip obj act" where
  "update_tip tid fs =
     bind (query (\<lambda>d. t_get (tips d) tid)) (\<lambda>found.
     case found of
       None \<Rightarrow> raise (HTTPException 404 ''Tip not found'')
     | Some t \<Rightarrow>
         let t' = foldl set_tip_field t fs in
         bind (query (\<lambda>d. t_first (\<lambda>i x. i \<noteq> tid \<and> trigger_key x = trigger_key t') (tips d))) (\<lambda>clash.
         if nulls_mandatory fs \<or> clash \<noteq> None then andthen rollback (raise IntegrityError)
         else andthen (update (\<lambda>d. d\<lparr>tips := t_put tid t' (tips d)\<rparr>)) (andthen commit (ret (tid, t')))))"

definition delete_tip :: "int \<Rightarrow> unit act" where
  "delete_tip tid =
     bind (query (\<lambda>d. t_get (tips d) tid)) (\<lambda>found.
     case found of
       None \<Rightarrow> raise (HTTPException 404 ''Tip not found'')
     | Some _ \<Rightarrow> andthen (update (\<lambda>d. d\<lparr>tips := t_del tid (tips d)\<rparr>)) commit)"

section \<open>A scheduled tip is sent once\<close>

definition is_tip :: "int \<Rightarrow> int \<Rightarrow> effect \<Rightarrow> bool" where
  "is_tip chat tid e = (case e of SendTip c _ t \<Rightarrow> c = chat \<and> t = tid | _ \<Rightarrow> False)"

definition tips_sent :: "int \<Rightarrow> int \<Rightarrow> session \<Rightarrow> nat" where
  "tips_sent chat tid s = length (filter (is_tip chat tid) (outbox s))"

text \<open>The runs: the scheduler's job and presses of the buttons, in any order.\<close>

inductive tips_run :: "session \<Rightarrow> session \<Rightarrow> bool" where
  idle: "tips_run s s"
| job: "tips_run s t \<Longrightarrow> tips_run s (snd (process_scheduled_tips now deliver t))"
| press: "tips_run s t \<Longrightarrow> tips_run s (snd (handle_tip_callback pressed uid t))"

definition knows_chat :: "user_preference table \<Rightarrow> int \<Rightarrow> bool" where
  "knows_chat us chat \<longleftrightarrow> (\<exists>i u. (i, u) \<in> set us \<and> telegram_user_id u = Some chat)"

definition tip_books :: "user_preference table \<Rightarrow> session \<Rightarrow> bool" where
  "tip_books us s \<longleftrightarrow> users (work s) = us \<and> durable s = work s \<and>
     (\<forall>i u tid. (i, u) \<in> set us \<longrightarrow> telegram_user_id u \<noteq> None \<longrightarrow>
        tips_sent (or0 (telegram_user_id u)) tid s \<le> (if dismissed (work s) i tid then 1 else 0)) \<and>
     (\<forall>chat tid. 0 < tips_sent chat tid s \<longrightarrow> knows_chat us chat)"

lemma tip_books_count:
  "tip_books us s \<Longrightarrow> (i, u) \<in> set us \<Longrightarrow> telegram_user_id u \<noteq> None \<Longrightarrow>
    tips_sent (or0 (telegram_user_id u)) tid s \<le> (if dismissed (work s) i tid then 1 else 0)"
  unfolding tip_books_def by blast

lemma tip_books_known: "tip_books us s \<Longrightarrow> 0 < tips_sent chat tid s \<Longrightarrow> knows_chat us chat"
  unfolding tip_books_def by blast

lemma tip_booksI:
  "users (work s) = us \<Longrightarrow> durable s = work s \<Longrightarrow>
    (\<And>i u tid. (i, u) \<in> set us \<Longrightarrow> telegram_user_id u \<noteq> None \<Longrightarrow>
      tips_sent (or0 (telegram_user_id u)) tid s \<le> (if dismissed (work s) i tid then 1 else 0)) \<Longrightarrow>
    (\<And>chat tid. 0 < tips_sent chat tid s \<Longrightarrow> knows_chat us chat) \<Longrightarrow> tip_books us s"
  unfolding tip_books_def by blast

definition telegram_ids_unique :: "user_preference table \<Rightarrow> bool" where
  "telegram_ids_unique us \<longleftrightarrow> (\<forall>i u j v tg. (i, u) \<in> set us \<longrightarrow> (j, v) \<in> set us \<longrightarrow>
     telegram_user_id u = Some tg \<longrightarrow> telegram_user_id v = Some tg \<longrightarrow> i = j)"

lemma telegram_ids_uniqueD:
  "telegram_ids_unique us \<Longrightarrow> (i, u) \<in> set us \<Longrightarrow> (j, v) \<in> set us \<Longrightarrow>
    telegram_user_id u = Some tg \<Longrightarrow> telegram_user_id v = Some tg \<Longrightarrow> i = j"
  unfolding telegram_ids_unique_def by blast

lemma dismissed_add:
  "dismissed (d\<lparr>tip_dismissals := t_add \<lparr>td_user_id = uid, td_tip_id = tid\<rparr> (tip_dismissals d)\<rparr>) u t \<longleftrightarrow>
    dismissed d u t \<or> u = uid \<and> t = tid"
  by (auto simp: dismissed_def t_first_add split: option.split)

lemma maybe_send_cases:
  assumes "t \<in> set (tips (work s))" and "tip_is_active (snd t)"
  shows "maybe_send_tip deliver chat uid (trigger_key (snd t)) s = (Inr (), s) \<or>
    \<not> dismissed (work s) uid (fst t) \<and> maybe_send_tip deliver chat uid (trigger_key (snd t)) s =
      (Inr (), s\<lparr>outbox := outbox s @ [SendTip chat (tip_content (snd t)) (fst t)]\<rparr>)"
proof -
  have "t \<in> set (active_tips (trigger_key (snd t)) (work s))"
    using assms by (auto simp: active_tips_def t_select_def)
  then show ?thesis
    by (cases "active_tips (trigger_key (snd t)) (work s)" rule: scalar_one_or_none.cases)
       (auto simp: maybe_send_tip_def run_simps split: prod.splits)
qed

lemma hoare_for_each_in:
  "(\<And>x. x \<in> set xs \<Longrightarrow> hoare I (f x) (\<lambda>_. I) E) \<Longrightarrow> hoare I (for_each f xs) (\<lambda>_. I) E"
  by (induction xs) (auto intro!: hoare_rules)

text \<open>What one recipient's turn of the job does.\<close>

definition after_turn :: "effect list \<Rightarrow> int \<Rightarrow> int \<Rightarrow> session \<Rightarrow> session" where
  "after_turn msgs uid tid s =
     (let d = (work s)\<lparr>tip_dismissals := t_add \<lparr>td_user_id = uid, td_tip_id = tid\<rparr> (tip_dismissals (work s))\<rparr>
      in \<lparr>work = d, durable = d, outbox = outbox s @ msgs\<rparr>)"

lemma after_turn_simps [simp]:
  "users (work (after_turn m uid tid s)) = users (work s)" "tips (work (after_turn m uid tid s)) = tips (work s)"
  "durable (after_turn m uid tid s) = work (after_turn m uid tid s)"
  "outbox (after_turn m uid tid s) = outbox s @ m"
  "dismissed (work (after_turn m uid tid s)) u t \<longleftrightarrow> dismissed (work s) u t \<or> u = uid \<and> t = tid"
  by (simp_all add: after_turn_def dismissed_add Let_def)

lemma finish_turn:
  "\<not> dismissed (work s) uid tid \<Longrightarrow>
    andthen (add_dismissal uid tid) commit (s\<lparr>outbox := outbox s @ m\<rparr>) = (Inr (), after_turn m uid tid s)"
  "\<not> dismissed (work s) uid tid \<Longrightarrow> andthen (add_dismissal uid tid) commit s = (Inr (), after_turn [] uid tid s)"
  by (cases s; simp add: add_dismissal_def run_simps after_turn_def Let_def)+

lemma turn_refused:
  "dismissed (work s) uid tid \<Longrightarrow> durable s = work s \<Longrightarrow>
    andthen (add_dismissal uid tid) commit s = (Inl IntegrityError, s)"
  by (cases s) (simp add: add_dismissal_def run_simps)

lemma send_scheduled_cases:
  assumes "t \<in> set (tips (work s))" and "tip_is_active (snd t)" and "durable s = work s"
  shows "snd (send_scheduled deliver t u s) = s \<or>
    \<not> dismissed (work s) (fst u) (fst t) \<and>
    (\<exists>m. (m = [] \<or> m = [SendTip (or0 (telegram_user_id (snd u))) (tip_content (snd t)) (fst t)]) \<and>
      snd (send_scheduled deliver t u s) = after_turn m (fst u) (fst t) s)"
proof -
  let ?send = "maybe_send_tip deliver (or0 (telegram_user_id (snd u))) (fst u) (trigger_key (snd t)) s"
  let ?m = "[SendTip (or0 (telegram_user_id (snd u))) (tip_content (snd t)) (fst t)]"
  have run: "send_scheduled deliver t u s = andthen (add_dismissal (fst u) (fst t)) commit s'" if "?send = (Inr (), s')" for s'
    using that by (simp add: send_scheduled_def andthen_run [of "maybe_send_tip _ _ _ _"])
  from maybe_send_cases [OF assms(1,2), of deliver "or0 (telegram_user_id (snd u))" "fst u"]
  consider "?send = (Inr (), s)"
    | "\<not> dismissed (work s) (fst u) (fst t)" "?send = (Inr (), s\<lparr>outbox := outbox s @ ?m\<rparr>)" by blast
  then show ?thesis
  proof cases
    case 1
    then show ?thesis
      using run turn_refused [OF _ assms(3)] finish_turn(2)
      by (cases "dismissed (work s) (fst u) (fst t)") auto
  next
    case 2
    then show ?thesis using run finish_turn(1) by auto
  qed
qed

text \<open>The turn keeps the count of tips within the record of dismissals.\<close>

definition in_tip_books :: "user_preference table \<Rightarrow> tip table \<Rightarrow> session \<Rightarrow> bool" where
  "in_tip_books us ts s \<longleftrightarrow> tip_books us s \<and> tips (work s) = ts"

lemma turn_keeps_books:
  assumes "telegram_ids_unique us" and "u \<in> set us" and "telegram_user_id (snd u) \<noteq> None"
    and "t \<in> set ts" and "tip_is_active (snd t)" and "in_tip_books us ts s"
  shows "in_tip_books us ts (snd (send_scheduled deliver t u s))"
proof -
  let ?chat = "or0 (telegram_user_id (snd u))"
  from assms(3) have tg: "telegram_user_id (snd u) = Some ?chat" by (cases "telegram_user_id (snd u)") auto
  from assms(6) have s: "tip_books us s" "tips (work s) = ts" by (simp_all add: in_tip_books_def)
  then have "durable s = work s" by (simp add: tip_books_def)
  from send_scheduled_cases [OF _ assms(5) this, of deliver u] assms(4) s(2)
  consider "snd (send_scheduled deliver t u s) = s"
    | m where "\<not> dismissed (work s) (fst u) (fst t)"
        "m = [] \<or> m = [SendTip ?chat (tip_content (snd t)) (fst t)]"
        "snd (send_scheduled deliver t u s) = after_turn m (fst u) (fst t) s" by blast
  then show ?thesis
  proof cases
    case 1
    with assms(6) show ?thesis by simp
  next
    case 2
    let ?t = "after_turn m (fst u) (fst t) s"
    have count: "tips_sent chat tid ?t \<le> tips_sent chat tid s + (if chat = ?chat \<and> tid = fst t then 1 else 0)" for chat tid
      using 2(2) by (auto simp: tips_sent_def is_tip_def)
    have known: "knows_chat us chat" if "0 < tips_sent chat tid ?t" for chat tid
    proof (cases "0 < tips_sent chat tid s")
      case True
      with s(1) show ?thesis by (rule tip_books_known)
    next
      case False
      with that count [of chat tid] have "chat = ?chat" by (simp split: if_splits)
      with tg assms(2) show ?thesis by (cases u) (auto simp: knows_chat_def)
    qed
    have once: "tips_sent (or0 (telegram_user_id v)) tid ?t \<le> (if dismissed (work ?t) i tid then 1 else 0)"
      if v: "(i, v) \<in> set us" "telegram_user_id v \<noteq> None" for i v tid
    proof (cases "i = fst u \<and> tid = fst t")
      case True
      with tip_books_count [OF s(1) v, of tid] 2(1) have "tips_sent (or0 (telegram_user_id v)) tid s = 0" by simp
      with count [of "or0 (telegram_user_id v)" tid] True show ?thesis by (simp split: if_splits)
    next
      case False
      have "or0 (telegram_user_id v) \<noteq> ?chat \<or> tid \<noteq> fst t"
      proof (rule ccontr)
        assume "\<not> (or0 (telegram_user_id v) \<noteq> ?chat \<or> tid \<noteq> fst t)"
        with v(2) have "telegram_user_id v = Some ?chat" "tid = fst t" by auto
        with telegram_ids_uniqueD [OF assms(1) v(1), of "fst u" "snd u" ?chat] assms(2) tg False show False by simp
      qed
      with count [of "or0 (telegram_user_id v)" tid] have "tips_sent (or0 (telegram_user_id v)) tid ?t \<le>
          tips_sent (or0 (telegram_user_id v)) tid s" by (auto split: if_splits)
      also have "\<dots> \<le> (if dismissed (work s) i tid then 1 else 0)" by (rule tip_books_count [OF s(1) v])
      also have "\<dots> \<le> (if dismissed (work ?t) i tid then 1 else 0)" by simp
      finally show ?thesis .
    qed
    have "users (work ?t) = us" "durable ?t = work ?t" using s(1) by (simp_all add: tip_books_def)
    then have "tip_books us ?t" using once known by (rule tip_booksI)
    with s(2) have "in_tip_books us ts ?t" by (simp add: in_tip_books_def)
    with 2(3) show ?thesis by simp
  qed
qed

lemma tips_sent_append:
  "tips_sent chat tid (s\<lparr>outbox := outbox s @ msgs\<rparr>) = tips_sent chat tid s + length (filter (is_tip chat tid) msgs)"
  by (simp add: tips_sent_def)

lemma turns_keep_books:
  assumes "telegram_ids_unique us" and "t \<in> set ts" and "tip_is_active (snd t)"
  shows "hoare (in_tip_books us ts)
    (bind (get_eligible_users_for_tip now t n) (\<lambda>rs. for_each (send_scheduled deliver t) rs))
    (\<lambda>_. in_tip_books us ts) (\<lambda>_. in_tip_books us ts)"
proof (rule hoare_bind)
  let ?R = "\<lambda>rs s. in_tip_books us ts s \<and> (\<forall>r \<in> set rs. r \<in> set us \<and> telegram_user_id (snd r) \<noteq> None)"
  show "hoare (in_tip_books us ts) (get_eligible_users_for_tip now t n) ?R (\<lambda>_. in_tip_books us ts)"
    unfolding get_eligible_users_for_tip_def
    by (rule hoare_query) (auto simp: in_tip_books_def tip_books_def t_select_def eligible_for_def dest!: in_set_takeD)
  show "hoare (?R rs) (for_each (send_scheduled deliver t) rs) (\<lambda>_. in_tip_books us ts) (\<lambda>_. in_tip_books us ts)" for rs
  proof (rule hoareI)
    fix s assume r: "?R rs s"
    have "hoare (in_tip_books us ts) (for_each (send_scheduled deliver t) rs) (\<lambda>_. in_tip_books us ts) (\<lambda>_. in_tip_books us ts)"
      using r turn_keeps_books [OF assms(1) _ _ assms(2,3)]
      by (intro hoare_for_each_in) (simp add: preserves_hoare [symmetric] preserves_def)
    from hoare_run [OF this conjunct1 [OF r]] show "case for_each (send_scheduled deliver t) rs s of
        (Inl e, s') \<Rightarrow> in_tip_books us ts s' | (Inr x, s') \<Rightarrow> in_tip_books us ts s'" .
  qed
qed

lemma job_keeps_books:
  assumes "telegram_ids_unique us" and "tip_books us s"
  shows "tip_books us (snd (process_scheduled_tips now deliver s))"
proof -
  let ?I = "in_tip_books us (tips (work s))"
  have loop: "hoare ?I (for_each (\<lambda>t. bind (get_eligible_users_for_tip now t 50)
      (\<lambda>rs. for_each (send_scheduled deliver t) rs)) (scheduled_tips (work s))) (\<lambda>_. ?I) (\<lambda>_. ?I)"
    by (intro hoare_for_each_in turns_keep_books [OF assms(1)]) (auto simp: scheduled_tips_def t_select_def)
  have "?I s" using assms(2) by (simp add: in_tip_books_def)
  from hoare_run [OF loop this] have "?I (snd (process_scheduled_tips now deliver s))"
    by (auto simp: process_scheduled_tips_def run_simps split: prod.splits sum.splits)
  then show ?thesis by (simp add: in_tip_books_def)
qed

text \<open>A press of a button sends no tip and withdraws no dismissal.\<close>

lemma tip_books_mono:
  assumes "tip_books us s" and "users (work t) = users (work s)" and "durable t = work t"
    and "\<And>chat tid. tips_sent chat tid t = tips_sent chat tid s"
    and "\<And>u tid. dismissed (work s) u tid \<Longrightarrow> dismissed (work t) u tid"
  shows "tip_books us t"
proof (rule tip_booksI)
  show "users (work t) = us" using assms(1,2) by (simp add: tip_books_def)
  show "tips_sent (or0 (telegram_user_id u)) tid t \<le> (if dismissed (work t) i tid then 1 else 0)"
    if "(i, u) \<in> set us" "telegram_user_id u \<noteq> None" for i u tid
    using tip_books_count [OF assms(1) that, of tid] assms(5) [of i tid] assms(4) by (simp split: if_splits)
  show "knows_chat us chat" if "0 < tips_sent chat tid t" for chat tid
    using that tip_books_known [OF assms(1)] assms(4) by simp
qed (rule assms(3))

lemma press_keeps_books:
  assumes "tip_books us s"
  shows "tip_books us (snd (handle_tip_callback pressed uid s))"
proof -
  have d: "durable s = work s" using assms by (simp add: tip_books_def)
  let ?t = "snd (handle_tip_callback pressed uid s)"
  have "users (work ?t) = users (work s) \<and> durable ?t = work ?t \<and>
      (\<forall>chat tid. tips_sent chat tid ?t = tips_sent chat tid s) \<and>
      (\<forall>u tid. dismissed (work s) u tid \<longrightarrow> dismissed (work ?t) u tid)"
    using d
    by (auto simp: handle_tip_callback_def add_dismissal_def run_simps dismissed_add tips_sent_def is_tip_def
        split: option.split)
  with tip_books_mono [OF assms] show ?thesis by blast
qed

text \<open>
  C18. However often the scheduler runs, at whatever times, whichever messages Telegram accepts,
  and whichever buttons users press between the runs, a user is sent a scheduled tip at most once.
\<close>

theorem scheduled_tip_sent_once:
  assumes "tips_run (open_session d) s" and "telegram_ids_unique (users d)"
  shows "tips_sent chat tid s \<le> 1"
proof -
  have "tip_books (users d) (open_session d)"
    by (rule tip_booksI) (simp_all add: open_session_def tips_sent_def)
  with assms(1) have b: "tip_books (users d) s"
    by (induction "open_session d" s rule: tips_run.induct) (simp_all add: job_keeps_books [OF assms(2)] press_keeps_books)
  show ?thesis
  proof (cases "tips_sent chat tid s")
    case (Suc n)
    with tip_books_known [OF b, of chat tid] obtain i u where "(i, u) \<in> set (users d)" "telegram_user_id u = Some chat"
      by (auto simp: knows_chat_def)
    with tip_books_count [OF b, of i u tid] show ?thesis by (simp split: if_splits)
  qed simp
qed

definition sample_tip :: tip where
  "sample_tip = \<lparr>trigger_key = ''welcome'', tip_type = ''scheduled'', tip_content = ''try /model'',
     tip_is_active = True, delay_seconds = 0, auto_delete_seconds = 30, min_account_age_days = 0\<rparr>"

definition tip_scene :: db where
  "tip_scene = empty_db\<lparr>users := [(1, sample_user)], tips := [(4, sample_tip)]\<rparr>"

definition two_runs :: session where
  "two_runs = snd (process_scheduled_tips 9 (\<lambda>_ _. True) (snd (process_scheduled_tips 5 (\<lambda>_ _. True)
     (open_session tip_scene))))"

theorem scheduled_tip_sent_once_witness:
  "tips_sent 700 4 two_runs = 1"
proof -
  have "tips_run (open_session tip_scene) two_runs"
    unfolding two_runs_def by (intro tips_run.intros)
  moreover have "telegram_ids_unique (users tip_scene)"
    by (simp add: telegram_ids_unique_def tip_scene_def)
  ultimately have "tips_sent 700 4 two_runs \<le> 1" by (rule scheduled_tip_sent_once)
  moreover have "tips_sent 700 4 two_runs \<noteq> 0" by code_simp
  ultimately show ?thesis by simp
qed

text \<open>A tip that Telegram did not accept counts as seen: the user never gets it.\<close>

lemma undelivered_tip_is_lost:
  assumes "t \<in> set (tips (work s))" and "tip_is_active (snd t)" and "durable s = work s"
    and "\<not> dismissed (work s) (fst u) (fst t)"
  shows "dismissed (work (snd (send_scheduled (\<lambda>_ _. False) t u s))) (fst u) (fst t) \<and>
    outbox (snd (send_scheduled (\<lambda>_ _. False) t u s)) = outbox s"
proof -
  have "maybe_send_tip (\<lambda>_ _. False) chat uid key s = (Inr (), s)" for chat uid key
    by (cases "active_tips key (work s)" rule: scalar_one_or_none.cases)
       (auto simp: maybe_send_tip_def run_simps split: prod.splits)
  then have "send_scheduled (\<lambda>_ _. False) t u s = (Inr (), after_turn [] (fst u) (fst t) s)"
    using finish_turn(2) [OF assms(4)] by (simp add: send_scheduled_def andthen_run [of "maybe_send_tip _ _ _ _"])
  then show ?thesis by simp
qed

text \<open>
  Deleting the last tip leaves its dismissals, and the next tip gets its id: whoever dismissed the
  old tip never sees the new one.
\<close>

lemma new_tip_inherits_dismissals:
  assumes "dismissed (work s) uid 1" and "tips (work s) = [(1, old)]"
    and "bind (andthen (delete_tip 1) (create_tip new)) (\<lambda>(tid, _). ret tid) s = (Inr tid, t)"
  shows "tid = 1 \<and> dismissed (work t) uid tid"
  using assms
  by (auto simp: delete_tip_def create_tip_def run_simps t_get_def t_del_def t_next_def t_first_def dismissed_def
      split: prod.splits sum.splits option.splits)

section \<open>The Toman books\<close>

lemma frames_tip_writes [frames_rules]:
  "frames (update (\<lambda>d. d\<lparr>tips := f d\<rparr>))" "frames (update (\<lambda>d. d\<lparr>tip_dismissals := g d\<rparr>))"
  by (rule frames_update, simp add: same_books_def)+

lemma frames_maybe_send_tip [frames_rules]: "frames (maybe_send_tip deliver chat uid key)"
  unfolding maybe_send_tip_def by (intro frames_rules)

end
