(* ===== verification/Payloads.thy ===== *)
theory Payloads
  imports Promo
begin

text \<open>
  The texts that travel through a payment provider: the invoice payloads of
  \<open>pbozi/backend/app/bot.py\<close>, their parsers, and the conversions between dollars, rials and
  Toman. A payload is built by the program itself, so its text is ASCII, and its length in bytes is
  its length.
\<close>

section \<open>Decimals\<close>

text \<open>\<open>value.quantize(Decimal("0.01"), ROUND_HALF_UP)\<close>, in hundredths and as a value.\<close>

definition cents_of :: "rat \<Rightarrow> int" where "cents_of x = round_half_up (x * 100)"

definition quantize2 :: "rat \<Rightarrow> rat" where "quantize2 x = of_int (cents_of x) / 100"

text \<open>The two decimals without trailing zeros, nor a point when both are zero.\<close>

definition cents_text :: "int \<Rightarrow> string" where
  "cents_text c =
     (if c = 0 then [] else ''.'' @ str_int (c div 10) @ (if c mod 10 = 0 then [] else str_int (c mod 10)))"

definition decimal_to_plain :: "rat \<Rightarrow> string" where
  "decimal_to_plain x =
     (let c = \<bar>cents_of x\<bar> in (if x < 0 then ''-'' else []) @ str_int (c div 100) @ cents_text (c mod 100))"

text \<open>
  \<open>Decimal(s)\<close>: an optional sign, digits with an optional point, an optional exponent.
  \<open>None\<close> stands for a text that is no numeral and for the infinities and NaNs, on which the
  \<open>quantize\<close> that follows every use fails in the same way.
\<close>

definition digits_value :: "string \<Rightarrow> int" where
  "digits_value ds = (case parse_digits 0 True ds of None \<Rightarrow> 0 | Some n \<Rightarrow> int n)"

definition all_digit :: "string \<Rightarrow> bool" where
  "all_digit ds \<longleftrightarrow> ds \<noteq> [] \<and> list_all is_digit ds"

definition sign_split :: "string \<Rightarrow> bool \<times> string" where
  "sign_split s =
     (case s of [] \<Rightarrow> (False, [])
      | c # cs \<Rightarrow> if c = CHR ''-'' then (True, cs) else if c = CHR ''+'' then (False, cs) else (False, s))"

definition exponent_of :: "string \<Rightarrow> int option" where
  "exponent_of s =
     (case s of
        [] \<Rightarrow> Some 0
      | c # cs \<Rightarrow>
          if lower_char c = CHR ''e''
          then (case sign_split cs of (neg, ds) \<Rightarrow>
                if all_digit ds then Some (if neg then - digits_value ds else digits_value ds) else None)
          else None)"

definition parse_unsigned :: "string \<Rightarrow> rat option" where
  "parse_unsigned s =
     (let ip = takeWhile is_digit s; r = dropWhile is_digit s;
          fp = (if r \<noteq> [] \<and> hd r = CHR ''.'' then takeWhile is_digit (tl r) else []);
          e = (if r \<noteq> [] \<and> hd r = CHR ''.'' then dropWhile is_digit (tl r) else r)
      in if ip = [] \<and> fp = [] then None
         else map_option (\<lambda>n. of_int (digits_value (ip @ fp)) * 10 powi (n - int (length fp))) (exponent_of e))"

definition parse_decimal :: "string \<Rightarrow> rat option" where
  "parse_decimal s =
     (case sign_split (filter (\<lambda>c. c \<noteq> CHR ''_'') (strip s)) of (neg, body) \<Rightarrow>
        map_option (\<lambda>x. if neg then - x else x) (parse_unsigned body))"

section \<open>Payloads\<close>

definition MIN_TOPUP_USD_AMOUNT :: "rat" where
  "MIN_TOPUP_USD_AMOUNT = (1 :: rat)"

definition MAX_TOPUP_USD_AMOUNT :: "rat" where
  "MAX_TOPUP_USD_AMOUNT = (5000 :: rat)"

definition MAX_TOPUP_PROMO_CODE_LEN :: "nat" where
  "MAX_TOPUP_PROMO_CODE_LEN = (32 :: nat)"

definition TOPUP_PAYLOAD_PREFIX :: "string" where
  "TOPUP_PAYLOAD_PREFIX = ''topup''"

definition SUBSCRIPTION_PAYLOAD_PREFIX :: "string" where
  "SUBSCRIPTION_PAYLOAD_PREFIX = ''sub''"

definition TOMAN_TOPUP_PAYLOAD_PREFIX :: "string" where
  "TOMAN_TOPUP_PAYLOAD_PREFIX = ''ttop''"

text \<open>\<open>"|".join(parts)\<close> and \<open>raw.split("|")\<close>.\<close>

abbreviation join_bar :: "string list \<Rightarrow> string" where
  "join_bar \<equiv> join_with ''|''"

fun split_bar :: "string \<Rightarrow> string list" where
  "split_bar [] = [[]]"
| "split_bar (c # cs) =
     (if c = CHR ''|'' then [] # split_bar cs
      else (case split_bar cs of [] \<Rightarrow> [[c]] | p # ps \<Rightarrow> (c # p) # ps))"

record topup_payload =
  tp_user_id :: int
  tp_usd_amount :: rat
  tp_total_rial :: int
  tp_usdt_price_rial :: int
  tp_created_at :: int
  tp_promo_code :: "string option"

record subscription_payload =
  sp_user_id :: int
  sp_plan_id :: int
  sp_wallet_payment_toman :: int
  sp_total_rial :: int
  sp_created_at :: int

record toman_topup_payload =
  tt_user_id :: int
  tt_credit_amount_toman :: int
  tt_payment_due_toman :: int
  tt_total_rial :: int
  tt_created_at :: int

datatype payment_payload =
    Topup topup_payload
  | Subscription subscription_payload
  | TomanTopup toman_topup_payload

definition finish_payload :: "string \<Rightarrow> string list \<Rightarrow> string + string" where
  "finish_payload err parts =
     (if 120 < length (join_bar parts) then Inl err else Inr (join_bar parts))"

text \<open>\<open>now_unix\<close> is the current second.\<close>

definition build_topup_payload :: "int \<Rightarrow> int \<Rightarrow> rat \<Rightarrow> int \<Rightarrow> int \<Rightarrow> string option \<Rightarrow> string + string" where
  "build_topup_payload now_unix uid usd total_rial usdt_price_rial promo =
     (let code = normalize_promo_code promo in
      if CHR ''|'' \<in> set code then Inl ''invalid promo code for payload''
      else finish_payload ''topup payload is too long''
             [TOPUP_PAYLOAD_PREFIX, str_int uid, decimal_to_plain usd, str_int total_rial,
              str_int usdt_price_rial, str_int now_unix, code])"

definition parse_topup_payload :: "string option \<Rightarrow> topup_payload option" where
  "parse_topup_payload payload =
     (let raw = strip (str_or payload []); parts = split_bar raw in
      if raw = [] then None
      else if length parts \<notin> {6, 7} \<or> parts ! 0 \<noteq> TOPUP_PAYLOAD_PREFIX then None
      else case (int_of_str (parts ! 1), parse_decimal (parts ! 2), int_of_str (parts ! 3),
                 int_of_str (parts ! 4), int_of_str (parts ! 5)) of
        (Some uid, Some usd, Some rial, Some price, Some created) \<Rightarrow>
          let amt = quantize2 usd;
              code = normalize_promo_code (if length parts = 7 then Some (parts ! 6) else None)
          in if MAX_TOPUP_PROMO_CODE_LEN < length code then None
             else if uid \<le> 0 \<or> rial \<le> 0 \<or> price \<le> 0 \<or> created \<le> 0 then None
             else if amt < MIN_TOPUP_USD_AMOUNT \<or> MAX_TOPUP_USD_AMOUNT < amt then None
             else Some \<lparr>tp_user_id = uid, tp_usd_amount = amt, tp_total_rial = rial,
                        tp_usdt_price_rial = price, tp_created_at = created,
                        tp_promo_code = (if code = [] then None else Some code)\<rparr>
      | _ \<Rightarrow> None)"

definition build_subscription_payload :: "int \<Rightarrow> int \<Rightarrow> int \<Rightarrow> int \<Rightarrow> int \<Rightarrow> string + string" where
  "build_subscription_payload now_unix uid pid wallet_payment total_rial =
     finish_payload ''subscription payload is too long''
       [SUBSCRIPTION_PAYLOAD_PREFIX, str_int uid, str_int pid, str_int (max 0 wallet_payment),
        str_int total_rial, str_int now_unix]"

text \<open>The five integers of a payload with six parts and the given prefix.\<close>

definition five_ints :: "string \<Rightarrow> string option \<Rightarrow> (int \<times> int \<times> int \<times> int \<times> int) option" where
  "five_ints prefix payload =
     (let raw = strip (str_or payload []); parts = split_bar raw in
      if raw = [] then None
      else if length parts \<noteq> 6 \<or> parts ! 0 \<noteq> prefix then None
      else case (int_of_str (parts ! 1), int_of_str (parts ! 2), int_of_str (parts ! 3),
                 int_of_str (parts ! 4), int_of_str (parts ! 5)) of
        (Some a, Some b, Some c, Some d, Some e) \<Rightarrow> Some (a, b, c, d, e)
      | _ \<Rightarrow> None)"

definition parse_subscription_payload :: "string option \<Rightarrow> subscription_payload option" where
  "parse_subscription_payload payload =
     (case five_ints SUBSCRIPTION_PAYLOAD_PREFIX payload of
        None \<Rightarrow> None
      | Some (uid, pid, wallet_payment, rial, created) \<Rightarrow>
          if uid \<le> 0 \<or> pid \<le> 0 \<or> wallet_payment < 0 \<or> rial \<le> 0 \<or> created \<le> 0 then None
          else Some \<lparr>sp_user_id = uid, sp_plan_id = pid, sp_wallet_payment_toman = wallet_payment,
                     sp_total_rial = rial, sp_created_at = created\<rparr>)"

definition build_toman_topup_payload :: "int \<Rightarrow> int \<Rightarrow> int \<Rightarrow> int \<Rightarrow> int \<Rightarrow> string + string" where
  "build_toman_topup_payload now_unix uid credit_amount due total_rial =
     finish_payload ''toman topup payload is too long''
       [TOMAN_TOPUP_PAYLOAD_PREFIX, str_int uid, str_int (max 0 credit_amount), str_int (max 0 due),
        str_int total_rial, str_int now_unix]"

definition parse_toman_topup_payload :: "string option \<Rightarrow> toman_topup_payload option" where
  "parse_toman_topup_payload payload =
     (case five_ints TOMAN_TOPUP_PAYLOAD_PREFIX payload of
        None \<Rightarrow> None
      | Some (uid, credit_amount, due, rial, created) \<Rightarrow>
          if uid \<le> 0 \<or> credit_amount \<le> 0 \<or> due \<le> 0 \<or> rial \<le> 0 \<or> created \<le> 0 then None
          else Some \<lparr>tt_user_id = uid, tt_credit_amount_toman = credit_amount,
                     tt_payment_due_toman = due, tt_total_rial = rial, tt_created_at = created\<rparr>)"

definition parse_payment_payload :: "string option \<Rightarrow> payment_payload option" where
  "parse_payment_payload payload =
     (case parse_topup_payload payload of
        Some t \<Rightarrow> Some (Topup t)
      | None \<Rightarrow>
          (case parse_subscription_payload payload of
             Some s \<Rightarrow> Some (Subscription s)
           | None \<Rightarrow> map_option TomanTopup (parse_toman_topup_payload payload)))"

section \<open>Conversions\<close>

definition usd_to_rial :: "rat \<Rightarrow> int \<Rightarrow> int" where
  "usd_to_rial usd price = max 1 (round_half_up (usd * of_int price))"

definition rial_to_toman :: "int \<Rightarrow> int" where
  "rial_to_toman rial = round_half_up (of_int rial / 10)"

definition toman_to_usd_decimal :: "int \<Rightarrow> int \<Rightarrow> rat option" where
  "toman_to_usd_decimal toman price =
     (if price \<le> 0 then None
      else Some (of_int (round_half_up (of_int toman * 10 / of_int price * 1000000)) / 1000000))"

text \<open>
  The dollar price in a market statistics reply: the statistics of the pair, under one of its
  usual names or any that mentions it, and in them the first field that holds a positive number.
\<close>

definition stat_of_pair :: "dict \<Rightarrow> string \<Rightarrow> dict option" where
  "stat_of_pair stats key = (case dict_get stats key of JDict d \<Rightarrow> Some d | _ \<Rightarrow> None)"

fun contains_text :: "string \<Rightarrow> string \<Rightarrow> bool" where
  "contains_text [] w \<longleftrightarrow> w = []"
| "contains_text (c # cs) w \<longleftrightarrow> starts_with (c # cs) w \<or> contains_text cs w"

definition names_usdt :: "string \<Rightarrow> bool" where
  "names_usdt key \<longleftrightarrow>
     (let norm = map (\<lambda>c. if c = CHR ''_'' then CHR ''-'' else c) (lower (strip key))
      in contains_text norm ''usdt'' \<and> (contains_text norm ''-rls'' \<or> contains_text norm ''-irt''))"

fun first_dict :: "(string \<times> json) list \<Rightarrow> dict option" where
  "first_dict [] = None"
| "first_dict ((key, JDict d) # rest) = (if names_usdt key then Some d else first_dict rest)"
| "first_dict (_ # rest) = first_dict rest"

definition extract_nobitex_usdt_stat :: "dict \<Rightarrow> dict option" where
  "extract_nobitex_usdt_stat payload =
     (case dict_get payload ''stats'' of
        JDict stats \<Rightarrow>
          (case List.map_filter (stat_of_pair stats) [''usdt-rls'', ''usdt-irt'', ''USDT-RLS'', ''USDT-IRT''] of
             d # _ \<Rightarrow> Some d
           | [] \<Rightarrow> first_dict stats)
      | _ \<Rightarrow> None)"

fun decimal_of_json :: "json \<Rightarrow> rat option" where
  "decimal_of_json (JInt n) = Some (of_int n)"
| "decimal_of_json (JFloat x) = Some x"
| "decimal_of_json (JStr s) = parse_decimal s"
| "decimal_of_json _ = None"

fun first_positive :: "dict \<Rightarrow> string list \<Rightarrow> int option" where
  "first_positive stat [] = None"
| "first_positive stat (f # fs) =
     (case decimal_of_json (dict_get stat f) of
        None \<Rightarrow> first_positive stat fs
      | Some x \<Rightarrow> if 0 < x then Some (round_half_up x) else first_positive stat fs)"

definition extract_positive_rial_price :: "dict \<Rightarrow> int option" where
  "extract_positive_rial_price stat = first_positive stat [''latest'', ''bestSell'', ''mark'', ''bestBuy'']"

section \<open>Splitting and joining\<close>

lemma split_bar_nonempty [simp]: "split_bar s \<noteq> []"
  by (induction s) (auto split: list.split)

lemma split_bar_plain: "CHR ''|'' \<notin> set p \<Longrightarrow> split_bar p = [p]"
  by (induction p) auto

lemma split_bar_append: "CHR ''|'' \<notin> set p \<Longrightarrow> split_bar (p @ CHR ''|'' # s) = p # split_bar s"
  by (induction p) (auto split: list.split)

lemma split_join:
  "ps \<noteq> [] \<Longrightarrow> \<forall>p \<in> set ps. CHR ''|'' \<notin> set p \<Longrightarrow> split_bar (join_bar ps) = ps"
  by (induction ps rule: induct_list012) (simp_all add: split_bar_plain split_bar_append)

lemma str_int_no_bar: "CHR ''|'' \<notin> set (str_int n)"
  using str_int_chars [of "CHR ''|''" n] by (auto simp: is_digit_def)

lemma str_int_ends: "\<not> is_space (hd (str_int n)) \<and> \<not> is_space (last (str_int n))"
  using digits_ends digit_chars by (auto simp: str_int_def is_space_def last_ConsR)

lemma str_or_nil [simp]: "str_or (Some s) [] = s"
  by (cases s) (simp_all add: str_or_def)

text \<open>A payload of six integer fields reads back.\<close>

lemma five_ints_join:
  assumes "prefix \<noteq> []" and "\<not> is_space (hd prefix)" and "CHR ''|'' \<notin> set prefix"
  shows "five_ints prefix (Some (join_bar [prefix, str_int a, str_int b, str_int c, str_int d, str_int e])) =
    Some (a, b, c, d, e)"
proof -
  let ?ps = "[prefix, str_int a, str_int b, str_int c, str_int d, str_int e]"
  have "split_bar (join_bar ?ps) = ?ps"
    using assms(3) str_int_no_bar by (intro split_join) auto
  moreover have "strip (join_bar ?ps) = join_bar ?ps"
    using assms(1,2) str_int_ends [of e] by (intro strip_id) (simp_all add: hd_append)
  moreover have "join_bar ?ps \<noteq> []" using assms(1) by simp
  ultimately show ?thesis
    by (simp add: five_ints_def Let_def int_of_str_int del: join_with.simps)
qed

lemma five_ints_other:
  assumes "p \<noteq> []" and "\<not> is_space (hd p)" and "CHR ''|'' \<notin> set p" and "p \<noteq> prefix"
  shows "five_ints prefix (Some (join_bar [p, str_int a, str_int b, str_int c, str_int d, str_int e])) = None"
proof -
  let ?ps = "[p, str_int a, str_int b, str_int c, str_int d, str_int e]"
  have "split_bar (join_bar ?ps) = ?ps"
    using assms(3) str_int_no_bar by (intro split_join) auto
  moreover have "strip (join_bar ?ps) = join_bar ?ps"
    using assms(1,2) str_int_ends [of e] by (intro strip_id) (simp_all add: hd_append)
  ultimately show ?thesis
    using assms(4) by (simp add: five_ints_def Let_def del: join_with.simps)
qed

section \<open>Decimals read back\<close>

lemma digits_of_small: "m < 10 \<Longrightarrow> digits_of m = [char_of (48 + m)]"
  by (subst digits_of.simps) simp

lemma str_int_digits: "0 \<le> n \<Longrightarrow> str_int n = digits_of (nat n)"
  by (simp add: str_int_def)

lemma digits_value_of: "digits_value (digits_of n) = int n"
  using parse_digits_of [of True n "[]"] by (simp add: digits_value_def)

lemma digits_value_append:
  assumes "m < 10"
  shows "digits_value (digits_of n @ digits_of m) = 10 * int n + int m"
  using assms parse_digits_of [of True n "digits_of m"]
  by (simp add: digits_value_def digits_of_small is_digit_def)

lemma digits_value_append2:
  assumes "m < 10" and "k < 10"
  shows "digits_value (digits_of n @ digits_of m @ digits_of k) = 100 * int n + 10 * int m + int k"
  using assms parse_digits_of [of True n "digits_of m @ digits_of k"]
  by (simp add: digits_value_def digits_of_small is_digit_def)

lemma parse_unsigned_point:
  assumes "list_all is_digit ip" and "list_all is_digit fp" and "ip \<noteq> []"
  shows "parse_unsigned (ip @ (if fp = [] then [] else CHR ''.'' # fp)) =
    Some (of_int (digits_value (ip @ fp)) * 10 powi (- int (length fp)))"
proof -
  have nd: "\<not> is_digit (CHR ''.'')" by (simp add: is_digit_def)
  have ip: "takeWhile is_digit ip = ip" "dropWhile is_digit ip = []"
    and fp: "takeWhile is_digit fp = fp" "dropWhile is_digit fp = []"
    and both: "takeWhile is_digit (ip @ CHR ''.'' # fp) = ip" "dropWhile is_digit (ip @ CHR ''.'' # fp) = CHR ''.'' # fp"
    using assms(1,2) nd by (simp_all add: list_all_iff takeWhile_append2 dropWhile_append2)
  show ?thesis
  proof (cases "fp = []")
    case True
    then show ?thesis by (simp add: parse_unsigned_def exponent_of_def Let_def ip assms(3))
  next
    case False
    then show ?thesis by (simp add: parse_unsigned_def exponent_of_def Let_def both fp assms(3))
  qed
qed

lemma digit_list: "list_all is_digit (digits_of n)"
  using digits_of_digits by (auto simp: list_all_iff)

lemma cents_value:
  assumes "f < 100"
  defines "fp \<equiv> (if f = 0 then [] else digits_of (f div 10) @ (if f mod 10 = 0 then [] else digits_of (f mod 10)))"
  shows "of_int (digits_value (digits_of n @ fp)) * 10 powi (- int (length fp)) = (of_int (100 * int n + int f) / 100 :: rat)"
proof -
  have small: "f div 10 < 10" "f mod 10 < 10" using assms(1) by auto
  have f: "int f = 10 * int (f div 10) + int (f mod 10)" by presburger
  consider "f = 0" | "f \<noteq> 0" "f mod 10 = 0" | "f \<noteq> 0" "f mod 10 \<noteq> 0" by blast
  then show ?thesis
  proof cases
    case 1
    then show ?thesis by (simp add: fp_def digits_value_of)
  next
    case 2
    then have "digits_value (digits_of n @ fp) = 10 * int n + int (f div 10)" "length fp = 1"
      using digits_value_append [OF small(1), of n] small(1) by (simp_all add: fp_def digits_of_small)
    with 2 f show ?thesis by (simp add: power_int_minus field_simps)
  next
    case 3
    then have "digits_value (digits_of n @ fp) = 100 * int n + 10 * int (f div 10) + int (f mod 10)" "length fp = 2"
      using digits_value_append2 [OF small, of n] small by (simp_all add: fp_def digits_of_small)
    with f show ?thesis by (simp add: power_int_minus field_simps)
  qed
qed

lemma plain_decimal_text:
  assumes "list_all is_digit ds" and "list_all is_digit fp" and "ds \<noteq> []"
  shows "sign_split (filter (\<lambda>c. c \<noteq> CHR ''_'') (strip (ds @ (if fp = [] then [] else CHR ''.'' # fp)))) =
    (False, ds @ (if fp = [] then [] else CHR ''.'' # fp))"
proof -
  let ?w = "ds @ (if fp = [] then [] else CHR ''.'' # fp)"
  have ends: "is_digit (hd ?w)" "is_digit (last ?w)"
    using assms by (auto simp: list_all_iff)
  then have "strip ?w = ?w" using assms(3) digit_chars by (intro strip_id) auto
  moreover have "filter (\<lambda>c. c \<noteq> CHR ''_'') ?w = ?w"
    using assms(1,2) by (intro filter_True) (auto simp: list_all_iff is_digit_def)
  moreover have "sign_split ?w = (False, ?w)"
    using ends(1) assms(3) digit_chars [of "hd ?w"] by (cases ?w) (auto simp: sign_split_def)
  ultimately show ?thesis by simp
qed

lemma decimal_round_trip:
  assumes "0 \<le> x"
  shows "parse_decimal (decimal_to_plain x) = Some (quantize2 x)"
proof -
  have c: "0 \<le> cents_of x" using assms by (simp add: cents_of_def round_half_up_def)
  define n where "n = nat (cents_of x div 100)"
  define f where "f = nat (cents_of x mod 100)"
  define fp where "fp = (if f = 0 then [] else digits_of (f div 10) @ (if f mod 10 = 0 then [] else digits_of (f mod 10)))"
  have f: "f < 100" and q: "cents_of x = 100 * int n + int f" and pos: "0 \<le> cents_of x div 100"
    using c by (simp_all add: n_def f_def nat_less_iff pos_imp_zdiv_nonneg_iff)
  have shape: "decimal_to_plain x = digits_of n @ (if fp = [] then [] else CHR ''.'' # fp)"
  proof -
    have m: "int f mod 10 = int (f mod 10)" "int f div 10 = int (f div 10)"
      by (simp_all add: zmod_int zdiv_int)
    have "cents_text (int f) = (if fp = [] then [] else CHR ''.'' # fp)"
      by (simp add: cents_text_def fp_def str_int_digits m)
    moreover have "str_int (cents_of x div 100) = digits_of n" using pos by (simp add: str_int_digits n_def)
    moreover have "cents_of x mod 100 = int f" by (simp add: f_def)
    ultimately show ?thesis using assms c by (simp add: decimal_to_plain_def Let_def)
  qed
  have digits: "list_all is_digit fp" using digit_list by (simp add: fp_def)
  have "of_int (digits_value (digits_of n @ fp)) * 10 powi (- int (length fp)) = quantize2 x"
    using cents_value [OF f, of n] q by (simp add: fp_def quantize2_def)
  with parse_unsigned_point [OF digit_list digits digits_of_nonempty, of n]
    plain_decimal_text [OF digit_list digits digits_of_nonempty, of n] shape
  show ?thesis by (simp add: parse_decimal_def)
qed

section \<open>Promo codes in payloads\<close>

lemma is_space_code: "is_space c \<longleftrightarrow> of_char c \<in> {32 :: nat, 9, 10, 11, 12, 13, 28, 29, 30, 31}"
proof -
  have "c = d \<longleftrightarrow> of_char c = (of_char d :: nat)" for d by simp
  note this [of "CHR '' ''"] this [of "CHR 0x09"] this [of "CHR 0x0A"] this [of "CHR 0x0B"] this [of "CHR 0x0C"]
    this [of "CHR 0x0D"] this [of "CHR 0x1C"] this [of "CHR 0x1D"] this [of "CHR 0x1E"] this [of "CHR 0x1F"]
  then show ?thesis by (simp add: is_space_def del: of_char_eq_iff)
qed

lemma of_upper_char:
  "(of_char (upper_char c) :: nat) = (let n = of_char c in if 97 \<le> n \<and> n \<le> 122 then n - 32 else n)"
  by (auto simp: upper_char_def Let_def intro!: mod_less)

lemma upper_char_facts:
  "is_space (upper_char c) = is_space c" "upper_char (upper_char c) = upper_char c"
  "upper_char c = CHR ''|'' \<longleftrightarrow> c = CHR ''|''"
proof -
  show "is_space (upper_char c) = is_space c"
    by (auto simp: is_space_code of_upper_char Let_def)
  show "upper_char (upper_char c) = upper_char c"
    by (subst (1) upper_char_def) (auto simp: of_upper_char Let_def)
  have "c = d \<longleftrightarrow> of_char c = (of_char d :: nat)" for c d :: char by simp
  note this [of "upper_char c" "CHR ''|''"] this [of c "CHR ''|''"]
  then show "upper_char c = CHR ''|'' \<longleftrightarrow> c = CHR ''|''"
    by (auto simp: of_upper_char Let_def simp del: of_char_eq_iff)
qed

lemma strip_ends:
  assumes "strip s \<noteq> []"
  shows "\<not> is_space (hd (strip s))" and "\<not> is_space (last (strip s))"
proof -
  let ?f = "dropWhile is_space s"
  have b: "strip s = rev (dropWhile is_space (rev ?f))" by (simp add: strip_def)
  with assms have r: "dropWhile is_space (rev ?f) \<noteq> []" by simp
  then show "\<not> is_space (last (strip s))" by (simp add: b last_rev hd_dropWhile)
  have "?f = strip s @ rev (takeWhile is_space (rev ?f))"
    by (metis b rev_append rev_rev_ident takeWhile_dropWhile_id)
  then have "hd ?f = hd (strip s)" "?f \<noteq> []" using assms by (metis hd_append2, metis append_is_Nil_conv)
  then show "\<not> is_space (hd (strip s))"
    using hd_dropWhile [of is_space s] by metis
qed

lemma normal_code:
  defines "nf x \<equiv> normalize_promo_code x"
  shows "nf x \<noteq> [] \<Longrightarrow> \<not> is_space (hd (nf x)) \<and> \<not> is_space (last (nf x))"
    and "normalize_promo_code (Some (nf x)) = nf x"
proof -
  let ?t = "strip (str_or x [])"
  have c: "nf x = filter (\<lambda>c. c \<noteq> CHR '' '') (map upper_char ?t)"
    by (simp add: nf_def normalize_promo_code_def upper_def)
  have sp: "is_space (CHR '' '')" by (simp add: is_space_def)
  have ends: "nf x = [] \<or> \<not> is_space (hd (nf x)) \<and> \<not> is_space (last (nf x))"
  proof (cases "?t = []")
    case False
    note e = strip_ends [OF False]
    then have u: "\<not> is_space (upper_char (hd ?t))" "\<not> is_space (upper_char (last ?t))"
      using upper_char_facts(1) by blast+
    obtain a as where a: "?t = a # as" using False by (cases ?t) auto
    obtain bs b where b: "?t = bs @ [b]" using False by (metis rev_exhaust)
    have "hd (nf x) = upper_char a" using u(1) sp a by (auto simp: c)
    moreover have "last (nf x) = upper_char b" using u(2) sp b by (auto simp: c)
    moreover have "\<not> is_space (upper_char a)" "\<not> is_space (upper_char b)" using u a b by (simp, metis last_snoc)
    ultimately show ?thesis by simp
  qed (simp add: c)
  then show "nf x \<noteq> [] \<Longrightarrow> \<not> is_space (hd (nf x)) \<and> \<not> is_space (last (nf x))" by blast
  have "strip (nf x) = nf x"
  proof (cases "nf x = []")
    case False
    with ends show ?thesis by (intro strip_id) simp_all
  qed (simp add: strip_def)
  moreover have "map upper_char (nf x) = nf x"
    using upper_char_facts by (simp add: c filter_map comp_def map_idI)
  ultimately show "normalize_promo_code (Some (nf x)) = nf x"
    by (simp add: normalize_promo_code_def upper_def) (simp add: c)
qed

lemma decimal_text_no_bar: "0 \<le> x \<Longrightarrow> CHR ''|'' \<notin> set (decimal_to_plain x)"
  using str_int_no_bar by (auto simp: decimal_to_plain_def cents_text_def Let_def)

lemma not_topup:
  assumes "p \<noteq> []" and "\<not> is_space (hd p)" and "CHR ''|'' \<notin> set p" and "p \<noteq> TOPUP_PAYLOAD_PREFIX"
  shows "parse_topup_payload (Some (join_bar [p, str_int a, str_int b, str_int c, str_int d, str_int e])) = None"
proof -
  let ?ps = "[p, str_int a, str_int b, str_int c, str_int d, str_int e]"
  have "split_bar (join_bar ?ps) = ?ps"
    using assms(3) str_int_no_bar by (intro split_join) auto
  moreover have "strip (join_bar ?ps) = join_bar ?ps"
    using assms(1,2) str_int_ends [of e] by (intro strip_id) (simp_all add: hd_append)
  ultimately show ?thesis
    using assms(4) by (simp add: parse_topup_payload_def Let_def del: join_with.simps)
qed

lemma topup_reads_back:
  assumes "0 < uid" and "0 < rial" and "0 < now" and "0 < price" and "1 \<le> quantize2 usd" and "quantize2 usd \<le> 5000"
    and "0 \<le> usd" and "length (normalize_promo_code promo) \<le> MAX_TOPUP_PROMO_CODE_LEN"
    and "build_topup_payload now uid usd rial price promo = Inr p"
  shows "parse_topup_payload (Some p) = Some \<lparr>tp_user_id = uid, tp_usd_amount = quantize2 usd,
    tp_total_rial = rial, tp_usdt_price_rial = price, tp_created_at = now,
    tp_promo_code = (if normalize_promo_code promo = [] then None else Some (normalize_promo_code promo))\<rparr>"
proof -
  let ?c = "normalize_promo_code promo"
  let ?ps = "[TOPUP_PAYLOAD_PREFIX, str_int uid, decimal_to_plain usd, str_int rial, str_int price, str_int now, ?c]"
  have p: "p = join_bar ?ps" and bar: "CHR ''|'' \<notin> set ?c"
    using assms(9) by (simp_all add: build_topup_payload_def finish_payload_def Let_def split: if_splits)
  have "split_bar (join_bar ?ps) = ?ps"
    using bar str_int_no_bar decimal_text_no_bar [OF assms(7)]
    by (intro split_join) (auto simp: TOPUP_PAYLOAD_PREFIX_def)
  moreover have "strip (join_bar ?ps) = join_bar ?ps"
    using normal_code(1) [of promo] by (intro strip_id) (simp_all add: TOPUP_PAYLOAD_PREFIX_def is_space_def)
  moreover have "join_bar ?ps \<noteq> []" by simp
  moreover have "quantize2 (quantize2 usd) = quantize2 usd"
    by (simp add: quantize2_def cents_of_def round_half_up_def floor_eq_iff)
  ultimately show ?thesis
    using assms(1-8) decimal_round_trip [OF assms(7)] normal_code(2) [of promo]
    by (simp add: p parse_topup_payload_def Let_def int_of_str_int MIN_TOPUP_USD_AMOUNT_def MAX_TOPUP_USD_AMOUNT_def
        TOPUP_PAYLOAD_PREFIX_def del: join_with.simps)
qed

text \<open>
  C19. What a payment was issued for reads back from its payload. A payload built for a top-up in
  dollars, for a subscription or for a top-up in Toman, with positive amounts and times, is
  recognised as what it is when the payment comes back, and yields exactly the fields it was built
  from: the dollars to the cent, and the promo code in its normal form.
\<close>

theorem payment_payload_round_trip:
  assumes "0 < uid" and "0 < rial" and "0 < now"
  shows "(0 < pid \<and> build_subscription_payload now uid pid w rial = Inr p \<longrightarrow>
      parse_payment_payload (Some p) = Some (Subscription \<lparr>sp_user_id = uid, sp_plan_id = pid,
        sp_wallet_payment_toman = max 0 w, sp_total_rial = rial, sp_created_at = now\<rparr>)) \<and>
    (0 < amt \<and> 0 < due \<and> build_toman_topup_payload now uid amt due rial = Inr p \<longrightarrow>
      parse_payment_payload (Some p) = Some (TomanTopup \<lparr>tt_user_id = uid, tt_credit_amount_toman = amt,
        tt_payment_due_toman = due, tt_total_rial = rial, tt_created_at = now\<rparr>)) \<and>
    (0 < price \<and> 1 \<le> quantize2 usd \<and> quantize2 usd \<le> 5000 \<and> 0 \<le> usd \<and>
     length (normalize_promo_code promo) \<le> MAX_TOPUP_PROMO_CODE_LEN \<and>
     build_topup_payload now uid usd rial price promo = Inr p \<longrightarrow>
      parse_payment_payload (Some p) = Some (Topup \<lparr>tp_user_id = uid, tp_usd_amount = quantize2 usd,
        tp_total_rial = rial, tp_usdt_price_rial = price, tp_created_at = now,
        tp_promo_code = (if normalize_promo_code promo = [] then None else Some (normalize_promo_code promo))\<rparr>))"
proof (intro conjI impI)
  assume a: "0 < pid \<and> build_subscription_payload now uid pid w rial = Inr p"
  then have p: "p = join_bar [SUBSCRIPTION_PAYLOAD_PREFIX, str_int uid, str_int pid, str_int (max 0 w), str_int rial, str_int now]"
    by (simp add: build_subscription_payload_def finish_payload_def split: if_splits)
  have "five_ints SUBSCRIPTION_PAYLOAD_PREFIX (Some p) = Some (uid, pid, max 0 w, rial, now)"
    unfolding p by (rule five_ints_join) (simp_all add: SUBSCRIPTION_PAYLOAD_PREFIX_def is_space_def)
  moreover have "parse_topup_payload (Some p) = None"
    unfolding p by (rule not_topup) (simp_all add: SUBSCRIPTION_PAYLOAD_PREFIX_def TOPUP_PAYLOAD_PREFIX_def is_space_def)
  ultimately show "parse_payment_payload (Some p) = Some (Subscription \<lparr>sp_user_id = uid, sp_plan_id = pid,
        sp_wallet_payment_toman = max 0 w, sp_total_rial = rial, sp_created_at = now\<rparr>)"
    using assms a by (simp add: parse_payment_payload_def parse_subscription_payload_def)
next
  assume a: "0 < amt \<and> 0 < due \<and> build_toman_topup_payload now uid amt due rial = Inr p"
  then have p: "p = join_bar [TOMAN_TOPUP_PAYLOAD_PREFIX, str_int uid, str_int amt, str_int due, str_int rial, str_int now]"
    by (simp add: build_toman_topup_payload_def finish_payload_def max_def split: if_splits)
  have "five_ints TOMAN_TOPUP_PAYLOAD_PREFIX (Some p) = Some (uid, amt, due, rial, now)"
    unfolding p by (rule five_ints_join) (simp_all add: TOMAN_TOPUP_PAYLOAD_PREFIX_def is_space_def)
  moreover have "five_ints SUBSCRIPTION_PAYLOAD_PREFIX (Some p) = None"
    unfolding p by (rule five_ints_other) (simp_all add: TOMAN_TOPUP_PAYLOAD_PREFIX_def SUBSCRIPTION_PAYLOAD_PREFIX_def is_space_def)
  moreover have "parse_topup_payload (Some p) = None"
    unfolding p by (rule not_topup) (simp_all add: TOMAN_TOPUP_PAYLOAD_PREFIX_def TOPUP_PAYLOAD_PREFIX_def is_space_def)
  ultimately show "parse_payment_payload (Some p) = Some (TomanTopup \<lparr>tt_user_id = uid, tt_credit_amount_toman = amt,
        tt_payment_due_toman = due, tt_total_rial = rial, tt_created_at = now\<rparr>)"
    using assms a by (simp add: parse_payment_payload_def parse_subscription_payload_def parse_toman_topup_payload_def)
next
  assume a: "0 < price \<and> 1 \<le> quantize2 usd \<and> quantize2 usd \<le> 5000 \<and> 0 \<le> usd \<and>
     length (normalize_promo_code promo) \<le> MAX_TOPUP_PROMO_CODE_LEN \<and>
     build_topup_payload now uid usd rial price promo = Inr p"
  then show "parse_payment_payload (Some p) = Some (Topup \<lparr>tp_user_id = uid, tp_usd_amount = quantize2 usd,
        tp_total_rial = rial, tp_usdt_price_rial = price, tp_created_at = now,
        tp_promo_code = (if normalize_promo_code promo = [] then None else Some (normalize_promo_code promo))\<rparr>)"
    using topup_reads_back [of uid rial now price usd promo p] assms by (simp add: parse_payment_payload_def)
qed

theorem payment_payload_round_trip_witness:
  "parse_payment_payload (Some ''sub|7|3|0|90|17'') = Some (Subscription \<lparr>sp_user_id = 7, sp_plan_id = 3,
     sp_wallet_payment_toman = 0, sp_total_rial = 90, sp_created_at = 17\<rparr>) \<and>
   parse_payment_payload (Some ''topup|7|12.5|900|72|17|OFF'') = Some (Topup \<lparr>tp_user_id = 7,
     tp_usd_amount = 25 / 2, tp_total_rial = 900, tp_usdt_price_rial = 72, tp_created_at = 17, tp_promo_code = Some ''OFF''\<rparr>)"
proof -
  have b: "build_subscription_payload 17 7 3 0 90 = Inr ''sub|7|3|0|90|17''"
    "build_topup_payload 17 7 (25 / 2) 900 72 (Some '' off '') = Inr ''topup|7|12.5|900|72|17|OFF''"
    "quantize2 (25 / 2) = 25 / 2" "normalize_promo_code (Some '' off '') = ''OFF''"
    by code_simp+
  show ?thesis
    using payment_payload_round_trip [of 7 90 17 3 0 "''sub|7|3|0|90|17''"]
      payment_payload_round_trip [of 7 900 17 3 0 "''topup|7|12.5|900|72|17|OFF''" 1 1 72 "25 / 2" "Some '' off ''"] b
    by (simp add: MAX_TOPUP_PROMO_CODE_LEN_def)
qed

end
