(* ===== verification/Bot_Ledger.thy ===== *)
theory Bot_Ledger
  imports Usage
begin

text \<open>
  What the Telegram bot (\<open>pbozi/backend/app/bot.py\<close>) keeps of its own beside the services: the
  charges against the USD wallet, the usage event of a request, and the claim on an update that
  makes a handler run once. Amounts in dollars are Python floats here, not decimals.
\<close>

section \<open>Money\<close>

text \<open>\<open>int(round(max(0.0, x) * 1_000_000))\<close>, its signed form, and back.\<close>

definition bot_usd_to_minor :: "pyfloat \<Rightarrow> int" where
  "bot_usd_to_minor x = round_half_even (fl (fl (max 0 x) * 1000000))"

definition signed_usd_to_minor :: "pyfloat \<Rightarrow> int" where
  "signed_usd_to_minor x = round_half_even (fl (fl x * 1000000))"

definition bot_minor_to_usd :: "int \<Rightarrow> pyfloat" where
  "bot_minor_to_usd n = fl (fl (of_int n) / 1000000)"

definition credit_balance :: "user_preference \<Rightarrow> pyfloat" where
  "credit_balance u = max 0 (case credit_balance_usd u of None \<Rightarrow> 0 | Some x \<Rightarrow> x)"

definition has_credit_for_cost :: "user_preference \<Rightarrow> pyfloat \<Rightarrow> bool" where
  "has_credit_for_cost u cost \<longleftrightarrow> cost \<le> 0 \<or> cost \<le> fl (fl (credit_balance u) + fl (1 / 1000000000))"

text \<open>A column that Python's arithmetic needs: \<open>None\<close> is a TypeError.\<close>

definition need_int :: "int option \<Rightarrow> int act" where
  "need_int x = (case x of None \<Rightarrow> raise (TypeError ''NoneType'') | Some n \<Rightarrow> ret n)"

definition key_entry :: "string \<Rightarrow> db \<Rightarrow> credit_ledger_entry obj list" where
  "key_entry key d = t_select (\<lambda>_ e. cl_idempotency_key e = Some key) (credit_ledger d)"

definition opened_wallet :: "int \<Rightarrow> user_preference \<Rightarrow> wallet" where
  "opened_wallet uid u =
     (let n = signed_usd_to_minor (case credit_balance_usd u of None \<Rightarrow> 0 | Some x \<Rightarrow> x)
      in \<lparr>w_user_id = uid, w_currency = ''USD'', balance_minor = Some n, available_minor = Some n,
          held_minor = Some 0, w_allow_negative = False, w_version = Some 0\<rparr>)"

definition wallet_of_user :: "int \<Rightarrow> user_preference \<Rightarrow> wallet obj act" where
  "wallet_of_user uid u =
     bind (query (\<lambda>d. t_first (\<lambda>_ w. w_user_id w = uid) (wallets d))) (\<lambda>found.
     case found of
       Some w \<Rightarrow> ret w
     | None \<Rightarrow>
         bind (query (\<lambda>d. t_next (wallets d))) (\<lambda>wid.
         andthen (update (\<lambda>d. d\<lparr>wallets := t_add (opened_wallet uid u) (wallets d)\<rparr>))
         (ret (wid, opened_wallet uid u))))"

text \<open>The balances moved by \<open>n\<close>.\<close>

definition moved_by :: "wallet \<Rightarrow> int \<Rightarrow> int \<Rightarrow> int \<Rightarrow> wallet" where
  "moved_by w bal avail n =
     w\<lparr>balance_minor := Some (bal + n), available_minor := Some (avail + n),
       w_version := Some (or0 (w_version w) + 1)\<rparr>"

definition wallet_entry ::
  "int \<Rightarrow> wallet obj \<Rightarrow> pyfloat \<Rightarrow> int \<Rightarrow> string \<Rightarrow> string \<Rightarrow> string \<Rightarrow> int option \<Rightarrow> string option \<Rightarrow>
   dict option \<Rightarrow> credit_ledger_entry" where
  "wallet_entry uid w delta_usd minor dir entry_type reason event_id key metadata =
     \<lparr>cl_user_id = uid, wallet_id = Some (fst w), amount_delta_usd = delta_usd,
      amount_minor = Some minor, balance_after_minor = balance_minor (snd w),
      available_after_minor = available_minor (snd w), held_after_minor = held_minor (snd w),
      cl_currency = w_currency (snd w), direction = dir, cl_entry_type = entry_type,
      cl_status = ''posted'', cl_reason = Some reason, cl_usage_event_id = event_id,
      cl_idempotency_key = key,
      cl_metadata_json = (case metadata of None \<Rightarrow> [] | Some m \<Rightarrow> m)\<rparr>"

definition post_entry ::
  "int \<Rightarrow> user_preference \<Rightarrow> wallet obj \<Rightarrow> credit_ledger_entry \<Rightarrow> unit act" where
  "post_entry uid u w e =
     update (\<lambda>d. d\<lparr>wallets := t_put (fst w) (snd w) (wallets d),
                   users := t_put uid u (users d),
                   credit_ledger := t_add e (credit_ledger d)\<rparr>)"

text \<open>
  The charge: nothing for a price of zero; once per idempotency key; and never past the available
  balance, unless the wallet may go negative.
\<close>

definition charge_credit ::
  "int \<Rightarrow> pyfloat \<Rightarrow> string \<Rightarrow> string \<Rightarrow> dict option \<Rightarrow> int option \<Rightarrow> string option \<Rightarrow>
   (bool \<times> pyfloat) act" where
  "charge_credit uid amount_usd entry_type reason metadata event_id key =
     bind (the_user uid) (\<lambda>u.
     let charge = max 0 amount_usd; charge_minor = bot_usd_to_minor charge; current = credit_balance u in
     if charge \<le> 0 then ret (True, current)
     else
     bind (if str_or key [] = [] then ret None
           else bind (query (key_entry (str_or key []))) scalar_one_or_none) (\<lambda>existing.
     if existing \<noteq> None then ret (True, current)
     else
     bind (wallet_of_user uid u) (\<lambda>w.
     bind (need_int (available_minor (snd w))) (\<lambda>avail.
     if \<not> w_allow_negative (snd w) \<and> avail < charge_minor then ret (False, bot_minor_to_usd avail)
     else
     bind (need_int (balance_minor (snd w))) (\<lambda>bal.
     let w' = (fst w, moved_by (snd w) bal avail (- charge_minor));
         u' = u\<lparr>credit_balance_usd := Some (bot_minor_to_usd (avail - charge_minor))\<rparr>
     in andthen (post_entry uid u' w'
                   (wallet_entry uid w' (- charge) charge_minor ''debit'' entry_type reason event_id key metadata))
        (andthen commit (ret (True, credit_balance u'))))))))"

text \<open>
  The credit of a top-up in dollars. No handler calls it any more: payments in dollars are turned
  away after the fact.
\<close>

definition purchase_event :: "int \<Rightarrow> user_preference \<Rightarrow> pyfloat \<Rightarrow> db \<Rightarrow> db" where
  "purchase_event uid u usd d =
     (if or0 (referral_campaign_id u) = 0 then d
      else d\<lparr>referral_events := t_add \<lparr>campaign_id = or0 (referral_campaign_id u), re_user_id = uid,
             event_type = ''purchase'', re_amount_usd = Some usd\<rparr> (referral_events d)\<rparr>)"

definition apply_topup_credit ::
  "int \<Rightarrow> pyfloat \<Rightarrow> string \<Rightarrow> dict option \<Rightarrow> (bool \<times> pyfloat) act" where
  "apply_topup_credit uid usd key metadata =
     bind (the_user uid) (\<lambda>u.
     bind (query (key_entry key)) (\<lambda>rows. bind (scalar_one_or_none rows) (\<lambda>existing.
     if existing \<noteq> None then ret (False, credit_balance u)
     else
     let minor = bot_usd_to_minor (fl usd) in
     if minor \<le> 0 then raise (ValueError ''topup amount must be positive'')
     else
     bind (wallet_of_user uid u) (\<lambda>w.
     bind (need_int (balance_minor (snd w))) (\<lambda>bal.
     bind (need_int (available_minor (snd w))) (\<lambda>avail.
     let w' = (fst w, moved_by (snd w) bal avail minor);
         charged = fl ((case total_charged_usd u of None \<Rightarrow> 0 | Some x \<Rightarrow> x) + fl usd);
         u' = u\<lparr>credit_balance_usd := Some (bot_minor_to_usd (avail + minor)),
                total_charged_usd := Some charged,
                is_pro := (is_pro u \<or> 1 \<le> charged)\<rparr>
     in andthen (post_entry uid u' w'
                   (wallet_entry uid w' (fl usd) minor ''credit'' ''wallet_topup'' ''bale wallet topup'' None
                      (Some key) metadata))
        (andthen (update (purchase_event uid u' (fl usd)))
        (andthen commit (ret (True, credit_balance u'))))))))))"

section \<open>Usage events\<close>

definition bot_pricing_snapshot :: "llm_model \<Rightarrow> dict" where
  "bot_pricing_snapshot m =
     [(''source'', JStr ''models''),
      (''pricing_input_usd_per_1m'', JFloat (case pricing_input m of None \<Rightarrow> 0 | Some x \<Rightarrow> x)),
      (''pricing_output_usd_per_1m'', JFloat (case pricing_output m of None \<Rightarrow> 0 | Some x \<Rightarrow> x))]"

definition bot_create_usage_event ::
  "int \<Rightarrow> int option \<Rightarrow> int option \<Rightarrow> string \<Rightarrow> int option \<Rightarrow> string option \<Rightarrow> int option \<Rightarrow>
   llm_model obj option \<Rightarrow> pyfloat \<Rightarrow> string option \<Rightarrow> dict option \<Rightarrow> usage_event obj act" where
  "bot_create_usage_event uid chat_id message_id op_type file_id provider_name provider_id model
     estimated req_id metadata =
     bind (if str_or req_id [] = [] then ret None
           else bind (query (\<lambda>d. t_select (\<lambda>_ e. ue_request_id e = req_id) (usage_events d)))
                  scalar_one_or_none) (\<lambda>existing.
     case existing of
       Some e \<Rightarrow> ret e
     | None \<Rightarrow>
         let e = \<lparr>ue_user_id = Some uid, ue_chat_id = chat_id, ue_message_id = message_id,
                  ue_uploaded_file_id = file_id, ue_operation_type = op_type, ue_channel = ''telegram'',
                  ue_provider_id = provider_id, provider_name_snapshot = provider_name,
                  ue_model_id = map_option fst model,
                  model_name_snapshot =
                    map_option (\<lambda>(_, m). str_or (model_display_name m) (model_name m)) model,
                  ue_pricing_snapshot = map_option (\<lambda>(_, m). bot_pricing_snapshot m) model,
                  ue_request_id = req_id, ue_input_tokens = 0, ue_output_tokens = 0,
                  ue_total_tokens = 0, usage_source = ''estimated'',
                  ue_estimated_cost_minor = bot_usd_to_minor estimated, ue_actual_cost_minor = 0,
                  ue_status = ''estimated'', ue_error = None,
                  ue_metadata_json = (case metadata of None \<Rightarrow> [] | Some m \<Rightarrow> m),
                  ue_completed_at = None\<rparr>
         in bind (query (\<lambda>d. t_next (usage_events d))) (\<lambda>eid.
            andthen (update (\<lambda>d. d\<lparr>usage_events := t_add e (usage_events d)\<rparr>)) (ret (eid, e))))"

definition bot_complete_usage_event ::
  "instant \<Rightarrow> int \<Rightarrow> int \<Rightarrow> int \<Rightarrow> pyfloat \<Rightarrow> string \<Rightarrow> unit act" where
  "bot_complete_usage_event now eid i out cost source =
     bind (query (\<lambda>d. t_get (usage_events d) eid)) (\<lambda>found.
     case found of
       None \<Rightarrow> raise (AttributeError ''input_tokens'')
     | Some e \<Rightarrow> update (\<lambda>d. d\<lparr>usage_events := t_put eid
         (e\<lparr>ue_input_tokens := i, ue_output_tokens := out, ue_total_tokens := i + out,
            ue_actual_cost_minor := bot_usd_to_minor cost, usage_source := source,
            ue_status := ''completed'', ue_completed_at := Some now\<rparr>) (usage_events d)\<rparr>))"

section \<open>Claiming an update\<close>

text \<open>Which of its optional parts an update has.\<close>

record update_parts =
  up_update_id :: "int option"
  up_user :: "int option"
  up_chat :: "int option"
  up_callback :: bool
  up_message :: bool
  up_contact :: bool
  up_document :: bool
  up_photo :: bool
  up_voice :: bool
  up_text :: bool

definition telegram_update_type :: "update_parts \<Rightarrow> string" where
  "telegram_update_type u =
     (if up_callback u then ''callback_query''
      else if up_message u \<and> up_contact u then ''contact''
      else if up_message u \<and> up_document u then ''document''
      else if up_message u \<and> up_photo u then ''photo''
      else if up_message u \<and> up_voice u then ''voice''
      else if up_message u \<and> up_text u then ''text''
      else ''unknown'')"

text \<open>
  \<open>racing\<close> says whether another worker's row with this id is committed between the query and
  the commit: then the commit fails on the unique id, and the claim is lost.
\<close>

definition claim_update_once :: "instant \<Rightarrow> bool \<Rightarrow> update_parts \<Rightarrow> bool \<Rightarrow> bool act" where
  "claim_update_once now racing u allow_reclaim =
     (case up_update_id u of
        None \<Rightarrow> ret True
      | Some n \<Rightarrow>
          bind (query (\<lambda>d. t_first (\<lambda>_ r. update_id r = n) (update_logs d))) (\<lambda>existing.
          case existing of
            Some (lid, r) \<Rightarrow>
              if log_status r = ''completed'' then ret False
              else if allow_reclaim then ret True
              else if log_status r = ''processing'' \<and> microseconds (15 * 60) < now - log_created_at r
              then andthen (update (\<lambda>d. d\<lparr>update_logs :=
                       t_put lid (r\<lparr>log_created_at := now\<rparr>) (update_logs d)\<rparr>))
                     (andthen commit (ret True))
              else ret False
          | None \<Rightarrow>
              let row = \<lparr>update_id = n, update_key = Some (''telegram:update:'' @ str_int n),
                         log_telegram_user_id = up_user u, log_chat_id = up_chat u,
                         log_update_type = Some (telegram_update_type u), log_status = ''processing'',
                         log_metadata_json = [], log_created_at = now, log_completed_at = None\<rparr>
              in if racing then andthen rollback (ret False)
                 else andthen (update (\<lambda>d. d\<lparr>update_logs := t_add row (update_logs d)\<rparr>))
                        (andthen commit (ret True))))"

definition mark_update_completed :: "instant \<Rightarrow> int option \<Rightarrow> unit act" where
  "mark_update_completed now uid =
     (case uid of
        None \<Rightarrow> ret ()
      | Some n \<Rightarrow>
          bind (query (\<lambda>d. t_first (\<lambda>_ r. update_id r = n) (update_logs d))) (\<lambda>found.
          case found of
            None \<Rightarrow> ret ()
          | Some (lid, r) \<Rightarrow>
              andthen (update (\<lambda>d. d\<lparr>update_logs :=
                t_put lid (r\<lparr>log_status := ''completed'', log_completed_at := Some now\<rparr>) (update_logs d)\<rparr>))
              commit))"

section \<open>A charge\<close>

definition has_wallet :: "db \<Rightarrow> int \<Rightarrow> user_preference \<Rightarrow> wallet obj \<Rightarrow> int \<Rightarrow> int \<Rightarrow> bool" where
  "has_wallet d uid u w bal avail \<longleftrightarrow>
     t_get (users d) uid = Some u \<and> t_first (\<lambda>_ x. w_user_id x = uid) (wallets d) = Some w \<and>
     balance_minor (snd w) = Some bal \<and> available_minor (snd w) = Some avail \<and>
     \<not> w_allow_negative (snd w)"

definition charged_session :: "int \<Rightarrow> user_preference \<Rightarrow> wallet obj \<Rightarrow> credit_ledger_entry \<Rightarrow> session \<Rightarrow> session" where
  "charged_session uid u w e s =
     (let d = (work s)\<lparr>wallets := t_put (fst w) (snd w) (wallets (work s)),
                users := t_put uid u (users (work s)),
                credit_ledger := t_add e (credit_ledger (work s))\<rparr>
      in s\<lparr>work := d, durable := d\<rparr>)"

lemma charge_credit_run:
  assumes "has_wallet (work s) uid u w bal avail" and "0 < x"
    and "key = None \<or> key_entry (str_or key []) (work s) = []"
  defines "n \<equiv> bot_usd_to_minor x" and "w' \<equiv> (fst w, moved_by (snd w) bal avail (- bot_usd_to_minor x))"
  shows "charge_credit uid x ty rs md ev key s =
    (if avail < n then (Inr (False, bot_minor_to_usd avail), s)
     else let u' = u\<lparr>credit_balance_usd := Some (bot_minor_to_usd (avail - n))\<rparr>
          in (Inr (True, credit_balance u'),
              charged_session uid u' w' (wallet_entry uid w' (- x) n ''debit'' ty rs ev key md) s))"
proof -
  have c: "max 0 x = x" "\<not> x \<le> 0" using assms(2) by simp_all
  have k: "str_or key [] = [] \<or> key_entry (str_or key []) (work s) = []"
    using assms(3) by (auto simp: str_or_def)
  show ?thesis
    using assms(1) k
    by (auto simp: charge_credit_def has_wallet_def run_simps the_user_run c wallet_of_user_def need_int_def
        Let_def post_entry_def charged_session_def n_def w'_def)
qed

text \<open>The wallet the charged session holds.\<close>

lemma charged_wallet:
  assumes "has_wallet (work s) uid u w bal avail"
  shows "has_wallet (work (charged_session uid u' (fst w, moved_by (snd w) bal avail n) e s)) uid u'
    (fst w, moved_by (snd w) bal avail n) (bal + n) (avail + n)"
proof -
  have f: "t_first (\<lambda>_ x. w_user_id x = uid) (wallets (work s)) = Some (fst w, snd w)"
    using assms by (simp add: has_wallet_def)
  from t_first_SomeD [OF f] have "w_user_id (moved_by (snd w) bal avail n) = uid" by (simp add: moved_by_def)
  from t_first_put [OF f this] assms show ?thesis
    by (simp add: has_wallet_def charged_session_def Let_def row_simps moved_by_def)
qed


section \<open>One worker per update\<close>

lemma t_first_put_same:
  assumes "\<And>q. (i, q) \<in> set t \<Longrightarrow> P i q = P i r"
  shows "t_first P (t_put i r t) = map_option (\<lambda>(j, q). (j, if j = i then r else q)) (t_first P t)"
  using assms by (induction t) (auto simp: t_first_def t_put_def)

datatype update_event = Claimed instant bool update_parts bool | Marked instant "int option"

fun update_step :: "update_event \<Rightarrow> session \<Rightarrow> session" where
  "update_step (Claimed now racing u reclaim) s = snd (claim_update_once now racing u reclaim s)"
| "update_step (Marked now uid) s = snd (mark_update_completed now uid s)"

fun event_time :: "update_event \<Rightarrow> instant" where
  "event_time (Claimed now _ _ _) = now"
| "event_time (Marked now _) = now"

definition update_run :: "update_event list \<Rightarrow> session \<Rightarrow> session" where
  "update_run es s = fold update_step es s"

definition log_of :: "int \<Rightarrow> db \<Rightarrow> telegram_update_log obj option" where
  "log_of n d = t_first (\<lambda>_ r. update_id r = n) (update_logs d)"

definition clean_logs :: "session \<Rightarrow> bool" where
  "clean_logs s \<longleftrightarrow> t_wf (update_logs (work s)) \<and> durable s = work s"

text \<open>A row as it was rewritten or left: the status only moves to \<open>completed\<close>.\<close>

definition log_moves :: "instant \<Rightarrow> telegram_update_log \<Rightarrow> telegram_update_log \<Rightarrow> bool" where
  "log_moves now r q \<longleftrightarrow>
     update_id q = update_id r \<and>
     (q = r \<or> log_status q = ''completed'' \<or>
      log_status r = ''processing'' \<and> microseconds (15 * 60) < now - log_created_at r)"

lemma log_of_write:
  assumes "t_wf (update_logs d)" and "log_of m d = Some (i, r)" and "update_id q = update_id r"
    and "log_of n d = Some (j, p)"
  shows "log_of n (d\<lparr>update_logs := t_put i q (update_logs d)\<rparr>) = Some (j, if j = i then q else p)"
    and "j = i \<Longrightarrow> p = r"
proof -
  have r: "t_get (update_logs d) i = Some r" and p: "t_get (update_logs d) j = Some p"
    using t_first_Some_get [OF assms(1)] assms(2,4) by (simp_all add: log_of_def)
  then show "j = i \<Longrightarrow> p = r" by simp
  have "update_id x = update_id q" if "(i, x) \<in> set (update_logs d)" for x
    using that r assms(1,3) by (simp add: t_get_in)
  then show "log_of n (d\<lparr>update_logs := t_put i q (update_logs d)\<rparr>) = Some (j, if j = i then q else p)"
    using assms(4) by (simp add: log_of_def t_first_put_same)
qed

lemma update_step_log:
  assumes "clean_logs s" and "log_of n (work s) = Some (j, p)"
  shows "clean_logs (update_step e s) \<and>
    (\<exists>q. log_of n (work (update_step e s)) = Some (j, q) \<and> log_moves (event_time e) p q)"
proof -
  have wf: "t_wf (update_logs (work s))" and d: "durable s = work s"
    using assms(1) by (simp_all add: clean_logs_def)
  have stay: "log_moves t p p" for t by (simp add: log_moves_def)
  have wr: "clean_logs (s\<lparr>work := d', durable := d'\<rparr>) \<and> (\<exists>q'. log_of n d' = Some (j, q') \<and> log_moves t p q')"
    if "log_of m (work s) = Some (i, r)" "log_moves t r q"
      "d' = (work s)\<lparr>update_logs := t_put i q (update_logs (work s))\<rparr>" for m i r q t d'
    using log_of_write [OF wf that(1) _ assms(2), of q] that(2,3) wf stay
    by (auto simp: clean_logs_def log_moves_def)
  have add: "clean_logs (s\<lparr>work := d', durable := d'\<rparr>) \<and> (\<exists>q'. log_of n d' = Some (j, q') \<and> log_moves t p q')"
    if "d' = (work s)\<lparr>update_logs := t_add row (update_logs (work s))\<rparr>" for row t d'
    using that assms(2) wf stay by (auto simp: clean_logs_def log_of_def t_first_add t_wf_add)
  show ?thesis
  proof (cases e)
    case (Claimed now racing u reclaim)
    show ?thesis
    proof (cases "up_update_id u")
      case None
      with assms stay Claimed show ?thesis by (simp add: claim_update_once_def run_simps)
    next
      case (Some m)
      show ?thesis
      proof (cases "log_of m (work s)")
        case None
        with Some Claimed assms stay d add show ?thesis
          by (auto simp: claim_update_once_def run_simps log_of_def)
      next
        case (Some x)
        obtain i r where x: "x = (i, r)" by fastforce
        have "log_moves now r (r\<lparr>log_created_at := now\<rparr>)"
          if "log_status r = ''processing''" "microseconds (15 * 60) < now - log_created_at r"
          using that by (simp add: log_moves_def)
        from wr [OF Some [unfolded x] this refl] \<open>up_update_id u = Some m\<close> Some x Claimed assms stay
        show ?thesis by (auto simp: claim_update_once_def run_simps log_of_def)
      qed
    qed
  next
    case (Marked now uid)
    show ?thesis
    proof (cases "case uid of None \<Rightarrow> None | Some m \<Rightarrow> log_of m (work s)")
      case None
      with assms stay Marked show ?thesis
        by (auto simp: mark_update_completed_def run_simps log_of_def split: option.splits)
    next
      case (Some x)
      obtain i r where x: "x = (i, r)" by fastforce
      obtain m where m: "uid = Some m" "log_of m (work s) = Some (i, r)"
        using Some x by (auto split: option.splits)
      have "log_moves now r (r\<lparr>log_status := ''completed'', log_completed_at := Some now\<rparr>)"
        by (simp add: log_moves_def)
      from wr [OF m(2) this refl] m Marked show ?thesis
        by (simp add: mark_update_completed_def run_simps log_of_def)
    qed
  qed
qed

definition settled :: "instant \<Rightarrow> telegram_update_log \<Rightarrow> bool" where
  "settled c r \<longleftrightarrow> log_status r = ''completed'' \<or> log_status r = ''processing'' \<and> c \<le> log_created_at r"

text \<open>The row of an update stays settled through a run inside the window.\<close>

lemma update_run_settled:
  assumes "clean_logs s" and "log_of n (work s) = Some (j, p)" and "settled c p"
    and "\<And>e. e \<in> set es \<Longrightarrow> event_time e \<le> c + microseconds (15 * 60)"
  shows "clean_logs (update_run es s) \<and> (\<exists>q. log_of n (work (update_run es s)) = Some (j, q) \<and> settled c q)"
  using assms
proof (induction es arbitrary: s p)
  case (Cons e es)
  obtain q where q: "clean_logs (update_step e s)" "log_of n (work (update_step e s)) = Some (j, q)"
      "log_moves (event_time e) p q"
    using update_step_log [OF Cons.prems(1,2), of e] by blast
  have "settled c q" using q(3) Cons.prems(3) Cons.prems(4) [of e] by (auto simp: settled_def log_moves_def)
  from Cons.IH [OF q(1,2) this] Cons.prems(4) show ?case by (simp add: update_run_def)
qed (simp add: update_run_def)

text \<open>A completed row stays completed for ever.\<close>

lemma update_run_completed:
  assumes "clean_logs s" and "log_of n (work s) = Some (j, p)" and "log_status p = ''completed''"
  shows "clean_logs (update_run es s) \<and>
    (\<exists>q. log_of n (work (update_run es s)) = Some (j, q) \<and> log_status q = ''completed'')"
  using assms
proof (induction es arbitrary: s p)
  case (Cons e es)
  obtain q where q: "clean_logs (update_step e s)" "log_of n (work (update_step e s)) = Some (j, q)"
      "log_moves (event_time e) p q"
    using update_step_log [OF Cons.prems(1,2), of e] by blast
  have "log_status q = ''completed''" using q(3) Cons.prems(3) by (auto simp: log_moves_def)
  from Cons.IH [OF q(1,2) this] show ?case by (simp add: update_run_def)
qed (simp add: update_run_def)

lemma update_run_keeps_row:
  assumes "clean_logs s" and "log_of n (work s) = Some (j, p)"
  shows "clean_logs (update_run es s) \<and> (\<exists>q. log_of n (work (update_run es s)) = Some (j, q))"
  using assms
proof (induction es arbitrary: s p)
  case (Cons e es)
  then obtain q where q: "clean_logs (update_step e s)" "log_of n (work (update_step e s)) = Some (j, q)"
    using update_step_log by blast
  from Cons.IH [OF this] show ?case by (simp add: update_run_def)
qed (simp add: update_run_def)

lemma marking_completes:
  assumes "clean_logs s" and "log_of n (work s) = Some (j, p)"
  shows "clean_logs (update_step (Marked now (Some n)) s) \<and>
    (\<exists>q. log_of n (work (update_step (Marked now (Some n)) s)) = Some (j, q) \<and> log_status q = ''completed'')"
proof -
  have "t_wf (update_logs (work s))" using assms(1) by (simp add: clean_logs_def)
  from log_of_write(1) [OF this assms(2) _ assms(2), of "p\<lparr>log_status := ''completed'', log_completed_at := Some now\<rparr>"]
    assms this show ?thesis
    by (auto simp: mark_update_completed_def run_simps log_of_def clean_logs_def)
qed

lemma claim_refused:
  "up_update_id v = Some n \<Longrightarrow> log_of n (work s) = Some (j, q) \<Longrightarrow> settled c q \<Longrightarrow>
    later \<le> c + microseconds (15 * 60) \<Longrightarrow> fst (claim_update_once later racing v False s) = Inr False"
  "up_update_id v = Some n \<Longrightarrow> log_of n (work s) = Some (j, q) \<Longrightarrow> log_status q = ''completed'' \<Longrightarrow>
    fst (claim_update_once later racing v reclaim s) = Inr False"
  by (auto simp: claim_update_once_def run_simps log_of_def settled_def split: if_splits)

lemma won_claim_settles:
  assumes "clean_logs s" and "up_update_id u = Some n" and "claim_update_once now racing u False s = (Inr True, t)"
  shows "clean_logs t \<and> (\<exists>j q. log_of n (work t) = Some (j, q) \<and> settled now q)"
proof (cases "log_of n (work s)")
  case None
  with assms show ?thesis
    by (auto simp: claim_update_once_def run_simps log_of_def clean_logs_def t_first_add t_wf_add settled_def
        split: if_splits)
next
  case (Some x)
  obtain i r where x: "x = (i, r)" by fastforce
  have "t_wf (update_logs (work s))" using assms(1) by (simp add: clean_logs_def)
  note w = log_of_write [OF this Some [unfolded x] _ Some [unfolded x], of "r\<lparr>log_created_at := now\<rparr>"]
  show ?thesis
    using assms Some x w
    by (auto simp: claim_update_once_def run_simps log_of_def clean_logs_def settled_def split: if_splits)
qed


definition plain_message :: "int \<Rightarrow> update_parts" where
  "plain_message n =
     \<lparr>up_update_id = Some n, up_user = Some 700, up_chat = Some 700, up_callback = False, up_message = True,
      up_contact = False, up_document = False, up_photo = False, up_voice = False, up_text = True\<rparr>"



end
