(* ===== verification/Bot_Payments.thy ===== *)
theory Bot_Payments
  imports Bot_Ledger Payloads Accounts Toman_Purchase
begin

text \<open>
  The payments that arrive through the messenger (\<open>pbozi/backend/app/bot.py\<close>): the answer to a
  pre-checkout query and the handling of a successful payment, with the lookup of the paying
  user. The handlers open a session of their own (\<open>run_request\<close>): what they did not commit is
  gone when they return or raise. The texts of the replies are shortened to English tags; the
  keyboard under a reply is not modelled.
\<close>

section \<open>The user of an update\<close>

record telegram_user =
  tu_id :: int
  tu_first_name :: string
  tu_username :: string

definition ADMIN_ID :: "int" where
  "ADMIN_ID = (567136570 :: int)"

definition ONBOARDING_PENDING_STATUSES :: "string list" where
  "ONBOARDING_PENDING_STATUSES =
  [''pending_onboarding'', ''pending_profile'', ''pending_name'', ''incomplete'']"

definition BLOCKED_ACCOUNT_STATUSES :: "string list" where
  "BLOCKED_ACCOUNT_STATUSES = [''suspended'', ''deactivated'', ''deleted'']"

definition missing_phone :: "user_preference \<Rightarrow> bool" where
  "missing_phone u \<longleftrightarrow> strip (str_or (phone_number u) []) = []"

definition missing_preferred_name :: "user_preference \<Rightarrow> bool" where
  "missing_preferred_name u \<longleftrightarrow> strip (str_or (preferred_name u) []) = []"

definition current_status :: "user_preference \<Rightarrow> string" where
  "current_status u = lower (strip (str_or (account_status u) []))"

definition user_onboarding_completed :: "user_preference \<Rightarrow> bool" where
  "user_onboarding_completed u \<longleftrightarrow> is_admin u \<or> current_status u \<notin> set BLOCKED_ACCOUNT_STATUSES"

definition mark_onboarding_pending :: "user_preference \<Rightarrow> user_preference" where
  "mark_onboarding_pending u =
     (if is_admin u \<or> current_status u \<in> set BLOCKED_ACCOUNT_STATUSES \<or>
         current_status u \<in> set ONBOARDING_PENDING_STATUSES
      then u else u\<lparr>account_status := Some ''pending_onboarding''\<rparr>)"

definition mark_onboarding_complete :: "user_preference \<Rightarrow> user_preference" where
  "mark_onboarding_complete u =
     (if is_admin u \<or> current_status u \<in> set BLOCKED_ACCOUNT_STATUSES then u
      else u\<lparr>account_status := Some ''active''\<rparr>)"

definition log_referral_event :: "int \<Rightarrow> string \<Rightarrow> rat option \<Rightarrow> unit act" where
  "log_referral_event uid ty usd =
     bind (the_user uid) (\<lambda>u.
     on_cond (or0 (referral_campaign_id u) \<noteq> 0)
       (andthen (update (\<lambda>d. d\<lparr>referral_events := t_add
            \<lparr>campaign_id = or0 (referral_campaign_id u), re_user_id = uid, event_type = ty, re_amount_usd = usd\<rparr>
            (referral_events d)\<rparr>)) commit))"

text \<open>The row of a user who wrote before, brought up to date.\<close>

definition refreshed_user :: "user_preference \<Rightarrow> string option \<Rightarrow> string option \<Rightarrow> user_preference" where
  "refreshed_user u first uname =
     (let v = u\<lparr>first_name := overwrite first (first_name u), username := overwrite uname (username u)\<rparr>
      in if is_admin v then v
         else if user_onboarding_completed v
              then (if account_status v \<noteq> Some ''active'' then v\<lparr>account_status := Some ''active''\<rparr> else v)
              else mark_onboarding_pending v)"

definition user_of_telegram :: "int \<Rightarrow> db \<Rightarrow> user_preference obj option" where
  "user_of_telegram tg d = t_first (\<lambda>_ u. telegram_user_id u = Some tg) (users d)"

definition get_user :: "instant \<Rightarrow> int \<Rightarrow> string option \<Rightarrow> string option \<Rightarrow> int act" where
  "get_user now tg first uname =
     bind (query (user_of_telegram tg)) (\<lambda>found.
     case found of
       None \<Rightarrow>
         bind (query (\<lambda>d. t_next (users d))) (\<lambda>uid.
         andthen (update (\<lambda>d. d\<lparr>users := t_add
            ((new_user now tg first uname None None (tg = ADMIN_ID))\<lparr>account_status := Some ''active''\<rparr>) (users d)\<rparr>))
         (bind (apply_starter_credit uid) (\<lambda>_. andthen commit (ret uid))))
     | Some (uid, u) \<Rightarrow>
         let v = refreshed_user u first uname in
         andthen (on_cond (v \<noteq> u) (andthen (save_user uid v) commit)) (ret uid))"

section \<open>Invoices\<close>

fun payload_user :: "payment_payload \<Rightarrow> int" where
  "payload_user (Topup p) = tp_user_id p"
| "payload_user (Subscription p) = sp_user_id p"
| "payload_user (TomanTopup p) = tt_user_id p"

fun payload_total :: "payment_payload \<Rightarrow> int" where
  "payload_total (Topup p) = tp_total_rial p"
| "payload_total (Subscription p) = sp_total_rial p"
| "payload_total (TomanTopup p) = tt_total_rial p"

text \<open>The pre-checkout query: its payload, its amount and its sender.\<close>

definition handle_pre_checkout_query :: "string option \<Rightarrow> int option \<Rightarrow> int option \<Rightarrow> unit act" where
  "handle_pre_checkout_query raw amt from_user =
     (case parse_payment_payload raw of
        None \<Rightarrow> send (AnswerPreCheckout False ''invalid payment request'')
      | Some p \<Rightarrow>
          if or0 amt \<noteq> payload_total p then send (AnswerPreCheckout False ''amount differs from the invoice'')
          else if from_user \<noteq> Some (payload_user p) then send (AnswerPreCheckout False ''invoice of another account'')
          else send (AnswerPreCheckout True []))"

record successful_payment =
  pay_payload :: "string option"
  pay_total_amount :: "int option"
  pay_currency :: string
  telegram_charge_id :: "string option"
  provider_charge_id :: "string option"

text \<open>The charge's identity: the messenger's id, the provider's, or one made up from the payment.\<close>

definition charge_id_of :: "successful_payment \<Rightarrow> string \<Rightarrow> string" where
  "charge_id_of p made_up =
     (let a = strip (str_or (telegram_charge_id p) []); b = strip (str_or (provider_charge_id p) []) in
      if a \<noteq> [] then a else if b \<noteq> [] then b else made_up)"

definition colons :: "string list \<Rightarrow> string" where
  "colons parts = concat (case parts of [] \<Rightarrow> [] | p # ps \<Rightarrow> p # map (\<lambda>q. CHR '':'' # q) ps)"

text \<open>
  The wallet's share of a subscription: the charge it makes is of zero dollars, whatever the share.
\<close>

definition debit_subscription_wallet_usd :: "int \<Rightarrow> int \<Rightarrow> string \<Rightarrow> dict option \<Rightarrow> (bool \<times> pyfloat \<times> rat) act" where
  "debit_subscription_wallet_usd uid wallet_payment key metadata =
     (if wallet_payment \<le> 0 then ret (True, 0, 0)
      else bind (charge_generic_usage_toman uid (Some 0) ''subscription_wallet_payment''
                   ''subscription payment from toman wallet'' None (Some key)
                   (Some (dict_merge [(''wallet_payment_toman'', JInt wallet_payment)]
                      (case metadata of None \<Rightarrow> [] | Some m \<Rightarrow> m))) True) (\<lambda>r. ret (g_ok r, 0, 0)))"

definition toman_balance :: "int \<Rightarrow> int act" where
  "toman_balance uid =
     bind (get_or_create_billing_account uid) (\<lambda>(_, a).
     ret (or0 (gift_balance_toman a) + or0 (paid_balance_toman a)))"

text \<open>
  The session part of the two handlers answers whether the update is to be marked completed: an
  early return leaves it unmarked.
\<close>

definition subscription_payment_session ::
  "instant \<Rightarrow> telegram_user \<Rightarrow> subscription_payload \<Rightarrow> successful_payment \<Rightarrow> bool act" where
  "subscription_payment_session now who payload p =
     (let charge = charge_id_of p (colons [''sub'', str_int (tu_id who), str_int (sp_plan_id payload),
             str_int (or0 (pay_total_amount p)), str_int (now div 1000000)]);
          key = ''subscription:bale:'' @ charge
      in bind (get_user now (tu_id who) (Some (tu_first_name who)) (Some (tu_username who))) (\<lambda>uid.
         bind (query (\<lambda>d. t_get (subscription_plans d) (sp_plan_id payload))) (\<lambda>found.
         case found of
           None \<Rightarrow> andthen (send (ReplyText ''payment recorded, plan not found'')) (ret False)
         | Some plan \<Rightarrow>
             bind (live_subscription now uid) (\<lambda>active.
             bind (query (\<lambda>d. t_first (\<lambda>_ e. tl_idempotency_key e \<in> {Some (key @ '':payment''), Some key})
                     (toman_ledger d))) (\<lambda>known.
             if active \<noteq> None \<and> known = None
             then andthen (send (ReplyText ''payment recorded, a subscription is already active'')) (ret False)
             else
             bind (debit_subscription_wallet_usd uid (sp_wallet_payment_toman payload) (key @ '':wallet-usd'')
                (Some [(''plan_id'', JInt (sp_plan_id payload)), (''payment_platform'', JStr ''bale''),
                       (''total_amount_rial'', JInt (or0 (pay_total_amount p)))])) (\<lambda>(wallet_ok, _, _).
             if \<not> wallet_ok
             then andthen (send (ReplyText ''payment recorded, wallet share not deducted'')) (ret False)
             else
             bind (purchase_toman_subscription now uid (sp_plan_id payload, plan) (Some key) True (Some 0) False True)
             (\<lambda>r.
             if \<not> p_ok r
             then andthen (send (ReplyText (''payment recorded, subscription not activated: '' @ str_or (p_reason r) ''unknown'')))
                    (ret False)
             else
             bind (toman_balance uid) (\<lambda>_.
             andthen (send (ReplyText ''subscription paid'')) (ret True)))))))))"

definition topup_payment_session ::
  "instant \<Rightarrow> telegram_user \<Rightarrow> toman_topup_payload \<Rightarrow> successful_payment \<Rightarrow> bool act" where
  "topup_payment_session now who payload p =
     (let charge = charge_id_of p (colons [''ttop'', str_int (tu_id who), str_int (tt_credit_amount_toman payload),
             str_int (or0 (pay_total_amount p)), str_int (now div 1000000)]);
          key = ''toman_topup:bale:'' @ charge;
          js = (\<lambda>x. case x of None \<Rightarrow> JNull | Some s \<Rightarrow> JStr s)
      in bind (get_user now (tu_id who) (Some (tu_first_name who)) (Some (tu_username who))) (\<lambda>uid.
         bind (quote_toman_topup_payment now uid (tt_credit_amount_toman payload)) (\<lambda>q.
         if payment_due_toman q \<noteq> tt_payment_due_toman payload
         then andthen (send (ReplyText ''payment recorded, the discount changed'')) (ret False)
         else
         bind (apply_toman_topup now uid (tt_credit_amount_toman payload) (Some key)
            (Some [(''payment_platform'', JStr ''bale''), (''payment_currency'', JStr (pay_currency p)),
                   (''invoice_payload'', js (pay_payload p)),
                   (''telegram_payment_charge_id'', js (telegram_charge_id p)),
                   (''provider_payment_charge_id'', js (provider_charge_id p)),
                   (''total_amount_rial'', JInt (or0 (pay_total_amount p))),
                   (''payment_due_toman'', JInt (tt_payment_due_toman payload))]) True) (\<lambda>r.
         if \<not> t_ok r then andthen (send (ReplyText ''payment recorded, credit not added'')) (ret False)
         else andthen (send (ReplyText ''credit added'')) (ret True)))))"

definition in_session :: "instant \<Rightarrow> int option \<Rightarrow> bool act \<Rightarrow> unit act" where
  "in_session now upd m =
     bind (run_request m) (\<lambda>finished. on_cond finished (run_request (mark_update_completed now upd)))"

definition handle_successful_payment ::
  "instant \<Rightarrow> int option \<Rightarrow> telegram_user option \<Rightarrow> successful_payment option \<Rightarrow> unit act" where
  "handle_successful_payment now upd sender payment =
     (case payment of
        None \<Rightarrow> ret ()
      | Some p \<Rightarrow>
          (case parse_payment_payload (pay_payload p) of
             None \<Rightarrow> send (ReplyText ''payment recorded, invalid payload'')
           | Some payload \<Rightarrow>
               if or0 (pay_total_amount p) \<noteq> payload_total payload
               then send (ReplyText ''payment recorded, amount differs from the payload'')
               else (case sender of
                  None \<Rightarrow> send (ReplyText ''receipt of another account'')
                | Some who \<Rightarrow>
                    if tu_id who \<noteq> payload_user payload then send (ReplyText ''receipt of another account'')
                    else (case payload of
                       Subscription sp \<Rightarrow> in_session now upd (subscription_payment_session now who sp p)
                     | TomanTopup tt \<Rightarrow> in_session now upd (topup_payment_session now who tt p)
                     | Topup _ \<Rightarrow> andthen (send (ReplyText ''dollar top-ups are no longer supported''))
                                  (run_request (mark_update_completed now upd))))))"

section \<open>A payment is credited once\<close>

text \<open>Steps that commit nothing.\<close>

definition uncommitted :: "'a act \<Rightarrow> bool" where
  "uncommitted m \<longleftrightarrow> (\<forall>s. durable (snd (m s)) = durable s)"

named_theorems uncommitted_rules

lemma uncommitted_basic [uncommitted_rules]:
  "uncommitted (ret x)" "uncommitted (raise e)" "uncommitted (query f)" "uncommitted (update g)"
  "uncommitted rollback" "uncommitted (send msg)"
  by (simp_all add: uncommitted_def run_simps)

lemma uncommitted_bind [uncommitted_rules]:
  assumes "uncommitted m" and "\<And>x. uncommitted (f x)"
  shows "uncommitted (bind m f)"
  unfolding uncommitted_def
proof
  fix s
  obtain r t where m: "m s = (r, t)" by fastforce
  have "durable t = durable s" using assms(1) m by (metis uncommitted_def snd_conv)
  with m assms(2) show "durable (snd (bind m f s)) = durable s"
    by (cases r) (auto simp: bind_def uncommitted_def)
qed

lemma uncommitted_andthen [uncommitted_rules]: "uncommitted m \<Longrightarrow> uncommitted k \<Longrightarrow> uncommitted (andthen m k)"
  unfolding andthen_def by (rule uncommitted_bind)

lemma uncommitted_if [uncommitted_rules]: "uncommitted m \<Longrightarrow> uncommitted k \<Longrightarrow> uncommitted (if b then m else k)"
  by simp

lemma uncommitted_option [uncommitted_rules]:
  "uncommitted m \<Longrightarrow> (\<And>y. uncommitted (g y)) \<Longrightarrow> uncommitted (case x of None \<Rightarrow> m | Some y \<Rightarrow> g y)"
  by (cases x) simp_all

lemma uncommitted_prod [uncommitted_rules]:
  "(\<And>a b. uncommitted (g a b)) \<Longrightarrow> uncommitted (case x of (a, b) \<Rightarrow> g a b)"
  by (cases x) simp_all

lemma uncommitted_scalar [uncommitted_rules]: "uncommitted (scalar_one_or_none xs)"
  by (cases xs rule: scalar_one_or_none.cases) (simp_all add: uncommitted_basic)

lemma uncommitted_billing [uncommitted_rules]:
  "uncommitted (get_or_create_billing_account uid)" "uncommitted get_or_create_subscription_config"
  "uncommitted (live_subscription now uid)" "uncommitted (save_account aid a)" "uncommitted (add_ledger e)"
  by (simp_all add: uncommitted_def get_account_run get_config_run live_subscription_def run_simps save_account_run
      add_ledger_run)

lemma uncommitted_existing [uncommitted_rules]: "uncommitted (existing_ledger k)"
  unfolding existing_ledger_def by (intro uncommitted_rules)

lemma uncommitted_quote [uncommitted_rules]: "uncommitted (quote_toman_topup_payment now uid n)"
  unfolding quote_toman_topup_payment_def Let_def by (intro uncommitted_rules)

lemma hoare_uncommitted:
  "uncommitted m \<Longrightarrow> hoare (\<lambda>z. durable z = D) m (\<lambda>_ z. durable z = D) (\<lambda>_ z. durable z = D)"
  by (auto simp: hoare_def uncommitted_def split: prod.splits sum.splits) (metis snd_conv)+

lemma topup_durable:
  "hoare (\<lambda>z. durable z = D) (apply_toman_topup now uid n k md True)
     (\<lambda>r z. durable z = (if t_reason r = None then work z else D)) (\<lambda>_ z. durable z = D)"
proof -
  have post: "hoare (\<lambda>z. durable z = D)
      (andthen (save_account aid a) (bind (add_ledger e) (\<lambda>x. andthen (commit_or_flush True) (ret (f x)))))
      (\<lambda>r z. durable z = (if t_reason r = None then work z else D)) (\<lambda>_ z. durable z = D)"
    if "\<And>x. t_reason (f x) = None" for aid a e and f :: "toman_ledger_entry obj \<Rightarrow> topup_result"
    by (rule hoare_andthen [OF hoare_uncommitted [OF uncommitted_billing(4)]],
        rule hoare_bind [OF hoare_uncommitted [OF uncommitted_billing(5)]])
       (auto simp: hoare_def run_simps that)
  show ?thesis
    unfolding apply_toman_topup_def Let_def
    by (rule hoare_bind [OF hoare_uncommitted] uncommitted_rules)+
       (rule hoare_option hoare_if post hoare_ret | simp)+
qed

lemma topup_run_durable:
  assumes "k \<noteq> []"
  shows "hoare (\<lambda>z. work z = d \<and> durable z = D) (apply_toman_topup now uid n (Some k) md True)
    (\<lambda>r t. topup_outcome uid d n k r t \<and> durable t = (if t_reason r = None then work t else D))
    (\<lambda>_ t. durable t = D)"
  by (rule hoare_post [OF hoare_conj [OF topup_run [OF assms] topup_durable]]) simp_all

text \<open>What a delivery of a top-up payment leaves in the database.\<close>

definition same_books_of :: "int \<Rightarrow> db \<Rightarrow> db \<Rightarrow> bool" where
  "same_books_of uid d d' \<longleftrightarrow>
     gift_of d' uid = gift_of d uid \<and> paid_of d' uid = paid_of d uid \<and> toman_ledger d' = toman_ledger d"

definition key_rows :: "string \<Rightarrow> db \<Rightarrow> toman_ledger_entry obj list" where
  "key_rows k d = t_select (\<lambda>_ e. tl_idempotency_key e = Some k) (toman_ledger d)"

definition credited :: "int \<Rightarrow> int \<Rightarrow> string \<Rightarrow> db \<Rightarrow> db \<Rightarrow> bool" where
  "credited uid n k d d' \<longleftrightarrow>
     key_rows k d = [] \<and> length (key_rows k d') = 1 \<and>
     paid_of d' uid = paid_of d uid + n \<and> gift_of d' uid = gift_of d uid"

lemma topup_outcome_books:
  assumes "topup_outcome uid d n k r t"
  shows "if t_reason r = None then credited uid n k d (work t) else same_books_of uid d (work t)"
  using assms
  by (auto simp: topup_outcome_def credited_def same_books_of_def money_kept_def key_rows_def t_select_add
      split: option.splits)

lemma known_user:
  assumes "user_of_telegram tg d = Some (uid, u)" and "work s = d" and "durable s = d"
  shows "\<exists>us v. get_user now tg first uname s =
      (Inr uid, s\<lparr>work := d\<lparr>users := us\<rparr>, durable := d\<lparr>users := us\<rparr>\<rparr>) \<and>
    user_of_telegram tg (d\<lparr>users := us\<rparr>) = Some (uid, v)"
proof (cases "refreshed_user u first uname = u")
  case True
  with assms show ?thesis
    by (intro exI [of _ "users d"] exI [of _ u]) (simp add: get_user_def run_simps Let_def)
next
  case False
  let ?v = "refreshed_user u first uname"
  have f: "t_first (\<lambda>_ x. telegram_user_id x = Some tg) (users d) = Some (uid, u)"
    using assms(1) by (simp add: user_of_telegram_def)
  have "telegram_user_id ?v = telegram_user_id u"
    by (simp add: refreshed_user_def Let_def mark_onboarding_pending_def)
  then have "telegram_user_id ?v = Some tg" using t_first_SomeD [OF f] by simp
  from t_first_put [OF f this] False assms show ?thesis
    by (intro exI [of _ "t_put uid ?v (users d)"] exI [of _ ?v])
       (simp add: get_user_def run_simps Let_def save_user_def user_of_telegram_def)
qed

lemma books_with_users [simp]:
  "gift_of (d\<lparr>users := us\<rparr>) = gift_of d" "paid_of (d\<lparr>users := us\<rparr>) = paid_of d"
  "key_rows k (d\<lparr>users := us\<rparr>) = key_rows k d"
  by (simp_all add: gift_of_def paid_of_def account_of_def key_rows_def fun_eq_iff)

lemma same_with_users [simp]:
  "same_books_of uid (d\<lparr>users := us\<rparr>) = same_books_of uid d" "credited uid n k (d\<lparr>users := us\<rparr>) = credited uid n k d"
  by (simp_all add: same_books_of_def credited_def fun_eq_iff)

definition payment_key :: "string \<Rightarrow> string" where
  "payment_key charge = ''toman_topup:bale:'' @ charge"

definition delivered :: "int \<Rightarrow> int \<Rightarrow> int \<Rightarrow> string \<Rightarrow> db \<Rightarrow> db \<Rightarrow> bool" where
  "delivered tg uid n k d d' \<longleftrightarrow>
     (\<exists>v. user_of_telegram tg d' = Some (uid, v)) \<and> (same_books_of uid d d' \<or> credited uid n k d d')"

lemma leaves_users [leaves_rules]:
  "leaves users (get_or_create_billing_account uid)" "leaves users get_or_create_subscription_config"
  "leaves users (live_subscription now uid)" "leaves users (save_account aid a)" "leaves users (add_ledger e)"
  by (auto simp: leaves_def get_account_run get_config_run live_subscription_def run_simps save_account_run
      add_ledger_run open_account_def open_config_def split: option.splits if_splits)

lemma leaves_users_topup [leaves_rules]:
  "leaves users (existing_ledger k)" "leaves users (quote_toman_topup_payment now uid n)"
  "leaves users (apply_toman_topup now uid n k md c)"
  unfolding existing_ledger_def quote_toman_topup_payment_def apply_toman_topup_def Let_def
  by (intro leaves_rules; simp)+

lemma opened_books: "opened uid d z \<Longrightarrow> same_books_of uid (work z) d' \<Longrightarrow> same_books_of uid d d'"
  "opened uid d z \<Longrightarrow> credited uid n k (work z) d' \<Longrightarrow> credited uid n k d d'"
  using opened_kept [of uid d z] by (auto simp: same_books_of_def credited_def money_kept_def key_rows_def)

text \<open>The price a quote in the state \<open>d\<close> asks for.\<close>

definition quoted :: "instant \<Rightarrow> int \<Rightarrow> int \<Rightarrow> db \<Rightarrow> topup_quote" where
  "quoted now uid n d = (case fst (quote_toman_topup_payment now uid n (open_session d)) of Inr q \<Rightarrow> q)"

lemma quote_runs:
  "\<exists>t. quote_toman_topup_payment now uid n z = (Inr (quoted now uid n (work z)), t) \<and>
     opened uid (work z) t \<and> durable t = durable z \<and> users (work t) = users (work z)"
proof -
  have "\<exists>q t. quote_toman_topup_payment now uid n z = (Inr q, t) \<and> opened uid (work z) t \<and>
      durable t = durable z \<and> users (work t) = users (work z) \<and> q = quoted now uid n (work z)"
    by (auto simp: quoted_def quote_toman_topup_payment_def run_simps get_account_run get_config_run Let_def
        live_subscription_def opened_def money_tables_def open_session_def open_config_frame open_account_frame)
  then show ?thesis by blast
qed

lemma credit_amount_quoted: "credit_amount_toman (quoted now uid n d) = max 0 n"
  by (auto simp: quoted_def quote_toman_topup_payment_def run_simps get_account_run get_config_run Let_def
      live_subscription_def open_session_def positive_int_def)

lemma fresh_topup_succeeds:
  assumes "key_rows k (work z) = []" and "k \<noteq> []" and "0 < n"
  shows "\<exists>r t. apply_toman_topup now uid n (Some k) md c z = (Inr r, t) \<and> t_reason r = None \<and> t_ok r"
proof -
  let ?z = "z\<lparr>work := open_account uid (work z)\<rparr>"
  obtain t where q: "quote_toman_topup_payment now uid n ?z = (Inr (quoted now uid n (work ?z)), t)"
    "opened uid (work ?z) t"
    using quote_runs [of now uid n ?z] by blast
  have e: "existing_ledger (Some k) ?z = (Inr None, ?z)"
    using assms(1,2) by (cases k) (simp_all add: existing_ledger_def run_simps key_rows_def str_or_def)
  have "\<not> ledger_key_taken (work t) (Some k)"
    using assms(1) q(2) by (simp add: opened_def money_tables_def ledger_key_taken_def key_rows_def t_select_Nil_iff)
  with assms(3) show ?thesis
    by (auto simp: apply_toman_topup_def get_account_run bind_run [of "get_or_create_billing_account uid"]
        bind_run [of "existing_ledger (Some k)"] e bind_run [of "quote_toman_topup_payment now uid n"] q
        credit_amount_quoted Let_def run_simps save_account_run add_ledger_run ledger_key_taken_def
        new_ledger_entry_def)
qed

lemma topup_then:
  assumes "opened uid d z" and "durable z = d" and "users (work z) = users d" and "k \<noteq> []"
    and "bind (apply_toman_topup now uid n (Some k) md True)
      (\<lambda>r. if \<not> t_ok r then andthen (send a) (ret False) else andthen (send b) (ret True)) z = (r, t)"
  shows "users (durable t) = users d \<and> (same_books_of uid d (durable t) \<or> credited uid n k d (durable t)) \<and>
    (key_rows k d = [] \<and> 0 < n \<longrightarrow> credited uid n k d (durable t))"
proof -
  have rows: "key_rows k (work z) = key_rows k d"
    using assms(1) opened_kept [of uid d z] by (simp add: key_rows_def money_kept_def)
  note fresh = fresh_topup_succeeds [OF _ assms(4), of z n now uid md True, unfolded rows]
  obtain x y where run: "apply_toman_topup now uid n (Some k) md True z = (x, y)" by fastforce
  have t: "durable t = durable y" using assms(5) run by (auto simp: run_simps split: sum.splits if_splits)
  have refl: "same_books_of uid d d" by (simp add: same_books_of_def)
  show ?thesis
  proof (cases x)
    case (Inl e)
    have "durable y = d"
      using hoareE [OF topup_durable, of z d now uid n "Some k" md e y] run Inl assms(2) by simp
    with t refl fresh run Inl show ?thesis by auto
  next
    case (Inr res)
    have out: "topup_outcome uid (work z) n k res y" "durable y = (if t_reason res = None then work y else d)"
      using hoareD [OF topup_run_durable [OF assms(4)], of z "work z" d now uid n md res y] run Inr assms(2)
      by simp_all
    have "users (work y) = users d"
      using leavesD [OF leaves_users_topup(3)] run Inr assms(3) by fastforce
    with topup_outcome_books [OF out(1)] out(2) t refl opened_books [OF assms(1)] fresh run Inr show ?thesis
      by (auto split: if_splits)
  qed
qed

lemma account_users_frame [simp]:
  "account_of (d\<lparr>users := us\<rparr>) uid = account_of d uid"
  "open_account uid (d\<lparr>users := us\<rparr>) = (open_account uid d)\<lparr>users := us\<rparr>"
  "the_account (d\<lparr>users := us\<rparr>) uid = the_account d uid"
  "config_of (d\<lparr>users := us\<rparr>) = config_of d"
  by (simp_all add: account_of_def open_account_def the_account_def config_of_def)

lemma quoted_users [simp]: "quoted now uid n (d\<lparr>users := us\<rparr>) = quoted now uid n d"
  by (simp add: quoted_def quote_toman_topup_payment_def run_simps get_account_run get_config_run Let_def
      live_subscription_def open_session_def)

lemma topup_session_run:
  fixes now :: instant and payload :: toman_topup_payload
  assumes "user_of_telegram (tu_id who) d = Some (uid, u)" and "work s = d" and "durable s = d"
    and "charge_id_of p made_up = charge" and "strip (str_or (telegram_charge_id p) []) \<noteq> []"
  defines "d' \<equiv> durable (snd (topup_payment_session now who payload p s))"
  shows "delivered (tu_id who) uid (tt_credit_amount_toman payload) (payment_key charge) d d'"
    and "key_rows (payment_key charge) d = [] \<Longrightarrow> 0 < tt_credit_amount_toman payload \<Longrightarrow>
      payment_due_toman (quoted now uid (tt_credit_amount_toman payload) d) = tt_payment_due_toman payload \<Longrightarrow>
      credited uid (tt_credit_amount_toman payload) (payment_key charge) d d'"
proof -
  have key: "charge_id_of p x = charge" for x
    using assms(4,5) by (simp add: charge_id_of_def Let_def)
  obtain us v where get: "get_user now (tu_id who) (Some (tu_first_name who)) (Some (tu_username who)) s =
      (Inr uid, s\<lparr>work := d\<lparr>users := us\<rparr>, durable := d\<lparr>users := us\<rparr>\<rparr>)"
    and v: "user_of_telegram (tu_id who) (d\<lparr>users := us\<rparr>) = Some (uid, v)"
    using known_user [OF assms(1-3)] by blast
  let ?s1 = "s\<lparr>work := d\<lparr>users := us\<rparr>, durable := d\<lparr>users := us\<rparr>\<rparr>"
  let ?n = "tt_credit_amount_toman payload"
  obtain z where z: "quote_toman_topup_payment now uid ?n ?s1 = (Inr (quoted now uid ?n (d\<lparr>users := us\<rparr>)), z)"
    "opened uid (d\<lparr>users := us\<rparr>) z" "durable z = d\<lparr>users := us\<rparr>" "users (work z) = us"
    using quote_runs [of now uid ?n ?s1] by auto
  let ?t = "snd (topup_payment_session now who payload p s)"
  have "users (durable ?t) = us \<and>
      (same_books_of uid (d\<lparr>users := us\<rparr>) (durable ?t) \<or>
       credited uid ?n (payment_key charge) (d\<lparr>users := us\<rparr>) (durable ?t)) \<and>
      (key_rows (payment_key charge) d = [] \<and> 0 < ?n \<and>
       payment_due_toman (quoted now uid ?n d) = tt_payment_due_toman payload \<longrightarrow>
       credited uid ?n (payment_key charge) (d\<lparr>users := us\<rparr>) (durable ?t))"
  proof (cases "payment_due_toman (quoted now uid ?n (d\<lparr>users := us\<rparr>)) = tt_payment_due_toman payload")
    case False
    then have "durable ?t = d\<lparr>users := us\<rparr>"
      by (simp add: topup_payment_session_def Let_def key run_simps get z)
    with False show ?thesis by (simp add: same_books_of_def)
  next
    case True
    have g: "bind (get_user now (tu_id who) (Some (tu_first_name who)) (Some (tu_username who))) f s = f uid ?s1"
      and q: "bind (quote_toman_topup_payment now uid ?n) h ?s1 = h (quoted now uid ?n (d\<lparr>users := us\<rparr>)) z"
      for f :: "int \<Rightarrow> bool act" and h :: "topup_quote \<Rightarrow> bool act"
      by (simp_all add: bind_run get z(1))
    have "payment_key charge \<noteq> []" by (simp add: payment_key_def)
    note outcome = topup_then [OF z(2,3) _ this surjective_pairing]
    show ?thesis
      using outcome z(4) True by (simp add: topup_payment_session_def Let_def key g q payment_key_def)
  qed
  with v show "delivered (tu_id who) uid ?n (payment_key charge) d d'"
    and "key_rows (payment_key charge) d = [] \<Longrightarrow> 0 < ?n \<Longrightarrow>
      payment_due_toman (quoted now uid ?n d) = tt_payment_due_toman payload \<Longrightarrow>
      credited uid ?n (payment_key charge) d d'"
    by (auto simp: delivered_def user_of_telegram_def d'_def)
qed

text \<open>The update is marked in a session of its own.\<close>

lemma mark_session:
  assumes "durable s = work s"
  shows "\<exists>ls. snd (run_request (mark_update_completed now upd) s) =
    s\<lparr>work := (work s)\<lparr>update_logs := ls\<rparr>, durable := (work s)\<lparr>update_logs := ls\<rparr>\<rparr>"
proof (cases upd)
  case None
  with assms show ?thesis
    by (intro exI [of _ "update_logs (work s)"]) (simp add: run_request_def mark_update_completed_def run_simps)
next
  case (Some n)
  show ?thesis
  proof (cases "log_of n (work s)")
    case None
    with assms Some show ?thesis
      by (intro exI [of _ "update_logs (work s)"])
         (simp add: run_request_def mark_update_completed_def run_simps log_of_def)
  next
    case (Some x)
    obtain i r where "x = (i, r)" by fastforce
    with \<open>upd = Some n\<close> Some show ?thesis
      by (intro exI [of _ "t_put i (r\<lparr>log_status := ''completed'', log_completed_at := Some now\<rparr>) (update_logs (work s))"])
         (simp add: run_request_def mark_update_completed_def run_simps log_of_def)
  qed
qed

lemma delivered_with_logs [simp]:
  "delivered tg uid n k d (d'\<lparr>update_logs := ls\<rparr>) = delivered tg uid n k d d'"
  "credited uid n k d (d'\<lparr>update_logs := ls\<rparr>) = credited uid n k d d'"
  by (simp_all add: delivered_def same_books_of_def credited_def gift_of_def paid_of_def account_of_def key_rows_def
      user_of_telegram_def)

lemma in_session_books:
  assumes "durable s = work s"
  shows "\<exists>ls. snd (in_session now upd m s) =
      (snd (m s))\<lparr>work := durable (snd (m s)), durable := durable (snd (m s))\<rparr> \<or>
    snd (in_session now upd m s) =
      (snd (m s))\<lparr>work := (durable (snd (m s)))\<lparr>update_logs := ls\<rparr>,
        durable := (durable (snd (m s)))\<lparr>update_logs := ls\<rparr>\<rparr>"
proof -
  obtain r t where m: "m s = (r, t)" by fastforce
  show ?thesis
    using mark_session [of "t\<lparr>work := durable t\<rparr>" now upd] m
    by (cases r) (auto simp: in_session_def bind_def on_cond_def run_request_def ret_def)
qed

lemma delivered_refl: "user_of_telegram tg d = Some (uid, u) \<Longrightarrow> delivered tg uid n k d d"
  by (simp add: delivered_def same_books_of_def)

lemma delivered_trans: "delivered tg uid n k d d' \<Longrightarrow> delivered tg uid n k d' d'' \<Longrightarrow> delivered tg uid n k d d''"
  by (auto simp: delivered_def same_books_of_def credited_def key_rows_def)

lemma credited_trans: "credited uid n k d d' \<Longrightarrow> delivered tg uid n k d' d'' \<Longrightarrow> credited uid n k d d''"
  by (auto simp: delivered_def same_books_of_def credited_def key_rows_def)

text \<open>One delivery of a payment, in the committed state \<open>d\<close>.\<close>

lemma delivery_run:
  assumes "user_of_telegram (tu_id who) d = Some (uid, u)" and "work s = d" and "durable s = d"
    and "parse_payment_payload (pay_payload p) = Some (TomanTopup tt)"
    and "charge_id_of p made_up = charge" and "strip (str_or (telegram_charge_id p) []) \<noteq> []"
  shows "let t = snd (handle_successful_payment now upd (Some who) (Some p) s);
             n = tt_credit_amount_toman tt; k = payment_key charge
    in work t = durable t \<and> delivered (tu_id who) uid n k d (durable t) \<and>
       (or0 (pay_total_amount p) = tt_total_rial tt \<and> tu_id who = tt_user_id tt \<and> key_rows k d = [] \<and> 0 < n \<and>
        payment_due_toman (quoted now uid n d) = tt_payment_due_toman tt \<longrightarrow> credited uid n k d (durable t))"
proof (cases "or0 (pay_total_amount p) = tt_total_rial tt \<and> tu_id who = tt_user_id tt")
  case True
  have "durable s = work s" using assms(2,3) by simp
  from in_session_books [OF this, of now upd "topup_payment_session now who tt p"]
    topup_session_run [OF assms(1-3,5,6), of tt now] True assms(4)
  show ?thesis by (auto simp: handle_successful_payment_def Let_def)
next
  case False
  with assms(2-4) delivered_refl [OF assms(1)] show ?thesis
    by (auto simp: handle_successful_payment_def Let_def run_simps)
qed

fun deliver :: "telegram_user \<Rightarrow> successful_payment \<Rightarrow> (instant \<times> int option) list \<Rightarrow> session \<Rightarrow> session" where
  "deliver who p [] s = s"
| "deliver who p ((now, upd) # ds) s = deliver who p ds (snd (handle_successful_payment now upd (Some who) (Some p) s))"

lemma deliver_run:
  assumes "user_of_telegram (tu_id who) d = Some (uid, u)" and "work s = d" and "durable s = d"
    and "parse_payment_payload (pay_payload p) = Some (TomanTopup tt)"
    and "charge_id_of p made_up = charge" and "strip (str_or (telegram_charge_id p) []) \<noteq> []"
  shows "work (deliver who p ds s) = durable (deliver who p ds s) \<and>
    delivered (tu_id who) uid (tt_credit_amount_toman tt) (payment_key charge) d (durable (deliver who p ds s))"
  using assms(1-3)
proof (induction ds arbitrary: s d u)
  case Nil
  then show ?case using delivered_refl by auto
next
  case (Cons x ds)
  obtain now upd where x: "x = (now, upd)" by fastforce
  let ?t = "snd (handle_successful_payment now upd (Some who) (Some p) s)"
  have one: "work ?t = durable ?t"
    "delivered (tu_id who) uid (tt_credit_amount_toman tt) (payment_key charge) d (durable ?t)"
    using delivery_run [OF Cons.prems assms(4-6), of now upd] by (simp_all add: Let_def)
  then obtain v where "user_of_telegram (tu_id who) (durable ?t) = Some (uid, v)" by (auto simp: delivered_def)
  from Cons.IH [OF this one(1) refl] delivered_trans [OF one(2)] show ?case by (simp add: x)
qed


definition sample_payment :: successful_payment where
  "sample_payment = \<lparr>pay_payload = Some ''ttop|700|100|125|1250|5'', pay_total_amount = Some 1250,
     pay_currency = ''IRR'', telegram_charge_id = Some ''c1'', provider_charge_id = None\<rparr>"

definition sample_sender :: telegram_user where
  "sample_sender = \<lparr>tu_id = 700, tu_first_name = ''Sara'', tu_username = []\<rparr>"


text \<open>
  C23. The pre-checkout answer guards the payment: it is positive exactly when the invoice text is
  one of the three kinds of payload, with the amount asked for and sent by its user; and a payment
  with data for which it is negative changes neither the database nor the committed state, and
  is answered by one message.
\<close>

theorem refused_checkout_pays_nothing:
  defines "valid \<equiv> \<lambda>raw amt tg. \<exists>payload. parse_payment_payload raw = Some payload \<and>
      or0 amt = payload_total payload \<and> tg = Some (payload_user payload)"
  shows "(\<exists>msg. snd (handle_pre_checkout_query raw amt tg s) =
      s\<lparr>outbox := outbox s @ [AnswerPreCheckout (valid raw amt tg) msg]\<rparr>) \<and>
    (valid (pay_payload p) (pay_total_amount p) (map_option tu_id sender) \<or>
      (\<exists>msg. snd (handle_successful_payment now upd sender (Some p) s) =
        s\<lparr>outbox := outbox s @ [ReplyText msg]\<rparr>))"
proof
  show "\<exists>msg. snd (handle_pre_checkout_query raw amt tg s) =
      s\<lparr>outbox := outbox s @ [AnswerPreCheckout (valid raw amt tg) msg]\<rparr>"
    by (auto simp: handle_pre_checkout_query_def valid_def run_simps split: option.split)
  show "valid (pay_payload p) (pay_total_amount p) (map_option tu_id sender) \<or>
      (\<exists>msg. snd (handle_successful_payment now upd sender (Some p) s) =
        s\<lparr>outbox := outbox s @ [ReplyText msg]\<rparr>)"
    by (auto simp: handle_successful_payment_def valid_def run_simps split: option.split)
qed

section \<open>The wallet's share\<close>

text \<open>Whatever the share of a subscription payment the wallet is to bear, nothing is deducted.\<close>

lemma round_toman_zero: "round_toman 0 = 0"
  using round_half_up_of_int [of 0] by (simp add: round_toman_def)

lemma zero_charge_rule:
  "hoare (\<lambda>z. work z = d) (charge_generic_usage_toman uid (Some 0) ty rs ue key md c)
     (\<lambda>r z. g_ok r \<and> opened uid d z) (\<lambda>_ _. True)"
  unfolding charge_generic_usage_toman_def
proof (rule opened_bind, rule hoare_bind [OF opened_rule [OF leaves_money(2)]], rule hoare_option, goal_cases)
  case (1 x)
  show ?case
    by (rule hoareI) (auto simp: run_simps usd_to_toman_run round_toman_zero opened_def money_tables_def Let_def)
next
  case (2 x e)
  show ?case by (rule hoare_ret) simp
qed

lemma wallet_share_never_deducted:
  assumes "debit_subscription_wallet_usd uid n key md s = (Inr (ok, x, y), t)"
  shows "ok \<and> gift_of (work t) uid = gift_of (work s) uid \<and> paid_of (work t) uid = paid_of (work s) uid"
proof (cases "n \<le> 0")
  case False
  let ?md = "Some (dict_merge [(''wallet_payment_toman'', JInt n)] (case md of None \<Rightarrow> [] | Some m \<Rightarrow> m))"
  obtain r u where c: "charge_generic_usage_toman uid (Some 0) ''subscription_wallet_payment''
      ''subscription payment from toman wallet'' None (Some key) ?md True s = (r, u)" by fastforce
  with assms False obtain q where "r = Inr q" "ok = g_ok q" "u = t"
    by (cases r) (auto simp: debit_subscription_wallet_usd_def run_simps)
  with hoareD [OF zero_charge_rule refl] c have "g_ok q \<and> opened uid (work s) t" by simp
  with opened_kept \<open>ok = g_ok q\<close> show ?thesis by (auto simp: money_kept_def)
qed (use assms in \<open>simp add: debit_subscription_wallet_usd_def run_simps\<close>)

section \<open>The Toman books\<close>

lemma keeps_run_request [keeps_rules]:
  assumes "keeps_books m"
  shows "keeps_books (run_request m)"
proof (rule hoareI)
  fix s assume "in_books s"
  from hoare_run [OF assms this] show "case run_request m s of (Inl e, t) \<Rightarrow> in_books t | (Inr x, t) \<Rightarrow> in_books t"
    by (auto simp: run_request_def on_both_def split: prod.splits sum.splits)
qed

lemma frames_logs [frames_rules]: "frames (update (\<lambda>d. d\<lparr>update_logs := f d\<rparr>))"
  by (rule frames_update) (simp add: same_books_def)

lemma frames_marking [frames_rules]: "frames (mark_update_completed now upd)"
  unfolding mark_update_completed_def by (intro frames_rules; simp)

lemma claim_keeps_books: "keeps_books (claim_update_once now racing u re)"
  unfolding claim_update_once_def Let_def
  by (intro keeps_rules frames_rules [THEN keeps_frames])

lemma keeps_payload:
  "(\<And>a. keeps_books (f a)) \<Longrightarrow> (\<And>b. keeps_books (g b)) \<Longrightarrow> (\<And>c. keeps_books (h c)) \<Longrightarrow>
    keeps_books (case x of Topup a \<Rightarrow> f a | Subscription b \<Rightarrow> g b | TomanTopup c \<Rightarrow> h c)"
  by (cases x) simp_all

lemma get_user_keeps_books: "keeps_books (get_user now tg first uname)"
  unfolding get_user_def Let_def
  by (intro keeps_rules starter_credit_keeps_books frames_rules [THEN keeps_frames] frames_grow_users [THEN keeps_frames])

lemma quote_topup_keeps_books: "keeps_books (quote_toman_topup_payment now uid n)"
  unfolding quote_toman_topup_payment_def Let_def
  by (intro keeps_account hoare_prod keeps_holding keeps_rules frames_rules [THEN keeps_frames]
      frames_live_subscription [THEN keeps_frames])

lemma topup_session_keeps_books: "keeps_books (topup_payment_session now who payload p)"
  unfolding topup_payment_session_def Let_def
  by (intro keeps_rules get_user_keeps_books quote_topup_keeps_books topup_keeps_books frames_rules [THEN keeps_frames])

lemma toman_balance_keeps_books: "keeps_books (toman_balance uid)"
  unfolding toman_balance_def by (intro keeps_account hoare_prod keeps_holding keeps_rules)

lemma subscription_session_keeps_books: "keeps_books (subscription_payment_session now who payload p)"
  unfolding subscription_payment_session_def debit_subscription_wallet_usd_def Let_def
  by (intro keeps_rules get_user_keeps_books purchase_keeps_books generic_charge_keeps_books toman_balance_keeps_books
      frames_rules [THEN keeps_frames] frames_live_subscription [THEN keeps_frames])

lemma payment_keeps_books: "keeps_books (handle_successful_payment now upd sender payment)"
  unfolding handle_successful_payment_def in_session_def
  by (intro keeps_rules keeps_payload topup_session_keeps_books subscription_session_keeps_books
      frames_rules [THEN keeps_frames])

end
