(* ===== verification/Calculator.thy ===== *)
theory Calculator
  imports Float64 Models
begin

text \<open>
  The calculator tool of the chat models (\<open>pbozi/backend/app/llm.py\<close>,
  \<open>SafeCalculatorEvaluator\<close>): arithmetic over a parsed Python expression, with limits that keep
  the numbers small. Python's parser is an argument. Floats are rounded rationals without a
  largest exponent; C's \<open>pow\<close> and the complex numbers a root of a negative number yields come
  from the record \<open>math_lib\<close>.
\<close>

section \<open>Values\<close>

datatype flt = Real pyfloat | Cplx pyfloat pyfloat

datatype num = PInt int | PBool bool | PFlt flt

datatype calc_error =
    CalculatorError string
  | ZeroDivision
  | OtherError string

datatype binop = Add | Sub | Mult | Div | FloorDiv | Modulo | Pow | OtherBin

datatype unop = UAdd | USub | OtherUn

text \<open>The nodes the evaluator distinguishes; \<open>None\<close> is a constant that is no number.\<close>

datatype expr =
    BinOp expr binop expr
  | UnaryOp unop expr
  | Constant "num option"
  | OtherExpr

record math_lib =
  pow_float :: "pyfloat \<Rightarrow> pyfloat \<Rightarrow> calc_error + flt"
  complex_abs :: "pyfloat \<Rightarrow> pyfloat \<Rightarrow> pyfloat"
  complex_op :: "binop \<Rightarrow> flt \<Rightarrow> flt \<Rightarrow> calc_error + flt"
  complex_text :: "pyfloat \<Rightarrow> pyfloat \<Rightarrow> string"

fun as_int :: "num \<Rightarrow> int option" where
  "as_int (PInt n) = Some n"
| "as_int (PBool b) = Some (if b then 1 else 0)"
| "as_int (PFlt _) = None"

fun as_flt :: "num \<Rightarrow> flt" where
  "as_flt (PFlt x) = x"
| "as_flt (PInt n) = Real (fl (of_int n))"
| "as_flt (PBool b) = Real (if b then 1 else 0)"

section \<open>Python's arithmetic\<close>

definition int_op :: "math_lib \<Rightarrow> binop \<Rightarrow> int \<Rightarrow> int \<Rightarrow> calc_error + num" where
  "int_op m op x y =
     (case op of
        Add \<Rightarrow> Inr (PInt (x + y))
      | Sub \<Rightarrow> Inr (PInt (x - y))
      | Mult \<Rightarrow> Inr (PInt (x * y))
      | Div \<Rightarrow> if y = 0 then Inl ZeroDivision else Inr (PFlt (Real (fl (of_int x / of_int y))))
      | FloorDiv \<Rightarrow> if y = 0 then Inl ZeroDivision else Inr (PInt (x div y))
      | Modulo \<Rightarrow> if y = 0 then Inl ZeroDivision else Inr (PInt (x mod y))
      | Pow \<Rightarrow> if 0 \<le> y then Inr (PInt (x ^ nat y))
               else if x = 0 then Inl ZeroDivision
               else map_sum id PFlt (pow_float m (fl (of_int x)) (fl (of_int y)))
      | OtherBin \<Rightarrow> Inl (CalculatorError ''Unsupported operator''))"

text \<open>\<open>fmod\<close>, which is exact, and Python's remainder and floor division of floats.\<close>

definition fmod :: "pyfloat \<Rightarrow> pyfloat \<Rightarrow> pyfloat" where
  "fmod x y = x - y * of_int (trunc (x / y))"

definition float_mod :: "pyfloat \<Rightarrow> pyfloat \<Rightarrow> pyfloat" where
  "float_mod x y =
     (let r = fmod x y in if r \<noteq> 0 \<and> (y < 0) \<noteq> (r < 0) then fl (r + y) else r)"

definition float_floordiv :: "pyfloat \<Rightarrow> pyfloat \<Rightarrow> pyfloat" where
  "float_floordiv x y =
     (let r = fmod x y; q = fl (fl (x - r) / y);
          q' = (if r \<noteq> 0 \<and> (y < 0) \<noteq> (r < 0) then fl (q - 1) else q);
          f = of_int \<lfloor>q'\<rfloor>
      in if q' = 0 then 0 else if 1 / 2 < fl (q' - f) then fl (f + 1) else f)"

definition float_op :: "math_lib \<Rightarrow> binop \<Rightarrow> pyfloat \<Rightarrow> pyfloat \<Rightarrow> calc_error + num" where
  "float_op m op x y =
     (case op of
        Add \<Rightarrow> Inr (PFlt (Real (fl (x + y))))
      | Sub \<Rightarrow> Inr (PFlt (Real (fl (x - y))))
      | Mult \<Rightarrow> Inr (PFlt (Real (fl (x * y))))
      | Div \<Rightarrow> if y = 0 then Inl ZeroDivision else Inr (PFlt (Real (fl (x / y))))
      | FloorDiv \<Rightarrow> if y = 0 then Inl ZeroDivision else Inr (PFlt (Real (float_floordiv x y)))
      | Modulo \<Rightarrow> if y = 0 then Inl ZeroDivision else Inr (PFlt (Real (float_mod x y)))
      | Pow \<Rightarrow> map_sum id PFlt (pow_float m x y)
      | OtherBin \<Rightarrow> Inl (CalculatorError ''Unsupported operator''))"

definition apply_op :: "math_lib \<Rightarrow> binop \<Rightarrow> num \<Rightarrow> num \<Rightarrow> calc_error + num" where
  "apply_op m op a b =
     (case (as_int a, as_int b) of
        (Some x, Some y) \<Rightarrow> int_op m op x y
      | _ \<Rightarrow> (case (as_flt a, as_flt b) of
                (Real x, Real y) \<Rightarrow> float_op m op x y
              | (x, y) \<Rightarrow> map_sum id PFlt (complex_op m op x y)))"

text \<open>\<open>abs(a) > n\<close>: integers and floats compare exactly.\<close>

definition exceeds :: "math_lib \<Rightarrow> num \<Rightarrow> int \<Rightarrow> bool" where
  "exceeds m a n =
     (case as_int a of
        Some x \<Rightarrow> n < \<bar>x\<bar>
      | None \<Rightarrow> (case as_flt a of Real x \<Rightarrow> of_int n < \<bar>x\<bar> | Cplx x y \<Rightarrow> of_int n < complex_abs m x y))"

definition negated :: "num \<Rightarrow> num" where
  "negated a =
     (case as_int a of
        Some x \<Rightarrow> PInt (- x)
      | None \<Rightarrow> PFlt (case as_flt a of Real x \<Rightarrow> Real (- x) | Cplx x y \<Rightarrow> Cplx (- x) (- y)))"

section \<open>The evaluator\<close>

definition NUMBER_LIMIT :: "int" where
  "NUMBER_LIMIT = (10 ^ 12 :: int)"

fun evaluate :: "math_lib \<Rightarrow> expr \<Rightarrow> calc_error + num" where
  "evaluate m (BinOp l op r) =
     (if op = OtherBin then Inl (CalculatorError ''Unsupported operator'')
      else case evaluate m l of
        Inl e \<Rightarrow> Inl e
      | Inr a \<Rightarrow> (case evaluate m r of
          Inl e \<Rightarrow> Inl e
        | Inr b \<Rightarrow>
            if exceeds m a NUMBER_LIMIT \<or> exceeds m b NUMBER_LIMIT
            then Inl (CalculatorError ''Numbers are too large'')
            else if op = Pow \<and> exceeds m b 10 then Inl (CalculatorError ''Exponent is too large'')
            else apply_op m op a b))"
| "evaluate m (UnaryOp op e) =
     (if op = OtherUn then Inl (CalculatorError ''Unsupported unary operator'')
      else case evaluate m e of
        Inl err \<Rightarrow> Inl err
      | Inr a \<Rightarrow> Inr (if op = USub then negated a else (case as_int a of Some x \<Rightarrow> PInt x | None \<Rightarrow> a)))"
| "evaluate m (Constant (Some a)) = Inr a"
| "evaluate m (Constant None) = Inl (CalculatorError ''Only numbers are allowed'')"
| "evaluate m OtherExpr = Inl (CalculatorError ''Unsupported expression'')"

section \<open>The tool\<close>

text \<open>The exponent of the first digit of a positive number in decimal notation.\<close>

definition decimal_exponent :: "rat \<Rightarrow> int" where
  "decimal_exponent x =
     (if 1 \<le> x then int (length (digits_of (nat \<lfloor>x\<rfloor>))) - 1
      else - int (length (digits_of (nat (\<lceil>1 / x\<rceil> - 1)))))"

definition pow10 :: "int \<Rightarrow> rat" where
  "pow10 e = (if 0 \<le> e then 10 ^ nat e else 1 / 10 ^ nat (- e))"

definition strip_zeros :: "string \<Rightarrow> string" where
  "strip_zeros s = rev (dropWhile (\<lambda>c. c = CHR ''0'') (rev s))"

definition with_point :: "string \<Rightarrow> string \<Rightarrow> string" where
  "with_point a b = (if strip_zeros b = [] then a else a @ ''.'' @ strip_zeros b)"

text \<open>\<open>format(x, ".12g")\<close>: twelve significant digits, rounded half to even.\<close>

definition format_g12 :: "pyfloat \<Rightarrow> string" where
  "format_g12 x =
     (if x = 0 then ''0''
      else let e0 = decimal_exponent \<bar>x\<bar>;
               n0 = round_half_even (\<bar>x\<bar> * pow10 (11 - e0));
               e = (if n0 = 10 ^ 12 then e0 + 1 else e0);
               ds = digits_of (nat (if n0 = 10 ^ 12 then 10 ^ 11 else n0));
               body =
                 (if e < - 4 \<or> 12 \<le> e
                  then with_point (take 1 ds) (drop 1 ds) @ (if e < 0 then ''e-'' else ''e+'') @
                       (let t = digits_of (nat \<bar>e\<bar>) in if length t < 2 then CHR ''0'' # t else t)
                  else if 0 \<le> e then with_point (take (nat e + 1) ds) (drop (nat e + 1) ds)
                  else with_point ''0'' (replicate (nat (- e) - 1) (CHR ''0'') @ ds))
           in if x < 0 then CHR ''-'' # body else body)"

fun render :: "math_lib \<Rightarrow> num \<Rightarrow> string" where
  "render m (PInt n) = str_int n"
| "render m (PBool b) = (if b then ''True'' else ''False'')"
| "render m (PFlt (Real x)) = format_g12 x"
| "render m (PFlt (Cplx x y)) = complex_text m x y"

definition run_calculator_tool :: "math_lib \<Rightarrow> (string \<Rightarrow> calc_error + expr) \<Rightarrow> dict \<Rightarrow> calc_error + (string \<times> string)" where
  "run_calculator_tool m parse arguments =
     (case dict_get arguments ''expression'' of
        JStr s \<Rightarrow>
          if strip s = [] then Inl (CalculatorError ''expression is required'')
          else if 200 < length s then Inl (CalculatorError ''expression is too long'')
          else (case parse s of
            Inl e \<Rightarrow> Inl e
          | Inr tree \<Rightarrow> (case evaluate m tree of Inl e \<Rightarrow> Inl e | Inr a \<Rightarrow> Inr (s, render m a)))
      | _ \<Rightarrow> Inl (CalculatorError ''expression is required''))"

section \<open>The numbers stay small\<close>

text \<open>The largest integer literal of an expression.\<close>

fun largest_literal :: "expr \<Rightarrow> int" where
  "largest_literal (BinOp l _ r) = max (largest_literal l) (largest_literal r)"
| "largest_literal (UnaryOp _ e) = largest_literal e"
| "largest_literal (Constant (Some a)) = (case as_int a of None \<Rightarrow> 0 | Some x \<Rightarrow> \<bar>x\<bar>)"
| "largest_literal _ = 0"

lemma largest_literal_nonneg [simp]: "0 \<le> largest_literal e"
  by (induction e rule: largest_literal.induct) (auto split: option.split)

lemma power_small:
  assumes "\<bar>x\<bar> \<le> 10 ^ 12" and "k \<le> 10"
  shows "\<bar>x ^ k\<bar> \<le> (10 :: int) ^ 120"
proof -
  have "\<bar>x\<bar> ^ k \<le> (10 ^ 12) ^ k" using assms(1) by (rule power_mono) simp
  also have "\<dots> \<le> (10 ^ 12) ^ 10" using assms(2) by (rule power_increasing) simp
  also have "\<dots> = (10 :: int) ^ 120" by (simp flip: power_mult)
  finally show ?thesis by (simp add: power_abs)
qed

lemma mod_small: "y \<noteq> 0 \<Longrightarrow> \<bar>x mod y\<bar> \<le> \<bar>y\<bar>" for x y :: int
  using abs_mod_less [of y x] by simp

lemma div_small_pos:
  fixes x y :: int
  assumes "0 < y"
  shows "\<bar>x div y\<bar> \<le> \<bar>x\<bar>"
proof -
  let ?q = "x div y"
  have x: "x = ?q * y + x mod y" and r: "0 \<le> x mod y" "x mod y < y" using assms by simp_all
  show ?thesis
  proof (cases "0 \<le> ?q")
    case True
    then have "?q * 1 \<le> ?q * y" using assms by (intro mult_left_mono) simp_all
    with x r(1) True show ?thesis by linarith
  next
    case False
    then have "(?q + 1) * y \<le> (?q + 1) * 1" using assms by (intro mult_left_mono_neg) simp_all
    moreover have "(?q + 1) * y = ?q * y + y" by (simp add: distrib_right)
    with x r(2) have "x < (?q + 1) * y" by linarith
    ultimately have "x \<le> ?q" by simp
    with False show ?thesis by simp
  qed
qed

lemma div_small: "\<bar>x div y\<bar> \<le> \<bar>x\<bar>" for x y :: int
  using div_small_pos [of y x] div_small_pos [of "- y" "- x"] by (cases "y = 0") (auto simp: linorder_neq_iff)

lemma int_op_small:
  assumes "\<bar>x\<bar> \<le> NUMBER_LIMIT" and "\<bar>y\<bar> \<le> NUMBER_LIMIT" and "op = Pow \<longrightarrow> \<bar>y\<bar> \<le> 10"
    and "int_op m op x y = Inr a" and "as_int a = Some v"
  shows "\<bar>v\<bar> \<le> 10 ^ 120"
proof -
  have lim: "\<bar>x\<bar> \<le> 10 ^ 12" "\<bar>y\<bar> \<le> 10 ^ 12" using assms(1,2) by (simp_all add: NUMBER_LIMIT_def)
  have prod: "\<bar>x * y\<bar> \<le> 10 ^ 12 * 10 ^ 12"
    unfolding abs_mult using lim by (intro mult_mono) simp_all
  show ?thesis
  proof (cases op)
    case Pow
    have "map_sum id PFlt z = Inr a \<Longrightarrow> False" for z :: "calc_error + flt"
      using assms(5) by (cases z) auto
    with Pow assms(3-5) power_small [OF lim(1), of "nat y"] show ?thesis
      by (auto simp: int_op_def split: if_splits)
  qed (use assms(4,5) lim prod mod_small [of y x] div_small [of x y] in
      \<open>auto simp: int_op_def split: if_splits\<close>)
qed

lemma apply_op_small:
  assumes "\<not> exceeds m a NUMBER_LIMIT" and "\<not> exceeds m b NUMBER_LIMIT" and "op = Pow \<longrightarrow> \<not> exceeds m b 10"
    and "apply_op m op a b = Inr c" and "as_int c = Some v"
  shows "\<bar>v\<bar> \<le> 10 ^ 120"
proof (cases "\<exists>x y. as_int a = Some x \<and> as_int b = Some y")
  case True
  then obtain x y where "as_int a = Some x" "as_int b = Some y" by blast
  with assms int_op_small [of x y op m c v] show ?thesis by (auto simp: apply_op_def exceeds_def)
next
  case False
  have no: "map_sum id PFlt z = Inr c \<Longrightarrow> False" for z :: "calc_error + flt"
    using assms(5) by (cases z) auto
  have "float_op m op x y = Inr c \<Longrightarrow> False" for x y
    using assms(5) no by (cases op) (auto simp: float_op_def split: if_splits)
  with False no assms(4) show ?thesis by (auto simp: apply_op_def split: option.splits flt.splits)
qed

text \<open>
  C24. Whatever expression a model asks to evaluate, an integer it yields lies within
  \<open>10\<^bsup>120\<^esup>\<close>, or within the largest integer literal of the expression when that is larger:
  no sequence of powers and products builds a number that takes long to compute or print.
\<close>

theorem calculator_bounded:
  assumes "evaluate m e = Inr a" and "as_int a = Some v"
  shows "\<bar>v\<bar> \<le> max (10 ^ 120) (largest_literal e)"
  using assms
proof (induction e arbitrary: a v)
  case (BinOp l op r)
  then obtain x y where "evaluate m l = Inr x" "evaluate m r = Inr y" and
    g: "\<not> exceeds m x NUMBER_LIMIT" "\<not> exceeds m y NUMBER_LIMIT" "op = Pow \<longrightarrow> \<not> exceeds m y 10"
    "apply_op m op x y = Inr a"
    by (auto split: sum.splits if_splits)
  from apply_op_small [OF g BinOp.prems(2)] show ?case by simp
next
  case (UnaryOp op e)
  then obtain b where b: "evaluate m e = Inr b" and
    a: "a = (if op = USub then negated b else (case as_int b of Some x \<Rightarrow> PInt x | None \<Rightarrow> b))"
    by (auto split: sum.splits if_splits)
  then obtain x where "as_int b = Some x" "\<bar>x\<bar> = \<bar>v\<bar>"
    using UnaryOp.prems(2) by (auto simp: negated_def split: option.splits if_splits)
  with UnaryOp.IH [OF b] show ?case by simp
next
  case (Constant c)
  then show ?case by (cases c) auto
qed simp

text \<open>\<open>-7 ** 3 + 10 // 4\<close>, with the powers of floats left to nobody.\<close>

definition no_lib :: math_lib where
  "no_lib = \<lparr>pow_float = (\<lambda>_ _. Inl (OtherError [])), complex_abs = (\<lambda>x _. x),
     complex_op = (\<lambda>_ _ _. Inl (OtherError [])), complex_text = (\<lambda>_ _. [])\<rparr>"

theorem calculator_bounded_witness:
  "evaluate no_lib (BinOp (UnaryOp USub (BinOp (Constant (Some (PInt 7))) Pow (Constant (Some (PInt 3))))) Add
     (BinOp (Constant (Some (PInt 10))) FloorDiv (Constant (Some (PInt 4))))) = Inr (PInt (- 341)) \<and>
   \<bar>- 341 :: int\<bar> \<le> max (10 ^ 120) 10"
proof -
  let ?e = "BinOp (UnaryOp USub (BinOp (Constant (Some (PInt 7))) Pow (Constant (Some (PInt 3))))) Add
     (BinOp (Constant (Some (PInt 10))) FloorDiv (Constant (Some (PInt 4))))"
  have run: "evaluate no_lib ?e = Inr (PInt (- 341))" by code_simp
  have "largest_literal ?e = 10" by code_simp
  with run calculator_bounded [OF run, of "- 341"] show ?thesis by simp
qed

end
