(* ===== verification/Tool_Requests.thy ===== *)
theory Tool_Requests
  imports Usage Payloads "HOL-Library.List_Lexorder" "HOL-Library.Char_ord"
begin

text \<open>
  How the backend finds the tool calls in the text a model wrote (\<open>pbozi/backend/app/llm.py\<close>):
  JSON objects anywhere in the text, \<open>tool\<close> and \<open>tool_call\<close> elements, elements named like a
  tool, and calls written like functions. \<open>json.loads\<close> and \<open>html.unescape\<close> are arguments. The
  regular expressions of the code are written out as scanners; a character class with
  \<open>IGNORECASE\<close> compares lower-case letters. A text is the list of its UTF-8 bytes.
\<close>

section \<open>The tools\<close>

definition BUILTIN_TOOLS :: "string list" where
  "BUILTIN_TOOLS =
     [''image_generator'', ''calculator'', ''web_search'', ''pdf_generator'', ''save_user_preference'',
      ''search_project'', ''search_project_queries'', ''list_project_files'', ''read_skill'',
      ''read_skill_file'', ''send_file'', ''chart_generator'']"

definition CODEX_TOOL_ALIASES :: "(string \<times> string) list" where
  "CODEX_TOOL_ALIASES =
     [(''search_web'', ''web_search''), (''google_search'', ''web_search''), (''web_searching'', ''web_search''),
      (''image_generation'', ''image_generator''), (''generate_image'', ''image_generator''),
      (''search_documents'', ''search_project''), (''document_search'', ''search_project''),
      (''list_files'', ''list_project_files''), (''generate_pdf'', ''pdf_generator'')]"

definition CODEX_TOOL_ARG_ALIASES :: "string \<Rightarrow> (string \<times> string) list" where
  "CODEX_TOOL_ARG_ALIASES tool =
     (if tool = ''read_skill'' then [(''name'', ''skill_name'')]
      else if tool = ''read_skill_file'' then [(''name'', ''skill_name''), (''path'', ''relative_path'')]
      else [])"

definition CODEX_TOOL_TEXT_ARGUMENTS :: "(string \<times> string) list" where
  "CODEX_TOOL_TEXT_ARGUMENTS =
     [(''calculator'', ''expression''), (''image_generator'', ''prompt''), (''web_search'', ''query''),
      (''pdf_generator'', ''content''), (''save_user_preference'', ''preference_text''),
      (''search_project'', ''query''), (''search_project_queries'', ''queries''),
      (''read_skill'', ''skill_name''), (''read_skill_file'', ''skill_name''), (''send_file'', ''file_path'')]"

record tool_request =
  tool_name :: string
  tool_arguments :: dict

definition normalize_codex_tool_name :: "(json \<Rightarrow> string) \<Rightarrow> json \<Rightarrow> string" where
  "normalize_codex_tool_name shw name =
     (let raw = strip (py_str_or_empty shw name)
      in case map_of CODEX_TOOL_ALIASES raw of None \<Rightarrow> raw | Some t \<Rightarrow> t)"

text \<open>\<open>d[target] = d.pop(source)\<close> when only \<open>source\<close> is there.\<close>

definition rename_key :: "string \<times> string \<Rightarrow> dict \<Rightarrow> dict" where
  "rename_key st d =
     (case st of (source, target) \<Rightarrow>
        (case map_of d source of
           Some v \<Rightarrow> if map_of d target = None then AList.delete source d @ [(target, v)] else d
         | None \<Rightarrow> d))"

definition normalize_codex_tool_arguments :: "string \<Rightarrow> json \<Rightarrow> dict" where
  "normalize_codex_tool_arguments tool arguments =
     fold rename_key (CODEX_TOOL_ARG_ALIASES tool) (case arguments of JDict d \<Rightarrow> d | _ \<Rightarrow> [])"

section \<open>JSON objects in a text\<close>

text \<open>
  The end of the object that starts the text: how many characters up to and including the brace
  that closes it, braces inside string literals not counted.
\<close>

fun object_end :: "int \<Rightarrow> bool \<Rightarrow> bool \<Rightarrow> nat \<Rightarrow> string \<Rightarrow> nat option" where
  "object_end depth in_string escape n [] = None"
| "object_end depth in_string escape n (c # cs) =
     (if in_string then
        (if escape then object_end depth True False (Suc n) cs
         else if c = CHR 0x5C then object_end depth True True (Suc n) cs
         else object_end depth (c \<noteq> CHR 0x22) False (Suc n) cs)
      else if c = CHR 0x22 then object_end depth True False (Suc n) cs
      else if c = CHR ''{'' then object_end (depth + 1) False False (Suc n) cs
      else if c = CHR ''}'' then
        (if depth = 1 then Some (Suc n) else object_end (depth - 1) False False (Suc n) cs)
      else object_end depth False False (Suc n) cs)"

definition find_json_object_end :: "string \<Rightarrow> nat \<Rightarrow> nat option" where
  "find_json_object_end s start = object_end 0 False False start (drop start s)"

definition json_dicts :: "json \<Rightarrow> dict list" where
  "json_dicts j =
     (case j of JList xs \<Rightarrow> concat (map (\<lambda>x. case x of JDict d \<Rightarrow> [d] | _ \<Rightarrow> []) xs) | _ \<Rightarrow> [])"

text \<open>The places of a payload that may hold a call.\<close>

definition candidates :: "dict \<Rightarrow> dict list" where
  "candidates p =
     (if truthy (dict_get p ''name'') then [p] else []) @
     (case dict_get p ''tool_call'' of JDict d \<Rightarrow> [d] | _ \<Rightarrow> []) @
     json_dicts (dict_get p ''tool_calls'') @
     concat (map (\<lambda>(k, v). case v of
         JDict d \<Rightarrow> if k \<in> set BUILTIN_TOOLS \<and> k \<notin> {''tool_call'', ''tool_calls''}
                  then [[(''name'', JStr k), (''arguments'', v)]] else []
       | _ \<Rightarrow> []) p)"

definition request_of_candidate :: "(json \<Rightarrow> string) \<Rightarrow> dict \<Rightarrow> tool_request list" where
  "request_of_candidate shw d =
     (let name = normalize_codex_tool_name shw (dict_get d ''name'') in
      if name = [] \<or> name \<notin> set BUILTIN_TOOLS then []
      else [\<lparr>tool_name = name,
             tool_arguments = normalize_codex_tool_arguments name (dict_get d ''arguments'')\<rparr>])"

definition codex_tool_request_from_payload :: "(json \<Rightarrow> string) \<Rightarrow> json \<Rightarrow> tool_request list" where
  "codex_tool_request_from_payload shw payload =
     (case payload of JDict p \<Rightarrow> concat (map (request_of_candidate shw) (candidates p)) | _ \<Rightarrow> [])"

lemma object_end_bounds:
  "object_end depth in_string escape n s = Some m \<Longrightarrow> n < m \<and> m \<le> n + length s"
  by (induction depth in_string escape n s rule: object_end.induct)
     (auto split: if_splits simp del: One_nat_def)

text \<open>The scan over all objects of the text: past an object that holds calls, into any other.\<close>

function extract_json_codex_tool_requests ::
  "(json \<Rightarrow> string) \<Rightarrow> (string \<Rightarrow> json option) \<Rightarrow> string \<Rightarrow> tool_request list" where
  "extract_json_codex_tool_requests shw loads content =
     (let s = dropWhile (\<lambda>c. c \<noteq> CHR ''{'') content in
      if s = [] then []
      else case find_json_object_end s 0 of
        None \<Rightarrow> []
      | Some n \<Rightarrow>
          (let found = (case loads (take n s) of
                None \<Rightarrow> [] | Some payload \<Rightarrow> codex_tool_request_from_payload shw payload) in
           if found \<noteq> [] then found @ extract_json_codex_tool_requests shw loads (drop n s)
           else extract_json_codex_tool_requests shw loads (tl s)))"
  by pat_completeness auto

termination
proof (relation "measure (\<lambda>(shw, loads, content). length content)", goal_cases)
  case 1
  show ?case by simp
next
  case (2 shw loads content s n found)
  then have "0 < n \<and> n \<le> length s" using object_end_bounds [of 0 False False 0 s n]
    by (simp add: find_json_object_end_def)
  moreover have "length s \<le> length content" using 2(1) by (simp add: length_dropWhile_le)
  ultimately show ?case by (simp, linarith)
next
  case (3 shw loads content s n found)
  have "length s \<le> length content" using 3(1) by (simp add: length_dropWhile_le)
  with 3(2) show ?case by (cases s) simp_all
qed

declare extract_json_codex_tool_requests.simps [simp del]

section \<open>Calls written like functions\<close>

text \<open>The arguments between the commas outside quotes and brackets.\<close>

definition closed_part :: "string \<Rightarrow> string list" where
  "closed_part cur = (if strip cur = [] then [] else [strip cur])"

fun split_args :: "char option \<Rightarrow> bool \<Rightarrow> nat \<Rightarrow> string \<Rightarrow> string \<Rightarrow> string list" where
  "split_args quote escape depth cur [] = closed_part cur"
| "split_args quote escape depth cur (c # cs) =
     (case quote of
        Some q \<Rightarrow>
          if escape then split_args quote False depth (cur @ [c]) cs
          else if c = CHR 0x5C then split_args quote True depth (cur @ [c]) cs
          else split_args (if c = q then None else quote) False depth (cur @ [c]) cs
      | None \<Rightarrow>
          if c \<in> {CHR 0x27, CHR 0x22} then split_args (Some c) False depth (cur @ [c]) cs
          else if c \<in> {CHR ''('', CHR ''['', CHR ''{''} then split_args None False (Suc depth) (cur @ [c]) cs
          else if c \<in> {CHR '')'', CHR '']'', CHR ''}''} then split_args None False (depth - 1) (cur @ [c]) cs
          else if c = CHR '','' \<and> depth = 0 then closed_part cur @ split_args None False depth [] cs
          else split_args None False depth (cur @ [c]) cs)"

definition split_codex_function_args :: "string \<Rightarrow> string list" where
  "split_codex_function_args raw = split_args None False 0 [] raw"

definition ends_with :: "string \<Rightarrow> string \<Rightarrow> bool" where
  "ends_with s w \<longleftrightarrow> starts_with (rev s) (rev w)"

definition coerce_codex_function_arg_value :: "(string \<Rightarrow> json option) \<Rightarrow> string \<Rightarrow> json" where
  "coerce_codex_function_arg_value loads v =
     (let raw = strip v in
      if raw = [] then JStr []
      else case loads raw of
        Some j \<Rightarrow> j
      | None \<Rightarrow>
          let quotes = {CHR 0x27, CHR 0x22} in
          if 2 \<le> length raw \<and> hd raw = last raw \<and> hd raw \<in> quotes then JStr (butlast (tl raw))
          else let a = (if hd raw \<in> quotes then tl raw else raw);
                   b = (if a \<noteq> [] \<and> last a \<in> quotes then butlast a else a);
                   c = (if b \<noteq> [] \<and> last b = CHR ''}'' \<and> CHR ''{'' \<notin> set b then butlast b else b)
               in JStr (strip c))"

definition is_ident_start :: "char \<Rightarrow> bool" where
  "is_ident_start c \<longleftrightarrow> c = CHR ''_'' \<or>
     (let n = of_char (lower_char c) :: nat in 97 \<le> n \<and> n \<le> 122)"

definition is_ident_char :: "char \<Rightarrow> bool" where
  "is_ident_char c \<longleftrightarrow> is_ident_start c \<or> is_digit c"

text \<open>The identifier at the start of a text, and what follows it.\<close>

definition take_ident :: "string \<Rightarrow> (string \<times> string) option" where
  "take_ident s =
     (case s of
        c # _ \<Rightarrow> if is_ident_start c then Some (takeWhile is_ident_char s, dropWhile is_ident_char s) else None
      | [] \<Rightarrow> None)"

definition lstrip :: "string \<Rightarrow> string" where
  "lstrip s = dropWhile is_space s"

definition rstrip :: "string \<Rightarrow> string" where
  "rstrip s = rev (dropWhile is_space (rev s))"

text \<open>\<open>part.partition("=")\<close> of an argument; one without a separator or a key is skipped.\<close>

definition argument_of :: "(string \<Rightarrow> json option) \<Rightarrow> string \<Rightarrow> dict \<Rightarrow> dict" where
  "argument_of loads part d =
     (let key = strip (takeWhile (\<lambda>c. c \<noteq> CHR ''='') part); rest = dropWhile (\<lambda>c. c \<noteq> CHR ''='') part in
      if rest = [] \<or> key = [] then d
      else AList.update key (coerce_codex_function_arg_value loads (tl rest)) d)"

definition parse_codex_function_call ::
  "(json \<Rightarrow> string) \<Rightarrow> (string \<Rightarrow> json option) \<Rightarrow> string \<Rightarrow> tool_request option" where
  "parse_codex_function_call shw loads body =
     (case take_ident (lstrip body) of
        None \<Rightarrow> None
      | Some (ident, rest) \<Rightarrow>
          let inner = rstrip (lstrip rest) in
          if length inner < 2 \<or> hd inner \<noteq> CHR ''('' \<or> last inner \<noteq> CHR '')'' then None
          else let name = normalize_codex_tool_name shw (JStr ident);
                   args = fold (argument_of loads) (split_codex_function_args (butlast (tl inner))) []
               in Some \<lparr>tool_name = name, tool_arguments = normalize_codex_tool_arguments name (JDict args)\<rparr>)"

section \<open>Elements\<close>

text \<open>The first place of a word, and the text before and after it.\<close>

fun split_at :: "string \<Rightarrow> string \<Rightarrow> (string \<times> string) option" where
  "split_at w [] = (if w = [] then Some ([], []) else None)"
| "split_at w (c # cs) =
     (if starts_with (c # cs) w then Some ([], drop (length w) (c # cs))
      else map_option (\<lambda>(a, b). (c # a, b)) (split_at w cs))"

text \<open>\<open>starts_with\<close> under \<open>IGNORECASE\<close>; the word is in lower case.\<close>

definition starts_ci :: "string \<Rightarrow> string \<Rightarrow> bool" where
  "starts_ci s w \<longleftrightarrow> lower (take (length w) s) = w"

text \<open>After \<open><tool_call(?:\s+[^>]*?)?>\<close> at the start of a text.\<close>

definition after_tool_call_tag :: "string \<Rightarrow> string option" where
  "after_tool_call_tag s =
     (if \<not> starts_ci s ''<tool_call'' then None
      else case drop (length ''<tool_call'') s of
        [] \<Rightarrow> None
      | c # cs \<Rightarrow>
          if c = CHR ''>'' then Some cs
          else if is_space c then map_option snd (split_at ''>'' cs)
          else None)"

lemma split_at_length: "split_at w s = Some (a, b) \<Longrightarrow> length a + length w + length b = length s"
  by (induction s arbitrary: a) (auto simp: starts_with_def split: if_splits dest: arg_cong [of _ _ length])

lemma after_tag_shorter: "after_tool_call_tag s = Some t \<Longrightarrow> length t < length s"
  by (cases "drop (length ''<tool_call'') s")
     (auto simp: after_tool_call_tag_def split: if_splits dest!: split_at_length arg_cong [of _ _ length])

text \<open>The first \<open>tool_call\<close> tag: the text before it and the text after it.\<close>

fun next_tag :: "string \<Rightarrow> (string \<times> string) option" where
  "next_tag [] = None"
| "next_tag (c # cs) =
     (case after_tool_call_tag (c # cs) of
        Some t \<Rightarrow> Some ([], t)
      | None \<Rightarrow> map_option (\<lambda>(a, b). (c # a, b)) (next_tag cs))"

lemma next_tag_shorter: "next_tag s = Some (a, b) \<Longrightarrow> length a + length b < length s"
  by (induction s arbitrary: a b) (auto split: option.splits dest: after_tag_shorter)

text \<open>The texts from each \<open>tool_call\<close> tag up to the next one or the end.\<close>

function tag_bodies :: "string \<Rightarrow> string list" where
  "tag_bodies s =
     (case next_tag s of
        None \<Rightarrow> []
      | Some (_, t) \<Rightarrow> (case next_tag t of None \<Rightarrow> t | Some (a, _) \<Rightarrow> a) # tag_bodies t)"
  by pat_completeness auto

termination
  by (relation "measure length") (auto dest: next_tag_shorter)

declare tag_bodies.simps [simp del]

text \<open>The body ends at the earliest closing tag, complete or not.\<close>

definition cut_body :: "string \<Rightarrow> string" where
  "cut_body seg =
     take (foldr (\<lambda>w n. case split_at w seg of None \<Rightarrow> n | Some (a, _) \<Rightarrow> min n (length a))
            [''</tool_call>'', ''</arg_value>'', ''</tool_call''] (length seg)) seg"

definition requests_of_body ::
  "(json \<Rightarrow> string) \<Rightarrow> (string \<Rightarrow> json option) \<Rightarrow> string \<Rightarrow> tool_request list" where
  "requests_of_body shw loads body =
     (if body = [] then []
      else case loads body of
        Some payload \<Rightarrow> codex_tool_request_from_payload shw payload
      | None \<Rightarrow> (case parse_codex_function_call shw loads body of None \<Rightarrow> [] | Some r \<Rightarrow> [r]))"

definition extract_markup_codex_tool_requests ::
  "(json \<Rightarrow> string) \<Rightarrow> (string \<Rightarrow> json option) \<Rightarrow> string \<Rightarrow> tool_request list" where
  "extract_markup_codex_tool_requests shw loads content =
     concat (map (\<lambda>seg. requests_of_body shw loads (strip (cut_body seg))) (tag_bodies content))"

text \<open>\<open>s.replace(w, v)\<close> for a word that is not empty.\<close>

function replace_text :: "string \<Rightarrow> string \<Rightarrow> string \<Rightarrow> string" where
  "replace_text w v [] = []"
| "replace_text w v (c # cs) =
     (if w \<noteq> [] \<and> starts_with (c # cs) w then v @ replace_text w v (drop (length w) (c # cs))
      else c # replace_text w v cs)"
  by pat_completeness auto

termination
  by (relation "measure (\<lambda>(w, v, s). length s)") (auto simp: neq_Nil_conv)

definition decode_codex_xmlish_text :: "string \<Rightarrow> string" where
  "decode_codex_xmlish_text v =
     strip (fold (\<lambda>(source, target) s. replace_text source target s)
       [(''&lt;'', ''<''), (''&gt;'', ''>''), (''&amp;'', ''&''), (''&quot;'', [CHR 0x22]),
        (''&#39;'', [CHR 0x27]), (''&apos;'', [CHR 0x27])] (strip v))"

text \<open>
  An element at the start of a text: the opening tag, the text up to the first closing tag of
  the same name, and what follows. \<open>ws\<close> allows white space inside the tags, \<open>ci\<close> ignores case. A
  character outside ASCII right after the name counts as part of a word.
\<close>

definition skip_ws :: "bool \<Rightarrow> string \<Rightarrow> string" where
  "skip_ws ws s = (if ws then lstrip s else s)"

definition same_name :: "bool \<Rightarrow> string \<Rightarrow> string \<Rightarrow> bool" where
  "same_name ci a b \<longleftrightarrow> (if ci then lower a = lower b else a = b)"

definition name_ends :: "string \<Rightarrow> bool" where
  "name_ends s \<longleftrightarrow> (case s of [] \<Rightarrow> True | c # _ \<Rightarrow> (of_char c :: nat) < 128)"

definition after_close :: "bool \<Rightarrow> bool \<Rightarrow> string \<Rightarrow> string \<Rightarrow> string option" where
  "after_close ws ci name s =
     (if \<not> starts_with s ''</'' then None
      else let t = skip_ws ws (drop 2 s); n = length name; u = skip_ws ws (drop n t) in
        if same_name ci (take n t) name \<and> u \<noteq> [] \<and> hd u = CHR ''>'' then Some (tl u) else None)"

fun find_close :: "bool \<Rightarrow> bool \<Rightarrow> string \<Rightarrow> string \<Rightarrow> (string \<times> string) option" where
  "find_close ws ci name [] = None"
| "find_close ws ci name (c # cs) =
     (case after_close ws ci name (c # cs) of
        Some t \<Rightarrow> Some ([], t)
      | None \<Rightarrow> map_option (\<lambda>(a, b). (c # a, b)) (find_close ws ci name cs))"

definition element_at ::
  "bool \<Rightarrow> bool \<Rightarrow> (string \<Rightarrow> bool) \<Rightarrow> string \<Rightarrow> (string \<times> string \<times> string) option" where
  "element_at ws ci want s =
     (if s = [] \<or> hd s \<noteq> CHR ''<'' then None
      else case take_ident (skip_ws ws (tl s)) of
        None \<Rightarrow> None
      | Some (name, rest) \<Rightarrow>
          if \<not> want name \<or> \<not> name_ends rest then None
          else case split_at ''>'' rest of
            None \<Rightarrow> None
          | Some (_, inner) \<Rightarrow>
              map_option (\<lambda>(body, t). (name, body, t)) (find_close ws ci name inner))"

text \<open>
  \<open>re.finditer\<close> of a pattern given by what it matches at the start of a text: the matches from
  left to right, none inside another. Every match of the patterns here takes a character.
\<close>

function find_all :: "(string \<Rightarrow> ('a \<times> string) option) \<Rightarrow> string \<Rightarrow> 'a list" where
  "find_all m [] = []"
| "find_all m (c # cs) =
     (case m (c # cs) of
        Some (x, t) \<Rightarrow> x # find_all m (if length t \<le> length cs then t else cs)
      | None \<Rightarrow> find_all m cs)"
  by pat_completeness auto

termination
  by (relation "measure (\<lambda>(m, s). length s)") auto

definition elements :: "bool \<Rightarrow> bool \<Rightarrow> (string \<Rightarrow> bool) \<Rightarrow> string \<Rightarrow> (string \<times> string) list" where
  "elements ws ci want s =
     find_all (\<lambda>s. map_option (\<lambda>(name, body, t). ((name, body), t)) (element_at ws ci want s)) s"

definition extract_direct_xml_child_arguments :: "string \<Rightarrow> dict" where
  "extract_direct_xml_child_arguments body =
     fold (\<lambda>(key, v) d. AList.update key (JStr (decode_codex_xmlish_text v)) d)
       (elements False False (\<lambda>_. True) body) []"

definition direct_xml_tool_arguments :: "string \<Rightarrow> string \<Rightarrow> dict" where
  "direct_xml_tool_arguments tool body =
     (let kids = extract_direct_xml_child_arguments body; t = decode_codex_xmlish_text body in
      if kids \<noteq> [] then normalize_codex_tool_arguments tool (JDict kids)
      else case map_of CODEX_TOOL_TEXT_ARGUMENTS tool of
        Some arg \<Rightarrow> if t \<noteq> [] then normalize_codex_tool_arguments tool (JDict [(arg, JStr t)]) else []
      | None \<Rightarrow> [])"

text \<open>The text up to the closing quote, escaped characters kept as they are, and what follows.\<close>

fun quoted_part :: "string \<Rightarrow> (string \<times> string) option" where
  "quoted_part [] = None"
| "quoted_part (c # cs) =
     (if c = CHR 0x22 then Some ([], cs)
      else if c = CHR 0x5C then
        (case cs of
           [] \<Rightarrow> None
         | e # es \<Rightarrow> if e = CHR 0x0A then None
                   else map_option (\<lambda>(a, b). (c # e # a, b)) (quoted_part es))
      else map_option (\<lambda>(a, b). (c # a, b)) (quoted_part cs))"

definition after_word :: "string \<Rightarrow> string \<Rightarrow> string option" where
  "after_word w s = (if starts_with s w then Some (drop (length w) s) else None)"

definition after_space :: "string \<Rightarrow> string option" where
  "after_space s = (if s \<noteq> [] \<and> is_space (hd s) then Some (lstrip s) else None)"

text \<open>\<open>name = "value"\<close> at the start of a text.\<close>

definition attribute_at :: "string \<Rightarrow> ((string \<times> string) \<times> string) option" where
  "attribute_at s =
     Option.bind (take_ident s) (\<lambda>(name, rest).
     Option.bind (after_word ''='' (lstrip rest)) (\<lambda>u.
     Option.bind (after_word [CHR 0x22] (lstrip u)) (\<lambda>q.
     map_option (\<lambda>(v, t). ((name, v), t)) (quoted_part q))))"

text \<open>\<open><name attributes />\<close> at the start of a text.\<close>

definition self_closing_at :: "string \<Rightarrow> ((string \<times> string) \<times> string) option" where
  "self_closing_at s =
     Option.bind (after_word ''<'' s) (\<lambda>u.
     Option.bind (take_ident (lstrip u)) (\<lambda>(name, rest).
     if \<not> name_ends rest then None
     else Option.bind (split_at ''>'' rest) (\<lambda>(a, t).
       if a \<noteq> [] \<and> last a = CHR ''/'' then Some ((name, strip (butlast a)), t) else None)))"

definition IGNORED_TAGS :: "string list" where
  "IGNORED_TAGS = [''tool_call'', ''tool_calls'', ''arg_value'', ''arguments'']"

definition tool_of_tag :: "(json \<Rightarrow> string) \<Rightarrow> string \<Rightarrow> string option" where
  "tool_of_tag shw tag =
     (let name = normalize_codex_tool_name shw (JStr (lower (strip tag))) in
      if name = [] \<or> name \<in> set IGNORED_TAGS \<or> name \<notin> set BUILTIN_TOOLS then None else Some name)"

definition extract_direct_xml_codex_tool_requests :: "(json \<Rightarrow> string) \<Rightarrow> string \<Rightarrow> tool_request list" where
  "extract_direct_xml_codex_tool_requests shw content =
     concat (map (\<lambda>(tag, body). case tool_of_tag shw tag of
         None \<Rightarrow> []
       | Some name \<Rightarrow> [\<lparr>tool_name = name, tool_arguments = direct_xml_tool_arguments name body\<rparr>])
       (elements True True (\<lambda>_. True) content)) @
     concat (map (\<lambda>(tag, attrs). case tool_of_tag shw tag of
         None \<Rightarrow> []
       | Some name \<Rightarrow>
           (let args = fold (\<lambda>(k, v) d. AList.update k (JStr (decode_codex_xmlish_text v)) d)
                         (find_all attribute_at attrs) []
            in [\<lparr>tool_name = name, tool_arguments = normalize_codex_tool_arguments name (JDict args)\<rparr>]))
       (find_all self_closing_at content))"

definition extract_tool_wrapper_codex_tool_requests ::
  "(json \<Rightarrow> string) \<Rightarrow> (string \<Rightarrow> json option) \<Rightarrow> string \<Rightarrow> tool_request list" where
  "extract_tool_wrapper_codex_tool_requests shw loads content =
     concat (map (\<lambda>(_, body). requests_of_body shw loads (decode_codex_xmlish_text body))
       (elements False True (\<lambda>name. lower name = ''tool'') content))"

text \<open>\<open><tool_call name="..." arguments="..."/>\<close> at the start of a text.\<close>

definition tool_call_at :: "string \<Rightarrow> ((string \<times> string) \<times> string) option" where
  "tool_call_at s =
     Option.bind (after_word ''<tool_call'' s) (\<lambda>a.
     Option.bind (after_space a) (\<lambda>b.
     Option.bind (after_word (''name='' @ [CHR 0x22]) b) (\<lambda>c.
     Option.bind (split_at [CHR 0x22] c) (\<lambda>(name, d).
     if name = [] then None
     else Option.bind (after_space d) (\<lambda>e.
     Option.bind (after_word (''arguments='' @ [CHR 0x22]) e) (\<lambda>f.
     Option.bind (quoted_part f) (\<lambda>(args, g).
     map_option (\<lambda>t. ((name, args), t)) (after_word ''/>'' (lstrip g)))))))))"

definition extract_self_closing_xml_codex_tool_requests ::
  "(json \<Rightarrow> string) \<Rightarrow> (string \<Rightarrow> json option) \<Rightarrow> string \<Rightarrow> tool_request list" where
  "extract_self_closing_xml_codex_tool_requests shw loads content =
     concat (map (\<lambda>(raw, args).
         let name = normalize_codex_tool_name shw (JStr raw) in
         case loads (replace_text [CHR 0x5C, CHR 0x22] [CHR 0x22] args) of
           Some j \<Rightarrow> if name \<in> set BUILTIN_TOOLS
                    then [\<lparr>tool_name = name, tool_arguments = normalize_codex_tool_arguments name j\<rparr>] else []
         | None \<Rightarrow> [])
       (find_all tool_call_at content))"

section \<open>All requests of a text\<close>

text \<open>
  Two requests are the same when \<open>json.dumps\<close> with sorted keys writes them the same; texts and
  sorted values correspond one to one.
\<close>

fun with_sorted_keys :: "json \<Rightarrow> json" where
  "with_sorted_keys (JDict d) = JDict (sort_key fst (map (\<lambda>(k, v). (k, with_sorted_keys v)) d))"
| "with_sorted_keys (JList xs) = JList (map with_sorted_keys xs)"
| "with_sorted_keys j = j"

definition request_key :: "tool_request \<Rightarrow> string \<times> json" where
  "request_key r = (tool_name r, with_sorted_keys (JDict (tool_arguments r)))"

fun dedupe :: "(string \<times> json) list \<Rightarrow> tool_request list \<Rightarrow> tool_request list" where
  "dedupe seen [] = []"
| "dedupe seen (r # rs) =
     (if request_key r \<in> set seen then dedupe seen rs else r # dedupe (request_key r # seen) rs)"

definition extract_codex_tool_requests ::
  "(json \<Rightarrow> string) \<Rightarrow> (string \<Rightarrow> json option) \<Rightarrow> (string \<Rightarrow> string) \<Rightarrow> string \<Rightarrow> tool_request list" where
  "extract_codex_tool_requests shw loads unescape content =
     (let t = unescape content in
      dedupe []
       (extract_json_codex_tool_requests shw loads t @
        extract_tool_wrapper_codex_tool_requests shw loads t @
        extract_markup_codex_tool_requests shw loads t @
        extract_direct_xml_codex_tool_requests shw t @
        extract_self_closing_xml_codex_tool_requests shw loads t))"

text \<open>\<open>re.sub\<close> of a pattern by nothing.\<close>

function delete_matches :: "(string \<Rightarrow> string option) \<Rightarrow> string \<Rightarrow> string" where
  "delete_matches m [] = []"
| "delete_matches m (c # cs) =
     (case m (c # cs) of
        Some t \<Rightarrow> delete_matches m (if length t \<le> length cs then t else cs)
      | None \<Rightarrow> c # delete_matches m cs)"
  by pat_completeness auto

termination
  by (relation "measure (\<lambda>(m, s). length s)") auto

definition after_tool_call_block :: "string \<Rightarrow> string option" where
  "after_tool_call_block s =
     Option.bind (after_tool_call_tag s) (\<lambda>t. map_option snd (find_close False True ''tool_call'' t))"

definition without_tool_calls :: "string \<Rightarrow> string" where
  "without_tool_calls s =
     (let a = delete_matches after_tool_call_block s in
      strip (case next_tag a of None \<Rightarrow> a | Some (b, _) \<Rightarrow> b))"

definition UNUSABLE_REPLY :: "string" where
  "UNUSABLE_REPLY = ''<tool requested but no final reply; ask again>''"

definition codex_safe_final_reply ::
  "(json \<Rightarrow> string) \<Rightarrow> (string \<Rightarrow> json option) \<Rightarrow> (string \<Rightarrow> string) \<Rightarrow> string \<Rightarrow> string" where
  "codex_safe_final_reply shw loads unescape reply =
     (let s = strip reply; t = without_tool_calls s in
      if s = [] then s
      else if extract_codex_tool_requests shw loads unescape t \<noteq> [] then UNUSABLE_REPLY
      else t)"

section \<open>Only known tools\<close>

lemma json_requests_known:
  "r \<in> set (codex_tool_request_from_payload shw p) \<Longrightarrow> tool_name r \<in> set BUILTIN_TOOLS"
  by (auto simp: codex_tool_request_from_payload_def request_of_candidate_def Let_def split: json.splits if_splits)

lemma extracted_json_known:
  "\<forall>r \<in> set (extract_json_codex_tool_requests shw loads s). tool_name r \<in> set BUILTIN_TOOLS"
proof (induction shw loads s rule: extract_json_codex_tool_requests.induct)
  case (1 shw loads content)
  let ?s = "dropWhile (\<lambda>c. c \<noteq> CHR ''{'') content"
  show ?case
  proof (cases "find_json_object_end ?s 0")
    case None
    then show ?thesis by (subst extract_json_codex_tool_requests.simps) (simp add: Let_def)
  next
    case (Some n)
    let ?found = "case loads (take n ?s) of None \<Rightarrow> [] | Some p \<Rightarrow> codex_tool_request_from_payload shw p"
    have known: "\<forall>r \<in> set ?found. tool_name r \<in> set BUILTIN_TOOLS"
      by (auto split: option.splits dest: json_requests_known)
    show ?thesis
    proof (cases "?s = []")
      case True
      then show ?thesis by (subst extract_json_codex_tool_requests.simps) simp
    next
      case False
      note ih = 1(1) [OF refl False Some refl] 1(2) [OF refl False Some refl]
      show ?thesis using False Some ih known
        by (subst extract_json_codex_tool_requests.simps) (auto simp: Let_def simp del: dropWhile_eq_Nil_conv)
    qed
  qed
qed

text \<open>
  A call in a \<open>tool_call\<close> element that is written like a function is not compared with the known
  tools: the request names whatever the model wrote.
\<close>

lemma function_call_of_unknown_tool:
  "extract_markup_codex_tool_requests (\<lambda>_. []) (\<lambda>_. None) ''x <tool_call>rm_rf(path=/)</tool_call>'' =
     [\<lparr>tool_name = ''rm_rf'', tool_arguments = [(''path'', JStr ''/'')]\<rparr>]"
  by code_simp

section \<open>No tag in a final reply\<close>

lemma split_at_append: "split_at [x] s = Some (a, b) \<Longrightarrow> split_at [x] (s @ v) = Some (a, b @ v)"
  by (induction s arbitrary: a) (auto simp: starts_with_def split: if_splits)

lemma after_tag_append:
  assumes "after_tool_call_tag s = Some t"
  shows "after_tool_call_tag (s @ v) = Some (t @ v)"
proof -
  have ci: "starts_ci s ''<tool_call''" using assms by (auto simp: after_tool_call_tag_def split: if_splits)
  then have len: "10 \<le> length s"
    by (auto simp: starts_ci_def lower_def dest: arg_cong [of _ _ length])
  then obtain p q where s: "s = p @ q" "length p = 10" by (metis append_take_drop_id length_take min.absorb2)
  with assms ci obtain c cs where q: "q = c # cs"
    by (cases q) (auto simp: after_tool_call_tag_def split: if_splits)
  have n: "length ''<tool_call'' = 10" by simp
  have "after_tool_call_tag (p @ c # u) =
      (if c = CHR ''>'' then Some u else if is_space c then map_option snd (split_at ''>'' u) else None)" for u
    using ci s q unfolding after_tool_call_tag_def starts_ci_def n by simp
  from this [of cs] this [of "cs @ v"] assms show ?thesis
    by (auto simp: s(1) q split_at_append split: if_splits)
qed

lemma next_tag_split:
  "next_tag s = Some (a, b) \<Longrightarrow>
     \<exists>r. s = a @ r \<and> (\<forall>u v. a = u @ v \<longrightarrow> v \<noteq> [] \<longrightarrow> after_tool_call_tag (v @ r) = None)"
proof (induction s arbitrary: a)
  case (Cons c cs)
  show ?case
  proof (cases "after_tool_call_tag (c # cs)")
    case None
    with Cons.prems obtain a' where a: "a = c # a'" "next_tag cs = Some (a', b)" by auto
    from Cons.IH [OF a(2)] obtain r where r: "cs = a' @ r"
      "\<forall>u v. a' = u @ v \<longrightarrow> v \<noteq> [] \<longrightarrow> after_tool_call_tag (v @ r) = None" by blast
    have "after_tool_call_tag (v @ r) = None" if "a = u @ v" "v \<noteq> []" for u v
      using that a(1) r None by (cases u) auto
    with a(1) r(1) show ?thesis by auto
  next
    case (Some t)
    then show ?thesis using Cons.prems by auto
  qed
qed simp

lemma next_tag_none_iff: "next_tag s = None \<longleftrightarrow> (\<forall>u v. s = u @ v \<longrightarrow> after_tool_call_tag v = None)"
proof (induction s)
  case Nil
  show ?case by (simp add: after_tool_call_tag_def starts_ci_def lower_def)
next
  case (Cons c s)
  have "(\<forall>u v. c # s = u @ v \<longrightarrow> after_tool_call_tag v = None) \<longleftrightarrow>
    after_tool_call_tag (c # s) = None \<and> (\<forall>u v. s = u @ v \<longrightarrow> after_tool_call_tag v = None)"
    by (auto simp: Cons_eq_append_conv)
  with Cons show ?case by (auto split: option.splits)
qed

lemma no_tag_inside:
  assumes "next_tag (x @ y @ z) = None"
  shows "next_tag y = None"
proof -
  have "after_tool_call_tag v = None" if "y = u @ v" for u v
  proof (rule ccontr)
    assume "after_tool_call_tag v \<noteq> None"
    then obtain t where "after_tool_call_tag (v @ z) = Some (t @ z)" using after_tag_append by blast
    moreover have "x @ y @ z = (x @ u) @ v @ z" using that by simp
    ultimately show False using assms unfolding next_tag_none_iff by (metis option.distinct(1))
  qed
  then show ?thesis unfolding next_tag_none_iff by blast
qed

lemma strip_inside: "\<exists>x z. s = x @ strip s @ z"
proof -
  let ?d = "dropWhile is_space s"
  have "s = takeWhile is_space s @ ?d" by simp
  moreover have "?d = strip s @ rev (takeWhile is_space (rev ?d))"
    unfolding strip_def rev_append [symmetric] takeWhile_dropWhile_id by simp
  ultimately show ?thesis by metis
qed

lemma without_tool_calls_has_no_tag: "next_tag (without_tool_calls s) = None"
proof -
  define a where "a = delete_matches after_tool_call_block s"
  define b where "b = (case next_tag a of None \<Rightarrow> a | Some (b, _) \<Rightarrow> b)"
  have "next_tag b = None"
  proof (cases "next_tag a")
    case (Some p)
    then obtain c d where p: "next_tag a = Some (c, d)" by (cases p) auto
    from next_tag_split [OF p] obtain r where
      r: "\<forall>u v. c = u @ v \<longrightarrow> v \<noteq> [] \<longrightarrow> after_tool_call_tag (v @ r) = None" by blast
    have "after_tool_call_tag v = None" if "c = u @ v" for u v
    proof (cases "v = []")
      case False
      with r that show ?thesis by (metis after_tag_append not_None_eq)
    qed (simp add: after_tool_call_tag_def starts_ci_def lower_def)
    then show ?thesis unfolding next_tag_none_iff by (simp add: b_def p)
  qed (simp add: b_def)
  with strip_inside [of b] no_tag_inside show ?thesis
    unfolding without_tool_calls_def Let_def a_def [symmetric] b_def [symmetric] by metis
qed

section \<open>A call written as JSON is found\<close>

text \<open>A writer of JSON texts: control characters in strings as \<open>\u00xx\<close>, the rest as it is.\<close>

definition hex_digit :: "nat \<Rightarrow> char" where
  "hex_digit n = (if n < 10 then char_of (48 + n) else char_of (87 + n))"

definition escaped :: "char \<Rightarrow> string" where
  "escaped c =
     (if c = CHR 0x22 \<or> c = CHR 0x5C then [CHR 0x5C, c]
      else let n = (of_char c :: nat) in
        if n < 32 then CHR 0x5C # ''u00'' @ [hex_digit (n div 16), hex_digit (n mod 16)] else [c])"

definition quote_text :: "string \<Rightarrow> string" where
  "quote_text s = CHR 0x22 # concat (map escaped s) @ [CHR 0x22]"

abbreviation joined :: "string list \<Rightarrow> string" where
  "joined \<equiv> join_with '', ''"

fun json_text :: "(rat \<Rightarrow> string) \<Rightarrow> json \<Rightarrow> string" where
  "json_text flt JNull = ''null''"
| "json_text flt (JBool b) = (if b then ''true'' else ''false'')"
| "json_text flt (JInt n) = str_int n"
| "json_text flt (JFloat x) = flt x"
| "json_text flt (JStr s) = quote_text s"
| "json_text flt (JList xs) = ''['' @ joined (map (json_text flt) xs) @ '']''"
| "json_text flt (JDict d) =
     ''{'' @ joined (map (\<lambda>(k, v). quote_text k @ '': '' @ json_text flt v) d) @ ''}''"

text \<open>A text the scan of an object passes over without a change of depth.\<close>

definition neutral :: "string \<Rightarrow> bool" where
  "neutral t \<longleftrightarrow> (\<forall>d n rest. 1 \<le> d \<longrightarrow>
     object_end d False False n (t @ rest) = object_end d False False (n + length t) rest)"

definition plain :: "string \<Rightarrow> bool" where
  "plain t \<longleftrightarrow> set t \<inter> {CHR 0x22, CHR ''{'', CHR ''}''} = {}"

named_theorems neutral_intros

lemma neutral_plain [neutral_intros]: "plain t \<Longrightarrow> neutral t"
proof (induction t)
  case (Cons c t)
  then have "neutral t" "c \<noteq> CHR 0x22" "c \<noteq> CHR ''{''" "c \<noteq> CHR ''}''" by (auto simp: plain_def)
  then show ?case by (simp add: neutral_def)
qed (simp add: neutral_def)

lemma neutral_append [neutral_intros]: "neutral a \<Longrightarrow> neutral b \<Longrightarrow> neutral (a @ b)"
  by (simp add: neutral_def add.assoc)

lemma neutral_object [neutral_intros]: "neutral t \<Longrightarrow> neutral (''{'' @ t @ ''}'')"
  by (simp add: neutral_def)

lemma object_end_object:
  "neutral t \<Longrightarrow> object_end 0 False False n (''{'' @ t @ ''}'' @ rest) = Some (n + length t + 2)"
  by (simp add: neutral_def)

lemma in_string:
  "object_end d True False n (concat (map escaped s) @ CHR 0x22 # rest) =
   object_end d False False (n + length (concat (map escaped s)) + 1) rest"
proof (induction s arbitrary: n)
  case (Cons c s)
  have hex: "hex_digit m \<noteq> CHR 0x22 \<and> hex_digit m \<noteq> CHR 0x5C" if "m < 16" for m
  proof -
    have "(of_char (hex_digit m) :: nat) \<noteq> 34" "(of_char (hex_digit m) :: nat) \<noteq> 92"
      using that by (auto simp: hex_digit_def)
    then show ?thesis by auto
  qed
  have "(of_char c :: nat) < 256" by simp
  then have "object_end d True False n (escaped c @ u) = object_end d True False (n + length (escaped c)) u" for n u
    using hex [of "of_char c div 16"] hex [of "of_char c mod 16"] by (simp add: escaped_def Let_def)
  then show ?case using Cons by (simp add: add.assoc)
qed simp

lemma neutral_quote [neutral_intros]: "neutral (quote_text s)"
  by (simp add: neutral_def quote_text_def in_string)

lemma neutral_joined [neutral_intros]: "(\<And>t. t \<in> set ts \<Longrightarrow> neutral t) \<Longrightarrow> neutral (joined ts)"
proof (induction ts rule: induct_list012)
  case (3 x y zs)
  have "neutral '', ''" by (rule neutral_plain) (simp add: plain_def)
  with 3 show ?case by (simp add: neutral_append del: append_Cons)
qed (simp_all add: neutral_plain plain_def)

lemma plain_str_int: "plain (str_int n)"
proof -
  have "plain (digits_of m)" for m using digit_list [of m] by (auto simp: plain_def list_all_iff is_digit_def)
  then show ?thesis by (simp add: str_int_def plain_def)
qed

lemma neutral_fields:
  assumes "\<And>k v. (k, v) \<in> set d \<Longrightarrow> neutral (json_text flt v)"
  shows "neutral (joined (map (\<lambda>(k, v). quote_text k @ '': '' @ json_text flt v) d))"
proof (rule neutral_joined)
  fix t assume "t \<in> set (map (\<lambda>(k, v). quote_text k @ '': '' @ json_text flt v) d)"
  then obtain k v where t: "t = quote_text k @ '': '' @ json_text flt v" "(k, v) \<in> set d" by auto
  have "neutral '': ''" by (auto intro!: neutral_plain simp: plain_def)
  with assms [OF t(2)] show "neutral t" unfolding t(1) by (intro neutral_append neutral_quote)
qed

lemma neutral_json [neutral_intros]:
  assumes "\<And>x. plain (flt x)"
  shows "neutral (json_text flt j)"
  using assms
proof (induction flt j rule: json_text.induct)
  case (3 flt n)
  show ?case by (simp add: neutral_plain plain_str_int)
next
  case (6 flt xs)
  have "neutral ''[''" "neutral '']''" by (auto intro!: neutral_plain simp: plain_def)
  moreover have "neutral (joined (map (json_text flt) xs))" using 6 by (auto intro!: neutral_joined)
  ultimately show ?case by (simp only: json_text.simps neutral_append)
next
  case (7 flt d)
  then have "neutral (json_text flt v)" if "(k, v) \<in> set d" for k v using that by auto
  then have "neutral (joined (map (\<lambda>(k, v). quote_text k @ '': '' @ json_text flt v) d))"
    by (rule neutral_fields)
  then show ?case by (simp only: json_text.simps neutral_object)
qed (auto intro!: neutral_plain neutral_quote simp: plain_def)

declare json_text.simps(7) [simp del]

text \<open>A dictionary's text right after prose without a brace is the first object the scan finds.\<close>

lemma extract_dumped:
  assumes "\<And>x. plain (flt x)" "loads (json_text flt (JDict d)) = Some (JDict d)"
    and "CHR ''{'' \<notin> set before" "codex_tool_request_from_payload shw (JDict d) \<noteq> []"
  shows "extract_json_codex_tool_requests shw loads (before @ json_text flt (JDict d) @ rest) =
    codex_tool_request_from_payload shw (JDict d) @ extract_json_codex_tool_requests shw loads rest"
proof -
  let ?t = "json_text flt (JDict d)"
  let ?s = "before @ ?t @ rest"
  define u where "u = joined (map (\<lambda>(k, v). quote_text k @ '': '' @ json_text flt v) d)"
  have u: "neutral u" unfolding u_def by (intro neutral_fields neutral_json assms(1))
  have t: "?t = ''{'' @ u @ ''}''" by (simp add: u_def json_text.simps(7))
  have dw: "dropWhile (\<lambda>c. c \<noteq> CHR ''{'') (before @ w) = dropWhile (\<lambda>c. c \<noteq> CHR ''{'') w" for w
    using assms(3) by (induction before) auto
  have s: "dropWhile (\<lambda>c. c \<noteq> CHR ''{'') ?s = ?t @ rest"
    unfolding dw by (simp add: t)
  have "find_json_object_end (?t @ rest) 0 = Some (length ?t)"
    using object_end_object [OF u, of 0 rest] by (simp add: find_json_object_end_def t)
  moreover have "?t @ rest \<noteq> []" by (simp add: t)
  ultimately show ?thesis using assms(2,4)
    by (subst extract_json_codex_tool_requests.simps, unfold s) (simp add: Let_def)
qed

definition tool_call :: "string \<Rightarrow> dict \<Rightarrow> dict" where
  "tool_call name args = [(''name'', JStr name), (''arguments'', JDict args)]"

lemma call_request:
  assumes "name \<in> set BUILTIN_TOOLS"
  shows "codex_tool_request_from_payload shw (JDict (tool_call name args)) =
    [\<lparr>tool_name = name, tool_arguments = normalize_codex_tool_arguments name (JDict args)\<rparr>]"
proof -
  have "list_all (\<lambda>n. strip n = n \<and> n \<noteq> [] \<and> map_of CODEX_TOOL_ALIASES n = None) BUILTIN_TOOLS" by code_simp
  then have "strip name = name \<and> name \<noteq> [] \<and> map_of CODEX_TOOL_ALIASES name = None"
    using assms by (simp add: list_all_iff)
  moreover have "''arguments'' \<notin> set BUILTIN_TOOLS" by (simp add: BUILTIN_TOOLS_def)
  ultimately show ?thesis using assms
    by (simp add: codex_tool_request_from_payload_def candidates_def tool_call_def dict_get_def json_dicts_def
        request_of_candidate_def normalize_codex_tool_name_def py_str_or_empty_def Let_def)
qed


text \<open>
  A search and a file message in one text; their arguments hold quotes and braces. The parser here
  knows the two objects.
\<close>

definition sample_calls :: "(string \<times> string \<times> dict) list" where
  "sample_calls =
     [(''Let me look: '', ''web_search'', [(''query'', JStr (''a } or '' @ [CHR 0x22]))]),
      ('' and then '', ''send_file'', [(''file_path'', JStr ''/f''), (''n'', JList [JInt 2, JDict []])])]"

definition sample_parser :: "string \<Rightarrow> json option" where
  "sample_parser s = map_of (map (\<lambda>(_, name, args). (json_text (\<lambda>_. ''0.5'') (JDict (tool_call name args)),
     JDict (tool_call name args))) sample_calls) s"


end
