(* ===== verification/Model_Routing.thy ===== *)
theory Model_Routing
  imports Usage Payloads Calculator Tool_Requests
begin

text \<open>
  The auto router (\<open>pbozi/backend/app/llm.py\<close>): a model of the catalogue that has a cheap model
  classify a request and passes it to the model configured for its class. The call of the
  classifying model, \<open>json.loads\<close> and \<open>str\<close> of containers are arguments. Texts are ASCII, a
  character each.
\<close>

section \<open>The catalogue\<close>

record catalogue_model = llm_model +
  provider_id :: "int option"
  model_active :: bool
  model_capabilities :: json

record provider =
  provider_name :: string
  provider_active :: bool

record catalogue =
  models :: "catalogue_model table"
  providers :: "provider table"

type_synonym model_choice = "(provider obj \<times> catalogue_model obj) option"

datatype routing_error = TypeError | AttributeError | NoTarget

definition AUTO_ROUTER_MODEL_TYPE :: "string" where
  "AUTO_ROUTER_MODEL_TYPE = ''auto_router''"

definition AUTO_ROUTER_CONFIG_KEY :: "string" where
  "AUTO_ROUTER_CONFIG_KEY = ''auto_router''"

definition AUTO_ROUTER_TARGET_FIELDS :: "string list" where
  "AUTO_ROUTER_TARGET_FIELDS =
     [''easy_model_id'', ''medium_model_id'', ''hard_model_id'', ''vision_model_id'', ''research_model_id'',
      ''fallback_model_id'']"

definition AUTO_ROUTER_MODEL_ID_FIELDS :: "string list" where
  "AUTO_ROUTER_MODEL_ID_FIELDS =
     [''router_model_id'', ''easy_model_id'', ''medium_model_id'', ''hard_model_id'', ''vision_model_id'',
      ''research_model_id'', ''fallback_model_id'']"

definition capabilities_of :: "catalogue_model \<Rightarrow> dict" where
  "capabilities_of m = (case model_capabilities m of JDict d \<Rightarrow> d | _ \<Rightarrow> [])"

definition is_auto_router_model :: "catalogue_model \<Rightarrow> bool" where
  "is_auto_router_model m \<longleftrightarrow> dict_get (capabilities_of m) ''model_type'' = JStr AUTO_ROUTER_MODEL_TYPE"

definition get_auto_router_config :: "catalogue_model \<Rightarrow> dict" where
  "get_auto_router_config m =
     (case dict_get (capabilities_of m) AUTO_ROUTER_CONFIG_KEY of JDict d \<Rightarrow> d | _ \<Rightarrow> [])"

text \<open>
  A configured id: what \<open>int\<close> reads, when positive. A list or an object has no hash, so looking it
  up in the set of empty values raises.
\<close>

definition positive :: "int option \<Rightarrow> int option" where
  "positive n = (case n of Some k \<Rightarrow> if 0 < k then Some k else None | None \<Rightarrow> None)"

fun coerce_model_id :: "json \<Rightarrow> routing_error + int option" where
  "coerce_model_id JNull = Inr None"
| "coerce_model_id (JBool b) = Inr (if b then Some 1 else None)"
| "coerce_model_id (JInt n) = Inr (positive (Some n))"
| "coerce_model_id (JFloat x) = Inr (positive (Some (trunc x)))"
| "coerce_model_id (JStr s) = Inr (positive (int_of_str s))"
| "coerce_model_id (JList _) = Inl TypeError"
| "coerce_model_id (JDict _) = Inl TypeError"

section \<open>The classification\<close>

record decision =
  difficulty :: string
  task_type :: string
  needs_vision :: bool
  needs_research :: bool
  matched_criteria :: "string list"
  decision_reason :: string

definition DIFFICULTIES :: "string list" where
  "DIFFICULTIES = [''easy'', ''medium'', ''hard'']"

definition TASK_TYPES :: "string list" where
  "TASK_TYPES = [''chat'', ''writing'', ''coding'', ''analysis'', ''research'', ''vision'', ''math'',
     ''file_generation'', ''other'']"

text \<open>The answer without a code fence around it, from its first to its last brace.\<close>

definition without_fence :: "string \<Rightarrow> string" where
  "without_fence s =
     (let a = (if starts_with s ''```''
               then (let r = drop 3 s in lstrip (if starts_ci r ''json'' then drop 4 r else r)) else s)
      in if ends_with a ''```'' then rstrip (take (length a - 3) a) else a)"

definition between_braces :: "string \<Rightarrow> string" where
  "between_braces s =
     (if CHR ''{'' \<in> set s \<and> CHR ''}'' \<in> set s
      then (let first = length (takeWhile (\<lambda>c. c \<noteq> CHR ''{'') s);
                last = length s - length (takeWhile (\<lambda>c. c \<noteq> CHR ''}'') (rev s))
            in take (last - first) (drop first s))
      else s)"

definition or_text :: "(json \<Rightarrow> string) \<Rightarrow> json \<Rightarrow> string \<Rightarrow> string" where
  "or_text shw j d = (if truthy j then py_str shw j else d)"

definition decision_of_payload :: "(json \<Rightarrow> string) \<Rightarrow> dict \<Rightarrow> decision" where
  "decision_of_payload shw p =
     (let d = lower (strip (or_text shw (dict_get p ''difficulty'') ''medium''));
          t = lower (strip (or_text shw (dict_get p ''task_type'') ''other''));
          cs = (case dict_get p ''matched_criteria'' of JList xs \<Rightarrow> xs | _ \<Rightarrow> [])
      in \<lparr>difficulty = (if d \<in> set DIFFICULTIES then d else ''medium''),
          task_type = (if t \<in> set TASK_TYPES then t else ''other''),
          needs_vision = truthy (dict_get p ''needs_vision''),
          needs_research = truthy (dict_get p ''needs_research''),
          matched_criteria = take 8 (map (\<lambda>c. take 80 (strip (py_str shw c)))
            (filter (\<lambda>c. strip (py_str shw c) \<noteq> []) cs)),
          decision_reason = take 300 (strip (or_text shw (dict_get p ''reason'') []))\<rparr>)"

text \<open>A JSON value that is no object has no \<open>get\<close>: AttributeError.\<close>

definition parse_auto_router_decision ::
  "(json \<Rightarrow> string) \<Rightarrow> (string \<Rightarrow> json option) \<Rightarrow> json \<Rightarrow> routing_error + decision" where
  "parse_auto_router_decision shw loads raw =
     (case raw of
        JDict p \<Rightarrow> Inr (decision_of_payload shw p)
      | _ \<Rightarrow> (case loads (between_braces (without_fence (strip (or_text shw raw [])))) of
          None \<Rightarrow> Inr (decision_of_payload shw [])
        | Some (JDict p) \<Rightarrow> Inr (decision_of_payload shw p)
        | Some _ \<Rightarrow> Inl AttributeError))"

section \<open>The choice of the target\<close>

text \<open>The first field of a list that holds an id.\<close>

fun first_id :: "dict \<Rightarrow> string list \<Rightarrow> routing_error + int option" where
  "first_id config [] = Inr None"
| "first_id config (f # fs) =
     (case coerce_model_id (dict_get config f) of
        Inl e \<Rightarrow> Inl e
      | Inr (Some k) \<Rightarrow> Inr (Some k)
      | Inr None \<Rightarrow> first_id config fs)"

definition select_auto_router_target_id :: "dict \<Rightarrow> decision \<Rightarrow> routing_error + int option" where
  "select_auto_router_target_id config d =
     first_id config
       ((if needs_vision d then [''vision_model_id''] else []) @
        (if needs_research d then [''research_model_id''] else []) @
        [(let k = lower (if difficulty d = [] then ''medium'' else difficulty d) in
          if k \<in> set DIFFICULTIES then k @ ''_model_id'' else ''medium_model_id''),
         ''fallback_model_id''] @ AUTO_ROUTER_TARGET_FIELDS)"

definition get_active_normal_provider_model :: "catalogue \<Rightarrow> int option \<Rightarrow> model_choice" where
  "get_active_normal_provider_model c mid =
     (case mid of
        None \<Rightarrow> None
      | Some k \<Rightarrow> (case t_get (models c) k of
          None \<Rightarrow> None
        | Some m \<Rightarrow> (case provider_id m of
            None \<Rightarrow> None
          | Some pid \<Rightarrow> (case t_get (providers c) pid of
              None \<Rightarrow> None
            | Some p \<Rightarrow> if model_active m \<and> provider_active p \<and> \<not> is_auto_router_model m
                        then Some ((pid, p), (k, m)) else None))))"

fun first_valid_target :: "catalogue \<Rightarrow> dict \<Rightarrow> string list \<Rightarrow> routing_error + model_choice" where
  "first_valid_target c config [] = Inr None"
| "first_valid_target c config (f # fs) =
     (case coerce_model_id (dict_get config f) of
        Inl e \<Rightarrow> Inl e
      | Inr k \<Rightarrow> (case get_active_normal_provider_model c k of
          Some pm \<Rightarrow> Inr (Some pm)
        | None \<Rightarrow> first_valid_target c config fs))"

definition first_valid_auto_router_target :: "catalogue \<Rightarrow> dict \<Rightarrow> routing_error + model_choice" where
  "first_valid_auto_router_target c config = first_valid_target c config AUTO_ROUTER_TARGET_FIELDS"

section \<open>The check of a configuration\<close>

fun coerce_fields :: "dict \<Rightarrow> string list \<Rightarrow> routing_error + (string \<times> int option) list" where
  "coerce_fields config [] = Inr []"
| "coerce_fields config (f # fs) =
     (case coerce_model_id (dict_get config f) of
        Inl e \<Rightarrow> Inl e
      | Inr k \<Rightarrow> (case coerce_fields config fs of Inl e \<Rightarrow> Inl e | Inr ks \<Rightarrow> Inr ((f, k) # ks)))"

definition config_errors :: "catalogue \<Rightarrow> (string \<times> int option) list \<Rightarrow> int option \<Rightarrow> string list" where
  "config_errors c ids current =
     (let chosen = concat (map (\<lambda>(f, k). case k of None \<Rightarrow> [] | Some n \<Rightarrow> [n]) ids) in
      (if map_of ids ''router_model_id'' = Some None then [''router_model_id is required''] else []) @
      (if list_all (\<lambda>f. map_of ids f = Some None) AUTO_ROUTER_TARGET_FIELDS
       then [''at least one target model is required''] else []) @
      (if current \<noteq> None \<and> the current \<in> set chosen then [''auto router cannot target itself''] else []) @
      concat (map (\<lambda>(f, k). if k \<noteq> None \<and> get_active_normal_provider_model c k = None
                           then [f @ '' must target an active normal model''] else []) ids))"

definition validate_auto_router_config :: "catalogue \<Rightarrow> json \<Rightarrow> int option \<Rightarrow> routing_error + string list" where
  "validate_auto_router_config c config current =
     (case config of
        JDict d \<Rightarrow> (case coerce_fields d AUTO_ROUTER_MODEL_ID_FIELDS of
            Inl e \<Rightarrow> Inl e
          | Inr ids \<Rightarrow> Inr (config_errors c ids current))
      | _ \<Rightarrow> Inr [''auto_router config is required''])"

section \<open>The messages to the classifying model\<close>

definition part_type :: "(json \<Rightarrow> string) \<Rightarrow> dict \<Rightarrow> string" where
  "part_type shw p = lower (strip (or_text shw (dict_get p ''type'') []))"

definition stringify_message_content_for_routing :: "(json \<Rightarrow> string) \<Rightarrow> json \<Rightarrow> string" where
  "stringify_message_content_for_routing shw content =
     (case content of
        JStr s \<Rightarrow> s
      | JList xs \<Rightarrow> join_with [CHR 0x0A] (filter (\<lambda>x. x \<noteq> [])
          (map (\<lambda>p. if part_type shw p = ''text'' then or_text shw (dict_get p ''text'') []
                    else if part_type shw p = ''image_url'' then ''[image input]'' else []) (json_dicts (JList xs))))
      | _ \<Rightarrow> or_text shw content [])"

definition messages_include_image_input :: "(json \<Rightarrow> string) \<Rightarrow> dict list \<Rightarrow> bool" where
  "messages_include_image_input shw messages =
     list_ex (\<lambda>m. list_ex (\<lambda>p. part_type shw p \<in> {''image_url'', ''file''}) (json_dicts (dict_get m ''content'')))
       messages"

definition AUTO_ROUTER_SYSTEM_PROMPT :: "string" where
  "AUTO_ROUTER_SYSTEM_PROMPT = ''<the prompt of the routing classifier>''"

definition last_of :: "nat \<Rightarrow> 'a list \<Rightarrow> 'a list" where
  "last_of n xs = drop (length xs - n) xs"

definition build_auto_router_messages :: "(json \<Rightarrow> string) \<Rightarrow> dict list \<Rightarrow> dict list" where
  "build_auto_router_messages shw messages =
     (let line = (\<lambda>m.
            let role = or_text shw (dict_get m ''role'') ''unknown'';
                content = strip (stringify_message_content_for_routing shw (dict_get m ''content''))
            in if role = ''system'' \<or> content = [] then [] else [role @ '': '' @ take 4000 content]);
          flags = (if messages_include_image_input shw messages then [''input_flags: image_input=true''] else []);
          payload = last_of 12000 (join_with [CHR 0x0A, CHR 0x0A] (concat (map line (last_of 8 messages)) @ flags))
      in [[(''role'', JStr ''system''), (''content'', JStr AUTO_ROUTER_SYSTEM_PROMPT)],
          [(''role'', JStr ''user''),
           (''content'', JStr (if payload = [] then ''Classify an empty user request as easy chat.'' else payload))]])"

section \<open>The resolution\<close>

record routing =
  selected_id :: int
  router_id :: "int option"
  target_model_id :: int
  routed_by :: decision
  router_error :: "string option"
  router_usage :: json

type_synonym chat_model = "provider obj \<Rightarrow> string \<Rightarrow> dict list \<Rightarrow> string + dict"

text \<open>
  The classification by the configured model: the decision, the error kept for the record and the
  usage. Whatever the call raises is caught, and the default decision is used.
\<close>

definition classify ::
  "(json \<Rightarrow> string) \<Rightarrow> (string \<Rightarrow> json option) \<Rightarrow> chat_model \<Rightarrow> model_choice \<Rightarrow> dict list \<Rightarrow>
   decision \<times> string option \<times> json" where
  "classify shw loads ask router messages =
     (let default = decision_of_payload shw [];
          no_get = Some ''object has no attribute get''
      in case router of
        None \<Rightarrow> (default, Some ''router_model_id is not an active normal model'', JNull)
      | Some (p, (_, m)) \<Rightarrow>
          (case ask p (model_name m) (build_auto_router_messages shw messages) of
             Inl e \<Rightarrow> (default, Some (take 300 e), JNull)
           | Inr response \<Rightarrow>
               (case (if truthy (dict_get response ''message'') then dict_get response ''message'' else JDict []) of
                  JDict message \<Rightarrow>
                    (let content = dict_get message ''content'' in
                     case parse_auto_router_decision shw loads (if truthy content then content else JStr []) of
                       Inl e \<Rightarrow> (default, no_get, JNull)
                     | Inr d \<Rightarrow> (d, None, dict_get response ''usage''))
                | _ \<Rightarrow> (default, no_get, JNull))))"

definition route_by ::
  "catalogue \<Rightarrow> dict \<Rightarrow> decision \<Rightarrow> routing_error + provider obj \<times> catalogue_model obj" where
  "route_by c config d =
     (case select_auto_router_target_id config d of
        Inl e \<Rightarrow> Inl e
      | Inr k \<Rightarrow> (case get_active_normal_provider_model c k of
          Some pm \<Rightarrow> Inr pm
        | None \<Rightarrow> (case first_valid_auto_router_target c config of
            Inl e \<Rightarrow> Inl e
          | Inr (Some pm) \<Rightarrow> Inr pm
          | Inr None \<Rightarrow> Inl NoTarget)))"

definition resolve_model_for_completion ::
  "(json \<Rightarrow> string) \<Rightarrow> (string \<Rightarrow> json option) \<Rightarrow> chat_model \<Rightarrow> catalogue \<Rightarrow> provider obj option \<Rightarrow>
   catalogue_model obj option \<Rightarrow> dict list \<Rightarrow>
   routing_error + (provider obj option \<times> catalogue_model obj option \<times> routing option)" where
  "resolve_model_for_completion shw loads ask c selected_provider selected messages =
     (case selected of
        None \<Rightarrow> Inr (selected_provider, None, None)
      | Some (mid, m) \<Rightarrow>
          if \<not> is_auto_router_model m then Inr (selected_provider, selected, None)
          else let config = get_auto_router_config m in
            (case coerce_model_id (dict_get config ''router_model_id'') of
               Inl e \<Rightarrow> Inl e
             | Inr k \<Rightarrow>
                 (let router = get_active_normal_provider_model c k in
                  case classify shw loads ask router messages of (d, err, usage) \<Rightarrow>
                    (case route_by c config d of
                       Inl e \<Rightarrow> Inl e
                     | Inr (p, t) \<Rightarrow> Inr (Some p, Some t, Some \<lparr>selected_id = mid,
                         router_id = map_option (\<lambda>(_, (rid, _)). rid) router, target_model_id = fst t,
                         routed_by = d, router_error = err, router_usage = usage\<rparr>)))))"

section \<open>What routing guarantees\<close>

lemma first_id_outcome:
  assumes "\<And>f. f \<in> set fs \<Longrightarrow> \<exists>k. coerce_model_id (dict_get config f) = Inr k"
  shows "\<exists>r. first_id config fs = Inr r \<and>
    (r = None \<longrightarrow> (\<forall>f \<in> set fs. coerce_model_id (dict_get config f) = Inr None)) \<and>
    (\<forall>k. r = Some k \<longrightarrow> (\<exists>f \<in> set fs. coerce_model_id (dict_get config f) = Inr (Some k)))"
  using assms
proof (induction fs)
  case (Cons f fs)
  from Cons.prems [of f] obtain k where k: "coerce_model_id (dict_get config f) = Inr k" by auto
  have "\<exists>k. coerce_model_id (dict_get config g) = Inr k" if "g \<in> set fs" for g
    using Cons.prems [of g] that by simp
  with Cons.IH show ?case by (cases k) (auto simp: k)
qed simp

lemma coerce_fields_each:
  "coerce_fields config fs = Inr ids \<Longrightarrow>
     ids = map (\<lambda>f. (f, projr (coerce_model_id (dict_get config f)))) fs \<and>
     (\<forall>f \<in> set fs. \<exists>k. coerce_model_id (dict_get config f) = Inr k)"
  by (induction fs arbitrary: ids) (auto split: sum.splits)

lemma no_config_errors:
  assumes "config_errors c ids (Some rid) = []" and "(f, Some k) \<in> set ids"
  shows "get_active_normal_provider_model c (Some k) \<noteq> None \<and> k \<noteq> rid"
proof
  note e = assms(1) [unfolded config_errors_def Let_def append_is_Nil_conv]
  from e have "concat (map (\<lambda>(f, k). if k \<noteq> None \<and> get_active_normal_provider_model c k = None
      then [f @ '' must target an active normal model''] else []) ids) = []" by blast
  then have "\<forall>x \<in> set ids. (\<lambda>(f, k). if k \<noteq> None \<and> get_active_normal_provider_model c k = None
      then [f @ '' must target an active normal model''] else []) x = []" by simp
  from bspec [OF this assms(2)] show "get_active_normal_provider_model c (Some k) \<noteq> None" by (simp split: if_splits)
  let ?chosen = "concat (map (\<lambda>(f, k). case k of None \<Rightarrow> [] | Some n \<Rightarrow> [n]) ids)"
  from e have "(if Some rid \<noteq> None \<and> the (Some rid) \<in> set ?chosen then [''auto router cannot target itself''] else []) = []"
    by blast
  then have "rid \<notin> set ?chosen" by (metis list.distinct(1) option.distinct(1) option.sel)
  then have "\<forall>x \<in> set ids. rid \<notin> set ((\<lambda>(f, k). case k of None \<Rightarrow> [] | Some n \<Rightarrow> [n]) x)" by simp
  from bspec [OF this assms(2)] show "k \<noteq> rid" by simp
qed

text \<open>Whatever is chosen is active, has an active provider and is no router.\<close>

lemma chosen_is_active_and_normal:
  assumes "get_active_normal_provider_model c k = Some ((pid, p), (mid, m))"
  shows "k = Some mid \<and> t_get (models c) mid = Some m \<and> t_get (providers c) pid = Some p \<and>
    provider_id m = Some pid \<and> model_active m \<and> provider_active p \<and> \<not> is_auto_router_model m"
  using assms by (auto simp: get_active_normal_provider_model_def split: option.splits if_splits)

lemma first_valid_target_valid:
  "first_valid_target c config fs = Inr (Some pm) \<Longrightarrow> \<exists>k. get_active_normal_provider_model c k = Some pm"
  by (induction fs) (auto split: sum.splits option.splits)

lemma route_by_valid: "route_by c config d = Inr pm \<Longrightarrow> \<exists>k. get_active_normal_provider_model c k = Some pm"
  by (auto simp: route_by_def first_valid_auto_router_target_def dest: first_valid_target_valid
      split: sum.splits option.splits)

lemma resolved_target_is_active:
  assumes "resolve_model_for_completion shw loads ask c sp (Some (rid, m)) messages = Inr (Some (pid, p), Some (mid, t), r)"
    and "is_auto_router_model m"
  shows "t_get (models c) mid = Some t \<and> provider_id t = Some pid \<and> model_active t \<and> provider_active p \<and>
    \<not> is_auto_router_model t"
proof -
  obtain d where "route_by c (get_auto_router_config m) d = Inr ((pid, p), (mid, t))"
    using assms by (auto simp: resolve_model_for_completion_def Let_def split: sum.splits prod.splits)
  from route_by_valid [OF this] chosen_is_active_and_normal show ?thesis by blast
qed

lemma selection_fields:
  "set ((if needs_vision d then [''vision_model_id''] else []) @
     (if needs_research d then [''research_model_id''] else []) @
     [(let k = lower (if difficulty d = [] then ''medium'' else difficulty d) in
       if k \<in> set DIFFICULTIES then k @ ''_model_id'' else ''medium_model_id''),
      ''fallback_model_id''] @ AUTO_ROUTER_TARGET_FIELDS) = set AUTO_ROUTER_TARGET_FIELDS"
  by (auto simp: AUTO_ROUTER_TARGET_FIELDS_def DIFFICULTIES_def Let_def)

text \<open>What an accepted configuration is: every field reads, what it names is another usable model, and a target is named.\<close>

definition usable_config :: "catalogue \<Rightarrow> dict \<Rightarrow> int \<Rightarrow> bool" where
  "usable_config c config rid \<longleftrightarrow>
     list_all (\<lambda>f. case coerce_model_id (dict_get config f) of
         Inl _ \<Rightarrow> False
       | Inr None \<Rightarrow> True
       | Inr (Some k) \<Rightarrow> get_active_normal_provider_model c (Some k) \<noteq> None \<and> k \<noteq> rid) AUTO_ROUTER_MODEL_ID_FIELDS \<and>
     list_ex (\<lambda>f. coerce_model_id (dict_get config f) \<noteq> Inr None) AUTO_ROUTER_TARGET_FIELDS"

lemma target_fields: "set AUTO_ROUTER_TARGET_FIELDS \<subseteq> set AUTO_ROUTER_MODEL_ID_FIELDS"
  by (auto simp: AUTO_ROUTER_TARGET_FIELDS_def AUTO_ROUTER_MODEL_ID_FIELDS_def)

lemma validated_config_usable:
  assumes "validate_auto_router_config c (JDict config) (Some rid) = Inr []"
  shows "usable_config c config rid"
proof -
  obtain ids where ids: "coerce_fields config AUTO_ROUTER_MODEL_ID_FIELDS = Inr ids"
    "config_errors c ids (Some rid) = []"
    using assms by (auto simp: validate_auto_router_config_def split: sum.splits)
  note each = coerce_fields_each [OF ids(1)]
  have "case coerce_model_id (dict_get config f) of
         Inl _ \<Rightarrow> False
       | Inr None \<Rightarrow> True
       | Inr (Some k) \<Rightarrow> get_active_normal_provider_model c (Some k) \<noteq> None \<and> k \<noteq> rid"
    if f: "f \<in> set AUTO_ROUTER_MODEL_ID_FIELDS" for f
  proof -
    obtain k where k: "coerce_model_id (dict_get config f) = Inr k" using each f by blast
    then have "(f, k) \<in> set ids" using each f by (metis (no_types, lifting) image_eqI list.set_map sum.sel(2))
    with no_config_errors [OF ids(2), of f] k show ?thesis by (cases k) auto
  qed
  moreover obtain g where g: "g \<in> set AUTO_ROUTER_TARGET_FIELDS" "map_of ids g \<noteq> Some None"
    using ids(2) by (auto simp: config_errors_def Let_def list_all_iff split: if_splits)
  have "map_of ids g = Some (projr (coerce_model_id (dict_get config g)))"
    using each g(1) target_fields by (auto simp: map_of_map_restrict restrict_map_def)
  with g(2) have "coerce_model_id (dict_get config g) \<noteq> Inr None" by auto
  ultimately show ?thesis using g(1) unfolding usable_config_def list_all_iff list_ex_iff by blast
qed

lemma usable_field:
  assumes "usable_config c config rid" and "f \<in> set AUTO_ROUTER_MODEL_ID_FIELDS"
  shows "\<exists>k. coerce_model_id (dict_get config f) = Inr k"
    and "coerce_model_id (dict_get config f) = Inr (Some k) \<Longrightarrow>
      get_active_normal_provider_model c (Some k) \<noteq> None \<and> k \<noteq> rid"
proof -
  have "case coerce_model_id (dict_get config f) of
         Inl _ \<Rightarrow> False
       | Inr None \<Rightarrow> True
       | Inr (Some k) \<Rightarrow> get_active_normal_provider_model c (Some k) \<noteq> None \<and> k \<noteq> rid"
    using assms unfolding usable_config_def list_all_iff by blast
  then show "\<exists>k. coerce_model_id (dict_get config f) = Inr k"
    and "coerce_model_id (dict_get config f) = Inr (Some k) \<Longrightarrow>
      get_active_normal_provider_model c (Some k) \<noteq> None \<and> k \<noteq> rid"
    by (cases "coerce_model_id (dict_get config f)"; simp)+
qed

lemma usable_selection:
  assumes "usable_config c config rid"
  shows "\<exists>k f. select_auto_router_target_id config d = Inr (Some k) \<and> f \<in> set AUTO_ROUTER_TARGET_FIELDS \<and>
    coerce_model_id (dict_get config f) = Inr (Some k)"
proof -
  define fs where "fs = (if needs_vision d then [''vision_model_id''] else []) @
    (if needs_research d then [''research_model_id''] else []) @
    [(let k = lower (if difficulty d = [] then ''medium'' else difficulty d) in
      if k \<in> set DIFFICULTIES then k @ ''_model_id'' else ''medium_model_id''),
     ''fallback_model_id''] @ AUTO_ROUTER_TARGET_FIELDS"
  have fs: "set fs = set AUTO_ROUTER_TARGET_FIELDS" unfolding fs_def by (rule selection_fields)
  have sel: "select_auto_router_target_id config d = first_id config fs"
    by (simp only: select_auto_router_target_id_def fs_def)
  have "\<exists>k. coerce_model_id (dict_get config f) = Inr k" if "f \<in> set fs" for f
    using usable_field(1) [OF assms] target_fields that fs by blast
  from first_id_outcome [OF this] obtain res where res: "first_id config fs = Inr res"
    "res = None \<Longrightarrow> \<forall>f \<in> set fs. coerce_model_id (dict_get config f) = Inr None"
    "\<And>k. res = Some k \<Longrightarrow> \<exists>f \<in> set fs. coerce_model_id (dict_get config f) = Inr (Some k)" by blast
  from res(2) assms fs obtain k where "res = Some k" by (cases res) (auto simp: usable_config_def list_ex_iff)
  with res(1,3) sel fs show ?thesis by auto
qed

lemma usable_routes:
  assumes "usable_config c config rid"
  shows "\<exists>pid p mid t f. route_by c config d = Inr ((pid, p), (mid, t)) \<and> mid \<noteq> rid \<and>
    get_active_normal_provider_model c (Some mid) = Some ((pid, p), (mid, t)) \<and>
    f \<in> set AUTO_ROUTER_TARGET_FIELDS \<and> coerce_model_id (dict_get config f) = Inr (Some mid)"
proof -
  obtain k f where k: "select_auto_router_target_id config d = Inr (Some k)"
    "f \<in> set AUTO_ROUTER_TARGET_FIELDS" "coerce_model_id (dict_get config f) = Inr (Some k)"
    using usable_selection [OF assms] by blast
  with usable_field(2) [OF assms, of f k] target_fields obtain pid p mid t where
    g: "get_active_normal_provider_model c (Some k) = Some ((pid, p), (mid, t))" "k \<noteq> rid"
    by (cases "get_active_normal_provider_model c (Some k)") auto
  moreover from chosen_is_active_and_normal [OF g(1)] have "mid = k" by simp
  ultimately show ?thesis using k by (auto simp: route_by_def)
qed

text \<open>
  C26. A configuration the validator accepts always works: whatever the messages are and whatever
  the classifying model answers, raises or returns in place of a decision, the request is routed to
  a model that one of the target fields names; it is active, its provider is active, it is no
  router, and it is not the router itself.
\<close>

theorem validated_router_always_resolves:
  assumes "validate_auto_router_config c (JDict (get_auto_router_config m)) (Some rid) = Inr []"
    and "is_auto_router_model m"
  shows "\<exists>pid p mid t r f.
    resolve_model_for_completion shw loads ask c sp (Some (rid, m)) messages =
      Inr (Some (pid, p), Some (mid, t), Some r) \<and>
    target_model_id r = mid \<and> mid \<noteq> rid \<and>
    f \<in> set AUTO_ROUTER_TARGET_FIELDS \<and>
    coerce_model_id (dict_get (get_auto_router_config m) f) = Inr (Some mid) \<and>
    t_get (models c) mid = Some t \<and> model_active t \<and> \<not> is_auto_router_model t \<and>
    provider_id t = Some pid \<and> t_get (providers c) pid = Some p \<and> provider_active p"
proof -
  define config where "config = get_auto_router_config m"
  have u: "usable_config c config rid"
    using assms(1) unfolding config_def by (rule validated_config_usable)
  have "''router_model_id'' \<in> set AUTO_ROUTER_MODEL_ID_FIELDS" by (simp add: AUTO_ROUTER_MODEL_ID_FIELDS_def)
  from usable_field(1) [OF u this] obtain rk where rk: "coerce_model_id (dict_get config ''router_model_id'') = Inr rk" ..
  obtain d err usage where cl:
    "classify shw loads ask (get_active_normal_provider_model c rk) messages = (d, err, usage)" by (metis prod_cases3)
  from usable_routes [OF u, of d] obtain pid p mid t f where
    r: "route_by c config d = Inr ((pid, p), (mid, t))" "mid \<noteq> rid"
    "get_active_normal_provider_model c (Some mid) = Some ((pid, p), (mid, t))"
    "f \<in> set AUTO_ROUTER_TARGET_FIELDS" "coerce_model_id (dict_get config f) = Inr (Some mid)" by blast
  with chosen_is_active_and_normal [OF r(3)] assms(2) rk cl show ?thesis
    by (auto simp: resolve_model_for_completion_def config_def Let_def)
qed

text \<open>
  A small catalogue: model 1 is the router, 2 classifies and answers easy requests, 3 is switched
  off. The classifying model answers with a list in place of a decision.
\<close>

definition sample_router :: catalogue_model where
  "sample_router = \<lparr>model_name = ''auto'', model_display_name = None, pricing_input = None, pricing_output = None,
     provider_id = Some 1, model_active = True,
     model_capabilities = JDict [(''model_type'', JStr ''auto_router''),
       (''auto_router'', JDict [(''router_model_id'', JInt 2), (''easy_model_id'', JStr ''2'')])]\<rparr>"

definition sample_catalogue :: catalogue where
  "sample_catalogue =
     \<lparr>models = [(1, sample_router),
        (2, sample_router\<lparr>model_name := ''small'', model_capabilities := JNull\<rparr>),
        (3, sample_router\<lparr>model_name := ''large'', model_capabilities := JNull, model_active := False\<rparr>)],
      providers = [(1, \<lparr>provider_name = ''p'', provider_active = True\<rparr>)]\<rparr>"

definition sample_answer :: chat_model where
  "sample_answer p name ms = Inr [(''message'', JDict [(''content'', JList [JInt 1])])]"

theorem validated_router_always_resolves_witness:
  "validate_auto_router_config sample_catalogue (JDict (get_auto_router_config sample_router)) (Some 1) = Inr [] \<and>
   (\<exists>pid p t r. resolve_model_for_completion (\<lambda>_. ''[1]'') (\<lambda>_. Some (JList [JInt 1])) sample_answer sample_catalogue
      None (Some (1, sample_router)) [] = Inr (Some (pid, p), Some (2, t), Some r) \<and> target_model_id r = 2)"
proof
  show v: "validate_auto_router_config sample_catalogue (JDict (get_auto_router_config sample_router)) (Some 1) = Inr []"
    by code_simp
  have a: "is_auto_router_model sample_router" by code_simp
  from validated_router_always_resolves [OF v a, of "\<lambda>_. ''[1]''" "\<lambda>_. Some (JList [JInt 1])" sample_answer None "[]"]
  obtain pid p mid t r f where r: "resolve_model_for_completion (\<lambda>_. ''[1]'') (\<lambda>_. Some (JList [JInt 1])) sample_answer
      sample_catalogue None (Some (1, sample_router)) [] = Inr (Some (pid, p), Some (mid, t), Some r)"
    "target_model_id r = mid" "f \<in> set AUTO_ROUTER_TARGET_FIELDS"
    "coerce_model_id (dict_get (get_auto_router_config sample_router) f) = Inr (Some mid)" by blast
  have "list_all (\<lambda>f. coerce_model_id (dict_get (get_auto_router_config sample_router) f) \<in> {Inr None, Inr (Some 2)})
    AUTO_ROUTER_TARGET_FIELDS" by code_simp
  with r(3,4) have "mid = 2" by (auto simp: list_all_iff)
  with r(1,2) show "\<exists>pid p t r. resolve_model_for_completion (\<lambda>_. ''[1]'') (\<lambda>_. Some (JList [JInt 1])) sample_answer
      sample_catalogue None (Some (1, sample_router)) [] = Inr (Some (pid, p), Some (2, t), Some r) \<and>
      target_model_id r = 2" by auto
qed

section \<open>The type of a decision\<close>

definition well_typed_decision :: "decision \<Rightarrow> bool" where
  "well_typed_decision d \<longleftrightarrow>
     difficulty d \<in> set DIFFICULTIES \<and> task_type d \<in> set TASK_TYPES \<and>
     length (matched_criteria d) \<le> 8 \<and>
     list_all (\<lambda>c. c \<noteq> [] \<and> length c \<le> 80) (matched_criteria d) \<and>
     length (decision_reason d) \<le> 300"

lemma payload_decision_typed: "well_typed_decision (decision_of_payload shw p)"
proof -
  have "list_all (\<lambda>c. c \<noteq> [] \<and> length c \<le> 80) (take 8 (map (\<lambda>c. take 80 (f c)) (filter (\<lambda>c. f c \<noteq> []) cs)))"
    for f and cs :: "json list"
    by (auto simp: list_all_iff dest!: in_set_takeD)
  then show ?thesis
    by (auto simp: well_typed_decision_def decision_of_payload_def Let_def DIFFICULTIES_def TASK_TYPES_def)
qed

lemma parsed_decision_typed:
  "case parse_auto_router_decision shw loads raw of
     Inr d \<Rightarrow> well_typed_decision d | Inl e \<Rightarrow> e = AttributeError"
proof -
  have "case (case loads t of None \<Rightarrow> Inr (decision_of_payload shw [])
        | Some (JDict p) \<Rightarrow> Inr (decision_of_payload shw p) | Some _ \<Rightarrow> Inl AttributeError) of
      Inr d \<Rightarrow> well_typed_decision d | Inl e \<Rightarrow> e = AttributeError" for t
    by (simp add: payload_decision_typed split: option.splits json.splits)
  then show ?thesis by (cases raw) (simp_all only: parse_auto_router_decision_def json.case sum.case payload_decision_typed)
qed

text \<open>
  C27. Whatever a classifying model answers, be it an object, a text with or without a code fence,
  broken JSON or nothing, the decision that comes out is well typed: its difficulty and its task
  are known words, it has at most eight criteria, none empty and none longer than eighty
  characters, and its reason is at most three hundred; the only other outcome is the
  AttributeError of a JSON value that is no object. The routing that follows works on such a
  decision in any case.
\<close>

theorem decisions_are_well_typed:
  "(case parse_auto_router_decision shw loads raw of
      Inr d \<Rightarrow> well_typed_decision d
    | Inl e \<Rightarrow> e = AttributeError) \<and>
   well_typed_decision (fst (classify shw loads ask router messages))"
proof
  show parsed: "case parse_auto_router_decision shw loads raw of
      Inr d \<Rightarrow> well_typed_decision d | Inl e \<Rightarrow> e = AttributeError"
    by (rule parsed_decision_typed)
  show "well_typed_decision (fst (classify shw loads ask router messages))"
  proof (cases router)
    case None
    then show ?thesis by (simp add: classify_def Let_def payload_decision_typed)
  next
    case (Some r)
    obtain p i m where r: "router = Some (p, (i, m))" using Some by (cases r) auto
    have "well_typed_decision (fst (case parse_auto_router_decision shw loads j of
        Inl e \<Rightarrow> (decision_of_payload shw [], u, v) | Inr d \<Rightarrow> (d, w, x)))" for j and u w :: "string option" and v x :: json
      using parsed_decision_typed [of shw loads j] payload_decision_typed by (simp split: sum.splits)
    then show ?thesis unfolding r classify_def Let_def
      by (simp add: payload_decision_typed split: sum.splits json.splits)
  qed
qed

end
