(* ===== verification/Ledger_Growth.thy ===== *)
theory Ledger_Growth
  imports Payment_Review User_Subscription Admin_Subscription Promo Group_Billing Projects Bot_Payments
    Tips Feedback Link_Codes Idempotency "HOL-Library.Sublist"
begin

text \<open>
  The Toman ledger is a journal: no operation of the platform changes or removes a row of it, and
  what is committed stays. One rule per operation that touches the billing tables, by the
  combinators it is written with; an operation that frames the billing tables needs none.
\<close>

definition extends :: "toman_ledger_entry table \<Rightarrow> db \<Rightarrow> bool" where
  "extends L d \<longleftrightarrow> prefix L (toman_ledger d)"

abbreviation grows :: "toman_ledger_entry table \<Rightarrow> 'a act \<Rightarrow> bool" where
  "grows L m \<equiv> invar (extends L) m"

named_theorems grow_rules

lemma grows_frames: "frames m \<Longrightarrow> grows L m"
proof -
  assume m: "frames m"
  have "on_both (extends L) (snd (m s))" if "on_both (extends L) s" for s
  proof -
    have "frames_to s (snd (m s))" using m unfolding frames_def by blast
    with that show ?thesis by (auto simp: frames_to_def same_books_def on_both_def extends_def)
  qed
  then show ?thesis by (simp add: invar_def preserves_def)
qed

lemma grows_update [grow_rules]: "(\<And>d. toman_ledger (f d) = toman_ledger d) \<Longrightarrow> grows L (update f)"
  by (rule invar_update) (simp add: extends_def)

lemma grows_run_request [grow_rules]: "grows L m \<Longrightarrow> grows L (run_request m)"
  unfolding invar_def preserves_def run_request_def
  by (auto simp: on_both_def split: prod.splits sum.splits)

declare invar_rules [grow_rules]
declare frames_rules [THEN grows_frames, grow_rules]

section \<open>Billing\<close>

lemma grows_add_ledger [grow_rules]: "grows L (add_ledger e)"
proof -
  have "grows L (update (\<lambda>d. d\<lparr>toman_ledger := t_add e (toman_ledger d)\<rparr>))"
    by (rule invar_update) (simp add: extends_def t_add_def)
  then show ?thesis unfolding add_ledger_def by (intro invar_rules)
qed

lemma grows_save_account [grow_rules]: "grows L (save_account aid a)"
  unfolding save_account_def by (intro grow_rules) simp

lemma grows_get_account [grow_rules]: "grows L (get_or_create_billing_account uid)"
  unfolding get_or_create_billing_account_def Let_def by (intro grow_rules) simp_all

lemma grows_purchase [grow_rules]: "grows L (purchase_toman_subscription now uid plan key conf wal grant c)"
  unfolding purchase_toman_subscription_def settle_purchase_def Let_def
  by (intro grow_rules frame_facts [THEN grows_frames]; simp)

lemma grows_quote_topup [grow_rules]: "grows L (quote_toman_topup_payment now uid n)"
  unfolding quote_toman_topup_payment_def Let_def
  by (intro grow_rules frame_facts [THEN grows_frames])

lemma grows_topup [grow_rules]: "grows L (apply_toman_topup now uid n key md c)"
  unfolding apply_toman_topup_def Let_def by (intro grow_rules frame_facts [THEN grows_frames])

lemma grows_mark_discount [grow_rules]: "grows L (mark_first_topup_discount_used uid key md c)"
  unfolding mark_first_topup_discount_used_def Let_def by (intro grow_rules frame_facts [THEN grows_frames])

lemma grows_permission [grow_rules]: "grows L (check_chat_usage_permission_toman now uid model i out)"
  unfolding check_chat_usage_permission_toman_def Let_def by (intro grow_rules frame_facts [THEN grows_frames])

lemma grows_charge [grow_rules]: "grows L (charge_chat_usage_toman now uid model i out ue key md c)"
  unfolding charge_chat_usage_toman_def charge_balances_def Let_def
  by (intro grow_rules frame_facts [THEN grows_frames])

lemma grows_generic [grow_rules]: "grows L (charge_generic_usage_toman uid cost ty reason ue key md c)"
  unfolding charge_generic_usage_toman_def Let_def by (intro grow_rules frame_facts [THEN grows_frames])

section \<open>Accounts, promo codes, payments\<close>

lemma grows_starter_credit [grow_rules]: "grows L (apply_starter_credit uid)"
  unfolding apply_starter_credit_def Let_def by (intro grow_rules)

lemma grows_signup [grow_rules]: "grows L (signup_user now u)"
  unfolding signup_user_def by (intro grow_rules)

lemma grows_create_or_restore [grow_rules]:
  "grows L (create_or_restore_user now env tg first uname phone pref adm is_adm c)"
  unfolding create_or_restore_user_def flush_user_def Let_def by (intro grow_rules)

lemma grows_redeem [grow_rules]: "grows L (redeem_promo_code_for_user uid c usd n src cc)"
  unfolding redeem_promo_code_for_user_def redeem_toman_def Let_def by (intro grow_rules)

lemma grows_approve [grow_rules]: "grows L (approve_payment_request now rid note)"
  unfolding approve_payment_request_def approve_topup_def approve_subscription_def save_request_def Let_def
  by (intro grow_rules; simp)

lemma grows_reject [grow_rules]: "grows L (reject_payment_request now rid note)"
  unfolding reject_payment_request_def save_request_def Let_def by (intro grow_rules; simp)

lemma grows_create_request [grow_rules]: "grows L (create_payment_request now tg amt descr path)"
  unfolding create_payment_request_def Let_def by (intro grow_rules; simp)

section \<open>The web application and the bot\<close>

lemma grows_resolve_user [grow_rules]: "grows L (resolve_user now env tg)"
  unfolding resolve_user_def by (intro grow_rules)

lemma grows_web [grow_rules]:
  "grows L (purchase_subscription now env tg pid)" "grows L (apply_topup now env tg amt)"
  "grows L (get_billing_account now env tg)" "grows L (check_usage_permission now env tg mid i out)"
  "grows L (claim_trial now env tg)"
  unfolding purchase_subscription_def apply_topup_def get_billing_account_def check_usage_permission_def claim_trial_def
  by (intro grow_rules frames_live_subscription [THEN grows_frames])+

lemma grows_admin_config [grow_rules]: "grows L (update_config data)"
  unfolding update_config_def committed_config_def set_int_field_def set_percent_field_def Let_def
  by (intro grow_rules)

lemma grows_admin_plans [grow_rules]:
  "grows L (create_plan plan)" "grows L (update_plan pid pdata)" "grows L (delete_plan pid)"
  unfolding create_plan_def update_plan_def delete_plan_def Let_def
  by (intro grow_rules; simp add: cascade_delete_plan_def Let_def)+

lemma grows_admin_subscriptions [grow_rules]:
  "grows L (cancel_user_subscription now sid)" "grows L (reactivate_user_subscription now sid)"
  unfolding cancel_user_subscription_def reactivate_user_subscription_def Let_def
  by (intro grow_rules; simp)+

lemma grows_get_user [grow_rules]: "grows L (get_user now tg first uname)"
  unfolding get_user_def Let_def by (intro grow_rules)

lemma grows_bot_topup [grow_rules]: "grows L (topup_payment_session now who payload p)"
  unfolding topup_payment_session_def Let_def by (intro grow_rules)

lemma grows_bot_subscription [grow_rules]: "grows L (subscription_payment_session now who payload p)"
  unfolding subscription_payment_session_def debit_subscription_wallet_usd_def toman_balance_def Let_def
  by (intro grow_rules frames_live_subscription [THEN grows_frames])

lemma grows_payload:
  "(\<And>a. grows L (f a)) \<Longrightarrow> (\<And>b. grows L (g b)) \<Longrightarrow> (\<And>c. grows L (h c)) \<Longrightarrow>
    grows L (case x of Topup a \<Rightarrow> f a | Subscription b \<Rightarrow> g b | TomanTopup c \<Rightarrow> h c)"
  by (cases x) simp_all

lemma grows_payment [grow_rules]: "grows L (handle_successful_payment now upd sender payment)"
  unfolding handle_successful_payment_def in_session_def by (intro grow_rules grows_payload)

lemma grows_claim [grow_rules]: "grows L (claim_update_once now racing u re)"
  unfolding claim_update_once_def Let_def by (intro grow_rules)

lemma grows_try_tokens [grow_rules]: "grows L (try_tokens pid tokens)"
proof (induction tokens)
  case (Cons token tokens)
  then show ?case by (simp, intro grow_rules; simp)
qed (simp add: invar_rules)

lemma grows_copy_documents [grow_rules]: "grows L (copy_documents copies dir pid fs docs)"
proof (induction docs arbitrary: fs)
  case (Cons doc docs)
  then show ?case by (simp, intro grow_rules; simp)
qed (simp add: invar_rules)

lemma grows_copy_project [grow_rules]: "grows L (copy_project_for_user copies fs dir now token uid)"
  unfolding copy_project_for_user_def get_project_by_share_token_def Let_def
  by (intro grow_rules; simp)

end
