(* ===== verification/Promo_Admin.thy ===== *)
theory Promo_Admin
  imports Promo Payments
begin

text \<open>
  The administration of promo codes (\<open>admin_routes.py\<close>): creating, changing and switching off a code,
  each with a row of the audit log in the same transaction. The request schema has typed the fields
  already; the description, which is only shown, is left out.
\<close>

section \<open>The fields of a request\<close>

text \<open>The outer option tells whether the field was sent, the inner one whether it is null.\<close>

record promo_payload =
  pp_code :: "string option option"
  pp_bonus_type :: "string option option"
  pp_currency :: "string option option"
  pp_bonus_value :: "pyfloat option option"
  pp_minimum_charge :: "pyfloat option option"
  pp_max_total :: "int option option"
  pp_max_per_user :: "int option option"
  pp_is_active :: "bool option option"
  pp_expires_at :: "instant option option"

text \<open>The columns to write.\<close>

record promo_columns =
  pn_code :: "string option"
  pn_bonus_type :: "string option"
  pn_currency :: "string option"
  pn_bonus_usd :: "pyfloat option"
  pn_bonus_toman :: "int option"
  pn_minimum_usd :: "pyfloat option"
  pn_minimum_toman :: "int option"
  pn_max_total :: "int option option"
  pn_max_per_user :: "int option"
  pn_is_active :: "bool option"
  pn_expires_at :: "instant option option"

definition if_sent :: "'a option \<Rightarrow> ('a \<Rightarrow> 'b act) \<Rightarrow> 'b option act" where
  "if_sent x f = (case x of None \<Rightarrow> ret None | Some v \<Rightarrow> bind (f v) (\<lambda>y. ret (Some y)))"

definition require :: "bool \<Rightarrow> string \<Rightarrow> 'a \<Rightarrow> 'a act" where
  "require ok msg x = (if ok then ret x else raise (HTTPException 400 msg))"

text \<open>
  Whether an amount is one of Toman: by the currency in the request as it was sent, not by the
  currency of the code.
\<close>

definition counts_toman :: "promo_payload \<Rightarrow> bool" where
  "counts_toman data \<longleftrightarrow> pp_currency data = Some (Some ''TOMAN'')"

definition normalize_promo_code_payload :: "promo_payload \<Rightarrow> promo_columns act" where
  "normalize_promo_code_payload data =
     bind (if_sent (pp_code data) (\<lambda>c. require (normalize_promo_code c \<noteq> []) ''code is required'' (normalize_promo_code c))) (\<lambda>cd.
     bind (if_sent (pp_bonus_type data) (\<lambda>b. let ty = lower (strip (str_or b [])) in
       require (ty \<in> {''fixed'', ''percent''}) ''bonus_type must be fixed or percent'' ty)) (\<lambda>ty.
     bind (if_sent (pp_currency data) (\<lambda>c. let cur = upper (strip (str_or c ''USD'')) in
       require (cur \<in> {''USD'', ''TOMAN''}) ''currency must be USD or TOMAN'' cur)) (\<lambda>cur.
     bind (if_sent (pp_bonus_value data) (\<lambda>v. let x = (case v of None \<Rightarrow> 0 | Some y \<Rightarrow> y) in
       require (0 < x) ''bonus_value must be greater than zero'' x)) (\<lambda>bonus.
     bind (if_sent (pp_minimum_charge data) (\<lambda>v. let x = (case v of None \<Rightarrow> 0 | Some y \<Rightarrow> y) in
       require (0 \<le> x) ''minimum_charge must be zero or greater'' x)) (\<lambda>minimum.
     bind (if_sent (pp_max_total data) (\<lambda>v. require (case v of None \<Rightarrow> True | Some n \<Rightarrow> 0 < n)
       ''max_redemptions_total must be greater than zero'' v)) (\<lambda>total.
     bind (if_sent (pp_max_per_user data) (\<lambda>v. require (0 < or0 v)
       ''max_redemptions_per_user must be greater than zero'' (or0 v))) (\<lambda>each.
     ret \<lparr>pn_code = cd, pn_bonus_type = ty, pn_currency = cur,
          pn_bonus_usd = (if counts_toman data then None else bonus),
          pn_bonus_toman = (if counts_toman data then map_option trunc bonus else None),
          pn_minimum_usd = (if counts_toman data then None else minimum),
          pn_minimum_toman = (if counts_toman data then map_option trunc minimum else None),
          pn_max_total = total, pn_max_per_user = each,
          pn_is_active = map_option (\<lambda>b. b = Some True) (pp_is_active data),
          pn_expires_at = pp_expires_at data\<rparr>)))))))"

definition no_columns :: promo_columns where
  "no_columns = \<lparr>pn_code = None, pn_bonus_type = None, pn_currency = None, pn_bonus_usd = None, pn_bonus_toman = None,
     pn_minimum_usd = None, pn_minimum_toman = None, pn_max_total = None, pn_max_per_user = None,
     pn_is_active = None, pn_expires_at = None\<rparr>"

definition or_kept :: "'a option \<Rightarrow> 'a \<Rightarrow> 'a" where
  "or_kept x y = (case x of None \<Rightarrow> y | Some v \<Rightarrow> v)"

definition set_columns :: "promo_columns \<Rightarrow> promo_code \<Rightarrow> promo_code" where
  "set_columns n p =
     \<lparr>code = or_kept (pn_code n) (code p), bonus_type = or_kept (pn_bonus_type n) (bonus_type p),
      pc_currency = (if pn_currency n = None then pc_currency p else pn_currency n),
      bonus_value_usd = (if pn_bonus_usd n = None then bonus_value_usd p else pn_bonus_usd n),
      bonus_value_toman = (if pn_bonus_toman n = None then bonus_value_toman p else pn_bonus_toman n),
      minimum_charge_usd = (if pn_minimum_usd n = None then minimum_charge_usd p else pn_minimum_usd n),
      minimum_charge_toman = (if pn_minimum_toman n = None then minimum_charge_toman p else pn_minimum_toman n),
      max_redemptions_total = or_kept (pn_max_total n) (max_redemptions_total p),
      max_redemptions_per_user = (if pn_max_per_user n = None then max_redemptions_per_user p else pn_max_per_user n),
      pc_is_active = or_kept (pn_is_active n) (pc_is_active p),
      pc_expires_at = or_kept (pn_expires_at n) (pc_expires_at p)\<rparr>"

text \<open>The defaults of the columns.\<close>

definition default_promo_code :: promo_code where
  "default_promo_code = \<lparr>code = [], bonus_type = ''fixed'', pc_currency = Some ''USD'', bonus_value_usd = Some 0,
     bonus_value_toman = Some 0, minimum_charge_usd = Some 0, minimum_charge_toman = Some 0,
     max_redemptions_total = None, max_redemptions_per_user = Some 1, pc_is_active = True, pc_expires_at = None\<rparr>"

section \<open>The routes\<close>

text \<open>A snapshot holds \<open>expires_at\<close> as a datetime, which the JSON column of the log cannot take.\<close>

definition promo_snapshot :: "promo_code obj \<Rightarrow> dict option" where
  "promo_snapshot obj =
     (case obj of (i, p) \<Rightarrow>
        if pc_expires_at p \<noteq> None then None
        else Some [(''id'', JInt i), (''code'', JStr (code p)), (''bonus_type'', JStr (bonus_type p)),
          (''currency'', JStr (str_or (pc_currency p) ''USD'')),
          (''bonus_value_usd'', JFloat (coerce_float (bonus_value_usd p) 0)),
          (''bonus_value_toman'', JInt (or0 (bonus_value_toman p))),
          (''minimum_charge_usd'', JFloat (coerce_float (minimum_charge_usd p) 0)),
          (''minimum_charge_toman'', JInt (or0 (minimum_charge_toman p))),
          (''max_redemptions_total'', json_opt_int (max_redemptions_total p)),
          (''max_redemptions_per_user'', JInt (or0 (max_redemptions_per_user p))),
          (''is_active'', JBool (pc_is_active p)), (''expires_at'', JNull)])"

text \<open>The row of the log is flushed at once; where that fails the transaction is rolled back.\<close>

definition log_promo_change :: "string \<Rightarrow> string \<Rightarrow> int \<Rightarrow> promo_code option \<Rightarrow> promo_code \<Rightarrow> unit act" where
  "log_promo_change action reason i before after =
     (case (case before of None \<Rightarrow> Some None | Some b \<Rightarrow> map_option Some (promo_snapshot (i, b)), promo_snapshot (i, after)) of
        (Some b, Some a) \<Rightarrow> record_admin_action None action ''promo_code'' i reason b (Some a)
      | _ \<Rightarrow> andthen rollback (raise (StatementError ''datetime is not JSON serializable'')))"

definition code_taken :: "int option \<Rightarrow> string \<Rightarrow> db \<Rightarrow> bool" where
  "code_taken i c d \<longleftrightarrow> t_select (\<lambda>j p. code p = c \<and> Some j \<noteq> i) (promo_codes d) \<noteq> []"

definition create_promo_code :: "promo_payload \<Rightarrow> promo_code obj act" where
  "create_promo_code data =
     bind (normalize_promo_code_payload data) (\<lambda>n.
     bind (query (code_taken None (or_kept (pn_code n) []))) (\<lambda>taken.
     if taken then raise (HTTPException 400 ''promo code already exists'')
     else
       let p = set_columns n default_promo_code in
       bind (query (\<lambda>d. t_next (promo_codes d))) (\<lambda>i.
       andthen (update (\<lambda>d. d\<lparr>promo_codes := t_add p (promo_codes d)\<rparr>))
       (andthen (log_promo_change ''promo_code_create'' ''create promo code'' i None p)
       (andthen commit (ret (i, p)))))))"

definition update_promo_code :: "int \<Rightarrow> promo_payload \<Rightarrow> promo_code obj act" where
  "update_promo_code i data =
     bind (query (\<lambda>d. t_get (promo_codes d) i)) (\<lambda>found.
     case found of
       None \<Rightarrow> raise (HTTPException 404 ''Promo code not found'')
     | Some p \<Rightarrow>
         bind (normalize_promo_code_payload data) (\<lambda>n.
         if n = no_columns then ret (i, p)
         else
           bind (query (code_taken (Some i) (or_kept (pn_code n) (code p)))) (\<lambda>taken.
           if pn_code n \<noteq> None \<and> pn_code n \<noteq> Some (code p) \<and> taken
           then raise (HTTPException 400 ''promo code already exists'')
           else
             let q = set_columns n p in
             andthen (update (\<lambda>d. d\<lparr>promo_codes := t_put i q (promo_codes d)\<rparr>))
             (andthen (log_promo_change ''promo_code_update'' ''update promo code'' i (Some p) q)
             (andthen commit (ret (i, q)))))))"

definition deactivate_promo_code :: "int \<Rightarrow> unit act" where
  "deactivate_promo_code i =
     bind (query (\<lambda>d. t_get (promo_codes d) i)) (\<lambda>found.
     case found of
       None \<Rightarrow> raise (HTTPException 404 ''Promo code not found'')
     | Some p \<Rightarrow>
         let q = p\<lparr>pc_is_active := False\<rparr> in
         andthen (update (\<lambda>d. d\<lparr>promo_codes := t_put i q (promo_codes d)\<rparr>))
         (andthen (log_promo_change ''promo_code_deactivate'' ''deactivate promo code'' i (Some p) q) commit))"

section \<open>Valid codes\<close>

text \<open>Everything but the text of the code.\<close>

definition promo_base :: "promo_code \<Rightarrow> bool" where
  "promo_base p \<longleftrightarrow> bonus_type p \<in> {''fixed'', ''percent''} \<and> pc_currency p \<in> {Some ''USD'', Some ''TOMAN''} \<and>
     0 \<le> coerce_float (bonus_value_usd p) 0 \<and> 0 \<le> or0 (bonus_value_toman p) \<and>
     0 \<le> coerce_float (minimum_charge_usd p) 0 \<and> 0 \<le> or0 (minimum_charge_toman p) \<and>
     (\<forall>n. max_redemptions_total p = Some n \<longrightarrow> 0 < n) \<and> 0 < or0 (max_redemptions_per_user p)"

definition promo_valid :: "promo_code \<Rightarrow> bool" where
  "promo_valid p \<longleftrightarrow> code p \<noteq> [] \<and> promo_base p"

definition codes_ok :: "db \<Rightarrow> bool" where
  "codes_ok d \<longleftrightarrow> t_wf (promo_codes d) \<and> distinct (map (code \<circ> snd) (promo_codes d)) \<and>
     (\<forall>(_, p) \<in> set (promo_codes d). promo_valid p)"

text \<open>A check that changes nothing, and what it tells of its answer.\<close>

definition checks :: "'a act \<Rightarrow> ('a \<Rightarrow> bool) \<Rightarrow> bool" where
  "checks m Q \<longleftrightarrow> (\<forall>s. \<exists>r. m s = (r, s) \<and> (\<forall>x. r = Inr x \<longrightarrow> Q x))"

lemma checks_bind: "checks m P \<Longrightarrow> (\<And>x. P x \<Longrightarrow> checks (f x) Q) \<Longrightarrow> checks (bind m f) Q"
  unfolding checks_def
proof
  fix s assume m: "\<forall>s. \<exists>r. m s = (r, s) \<and> (\<forall>x. r = Inr x \<longrightarrow> P x)"
    and f: "\<And>x. P x \<Longrightarrow> \<forall>s. \<exists>r. f x s = (r, s) \<and> (\<forall>y. r = Inr y \<longrightarrow> Q y)"
  from m obtain r where r: "m s = (r, s)" "\<forall>x. r = Inr x \<longrightarrow> P x" by blast
  show "\<exists>r. bind m f s = (r, s) \<and> (\<forall>x. r = Inr x \<longrightarrow> Q x)"
    using r f by (cases r) (auto simp: bind_run)
qed

lemma checks_sent:
  "checks (if_sent x (\<lambda>v. require (P v) msg (f v))) (\<lambda>y. \<forall>z. y = Some z \<longrightarrow> (\<exists>v. P v \<and> z = f v))"
  by (cases x) (auto simp: checks_def if_sent_def require_def run_simps)

lemma checks_ret: "Q x \<Longrightarrow> checks (ret x) Q"
  by (simp add: checks_def run_simps)

definition columns_valid :: "promo_columns \<Rightarrow> bool" where
  "columns_valid n \<longleftrightarrow> pn_code n \<noteq> Some [] \<and> (\<forall>b. pn_bonus_type n = Some b \<longrightarrow> b \<in> {''fixed'', ''percent''}) \<and>
     (\<forall>c. pn_currency n = Some c \<longrightarrow> c \<in> {''USD'', ''TOMAN''}) \<and>
     (\<forall>x. pn_bonus_usd n = Some x \<longrightarrow> 0 \<le> x) \<and> (\<forall>x. pn_bonus_toman n = Some x \<longrightarrow> 0 \<le> x) \<and>
     (\<forall>x. pn_minimum_usd n = Some x \<longrightarrow> 0 \<le> x) \<and> (\<forall>x. pn_minimum_toman n = Some x \<longrightarrow> 0 \<le> x) \<and>
     (\<forall>m. pn_max_total n = Some (Some m) \<longrightarrow> 0 < m) \<and> (\<forall>m. pn_max_per_user n = Some m \<longrightarrow> 0 < m)"

lemma payload_checked: "checks (normalize_promo_code_payload data) columns_valid"
  unfolding normalize_promo_code_payload_def Let_def
  by (rule checks_bind [OF checks_sent])+
     (rule checks_ret, auto simp: columns_valid_def trunc_def split: if_splits)

lemma checks_given: "x \<noteq> None \<Longrightarrow> checks (if_sent x (\<lambda>v. require (P v) msg (f v))) (\<lambda>y. y \<noteq> None)"
  by (cases x) (auto simp: checks_def if_sent_def require_def run_simps)

lemma payload_code: "pp_code data \<noteq> None \<Longrightarrow> checks (normalize_promo_code_payload data) (\<lambda>n. pn_code n \<noteq> None)"
  unfolding normalize_promo_code_payload_def Let_def
  by (rule checks_bind [OF checks_given], assumption, (rule checks_bind [OF checks_sent])+, rule checks_ret, simp)

lemma columns_keep_valid:
  assumes n: "columns_valid n" and "promo_base p" and c: "code p \<noteq> [] \<or> pn_code n \<noteq> None"
  shows "promo_valid (set_columns n p)"
proof -
  note p = assms(2) [unfolded promo_base_def]
  have "code (set_columns n p) \<noteq> []" using n c by (cases "pn_code n") (simp_all add: set_columns_def or_kept_def columns_valid_def)
  moreover have "bonus_type (set_columns n p) \<in> {''fixed'', ''percent''}"
    using n p by (cases "pn_bonus_type n") (simp_all add: set_columns_def or_kept_def columns_valid_def)
  moreover have "pc_currency (set_columns n p) \<in> {Some ''USD'', Some ''TOMAN''}"
    using n p by (cases "pn_currency n") (simp_all add: set_columns_def columns_valid_def)
  moreover have "0 \<le> coerce_float (bonus_value_usd (set_columns n p)) 0"
    using n p by (cases "pn_bonus_usd n") (simp_all add: set_columns_def columns_valid_def coerce_float_def)
  moreover have "0 \<le> or0 (bonus_value_toman (set_columns n p))"
    using n p by (cases "pn_bonus_toman n") (simp_all add: set_columns_def columns_valid_def)
  moreover have "0 \<le> coerce_float (minimum_charge_usd (set_columns n p)) 0"
    using n p by (cases "pn_minimum_usd n") (simp_all add: set_columns_def columns_valid_def coerce_float_def)
  moreover have "0 \<le> or0 (minimum_charge_toman (set_columns n p))"
    using n p by (cases "pn_minimum_toman n") (simp_all add: set_columns_def columns_valid_def)
  moreover have "\<forall>m. max_redemptions_total (set_columns n p) = Some m \<longrightarrow> 0 < m"
    using n p by (cases "pn_max_total n") (simp_all add: set_columns_def or_kept_def columns_valid_def)
  moreover have "0 < or0 (max_redemptions_per_user (set_columns n p))"
    using n p by (cases "pn_max_per_user n") (simp_all add: set_columns_def columns_valid_def)
  ultimately show ?thesis unfolding promo_valid_def promo_base_def by blast
qed

text \<open>The operations of the administration.\<close>

inductive promo_operation :: "unit act \<Rightarrow> bool" where
  create: "pp_code data \<noteq> None \<Longrightarrow> promo_operation (bind (create_promo_code data) (\<lambda>_. ret ()))"
| change: "promo_operation (bind (update_promo_code i data) (\<lambda>_. ret ()))"
| deactivate: "promo_operation (deactivate_promo_code i)"

lemma log_run:
  "log_promo_change a b i p q s = (r, t) \<Longrightarrow>
   (r = Inr () \<longrightarrow> promo_codes (work t) = promo_codes (work s)) \<and> (r \<noteq> Inr () \<longrightarrow> work t = durable s) \<and> durable t = durable s"
  by (auto simp: log_promo_change_def record_admin_action_def run_simps split: option.splits)

lemma codes_ok_table: "promo_codes d = promo_codes e \<Longrightarrow> codes_ok d = codes_ok e"
  by (simp add: codes_ok_def)

lemma codes_ok_add:
  assumes "codes_ok d" and "promo_valid p" and "\<not> code_taken None (code p) d"
  shows "codes_ok (d\<lparr>promo_codes := t_add p (promo_codes d)\<rparr>)"
proof -
  have "code p \<notin> (code \<circ> snd) ` set (promo_codes d)"
    using assms(3) by (force simp: code_taken_def t_select_def filter_empty_conv)
  with assms(1,2) show ?thesis by (auto simp: codes_ok_def t_wf_add) (auto simp: t_add_def)
qed

lemma codes_ok_put:
  assumes "codes_ok d" and "t_get (promo_codes d) i = Some p" and "promo_valid q"
    and "code q = code p \<or> \<not> code_taken (Some i) (code q) d"
  shows "codes_ok (d\<lparr>promo_codes := t_put i q (promo_codes d)\<rparr>)"
proof -
  have wf: "t_wf (promo_codes d)" and dist: "distinct (map (code \<circ> snd) (promo_codes d))"
    and valid: "\<forall>(_, p) \<in> set (promo_codes d). promo_valid p"
    using assms(1) by (simp_all add: codes_ok_def)
  have ip: "(i, p) \<in> set (promo_codes d)" using t_get_SomeD [OF assms(2)] .
  have other: "code q \<noteq> code r" if "(j, r) \<in> set (promo_codes d)" "j \<noteq> i" for j r
  proof -
    have "code p \<noteq> code r" using dist ip that by (fastforce simp: distinct_map inj_on_def)
    with assms(4) that show ?thesis by (auto simp: code_taken_def t_select_def filter_empty_conv)
  qed
  have "inj_on (code \<circ> snd \<circ> (\<lambda>(j, r). (j, if j = i then q else r))) (set (promo_codes d))"
  proof (rule inj_onI)
    fix x y assume xy: "x \<in> set (promo_codes d)" "y \<in> set (promo_codes d)"
      "(code \<circ> snd \<circ> (\<lambda>(j, r). (j, if j = i then q else r))) x = (code \<circ> snd \<circ> (\<lambda>(j, r). (j, if j = i then q else r))) y"
    obtain j r k u where [simp]: "x = (j, r)" "y = (k, u)" by (cases x, cases y)
    have "j = k" using xy other [of j r] other [of k u] dist
      by (cases "j = i"; cases "k = i") (auto simp: distinct_map inj_on_def, metis fst_conv snd_conv)
    with xy wf show "x = y" by (auto simp: t_get_in)
  qed
  moreover have "distinct (promo_codes d)" using wf by (auto simp: t_wf_def distinct_map)
  ultimately have "distinct (map (code \<circ> snd) (t_put i q (promo_codes d)))"
    by (simp add: t_put_def distinct_map)
  moreover have "\<forall>(_, p) \<in> set (t_put i q (promo_codes d)). promo_valid p"
    using valid assms(3) by (auto simp: t_put_def)
  ultimately show ?thesis using wf by (simp add: codes_ok_def)
qed

lemma logged_and_committed:
  assumes "codes_ok (work s)" and "codes_ok (durable s)"
  shows "case andthen (log_promo_change a b i p q) (andthen commit (ret x)) s of
    (_, t) \<Rightarrow> codes_ok (work t) \<and> codes_ok (durable t)"
proof -
  obtain r t where run: "log_promo_change a b i p q s = (r, t)" by fastforce
  note l = log_run [OF run]
  show ?thesis
  proof (cases r)
    case (Inr u)
    then have "codes_ok (work t)" using l codes_ok_table [of "work t" "work s"] assms(1) by simp
    with Inr show ?thesis by (simp add: run_simps run)
  next
    case (Inl e)
    then show ?thesis using l assms(2) by (simp add: run_simps run)
  qed
qed

lemma log_ends: "andthen m commit = andthen m (andthen commit (ret ()))"
  by (rule ext) (auto simp: run_simps split: prod.split sum.split)

lemma create_keeps:
  assumes "codes_ok (work s)" and "codes_ok (durable s)" and "pp_code data \<noteq> None"
  shows "case create_promo_code data s of (_, t) \<Rightarrow> codes_ok (work t) \<and> codes_ok (durable t)"
proof -
  obtain n0 where n0: "normalize_promo_code_payload data s = (n0, s)" "\<And>n. n0 = Inr n \<Longrightarrow> columns_valid n \<and> pn_code n \<noteq> None"
    using payload_checked [of data, unfolded checks_def, rule_format, of s]
      payload_code [OF assms(3), unfolded checks_def, rule_format, of s] by auto
  show ?thesis
  proof (cases n0)
    case (Inr n)
    define p where "p = set_columns n default_promo_code"
    define s' where "s' = s\<lparr>work := (work s)\<lparr>promo_codes := t_add p (promo_codes (work s))\<rparr>\<rparr>"
    have c: "code p = or_kept (pn_code n) []" using n0(2) [OF Inr] by (auto simp: p_def set_columns_def or_kept_def)
    have "promo_base default_promo_code" by (simp add: promo_base_def default_promo_code_def coerce_float_def)
    with n0(2) [OF Inr] columns_keep_valid have "promo_valid p" unfolding p_def by blast
    then have "codes_ok (work s')" if "\<not> code_taken None (code p) (work s)"
      using codes_ok_add [OF assms(1) _ that] by (simp add: s'_def)
    then show ?thesis
      using logged_and_committed [of s' "''promo_code_create''" "''create promo code''" "t_next (promo_codes (work s))" None p
          "(t_next (promo_codes (work s)), p)"] assms
      by (auto simp: create_promo_code_def n0(1) Inr Let_def p_def [symmetric] c [symmetric] s'_def bind_run query_run update_run
          andthen_run [of "update _"] raise_run split del: if_split split: if_split_asm)
  next
    case (Inl e)
    with assms show ?thesis by (simp add: create_promo_code_def bind_run n0(1))
  qed
qed

lemma put_and_logged:
  assumes "codes_ok (work s)" and "codes_ok (durable s)" and "t_get (promo_codes (work s)) i = Some p" and "promo_valid q"
    and "code q = code p \<or> \<not> code_taken (Some i) (code q) (work s)"
  shows "case andthen (update (\<lambda>d. d\<lparr>promo_codes := t_put i q (promo_codes d)\<rparr>))
      (andthen (log_promo_change a b i (Some p) q) (andthen commit (ret x))) s of
    (_, t) \<Rightarrow> codes_ok (work t) \<and> codes_ok (durable t)"
  using logged_and_committed [of "s\<lparr>work := (work s)\<lparr>promo_codes := t_put i q (promo_codes (work s))\<rparr>\<rparr>" a b i "Some p" q x]
    codes_ok_put [OF assms(1,3-5)] assms(2)
  by (simp add: andthen_run [of "update _"] update_run)

lemma update_keeps:
  assumes "codes_ok (work s)" and "codes_ok (durable s)"
  shows "case update_promo_code i data s of (_, t) \<Rightarrow> codes_ok (work t) \<and> codes_ok (durable t)"
proof (cases "t_get (promo_codes (work s)) i")
  case None
  with assms show ?thesis by (simp add: update_promo_code_def bind_run query_run raise_run)
next
  case (Some p)
  obtain n0 where n0: "normalize_promo_code_payload data s = (n0, s)" "\<And>n. n0 = Inr n \<Longrightarrow> columns_valid n"
    using payload_checked [of data, unfolded checks_def, rule_format, of s] by auto
  have p: "promo_valid p"
    using assms(1) t_get_SomeD [OF Some] by (auto simp: codes_ok_def)
  show ?thesis
  proof (cases n0)
    case (Inr n)
    define q where "q = set_columns n p"
    have c: "code q = or_kept (pn_code n) (code p)" by (simp add: q_def set_columns_def)
    have "promo_valid q"
      using columns_keep_valid [OF n0(2) [OF Inr], of p] p by (simp add: q_def promo_valid_def)
    note run = put_and_logged [OF assms Some this, of "''promo_code_update''" "''update promo code''" "(i, q)"]
    show ?thesis
    proof (cases "n = no_columns \<or> pn_code n \<noteq> None \<and> pn_code n \<noteq> Some (code p) \<and> code_taken (Some i) (code q) (work s)")
      case True
      with assms show ?thesis
        by (auto simp: update_promo_code_def bind_run query_run Some n0(1) Inr ret_run raise_run c [symmetric])
    next
      case False
      then have "code q = code p \<or> \<not> code_taken (Some i) (code q) (work s)"
        using c by (cases "pn_code n") (auto simp: or_kept_def)
      from run [OF this] False show ?thesis
        by (auto simp: update_promo_code_def bind_run query_run Some n0(1) Inr Let_def q_def [symmetric] c [symmetric])
    qed
  next
    case (Inl e)
    with assms show ?thesis by (simp add: update_promo_code_def bind_run query_run Some n0(1))
  qed
qed

lemma deactivate_keeps:
  assumes "codes_ok (work s)" and "codes_ok (durable s)"
  shows "case deactivate_promo_code i s of (_, t) \<Rightarrow> codes_ok (work t) \<and> codes_ok (durable t)"
proof (cases "t_get (promo_codes (work s)) i")
  case None
  with assms show ?thesis by (simp add: deactivate_promo_code_def bind_run query_run raise_run)
next
  case (Some p)
  have p: "promo_valid p" using assms(1) t_get_SomeD [OF Some] by (auto simp: codes_ok_def)
  have "andthen m commit = andthen m (andthen commit (ret ()))" for m :: "unit act"
    by (rule ext) (simp add: andthen_run commit_run ret_run split: prod.split sum.split)
  moreover have "promo_valid (p\<lparr>pc_is_active := False\<rparr>)" using p by (simp add: promo_valid_def promo_base_def)
  ultimately show ?thesis
    using put_and_logged [OF assms Some, of "p\<lparr>pc_is_active := False\<rparr>" "''promo_code_deactivate''" "''deactivate promo code''" "()"]
    by (simp add: deactivate_promo_code_def bind_run query_run Some Let_def)
qed

text \<open>
  C40. Whatever the administration of promo codes does, whether it succeeds or raises, the codes in
  the open transaction and in the committed state are different, have a known kind and currency, no
  negative amount and positive limits.
\<close>

theorem administration_keeps_codes_valid:
  assumes "promo_operation m" and "codes_ok (work s)" and "codes_ok (durable s)"
  shows "codes_ok (work (snd (m s))) \<and> codes_ok (durable (snd (m s)))"
  using assms(1)
proof cases
  case (create data)
  with create_keeps [OF assms(2,3) create(2)] show ?thesis
    by (cases "create_promo_code data s") (auto simp: bind_run ret_run split: sum.split)
next
  case (change i data)
  with update_keeps [OF assms(2,3), of i data] show ?thesis
    by (cases "update_promo_code i data s") (auto simp: bind_run ret_run split: sum.split)
next
  case (deactivate i)
  with deactivate_keeps [OF assms(2,3), of i] show ?thesis by (cases "deactivate_promo_code i s") auto
qed

definition toman_code :: promo_payload where
  "toman_code = \<lparr>pp_code = Some (Some '' noruz ''), pp_bonus_type = Some (Some ''fixed''), pp_currency = Some (Some ''TOMAN''),
     pp_bonus_value = Some (Some 20000), pp_minimum_charge = Some (Some 0), pp_max_total = Some None,
     pp_max_per_user = Some (Some 1), pp_is_active = Some (Some True), pp_expires_at = Some None\<rparr>"

theorem administration_keeps_codes_valid_witness:
  "codes_ok (durable (snd (bind (create_promo_code toman_code) (\<lambda>_. ret ()) (open_session empty_db)))) \<and>
   map (code \<circ> snd) (promo_codes (durable (snd (bind (create_promo_code toman_code) (\<lambda>_. ret ()) (open_session empty_db))))) = [''NORUZ'']"
proof -
  have "promo_operation (bind (create_promo_code toman_code) (\<lambda>_. ret ()))"
    by (rule promo_operation.create) (simp add: toman_code_def)
  moreover have "codes_ok (work (open_session empty_db))" "codes_ok (durable (open_session empty_db))"
    by (simp_all add: codes_ok_def open_session_def empty_db_def t_wf_def)
  moreover have "map (code \<circ> snd) (promo_codes (durable (snd (bind (create_promo_code toman_code) (\<lambda>_. ret ()) (open_session empty_db))))) = [''NORUZ'']"
    by code_simp
  ultimately show ?thesis using administration_keeps_codes_valid by blast
qed

section \<open>Two mistakes\<close>

text \<open>A change of the bonus of a Toman code alone goes to the dollar column: the code gives what it gave before.\<close>

definition only_bonus :: "pyfloat \<Rightarrow> promo_payload" where
  "only_bonus x = \<lparr>pp_code = None, pp_bonus_type = None, pp_currency = None, pp_bonus_value = Some (Some x),
     pp_minimum_charge = None, pp_max_total = None, pp_max_per_user = None, pp_is_active = None, pp_expires_at = None\<rparr>"

lemma toman_bonus_not_changed:
  assumes "t_get (promo_codes (work s)) i = Some p" and "pc_expires_at p = None" and "0 < x"
  shows "\<exists>q t. update_promo_code i (only_bonus x) s = (Inr (i, q), t) \<and> pc_currency q = pc_currency p \<and>
    bonus_value_toman q = bonus_value_toman p \<and> bonus_value_usd q = Some x"
  using assms
  by (simp add: update_promo_code_def only_bonus_def normalize_promo_code_payload_def if_sent_def require_def run_simps
      Let_def counts_toman_def no_columns_def set_columns_def or_kept_def code_taken_def log_promo_change_def
      promo_snapshot_def record_admin_action_def)

text \<open>A code with an expiry date cannot be made, nor switched off.\<close>

lemma expiring_code_cannot_be_switched_off:
  assumes "t_get (promo_codes (work s)) i = Some p" and "pc_expires_at p \<noteq> None"
  shows "deactivate_promo_code i s = (Inl (StatementError ''datetime is not JSON serializable''), s\<lparr>work := durable s\<rparr>)"
  using assms by (auto simp: deactivate_promo_code_def run_simps Let_def log_promo_change_def promo_snapshot_def)

lemma payload_expiry: "checks (normalize_promo_code_payload data) (\<lambda>n. pn_expires_at n = pp_expires_at data)"
  unfolding normalize_promo_code_payload_def Let_def
  by ((rule checks_bind [OF checks_sent])+, rule checks_ret, simp)

lemma expiring_code_cannot_be_made:
  assumes "pp_expires_at data = Some (Some e)"
  shows "isl (fst (create_promo_code data s))"
proof -
  obtain n0 where n0: "normalize_promo_code_payload data s = (n0, s)" "\<And>n. n0 = Inr n \<Longrightarrow> pn_expires_at n = Some (Some e)"
    using payload_expiry [of data, unfolded checks_def, rule_format, of s] assms by auto
  show ?thesis
  proof (cases n0)
    case (Inr n)
    have "pc_expires_at (set_columns n default_promo_code) \<noteq> None"
      using n0(2) [OF Inr] by (simp add: set_columns_def or_kept_def)
    then show ?thesis
      by (auto simp: create_promo_code_def run_simps n0(1) Inr Let_def log_promo_change_def promo_snapshot_def)
  qed (simp add: create_promo_code_def run_simps n0(1))
qed

end
