(* ===== verification/Platform.thy ===== *)
theory Platform
  imports Ledger_Growth Promo_Admin
begin

text \<open>
  The platform as a whole: a step is one request, job or bot update handled in a session of its
  own, of any component and for any arguments and instants.
\<close>

section \<open>Operations that frame the billing tables\<close>

lemma frames_writes [frames_rules]:
  "frames (update (\<lambda>d. d\<lparr>wallets := f0 d\<rparr>))"
  "frames (update (\<lambda>d. d\<lparr>credit_ledger := f1 d\<rparr>))"
  "frames (update (\<lambda>d. d\<lparr>subscription_plans := f2 d\<rparr>))"
  "frames (update (\<lambda>d. d\<lparr>capacity_pools := f3 d\<rparr>))"
  "frames (update (\<lambda>d. d\<lparr>codex_accounts := f4 d\<rparr>))"
  "frames (update (\<lambda>d. d\<lparr>admin_actions := f5 d\<rparr>))"
  "frames (update (\<lambda>d. d\<lparr>payment_methods := f6 d\<rparr>))"
  "frames (update (\<lambda>d. d\<lparr>link_codes := f7 d\<rparr>))"
  "frames (update (\<lambda>d. d\<lparr>group_usage_events := f8 d\<rparr>))"
  "frames (update (\<lambda>d. d\<lparr>group_usage_shares := f9 d\<rparr>))"
  "frames (update (\<lambda>d. d\<lparr>projects := f10 d\<rparr>))"
  "frames (update (\<lambda>d. d\<lparr>documents := f11 d\<rparr>))"
  "frames (update (\<lambda>d. d\<lparr>project_shares := f12 d\<rparr>))"
  "frames (update (\<lambda>d. d\<lparr>tips := f13 d\<rparr>))"
  "frames (update (\<lambda>d. d\<lparr>tip_dismissals := f14 d\<rparr>))"
  "frames (update (\<lambda>d. d\<lparr>feedback_entries := f15 d\<rparr>))"
  "frames (update (\<lambda>d. d\<lparr>usage_events := f16 d\<rparr>))"
  "frames (update (\<lambda>d. d\<lparr>subscription_quotas := f17 d\<rparr>))"
  "frames (update (\<lambda>d. d\<lparr>plan_rules := f18 d\<rparr>))"
  "frames (update (\<lambda>d. d\<lparr>promo_codes := f19 d\<rparr>))"
  by (rule frames_update, simp add: same_books_def)+

lemma frames_wallet [frames_rules]:
  "frames (apply_credit_delta uid amt ty reason md neg c)"
  unfolding apply_credit_delta_def get_balance_minor_def get_or_create_wallet_def the_user_def save_user_def Let_def
  by (intro frames_rules)

lemma frames_trial [frames_rules]: "frames (grant_trial_subscription now ref reason)"
proof (cases ref)
  case (ById uid)
  then show ?thesis
    unfolding grant_trial_subscription_def Let_def save_user_def by (simp only: user_ref.case) (intro frames_rules)
qed (simp add: grant_trial_subscription_def frames_raise)

lemma frames_redeem_link [frames_rules]: "frames (redeem_link_code now c)"
  unfolding redeem_link_code_def Let_def by (intro frames_rules)

lemma frames_quota [frames_rules]: "frames (evaluate_usage_cost now uid mid chat cost i out free)"
  unfolding evaluate_usage_cost_def charge_quota_def save_quota_def Let_def by (intro frames_rules)

lemma frames_bot_charge [frames_rules]:
  "frames (charge_credit uid amt ty reason md ev key)" "frames (apply_topup_credit uid usd key2 md)"
  unfolding charge_credit_def apply_topup_credit_def wallet_of_user_def post_entry_def Let_def the_user_def need_int_def
  by (intro frames_rules frames_update; simp add: same_books_def purchase_event_def)+

text \<open>Operations that roll back, and the purchase of a plan.\<close>

lemma keeps_for_each: "(\<And>x. keeps_books (f x)) \<Longrightarrow> keeps_books (for_each f xs)"
  by (induction xs) (simp_all add: keeps_ret keeps_bind)

lemma link_code_keeps_books: "keeps_books (create_link_code now tg c)"
  unfolding create_link_code_def Let_def
  by (intro keeps_rules keeps_for_each keeps_frames [OF frames_query] keeps_frames [OF frames_commit]
      keeps_frames [OF frames_scalar] keeps_frames [OF frames_send] frames_writes [THEN keeps_frames])

lemma link_code_grows: "grows L (create_link_code now tg c)"
  unfolding create_link_code_def Let_def by (intro grow_rules; simp)

lemma group_usage_keeps_books: "keeps_books (persist_group_usage_event_and_shares now ev shares c)"
  unfolding persist_group_usage_event_and_shares_def add_share_def Let_def
  by (intro keeps_rules keeps_for_each keeps_frames [OF frames_query] keeps_frames [OF frames_commit]
      keeps_frames [OF frames_scalar] keeps_frames [OF frames_send] frames_writes [THEN keeps_frames])

lemma group_usage_grows: "grows L (persist_group_usage_event_and_shares now ev shares c)"
  unfolding persist_group_usage_event_and_shares_def add_share_def Let_def by (intro grow_rules; simp)

lemma tips_job_keeps_books: "keeps_books (process_scheduled_tips now reach)"
  unfolding process_scheduled_tips_def get_eligible_users_for_tip_def send_scheduled_def maybe_send_tip_def
    add_dismissal_def Let_def
  by (intro keeps_rules keeps_for_each keeps_frames [OF frames_query] keeps_frames [OF frames_commit]
      keeps_frames [OF frames_scalar] keeps_frames [OF frames_send] frames_writes [THEN keeps_frames])

lemma tips_job_grows: "grows L (process_scheduled_tips now reach)"
  unfolding process_scheduled_tips_def get_eligible_users_for_tip_def send_scheduled_def maybe_send_tip_def
    add_dismissal_def Let_def by (intro grow_rules; simp)

lemma plan_purchase_keeps_books: "keeps_books (purchase_plan now uid plan)"
  unfolding purchase_plan_def Let_def
  by (intro keeps_rules keeps_for_each purchase_keeps_books keeps_frames [OF frames_query] keeps_frames [OF frames_commit]
      keeps_frames [OF frames_scalar] keeps_frames [OF frames_send] frames_writes [THEN keeps_frames])

lemma plan_purchase_grows: "grows L (purchase_plan now uid plan)"
  unfolding purchase_plan_def Let_def by (intro grow_rules; simp)

lemma promo_payload_frames [frames_rules]: "frames (normalize_promo_code_payload data)"
  unfolding normalize_promo_code_payload_def if_sent_def require_def Let_def by (intro frames_rules)

lemma promo_admin_keeps_books:
  "keeps_books (create_promo_code data)" "keeps_books (update_promo_code i data)" "keeps_books (deactivate_promo_code i)"
  unfolding create_promo_code_def update_promo_code_def deactivate_promo_code_def log_promo_change_def record_admin_action_def
    Let_def
  by (intro keeps_rules keeps_frames [OF promo_payload_frames] keeps_frames [OF frames_query] keeps_frames [OF frames_commit]
      frames_writes [THEN keeps_frames])+

lemma promo_admin_grows:
  "grows L (create_promo_code data)" "grows L (update_promo_code i data)" "grows L (deactivate_promo_code i)"
  unfolding create_promo_code_def update_promo_code_def deactivate_promo_code_def log_promo_change_def record_admin_action_def
    Let_def
  by (intro grow_rules grows_frames [OF promo_payload_frames]; simp)+

section \<open>The contract of an operation\<close>

text \<open>
  What the accounting asks of an operation, and what a request that runs it then does: the books
  balance after it, and the committed ledger only grows.
\<close>

locale safe_operation =
  fixes m :: "'a act"
  assumes books: "keeps_books m" and journal: "grows L m"
begin

lemma request_keeps_books: "in_books s \<Longrightarrow> in_books (snd (run_request m s))"
  by (rule keeps_booksD [OF keeps_run_request [OF books]])

lemma request_appends:
  assumes "work s = durable s"
  shows "prefix (toman_ledger (durable s)) (toman_ledger (durable (snd (run_request m s))))"
proof -
  have "on_both (extends (toman_ledger (durable s))) (snd (run_request m s))"
    by (rule invarD [OF grows_run_request [OF journal]]) (simp add: assms on_both_def extends_def)
  then show ?thesis by (simp add: on_both_def extends_def)
qed

lemma request_closes: "work (snd (run_request m s)) = durable (snd (run_request m s))"
  by (simp add: run_request_def split: prod.splits)

end

definition void :: "'a act \<Rightarrow> unit act" where
  "void m = bind m (\<lambda>_. ret ())"

lemma safe_void:
  assumes "keeps_books m" and "\<And>L. grows L m"
  shows "safe_operation (void m)"
proof
  show "keeps_books (void m)" unfolding void_def by (intro keeps_bind assms(1) keeps_ret)
  show "grows L (void m)" for L unfolding void_def by (intro invar_bind assms(2) invar_basic)
qed

text \<open>The operations, each for all its arguments.\<close>

inductive operation :: "unit act \<Rightarrow> bool" where
  purchase: "operation (void (purchase_toman_subscription now uid plan key conf wal grant c))"
| topup: "operation (void (apply_toman_topup now uid n key md c))"
| mark_discount: "operation (void (mark_first_topup_discount_used uid key md c))"
| permission: "operation (void (check_chat_usage_permission_toman now uid model i out))"
| chat_charge: "operation (void (charge_chat_usage_toman now uid model i out ue key md c))"
| generic_charge: "operation (void (charge_generic_usage_toman uid cost ty reason ue key md c))"
| registration: "operation (void (create_or_restore_user now env tg first uname phone pref adm is_adm c))"
| promo: "operation (void (redeem_promo_code_for_user uid pc usd n src cc))"
| request: "operation (void (create_payment_request now tg amt descr path))"
| approval: "operation (void (approve_payment_request now rid note_text))"
| rejection: "operation (void (reject_payment_request now rid note_text))"
| web_purchase: "operation (void (purchase_subscription now env tg pid))"
| web_topup: "operation (void (apply_topup now env tg amt))"
| web_account: "operation (void (get_billing_account now env tg))"
| web_permission: "operation (void (check_usage_permission now env tg mid i out))"
| web_trial: "operation (void (claim_trial now env tg))"
| admin_config: "operation (void (update_config data))"
| admin_cancel: "operation (void (cancel_user_subscription now sid))"
| admin_reactivate: "operation (void (reactivate_user_subscription now sid))"
| admin_create: "operation (void (create_plan plan_row))"
| admin_update: "operation (void (update_plan pid pdata))"
| admin_delete: "operation (void (delete_plan pid))"
| promo_create: "operation (void (create_promo_code promo_data))"
| promo_update: "operation (void (update_promo_code promo_id2 promo_data))"
| promo_deactivate: "operation (void (deactivate_promo_code promo_id2))"
| bot_user: "operation (void (get_user now tg2 first uname))"
| bot_payment: "operation (void (handle_successful_payment now upd sender payment))"
| bot_claim: "operation (void (claim_update_once now racing u re))"
| bot_mark: "operation (void (mark_update_completed now upd_id))"
| bot_debit: "operation (void (charge_credit uid usd ty2 reason2 md ev key))"
| bot_topup: "operation (void (apply_topup_credit uid usd key2 md))"
| project: "operation (void (copy_project_for_user copies fs dir now token uid))"
| plan: "operation (void (purchase_plan now uid plan))"
| quota: "operation (void (evaluate_usage_cost now uid mid2 chat usd i out free))"
| group_usage: "operation (void (persist_group_usage_event_and_shares now gev shares c))"
| link_code: "operation (void (create_link_code now tg drawn))"
| link: "operation (void (redeem_link_code now drawn))"
| tips: "operation (void (process_scheduled_tips now reach))"
| trial: "operation (void (grant_trial_subscription now ref reason2))"
| wallet: "operation (void (apply_credit_delta uid amt ty2 reason md neg c))"

lemma operation_safe: "operation m \<Longrightarrow> safe_operation m"
  by (induction rule: operation.induct)
    (rule safe_void [OF purchase_keeps_books grows_purchase] safe_void [OF topup_keeps_books grows_topup] safe_void [OF
    mark_discount_keeps_books grows_mark_discount] safe_void [OF check_permission_keeps_books grows_permission]
    safe_void [OF charge_keeps_books grows_charge] safe_void [OF generic_charge_keeps_books grows_generic] safe_void
    [OF create_or_restore_keeps_books grows_create_or_restore] safe_void [OF redeem_keeps_books grows_redeem] safe_void
    [OF create_request_keeps_books grows_create_request] safe_void [OF approve_keeps_books grows_approve] safe_void [OF
    reject_keeps_books grows_reject] safe_void [OF web_purchase_keeps_books grows_web(1)] safe_void [OF
    web_topup_keeps_books grows_web(2)] safe_void [OF web_account_keeps_books grows_web(3)] safe_void [OF
    web_permission_keeps_books grows_web(4)] safe_void [OF web_claim_keeps_books grows_web(5)] safe_void [OF
    admin_routes_keep_books(1) grows_admin_config] safe_void [OF admin_routes_keep_books(2)
    grows_admin_subscriptions(1)] safe_void [OF admin_routes_keep_books(3) grows_admin_subscriptions(2)] safe_void [OF
    admin_routes_keep_books(4) grows_admin_plans(1)] safe_void [OF admin_routes_keep_books(5) grows_admin_plans(2)]
    safe_void [OF admin_routes_keep_books(6) grows_admin_plans(3)] safe_void [OF promo_admin_keeps_books(1)
    promo_admin_grows(1)] safe_void [OF promo_admin_keeps_books(2) promo_admin_grows(2)] safe_void [OF
    promo_admin_keeps_books(3) promo_admin_grows(3)] safe_void [OF get_user_keeps_books grows_get_user]
    safe_void [OF payment_keeps_books grows_payment] safe_void [OF claim_keeps_books grows_claim] safe_void [OF
    frames_marking [THEN keeps_frames] frames_marking [THEN grows_frames]] safe_void [OF frames_bot_charge(1) [THEN
    keeps_frames] frames_bot_charge(1) [THEN grows_frames]] safe_void [OF frames_bot_charge(2) [THEN keeps_frames]
    frames_bot_charge(2) [THEN grows_frames]] safe_void [OF copy_project_keeps_books grows_copy_project] safe_void [OF
    plan_purchase_keeps_books plan_purchase_grows] safe_void [OF frames_quota [THEN keeps_frames] frames_quota [THEN
    grows_frames]] safe_void [OF group_usage_keeps_books group_usage_grows] safe_void [OF link_code_keeps_books
    link_code_grows] safe_void [OF frames_redeem_link [THEN keeps_frames] frames_redeem_link [THEN grows_frames]]
    safe_void [OF tips_job_keeps_books tips_job_grows] safe_void [OF frames_trial [THEN keeps_frames] frames_trial
    [THEN grows_frames]] safe_void [OF frames_wallet [THEN keeps_frames] frames_wallet [THEN grows_frames]])+

inductive platform_step :: "session \<Rightarrow> session \<Rightarrow> bool" where
  handle: "operation m \<Longrightarrow> platform_step s (snd (run_request m s))"

inductive_simps platform_step_iff: "platform_step s t"

section \<open>The operations under the contract\<close>

interpretation purchase: safe_operation "void (purchase_toman_subscription now uid plan key conf wal grant c)"
  for now uid plan key conf wal grant c by (rule operation_safe) (rule operation.purchase)

interpretation topup: safe_operation "void (apply_toman_topup now uid n key md c)"
  for now uid n key md c by (rule operation_safe) (rule operation.topup)

interpretation approval: safe_operation "void (approve_payment_request now rid note_text)"
  for now rid note_text by (rule operation_safe) (rule operation.approval)

interpretation bot_payment: safe_operation "void (handle_successful_payment now upd sender payment)"
  for now upd sender payment by (rule operation_safe) (rule operation.bot_payment)

section \<open>The platform keeps its books\<close>

definition fresh_platform :: "session \<Rightarrow> bool" where
  "fresh_platform s \<longleftrightarrow> fresh_books (durable s) \<and> work s = durable s"

lemma step_sound:
  assumes "platform_step s t" and "in_books s" and "work s = durable s"
  shows "in_books t \<and> work t = durable t \<and> prefix (toman_ledger (durable s)) (toman_ledger (durable t))"
proof -
  obtain m where m: "operation m" "t = snd (run_request m s)" using assms(1) by (auto simp: platform_step_iff)
  note safe = operation_safe [OF m(1)]
  show ?thesis
    unfolding m(2) using assms(2,3) safe_operation.request_keeps_books [OF safe]
      safe_operation.request_appends [OF safe] safe_operation.request_closes [OF safe] by blast
qed

lemma run_sound:
  assumes "platform_step\<^sup>*\<^sup>* s0 s" and "fresh_platform s0"
  shows "in_books s \<and> work s = durable s"
  using assms(1)
proof induction
  case base
  then show ?case using assms(2) by (simp add: fresh_platform_def on_both_def books_empty)
next
  case (step s t)
  then show ?case using step_sound by blast
qed

section \<open>The bank\<close>

text \<open>
  The abstract specification of all the money movements in Toman: a journal of postings to
  accounts. A step appends postings; afterwards no account of the journal is overdrawn in either
  purse, and no key has been posted twice. A balance is nothing but the sum of its postings.
\<close>

record posting =
  posted_to :: int
  gift_part :: int
  paid_part :: int
  posting_key :: "string option"

definition gift_total :: "posting list \<Rightarrow> int \<Rightarrow> int" where
  "gift_total B i = sum_list (map gift_part (filter (\<lambda>p. posted_to p = i) B))"

definition paid_total :: "posting list \<Rightarrow> int \<Rightarrow> int" where
  "paid_total B i = sum_list (map paid_part (filter (\<lambda>p. posted_to p = i) B))"

definition keys_of :: "posting list \<Rightarrow> string list" where
  "keys_of B = concat (map (\<lambda>p. case posting_key p of None \<Rightarrow> [] | Some k \<Rightarrow> [k]) B)"

definition sound_journal :: "posting list \<Rightarrow> bool" where
  "sound_journal B \<longleftrightarrow> distinct (keys_of B) \<and>
     list_all (\<lambda>p. 0 \<le> gift_total B (posted_to p) \<and> 0 \<le> paid_total B (posted_to p)) B"

inductive bank_step :: "posting list \<Rightarrow> posting list \<Rightarrow> bool" where
  post: "sound_journal (B @ ps) \<Longrightarrow> bank_step B (B @ ps)"

text \<open>The journal of a database.\<close>

definition posting_of :: "toman_ledger_entry \<Rightarrow> posting" where
  "posting_of e = \<lparr>posted_to = billing_account_id e, gift_part = gift_delta_toman e,
     paid_part = paid_delta_toman e, posting_key = tl_idempotency_key e\<rparr>"

definition journal_of :: "db \<Rightarrow> posting list" where
  "journal_of d = map (\<lambda>r. posting_of (snd r)) (toman_ledger d)"

lemma journal_totals:
  "gift_total (journal_of d) i = gift_sum (toman_ledger d) i"
  "paid_total (journal_of d) i = paid_sum (toman_ledger d) i"
proof -
  have "gift_total (map (\<lambda>r. posting_of (snd r)) L) i = gift_sum L i \<and>
    paid_total (map (\<lambda>r. posting_of (snd r)) L) i = paid_sum L i" for L :: "toman_ledger_entry table"
    by (induction L) (auto simp: gift_total_def paid_total_def gift_sum_def paid_sum_def posting_of_def)
  then show "gift_total (journal_of d) i = gift_sum (toman_ledger d) i"
    "paid_total (journal_of d) i = paid_sum (toman_ledger d) i" by (simp_all add: journal_of_def)
qed

lemma distinct_keys:
  "t_wf L \<Longrightarrow> keys_unique L \<Longrightarrow> distinct (keys_of (map (\<lambda>r. posting_of (snd r)) L))"
proof (induction L)
  case (Cons r L)
  obtain i e where r: "r = (i, e)" by (cases r) auto
  have "distinct (keys_of (map (\<lambda>r. posting_of (snd r)) L))"
  proof (rule Cons.IH)
    show "t_wf L" using Cons.prems(1) by (simp add: t_wf_def)
    show "keys_unique L" using Cons.prems(2) unfolding keys_unique_iff by (meson list.set_intros(2))
  qed
  moreover have "k \<notin> set (keys_of (map (\<lambda>r. posting_of (snd r)) L))" if k: "tl_idempotency_key e = Some k" for k
  proof
    assume "k \<in> set (keys_of (map (\<lambda>r. posting_of (snd r)) L))"
    then obtain j f where f: "(j, f) \<in> set L" "tl_idempotency_key f = Some k"
      by (auto simp: keys_of_def posting_of_def split: option.splits)
    with Cons.prems(2) k have "i = j" unfolding keys_unique_iff r by (metis list.set_intros option.distinct(1))
    with f(1) Cons.prems(1) show False by (force simp: t_wf_def r)
  qed
  ultimately show ?case by (auto simp: keys_of_def r posting_of_def split: option.splits)
qed (simp add: keys_of_def)

text \<open>Balanced books are a sound journal whose totals are the balances shown.\<close>

lemma books_balance:
  assumes "books d" and "t_get (billing_accounts d) i = Some a"
  shows "or0 (gift_balance_toman a) = gift_total (journal_of d) i \<and>
    or0 (paid_balance_toman a) = paid_total (journal_of d) i \<and>
    0 \<le> gift_total (journal_of d) i \<and> 0 \<le> paid_total (journal_of d) i"
  using books_account [OF assms] by (simp add: account_books_def journal_totals)

lemma books_sound: "books d \<Longrightarrow> sound_journal (journal_of d)"
proof -
  assume b: "books d"
  then have t: "t_wf (billing_accounts d)" "t_wf (toman_ledger d)" "keys_unique (toman_ledger d)"
    "ledger_refs (billing_accounts d) (toman_ledger d)"
    by (simp_all add: books_def books_but_def tables_but_def)
  have "0 \<le> gift_total (journal_of d) (billing_account_id e) \<and> 0 \<le> paid_total (journal_of d) (billing_account_id e)"
    if e: "(k, e) \<in> set (toman_ledger d)" for k e
  proof -
    obtain a where "(billing_account_id e, a) \<in> set (billing_accounts d)"
      using t(4) e unfolding ledger_refs_iff by force
    then have "t_get (billing_accounts d) (billing_account_id e) = Some a" using t(1) by (simp add: t_get_def t_wf_def)
    from books_balance [OF b this] show ?thesis by simp
  qed
  then show ?thesis using distinct_keys [OF t(2,3)]
    by (auto simp: sound_journal_def list_all_iff journal_of_def posting_of_def)
qed



text \<open>A top-up of 50000 Toman and a charge of ten cents, 5000 Toman, in an empty database.\<close>

definition topped_up :: session where
  "topped_up = snd (run_request (void (apply_toman_topup 0 7 50000 (Some ''k1'') None True)) (open_session empty_db))"

definition then_charged :: session where
  "then_charged = snd (run_request (void (charge_generic_usage_toman 7 (Some (1 / 10)) ''chat'' ''x'' None (Some ''k2'') None True))
     topped_up)"

lemma fresh_start: "fresh_platform (open_session empty_db)"
  by (simp add: fresh_platform_def open_session_def empty_db_def fresh_books_def)

lemma sample_steps: "platform_step (open_session empty_db) topped_up" "platform_step topped_up then_charged"
  unfolding topped_up_def then_charged_def
  by (rule platform_step.handle, rule operation.topup, rule platform_step.handle, rule operation.generic_charge)



end
