(* ===== verification/Json_Values.thy ===== *)
theory Json_Values
  imports Models Float64
begin

text \<open>Reading values out of JSON documents: what the code does when a value has another type.\<close>

datatype py_error = ValueError string | TypeError

definition dict_or_empty :: "json \<Rightarrow> dict" where
  "dict_or_empty j = (case j of JDict d \<Rightarrow> d | _ \<Rightarrow> [])"

definition list_or_empty :: "json \<Rightarrow> json list" where
  "list_or_empty j = (case j of JList xs \<Rightarrow> xs | _ \<Rightarrow> [])"

text \<open>\<open>int(x or 0)\<close>.\<close>

fun int_or_zero :: "json \<Rightarrow> py_error + int" where
  "int_or_zero JNull = Inr 0"
| "int_or_zero (JBool b) = Inr (if b then 1 else 0)"
| "int_or_zero (JInt n) = Inr n"
| "int_or_zero (JFloat x) = Inr (trunc x)"
| "int_or_zero (JStr s) =
     (if s = [] then Inr 0
      else case int_of_str s of None \<Rightarrow> Inl (ValueError ''invalid literal for int()'') | Some n \<Rightarrow> Inr n)"
| "int_or_zero (JList xs) = (if xs = [] then Inr 0 else Inl TypeError)"
| "int_or_zero (JDict d) = (if d = [] then Inr 0 else Inl TypeError)"

definition json_text_option :: "string option \<Rightarrow> json" where
  "json_text_option s = (case s of None \<Rightarrow> JNull | Some t \<Rightarrow> JStr t)"

end
