(* ===== verification/Learning_Preferences.thy ===== *)
theory Learning_Preferences
  imports Usage Payloads Tool_Requests Json_Values
begin

text \<open>
  \<open>pbozi/backend/app/services/learning_preferences_service.py\<close>: the chat that asks a user four
  questions about how they learn and turns the answers into a profile. A text is the list of its
  UTF-8 bytes (\<open>lower\<close> and \<open>strip\<close> act on ASCII), so an Arabic or Persian letter (U+0600 to
  U+06FF) starts with a byte from D8 to DB.
  The language model, \<open>json.loads\<close>, \<open>float\<close>, \<open>isoformat\<close> and \<open>str\<close> of containers are arguments;
  a model that is not configured and a call that raises are both \<open>None\<close>.
\<close>

section \<open>Texts\<close>

definition hex_value :: "char \<Rightarrow> nat" where
  "hex_value c = (let n = of_char c in if n < 58 then n - 48 else n - 87)"

fun hex_text :: "string \<Rightarrow> string" where
  "hex_text (a # b # cs) = char_of (16 * hex_value a + hex_value b) # hex_text cs"
| "hex_text _ = []"

definition SKIP_KEYWORDS :: "string list" where
  "SKIP_KEYWORDS =
     [''skip'',
      ''later'',
      ''not now'',
      hex_text (''d8a7d8b3daa9db8cd9be''),
      hex_text (''d8b1d8afd8b420daa9d986''),
      hex_text (''d8a8d8b9d8afd8a7''),
      hex_text (''d8a8d8b9d8afd8a7d98b''),
      hex_text (''d981d8b9d984d8a720d986d987''),
      hex_text (''d981d8b9d984d8a7d98b20d986d987''),
      hex_text (''d986d985db8cd8aed988d8a7d985''),
      hex_text (''d986d985db8ce2808cd8aed988d8a7d985'')]"

definition FINISH_KEYWORDS :: "string list" where
  "FINISH_KEYWORDS =
     [''done'',
      ''finish'',
      ''enough'',
      hex_text (''d8aad985d8a7d985''),
      hex_text (''daa9d8a7d981db8cd987''),
      hex_text (''daa9d8a7d981db8c''),
      hex_text (''d8aad985d988d985''),
      hex_text (''d8a7d8aad985d8a7d985'')]"

definition fa_questions :: "string list" where
  "fa_questions =
     [hex_text (''d8a8d8b1d8a7db8c20d981d987d98520d8a8d987d8aad8b1d88c20d8aad8b1d8acdb8cd8ad20d985db8ce2808cd8afdb'' @
       ''8c20d985d981d8a7d987db8cd98520d8a8d8a720d985d8abd8a7d98420d988d8a7d982d8b9db8c20d8aad988d8b6db8c'' @
       ''d8ad20d8afd8a7d8afd98720d8a8d8b4d98620db8cd8a720d8aad988d8b6db8cd8ad20d985d981d987d988d985db8c20'' @
       ''d8a8d8b1d8a7d8aa20daa9d8a7d981db8cd987d89f''),
      hex_text (''d985d8b9d985d988d984d8a7d98b20d8acd988d8a7d8a820daa9d988d8aad8a7d98720d98820d8aed984d8a7d8b5d987'' @
       ''20d985db8ce2808cd8aed988d8a7db8c20db8cd8a720d8aad988d8b6db8cd8ad20daa9d8a7d985d98420d98820d8b9d9'' @
       ''85db8cd982d89f''),
      hex_text (''d8aad985d8b1db8cd98620daa9d988d8aad8a7d98720db8cd8a720d8b3d988d8a7d98420d8aad8b3d8aadb8c20da86d9'' @
       ''82d8afd8b120d8a8d98720db8cd8a7d8afdaafdb8cd8b1db8cd8aa20daa9d985daa920d985db8ce2808cdaa9d986d987'' @
       ''d89f''),
      hex_text (''d8a8d8b1d8a7db8c20d8b4d8b1d988d8b920db8cdaa920d985d988d8b6d988d8b920d8acd8afdb8cd8afd88c20d8a7d9'' @
       ''88d98420d8afdb8cd8af20daa9d984db8c20d8b1d98820d985db8ce2808cd8aed988d8a7db8c20db8cd8a720d985d8b3'' @
       ''db8cd8b120d982d8afd985e2808cd8a8d987e2808cd982d8afd985d89f'')]"

definition en_questions :: "string list" where
  "en_questions =
     [''Do you learn better with concrete real-world examples, or conceptual explanations are enough?'',
      ''Do you usually prefer concise answers or detailed deep explanations?'',
      ''How much do short exercises or quiz-style checks help your learning?'',
      ''When starting a new topic, do you prefer a big-picture overview first or step-by-step guidance first?'']"

definition TARGET_QUESTION_COUNT :: nat where
  "TARGET_QUESTION_COUNT = 4"

definition ONBOARDING_VERSION :: string where
  "ONBOARDING_VERSION = ''learning_preferences_v2''"

definition INTERVIEWER_SYSTEM_PROMPT :: string where
  "INTERVIEWER_SYSTEM_PROMPT =
     ''You are an AI interviewer running a learning-preferences onboarding chat. '' @
     ''The user should feel this is a normal, natural conversation. '' @
     ''Your goal is to infer how this user learns best, based on exactly four answered questions. '' @
     ''Rules: '' @
     ''1) Ask only one question per turn. '' @
     ''2) Keep each turn concise and conversational. '' @
     ''3) Avoid numbered forms and avoid sounding like a survey. '' @
     ''4) Across the full chat, cover these four areas: real-world examples, depth/brevity, practice/quizzes, '' @
     ''sequencing (step-by-step vs overview-first). '' @
     ''5) If the user's answer is vague, ask a clearer follow-up but still one question only. '' @
     ''6) Match the user's language. If unknown, default to Persian (fa). '' @
     ''7) Do not provide final analysis or summary.''"

definition ANALYST_SYSTEM_PROMPT :: string where
  "ANALYST_SYSTEM_PROMPT =
     ''You are an educational personalization analyst. '' @
     ''Given onboarding answers, infer how the learner should be taught by an AI tutor. '' @
     ''Return strict JSON only with this schema: '' @
     ''{'' @
     ''\"summary\": string,'' @
     ''\"prompt_context\": string,'' @
     ''\"preferences\": {'' @
     ''\"real_world_examples\": string,'' @
     ''\"depth\": string,'' @
     ''\"practice\": string,'' @
     ''\"sequencing\": string,'' @
     ''\"interaction\": string'' @
     ''},'' @
     ''\"confidence\": number'' @
     ''}. '' @
     ''Use neutral evidence-based language. '' @
     ''Do not label the learner with unsupported 'learning style' categories.''"

definition ANALYST_REQUIREMENTS :: string where
  "ANALYST_REQUIREMENTS =
     CHR 0x0A # CHR 0x0A # ''Requirements:'' @
     CHR 0x0A # ''- summary: one concise sentence describing how this user learns best.'' @
     CHR 0x0A # ''- prompt_context: short instruction paragraph for system prompt injection.'' @
     CHR 0x0A # ''- confidence: value from 0 to 1 based on answer quality/coverage.'' @
     CHR 0x0A # ''- If evidence is weak, explicitly say preferences are tentative in summary.''"

definition names_any :: "string list \<Rightarrow> string \<Rightarrow> bool" where
  "names_any ws s = list_ex (contains_text s) ws"

definition is_persian_text :: "string \<Rightarrow> bool" where
  "is_persian_text s = list_ex (\<lambda>c. 216 \<le> (of_char c :: nat) \<and> (of_char c :: nat) \<le> 219) s"

section \<open>The environment\<close>

record environment =
  str_of :: "json \<Rightarrow> string"
  isoformat :: "instant \<Rightarrow> string"
  json_loads :: "string \<Rightarrow> json option"
  float_of :: "json \<Rightarrow> pyfloat option"
  call_model :: "(string \<times> string) list \<Rightarrow> string option"

record onboarding =
  started_at :: json
  updated_at :: string
  language_hint :: json
  answers :: "json list"
  history :: "json list"
  dialogue :: "json list"
  asked_questions :: int
  last_question :: "string option"

record lp_payload =
  lpp_status :: string
  lpp_in_progress :: bool
  lpp_completed :: bool
  lpp_skipped :: bool
  questions_answered :: nat
  target_questions :: nat
  next_question :: "string option"
  lpp_summary :: "string option"
  lpp_prompt :: "string option"
  lpp_profile :: json
  lpp_completed_at :: "instant option"

definition safe_str :: "environment \<Rightarrow> json \<Rightarrow> string" where
  "safe_str env j = (case j of JNull \<Rightarrow> [] | _ \<Rightarrow> strip (py_str (str_of env) j))"

definition text_or_none :: "string \<Rightarrow> string option" where
  "text_or_none s = (if s = [] then None else Some s)"

definition opt_strip :: "string option \<Rightarrow> string" where
  "opt_strip s = strip (str_or s [])"

text \<open>The object in an answer: the whole text, or from its first brace to its last.\<close>

definition extract_json_object :: "environment \<Rightarrow> string \<Rightarrow> dict option" where
  "extract_json_object env raw =
     (let t = strip raw;
          inner = dropWhile (\<lambda>c. c \<noteq> CHR ''{'') t;
          braces = rev (dropWhile (\<lambda>c. c \<noteq> CHR ''}'') (rev inner))
      in if t = [] then None
         else case json_loads env t of
           Some (JDict d) \<Rightarrow> Some d
         | _ \<Rightarrow> if braces = [] then None
                else (case json_loads env braces of Some (JDict d) \<Rightarrow> Some d | _ \<Rightarrow> None))"

section \<open>The state of an onboarding\<close>

definition new_onboarding_state :: "environment \<Rightarrow> instant \<Rightarrow> onboarding" where
  "new_onboarding_state env now =
     \<lparr>started_at = JStr (isoformat env now), updated_at = isoformat env now, language_hint = JNull,
      answers = [], history = [], dialogue = [], asked_questions = 0, last_question = None\<rparr>"

definition json_of_state :: "onboarding \<Rightarrow> json" where
  "json_of_state st = JDict
     [(''version'', JStr ONBOARDING_VERSION), (''started_at'', started_at st), (''updated_at'', JStr (updated_at st)),
      (''language_hint'', language_hint st), (''answers'', JList (answers st)), (''history'', JList (history st)),
      (''dialogue'', JList (dialogue st)),
      (''session'', JDict [(''target_questions'', JInt (int TARGET_QUESTION_COUNT)),
         (''asked_questions'', JInt (asked_questions st)),
         (''last_assistant_question'', json_text_option (last_question st)),
         (''conversation_style'', JStr ''natural_chat'')])]"

definition normalize_state :: "environment \<Rightarrow> instant \<Rightarrow> json \<Rightarrow> py_error + onboarding" where
  "normalize_state env now raw =
     (let state = dict_or_empty raw;
          session = dict_or_empty (dict_get state ''session'');
          asked_last = text_or_none (safe_str env (dict_get session ''last_assistant_question''));
          current = dict_or_empty (dict_get state ''current_question'')
      in map_sum id (\<lambda>asked.
           \<lparr>started_at = (if truthy (dict_get state ''started_at'') then dict_get state ''started_at''
                          else JStr (isoformat env now)),
            updated_at = isoformat env now, language_hint = dict_get state ''language_hint'',
            answers = list_or_empty (dict_get state ''answers''),
            history = list_or_empty (dict_get state ''history''),
            dialogue = list_or_empty (dict_get state ''dialogue''), asked_questions = asked,
            last_question = (if current \<noteq> [] \<and> asked_last = None
                             then text_or_none (safe_str env (dict_get current ''question''))
                             else asked_last)\<rparr>)
         (int_or_zero (dict_get session ''asked_questions'')))"

section \<open>The interviewer\<close>

definition fallback_question :: "environment \<Rightarrow> onboarding \<Rightarrow> bool \<Rightarrow> string" where
  "fallback_question env st first_turn =
     (let use_fa = (lower (safe_str env (language_hint st)) \<noteq> ''en'');
          idx = nat (max 0 (min (asked_questions st) (int TARGET_QUESTION_COUNT - 1)))
      in if first_turn
         then (if use_fa
               then hex_text (''d8b3d984d8a7d9852e20d985db8ce2808cd8aed988d8a7d98520d8b3d8a8daa920db8cd8a7d8afdaafdb8cd8b1db8cd8'' @
       ''aa20d8b1d98820d8aad986d8b8db8cd98520daa9d986d98520d8aad8a720d8acd988d8a7d8a8e2808cd987d8a7d98520'' @
       ''d8b4d8aed8b5db8ce2808cd8b3d8a7d8b2db8c20d8a8d8b4d9872e20'') @ fa_questions ! 0
               else ''Hi. I want to tune your learning profile so future responses are personalized. '' @
                    en_questions ! 0)
         else (if use_fa then fa_questions else en_questions) ! idx)"

text \<open>The lines of the dialogue that the model gets: of user or assistant, with a text.\<close>

definition dialogue_line :: "environment \<Rightarrow> json \<Rightarrow> (string \<times> string) list" where
  "dialogue_line env j =
     (case j of
        JDict d \<Rightarrow>
          (let role = safe_str env (dict_get d ''role''); content = safe_str env (dict_get d ''content'') in
           if role \<in> {''user'', ''assistant''} \<and> content \<noteq> [] then [(role, content)] else [])
      | _ \<Rightarrow> [])"

definition newest :: "nat \<Rightarrow> 'a list \<Rightarrow> 'a list" where
  "newest n xs = drop (length xs - n) xs"

definition build_interviewer_messages :: "environment \<Rightarrow> onboarding \<Rightarrow> user_preference \<Rightarrow> (string \<times> string) list" where
  "build_interviewer_messages env st u =
     [(''system'', INTERVIEWER_SYSTEM_PROMPT),
      (''system'',
       ''Learner display name: '' @
         (if opt_strip (preferred_name u) \<noteq> [] then opt_strip (preferred_name u)
          else if opt_strip (first_name u) \<noteq> [] then opt_strip (first_name u) else ''User'') @
       CHR 0x0A # ''Collected answers so far: '' @ str_int (int (length (answers st))) @ ''/'' @
         str_int (int TARGET_QUESTION_COUNT) @
       CHR 0x0A # ''Current language hint: '' @
         (let h = safe_str env (language_hint st) in if h = [] then ''auto'' else h) @
       CHR 0x0A # ''Default language: Persian unless user clearly uses another language.'' @
       CHR 0x0A # ''If this is the first turn, greet briefly and ask the first question in the same message.'')] @
     concat (map (dialogue_line env) (newest 14 (dialogue st)))"

definition generate_interviewer_turn :: "environment \<Rightarrow> user_preference \<Rightarrow> onboarding \<Rightarrow> bool \<Rightarrow> string" where
  "generate_interviewer_turn env u st first_turn =
     (case call_model env (build_interviewer_messages env st u) of
        Some s \<Rightarrow> if strip s \<noteq> [] then strip s else fallback_question env st first_turn
      | None \<Rightarrow> fallback_question env st first_turn)"

definition record_history_event :: "environment \<Rightarrow> instant \<Rightarrow> string \<Rightarrow> string \<Rightarrow> onboarding \<Rightarrow> onboarding" where
  "record_history_event env now role s st =
     st\<lparr>history := newest 80 (history st @
       [JDict [(''role'', JStr role), (''text'', JStr s), (''at'', JStr (isoformat env now))]])\<rparr>"

definition append_dialogue :: "environment \<Rightarrow> instant \<Rightarrow> string \<Rightarrow> string \<Rightarrow> onboarding \<Rightarrow> onboarding" where
  "append_dialogue env now role s st =
     st\<lparr>dialogue := newest 24 (dialogue st @
       [JDict [(''role'', JStr role), (''content'', JStr s), (''at'', JStr (isoformat env now))]])\<rparr>"

text \<open>A line said by a side, in both records.\<close>

abbreviation said :: "environment \<Rightarrow> instant \<Rightarrow> string \<Rightarrow> string \<Rightarrow> onboarding \<Rightarrow> onboarding" where
  "said env now role s st \<equiv> record_history_event env now role s (append_dialogue env now role s st)"

definition build_payload :: "environment \<Rightarrow> instant \<Rightarrow> user_preference \<Rightarrow> py_error + lp_payload" where
  "build_payload env now u =
     map_sum id (\<lambda>st. let s = opt_strip (lp_status u); status = (if s = [] then ''not_started'' else s) in
       \<lparr>lpp_status = status, lpp_in_progress = (status = ''in_progress''), lpp_completed = (status = ''completed''),
        lpp_skipped = (status = ''skipped''), questions_answered = length (answers st),
        target_questions = TARGET_QUESTION_COUNT, next_question = text_or_none (opt_strip (last_question st)),
        lpp_summary = lp_summary u, lpp_prompt = lp_prompt u, lpp_profile = lp_profile u,
        lpp_completed_at = lp_completed_at u\<rparr>)
     (normalize_state env now (lp_onboarding u))"

definition get_learning_preferences_status :: "environment \<Rightarrow> instant \<Rightarrow> user_preference \<Rightarrow> py_error + lp_payload" where
  "get_learning_preferences_status env now u = build_payload env now u"

section \<open>The profile\<close>

definition answer_text :: "environment \<Rightarrow> json \<Rightarrow> string list" where
  "answer_text env j = (case j of JDict d \<Rightarrow> [safe_str env (dict_get d ''answer'')] | _ \<Rightarrow> [])"

definition fallback_profile_from_answers :: "environment \<Rightarrow> json list \<Rightarrow> dict" where
  "fallback_profile_from_answers env items =
     (let joined = lower (join_with '' '' (concat (map (answer_text env) items)));
          wants_examples = names_any [''example'', ''real'', ''scenario'',
       hex_text ''d985d8abd8a7d984'', hex_text ''d988d8a7d982d8b9db8c'', hex_text ''d8b3d986d8a7d8b1db8cd988''] joined;
          wants_brief = names_any [''brief'', ''short'', ''concise'',
       hex_text ''d8aed984d8a7d8b5d987'', hex_text ''daa9d988d8aad8a7d987''] joined;
          wants_practice = names_any [''quiz'', ''test'', ''practice'',
       hex_text ''d8aad985d8b1db8cd986'', hex_text ''d8a2d8b2d985d988d986'', hex_text ''d8b3d988d8a7d984''] joined;
          wants_step = names_any [''step'', ''step-by-step'',
       hex_text ''d985d8b1d8add984d987'', hex_text ''daafd8a7d985''] joined;
          wants_big_picture = names_any [''overview'', ''big picture'',
       hex_text ''daa9d984db8c'', hex_text ''d8aad8b5d988db8cd8b120daa9d984db8c''] joined;
          depth = (if wants_brief then ''concise-first'' else ''detailed'');
          stepwise = (wants_step \<and> \<not> wants_big_picture);
          sequencing = (if stepwise then ''step-by-step'' else ''overview-then-detail'');
          preferred = (\<lambda>b. JStr (if b then ''preferred'' else ''neutral''))
      in [(''summary'', JStr (''This user learns best with'' @
             (if wants_examples then '' real-life examples,'' else '' clear conceptual explanations,'') @
             '' '' @ depth @ '' explanations,'' @
             (if wants_practice then '' regular practice checkpoints,'' else '' occasional understanding checks,'') @
             '' and a '' @ sequencing @ '' teaching flow.'')),
          (''prompt_context'', JStr (''Personalize responses for this user: use '' @
             (if wants_examples then ''concrete real-life examples'' else ''clear conceptual framing'') @ '', start '' @
             (if wants_brief then ''concise then expand'' else ''with full depth unless asked shorter'') @ '', include '' @
             (if wants_practice then ''small practice questions/checkpoints'' else ''light comprehension checks'') @
             '', and follow '' @
             (if stepwise then ''step-by-step sequencing'' else ''big-picture then stepwise detail'') @ ''.'')),
          (''preferences'', JDict [(''real_world_examples'', preferred wants_examples), (''depth'', JStr depth),
             (''practice'', preferred wants_practice), (''sequencing'', JStr sequencing),
             (''interaction'', JStr ''adaptive'')]),
          (''confidence'', JFloat (fl (45 / 100))),
          (''answers_count'', JInt (int (length items)))])"

definition transcript_of :: "environment \<Rightarrow> json list \<Rightarrow> string" where
  "transcript_of env items =
     (let t = join_with [CHR 0x0A, CHR 0x0A] (concat (map (\<lambda>(i, j). case j of
          JDict d \<Rightarrow> [str_int (int (Suc i)) @ ''. question='' @ safe_str env (dict_get d ''question'') @
                     CHR 0x0A # ''answer='' @ safe_str env (dict_get d ''answer'')]
        | _ \<Rightarrow> []) (enumerate 0 items)))
      in if t = [] then ''(no answers)'' else t)"

definition clamp01 :: "pyfloat \<Rightarrow> pyfloat" where
  "clamp01 x = max 0 (min x 1)"

definition summarize_learning_profile :: "environment \<Rightarrow> user_preference \<Rightarrow> onboarding \<Rightarrow> dict" where
  "summarize_learning_profile env u st =
     (let fallback = fallback_profile_from_answers env (answers st);
          or_fallback = (\<lambda>d k. let t = safe_str env (dict_get d k) in if t = [] then dict_get fallback k else JStr t)
      in case call_model env
           [(''system'', ANALYST_SYSTEM_PROMPT),
            (''user'', ''User preferred name: '' @
               (let n = opt_strip (preferred_name u) in if n = [] then ''unknown'' else n) @
               CHR 0x0A # ''Onboarding transcript:'' @ CHR 0x0A # transcript_of env (answers st) @
               ANALYST_REQUIREMENTS)] of
         None \<Rightarrow> fallback
       | Some raw \<Rightarrow>
           (case extract_json_object env raw of
              None \<Rightarrow> fallback
            | Some d \<Rightarrow>
                if d = [] then fallback
                else [(''summary'', or_fallback d ''summary''), (''prompt_context'', or_fallback d ''prompt_context''),
                      (''preferences'', (case dict_get d ''preferences'' of JDict p \<Rightarrow> JDict p
                                        | _ \<Rightarrow> dict_get fallback ''preferences'')),
                      (''confidence'', JFloat (clamp01 (case float_of env (dict_get d ''confidence'') of
                                        Some x \<Rightarrow> x | None \<Rightarrow> fl (45 / 100)))),
                      (''answers_count'', JInt (int (length (answers st))))]))"

section \<open>The operations\<close>

type_synonym 'a lp_op = "user_preference \<Rightarrow> (py_error + 'a) \<times> user_preference"

definition finalize_learning_preferences_onboarding :: "environment \<Rightarrow> instant \<Rightarrow> lp_payload lp_op" where
  "finalize_learning_preferences_onboarding env now u =
     (case normalize_state env now (lp_onboarding u) of
        Inl e \<Rightarrow> (Inl e, u)
      | Inr st \<Rightarrow>
          (let profile = summarize_learning_profile env u st;
               u' = u\<lparr>lp_status := Some ''completed'',
                 lp_summary := text_or_none (safe_str env (dict_get profile ''summary'')),
                 lp_prompt := text_or_none (safe_str env (dict_get profile ''prompt_context'')),
                 lp_profile := JDict [(''version'', JStr ONBOARDING_VERSION),
                   (''preferences'', JDict (dict_or_empty (dict_get profile ''preferences''))),
                   (''confidence'', dict_get profile ''confidence''),
                   (''answers_count'', dict_get profile ''answers_count''),
                   (''finalized_at'', JStr (isoformat env now)),
                   (''target_questions'', JInt (int TARGET_QUESTION_COUNT))],
                 lp_completed_at := Some now,
                 lp_onboarding := JDict [(''version'', JStr ONBOARDING_VERSION), (''phase'', JStr ''finalized''),
                   (''answers'', JList (answers st)), (''history'', JList (history st)),
                   (''dialogue'', JList (dialogue st)), (''finalized_at'', JStr (isoformat env now)),
                   (''target_questions'', JInt (int TARGET_QUESTION_COUNT))]\<rparr>
           in (build_payload env now u', u')))"

definition skip_learning_preferences_onboarding :: "environment \<Rightarrow> instant \<Rightarrow> string option \<Rightarrow> lp_payload lp_op" where
  "skip_learning_preferences_onboarding env now reason u =
     (let u' = u\<lparr>lp_status := Some ''skipped'', lp_summary := None, lp_prompt := None, lp_profile := JNull,
            lp_completed_at := None,
            lp_onboarding := JDict [(''version'', JStr ONBOARDING_VERSION), (''phase'', JStr ''skipped''),
              (''reason'', JStr (let r = opt_strip reason in if r = [] then ''user_requested'' else r)),
              (''at'', JStr (isoformat env now)), (''target_questions'', JInt (int TARGET_QUESTION_COUNT))]\<rparr>
      in (build_payload env now u', u'))"

definition start_learning_preferences_onboarding :: "environment \<Rightarrow> instant \<Rightarrow> bool \<Rightarrow> lp_payload lp_op" where
  "start_learning_preferences_onboarding env now restart u =
     (case normalize_state env now (lp_onboarding u) of
        Inl e \<Rightarrow> (Inl e, u)
      | Inr st \<Rightarrow>
          if opt_strip (lp_status u) = ''in_progress'' \<and> \<not> restart \<and> opt_strip (last_question st) \<noteq> []
          then (let u' = u\<lparr>lp_onboarding := json_of_state st\<rparr> in (build_payload env now u', u'))
          else
            (let st0 = new_onboarding_state env now;
                 opening = generate_interviewer_turn env u st0 True;
                 hint = JStr (if is_persian_text opening then ''fa'' else ''en'');
                 st1 = (said env now ''assistant'' opening (st0\<lparr>language_hint := hint\<rparr>))
                         \<lparr>asked_questions := 1, last_question := Some opening\<rparr>;
                 u' = u\<lparr>lp_status := Some ''in_progress'', lp_onboarding := json_of_state st1\<rparr>
             in (build_payload env now u', u')))"

text \<open>The state with an answer taken down, and the question it is the answer to.\<close>

definition with_answer :: "environment \<Rightarrow> instant \<Rightarrow> user_preference \<Rightarrow> string \<Rightarrow> onboarding \<Rightarrow> onboarding" where
  "with_answer env now u s st =
     (let st1 = (if is_persian_text s then st\<lparr>language_hint := JStr ''fa''\<rparr> else st);
          asked = opt_strip (last_question st1);
          question = (if asked = [] then generate_interviewer_turn env u st1 True else asked);
          st2 = (if asked = []
                 then (said env now ''assistant'' question st1)\<lparr>asked_questions := 1, last_question := Some question\<rparr>
                 else st1);
          st3 = st2\<lparr>answers := answers st2 @ [JDict [(''question'', JStr question), (''answer'', JStr s),
                   (''answered_at'', JStr (isoformat env now))]]\<rparr>
      in said env now ''user'' s st3)"

definition submit_learning_preferences_answer :: "environment \<Rightarrow> instant \<Rightarrow> string \<Rightarrow> lp_payload lp_op" where
  "submit_learning_preferences_answer env now message u =
     (let s = strip message in
      if s = [] then (Inl (ValueError ''message is required''), u)
      else if names_any SKIP_KEYWORDS (lower s)
      then skip_learning_preferences_onboarding env now (Some ''user_skip_keyword'') u
      else case (if opt_strip (lp_status u) \<noteq> ''in_progress''
                 then map_prod (map_sum id (\<lambda>_. ())) id (start_learning_preferences_onboarding env now False u)
                 else (Inr (), u)) of
        (Inl e, u1) \<Rightarrow> (Inl e, u1)
      | (Inr _, u1) \<Rightarrow>
          (case normalize_state env now (lp_onboarding u1) of
             Inl e \<Rightarrow> (Inl e, u1)
           | Inr st0 \<Rightarrow>
               (let st = with_answer env now u1 s st0 in
                if TARGET_QUESTION_COUNT \<le> length (answers st)
                then finalize_learning_preferences_onboarding env now (u1\<lparr>lp_onboarding := json_of_state st\<rparr>)
                else
                  (let question = generate_interviewer_turn env u1 st False;
                       st' = said env now ''assistant'' question
                         (st\<lparr>asked_questions := asked_questions st + 1, last_question := Some question\<rparr>);
                       u' = u1\<lparr>lp_status := Some ''in_progress'', lp_onboarding := json_of_state st'\<rparr>
                   in (build_payload env now u', u')))))"

section \<open>Four answers\<close>

lemma strip_empty_iff: "strip s = [] \<longleftrightarrow> list_all is_space s"
proof -
  have "list_all is_space (dropWhile is_space s) \<longleftrightarrow> list_all is_space s" by (induction s) auto
  then show ?thesis by (auto simp: strip_def list_all_iff)
qed

lemma strip_Nil [simp]: "strip [] = []"
  by (simp add: strip_def)

lemma strip_strip_empty [simp]: "strip (strip s) = [] \<longleftrightarrow> strip s = []"
proof -
  have "c \<in> set (dropWhile is_space xs)" if "c \<in> set xs" "\<not> is_space c" for c and xs :: string
    using that by (induction xs) auto
  then have "c \<in> set (strip s)" if "c \<in> set s" "\<not> is_space c" for c
    using that by (simp add: strip_def)
  then have "list_all is_space (strip s) \<Longrightarrow> list_all is_space s" by (auto simp: list_all_iff)
  then show ?thesis by (auto simp: strip_empty_iff [of "strip s"] strip_empty_iff [of s, symmetric])
qed

lemma newest_length [simp]: "length (newest n xs) = min n (length xs)"
  by (simp add: newest_def)

lemma said_fields [simp]:
  "answers (said env now role s st) = answers st" "last_question (said env now role s st) = last_question st"
  "asked_questions (said env now role s st) = asked_questions st"
  "length (dialogue (said env now role s st)) \<le> 24" "length (history (said env now role s st)) \<le> 80"
  by (simp_all add: record_history_event_def append_dialogue_def)

lemma normalize_json_of_state:
  "normalize_state env now (json_of_state st) = Inr (st
     \<lparr>started_at := (if truthy (started_at st) then started_at st else JStr (isoformat env now)),
      updated_at := isoformat env now, last_question := text_or_none (opt_strip (last_question st))\<rparr>)"
  by (cases st; cases "last_question st")
     (simp_all add: normalize_state_def json_of_state_def Let_def dict_or_empty_def dict_get_def list_or_empty_def
        json_text_option_def safe_str_def opt_strip_def str_or_def split: list.splits)

lemma fallback_not_blank: "strip (fallback_question env st first_turn) \<noteq> []"
proof -
  have hex: "hex_text (a # b # cs) \<noteq> []" "hd (hex_text (a # b # cs)) = char_of (16 * hex_value a + hex_value b)" for a b cs
    by simp_all
  have fa: "list_all (\<lambda>q. q \<noteq> [] \<and> \<not> is_space (hd q)) fa_questions"
    by (simp only: fa_questions_def list.pred_inject append_Cons hex) (simp add: hex_value_def is_space_def char_of_def)
  have en: "list_all (\<lambda>q. q \<noteq> [] \<and> \<not> is_space (hd q)) en_questions"
    by (simp add: en_questions_def is_space_def)
  have "strip q \<noteq> []" if "q \<noteq> []" "\<not> is_space (hd q)" for q
    using that by (auto simp: strip_empty_iff list_all_iff)
  with fa en have "list_all (\<lambda>q. strip q \<noteq> []) (fa_questions @ en_questions)" by (auto simp: list_all_iff)
  moreover have "length fa_questions = 4" "length en_questions = 4"
    by (simp_all only: fa_questions_def en_questions_def list.size)
  ultimately have q: "strip (fa_questions ! i) \<noteq> []" "strip (en_questions ! i) \<noteq> []" if "i < 4" for i
    using that by (auto simp: list_all_iff)
  have "nat (max 0 (min (asked_questions st) (int TARGET_QUESTION_COUNT - 1))) < 4"
    by (simp add: TARGET_QUESTION_COUNT_def)
  from q [OF this] q [of 0] show ?thesis
    by (auto simp: fallback_question_def Let_def strip_empty_iff simp del: hex_text.simps)
qed

lemma turn_not_blank: "strip (generate_interviewer_turn env u st first_turn) \<noteq> []"
  by (auto simp: generate_interviewer_turn_def fallback_not_blank split: option.splits)

text \<open>The answers that are kept, whether the onboarding is under way or finished.\<close>

definition kept_answers :: "user_preference \<Rightarrow> json list" where
  "kept_answers u = map (\<lambda>j. dict_get (dict_or_empty j) ''answer'')
     (list_or_empty (dict_get (dict_or_empty (lp_onboarding u)) ''answers''))"

text \<open>Under way, with these answers and within the limits of the records.\<close>

definition interviewing :: "string list \<Rightarrow> user_preference \<Rightarrow> bool" where
  "interviewing given u \<longleftrightarrow> lp_status u = Some ''in_progress'' \<and>
     (\<exists>st. lp_onboarding u = json_of_state st \<and>
        map (\<lambda>j. dict_get (dict_or_empty j) ''answer'') (answers st) = map JStr given \<and>
        opt_strip (last_question st) \<noteq> [] \<and> length (dialogue st) \<le> 24 \<and> length (history st) \<le> 80)"

definition completed_with :: "instant \<Rightarrow> string list \<Rightarrow> user_preference \<Rightarrow> bool" where
  "completed_with now given u \<longleftrightarrow> lp_status u = Some ''completed'' \<and> lp_summary u \<noteq> None \<and> lp_prompt u \<noteq> None \<and>
     lp_completed_at u = Some now \<and> kept_answers u = map JStr given"

definition plain_answer :: "string \<Rightarrow> bool" where
  "plain_answer m \<longleftrightarrow> strip m \<noteq> [] \<and> \<not> names_any SKIP_KEYWORDS (lower (strip m))"

lemma json_of_state_answers:
  "list_or_empty (dict_get (dict_or_empty (json_of_state st)) ''answers'') = answers st"
  by (simp add: json_of_state_def dict_or_empty_def dict_get_def list_or_empty_def)

lemma interviewing_answers: "interviewing given u \<Longrightarrow> kept_answers u = map JStr given"
  by (auto simp: interviewing_def kept_answers_def json_of_state_answers)

lemma with_answer_answers:
  "map (\<lambda>j. dict_get (dict_or_empty j) ''answer'') (answers (with_answer env now u s st)) =
   map (\<lambda>j. dict_get (dict_or_empty j) ''answer'') (answers st) @ [JStr s]"
  by (simp add: with_answer_def Let_def dict_get_def dict_or_empty_def)

lemma interviewingI:
  assumes "lp_status u = Some ''in_progress''" and "lp_onboarding u = json_of_state st"
    and "map (\<lambda>j. dict_get (dict_or_empty j) ''answer'') (answers st) = map JStr given"
    and "opt_strip (last_question st) \<noteq> []" and "length (dialogue st) \<le> 24" and "length (history st) \<le> 80"
  shows "interviewing given u"
  using assms unfolding interviewing_def by blast

lemma payload_of_state:
  "lp_onboarding u = json_of_state st \<Longrightarrow> \<exists>p. build_payload env now u = Inr p"
  by (simp add: build_payload_def normalize_json_of_state)

lemma opt_strip_Some: "strip s \<noteq> [] \<Longrightarrow> opt_strip (Some s) \<noteq> []"
  by (cases s) (auto simp: opt_strip_def str_or_def)

text \<open>Not under way: a new user, or one who finished or skipped; what is kept then has no session.\<close>

definition not_under_way :: "user_preference \<Rightarrow> bool" where
  "not_under_way u \<longleftrightarrow> opt_strip (lp_status u) \<noteq> ''in_progress'' \<and>
     dict_get (dict_or_empty (lp_onboarding u)) ''session'' = JNull"

lemma started_interview:
  assumes "not_under_way u"
  shows "\<exists>p u'. start_learning_preferences_onboarding env now False u = (Inr p, u') \<and> interviewing [] u'"
proof -
  define st0 where "st0 = new_onboarding_state env now"
  define greeting where "greeting = generate_interviewer_turn env u st0 True"
  define st1 where "st1 = (said env now ''assistant'' greeting
      (st0\<lparr>language_hint := JStr (if is_persian_text greeting then ''fa'' else ''en'')\<rparr>))
      \<lparr>asked_questions := 1, last_question := Some greeting\<rparr>"
  define u' where "u' = u\<lparr>lp_status := Some ''in_progress'', lp_onboarding := json_of_state st1\<rparr>"
  have g: "opt_strip (Some greeting) \<noteq> []"
    by (rule opt_strip_Some) (simp add: greeting_def turn_not_blank)
  obtain st where "normalize_state env now (lp_onboarding u) = Inr st"
    using assms by (auto simp: not_under_way_def normalize_state_def Let_def dict_or_empty_def [of JNull] dict_get_def [of "[]"])
  then have "start_learning_preferences_onboarding env now False u = (build_payload env now u', u')"
    using assms
    unfolding start_learning_preferences_onboarding_def Let_def st0_def [symmetric] greeting_def [symmetric]
      st1_def [symmetric] u'_def [symmetric]
    by (simp add: not_under_way_def)
  moreover have "interviewing [] u'"
    by (rule interviewingI [of _ st1]) (use g in \<open>simp_all add: u'_def st1_def st0_def new_onboarding_state_def\<close>)
  moreover obtain p where "build_payload env now u' = Inr p"
    using payload_of_state [of u' st1] by (auto simp: u'_def)
  ultimately show ?thesis by auto
qed

lemma strip_Cons_not_blank: "\<not> is_space c \<Longrightarrow> strip (c # cs) \<noteq> []"
  by (simp add: strip_empty_iff)

lemma profile_texts:
  assumes "k \<in> {''summary'', ''prompt_context''}"
  shows "safe_str env (dict_get (summarize_learning_profile env u st) k) \<noteq> []"
proof -
  have t: "\<exists>c cs. dict_get (fallback_profile_from_answers env (answers st)) k = JStr (c # cs) \<and> \<not> is_space c"
    using assms
    by (cases "k = ''summary''")
      (simp_all add: fallback_profile_from_answers_def Let_def dict_get_def is_space_def split del: if_split)
  then have f: "safe_str env (dict_get (fallback_profile_from_answers env (answers st)) k) \<noteq> []"
    by (auto simp: safe_str_def strip_Cons_not_blank)
  define choice where "choice = (\<lambda>d k. if safe_str env (dict_get d k) = []
    then dict_get (fallback_profile_from_answers env (answers st)) k else JStr (safe_str env (dict_get d k)))"
  have c: "safe_str env (choice d k) \<noteq> []" for d
    using f by (auto simp: choice_def safe_str_def split: json.splits)
  have "\<exists>d. dict_get (summarize_learning_profile env u st) k \<in>
      {dict_get (fallback_profile_from_answers env (answers st)) k, choice d k}"
  proof (cases "\<exists>raw d. call_model env
      [(''system'', ANALYST_SYSTEM_PROMPT),
       (''user'', ''User preferred name: '' @
          (let n = opt_strip (preferred_name u) in if n = [] then ''unknown'' else n) @
          CHR 0x0A # ''Onboarding transcript:'' @ CHR 0x0A # transcript_of env (answers st) @
          ANALYST_REQUIREMENTS)] = Some raw \<and> extract_json_object env raw = Some d \<and> d \<noteq> []")
    case True
    then obtain d A B C where "summarize_learning_profile env u st =
        [(''summary'', choice d ''summary''), (''prompt_context'', choice d ''prompt_context''), A, B, C]"
      unfolding summarize_learning_profile_def choice_def Let_def by auto
    then show ?thesis using assms by (auto simp: dict_get_def)
  next
    case False
    then have "summarize_learning_profile env u st = fallback_profile_from_answers env (answers st)"
      unfolding summarize_learning_profile_def Let_def by (auto split: option.splits)
    then show ?thesis by simp
  qed
  with f c show ?thesis by auto
qed

lemma finalized:
  assumes "lp_onboarding u = json_of_state st"
    and "map (\<lambda>j. dict_get (dict_or_empty j) ''answer'') (answers st) = map JStr given"
  shows "\<exists>p u'. finalize_learning_preferences_onboarding env now u = (Inr p, u') \<and> completed_with now given u'"
proof -
  define profile where "profile = summarize_learning_profile env u (st
     \<lparr>started_at := (if truthy (started_at st) then started_at st else JStr (isoformat env now)),
      updated_at := isoformat env now, last_question := text_or_none (opt_strip (last_question st))\<rparr>)"
  define closed where "closed = JDict [(''version'', JStr ONBOARDING_VERSION), (''phase'', JStr ''finalized''),
     (''answers'', JList (answers st)), (''history'', JList (history st)), (''dialogue'', JList (dialogue st)),
     (''finalized_at'', JStr (isoformat env now)), (''target_questions'', JInt (int TARGET_QUESTION_COUNT))]"
  define u' where "u' = snd (finalize_learning_preferences_onboarding env now u)"
  have run: "finalize_learning_preferences_onboarding env now u = (build_payload env now u', u')"
    "lp_status u' = Some ''completed''" "lp_completed_at u' = Some now" "lp_onboarding u' = closed"
    "lp_summary u' = text_or_none (safe_str env (dict_get profile ''summary''))"
    "lp_prompt u' = text_or_none (safe_str env (dict_get profile ''prompt_context''))"
    using assms(1)
    by (simp_all add: u'_def finalize_learning_preferences_onboarding_def normalize_json_of_state Let_def
        profile_def closed_def)
  have "text_or_none (safe_str env (dict_get profile k)) \<noteq> None" if "k \<in> {''summary'', ''prompt_context''}" for k
    using profile_texts [OF that] by (simp add: text_or_none_def profile_def)
  then have "completed_with now given u'"
    using assms(2) by (simp add: completed_with_def run kept_answers_def closed_def dict_or_empty_def dict_get_def list_or_empty_def)
  moreover have "\<exists>p. build_payload env now u' = Inr p"
    by (simp add: build_payload_def run(4) closed_def normalize_state_def Let_def dict_or_empty_def dict_get_def)
  ultimately show ?thesis using run(1) by auto
qed

lemma next_answer:
  assumes "interviewing given u" and "plain_answer m" and "length given < 4"
  shows "\<exists>p u'. submit_learning_preferences_answer env now m u = (Inr p, u') \<and>
    (if length given = 3 then completed_with now (given @ [strip m]) u' else interviewing (given @ [strip m]) u')"
proof -
  obtain st where st: "lp_status u = Some ''in_progress''" "lp_onboarding u = json_of_state st"
    "map (\<lambda>j. dict_get (dict_or_empty j) ''answer'') (answers st) = map JStr given"
    using assms(1) by (auto simp: interviewing_def)
  define st0 where "st0 = st\<lparr>started_at := (if truthy (started_at st) then started_at st else JStr (isoformat env now)),
      updated_at := isoformat env now, last_question := text_or_none (opt_strip (last_question st))\<rparr>"
  define st1 where "st1 = with_answer env now u (strip m) st0"
  have a: "map (\<lambda>j. dict_get (dict_or_empty j) ''answer'') (answers st1) = map JStr (given @ [strip m])"
    using st(3) by (simp add: st1_def with_answer_answers st0_def)
  then have len: "length (answers st1) = Suc (length given)" by (metis length_append_singleton length_map)
  have run: "submit_learning_preferences_answer env now m u =
    (if TARGET_QUESTION_COUNT \<le> length (answers st1)
     then finalize_learning_preferences_onboarding env now (u\<lparr>lp_onboarding := json_of_state st1\<rparr>)
     else (let question = generate_interviewer_turn env u st1 False;
               st' = said env now ''assistant'' question
                 (st1\<lparr>asked_questions := asked_questions st1 + 1, last_question := Some question\<rparr>);
               u' = u\<lparr>lp_status := Some ''in_progress'', lp_onboarding := json_of_state st'\<rparr>
           in (build_payload env now u', u')))"
  proof -
    have "opt_strip (lp_status u) = ''in_progress''" unfolding st(1) by code_simp
    moreover have "normalize_state env now (lp_onboarding u) = Inr st0"
      unfolding st(2) st0_def by (rule normalize_json_of_state)
    ultimately show ?thesis using assms(2)
      unfolding submit_learning_preferences_answer_def plain_answer_def Let_def st1_def
      by (simp split del: if_split)
  qed
  show ?thesis
  proof (cases "length given = 3")
    case True
    then show ?thesis using run len a finalized [of "u\<lparr>lp_onboarding := json_of_state st1\<rparr>" st1 "given @ [strip m]" env now]
      by (simp add: TARGET_QUESTION_COUNT_def)
  next
    case False
    define q where "q = generate_interviewer_turn env u st1 False"
    define st2 where "st2 = said env now ''assistant'' q
        (st1\<lparr>asked_questions := asked_questions st1 + 1, last_question := Some q\<rparr>)"
    define u' where "u' = u\<lparr>lp_status := Some ''in_progress'', lp_onboarding := json_of_state st2\<rparr>"
    have "\<not> TARGET_QUESTION_COUNT \<le> length (answers st1)"
      using len False assms(3) by (simp add: TARGET_QUESTION_COUNT_def)
    with run have "submit_learning_preferences_answer env now m u = (build_payload env now u', u')"
      by (simp add: Let_def q_def st2_def u'_def)
    moreover have "opt_strip (Some q) \<noteq> []" by (rule opt_strip_Some) (simp add: q_def turn_not_blank)
    then have "interviewing (given @ [strip m]) u'"
      by (intro interviewingI [of _ st2]) (use a in \<open>simp_all add: u'_def st2_def\<close>)
    moreover obtain p where "build_payload env now u' = Inr p"
      using payload_of_state [of u' st2] by (auto simp: u'_def)
    ultimately show ?thesis using False by auto
  qed
qed

text \<open>The first answer of a user who has not started: the chat opens by itself.\<close>

lemma first_answer:
  assumes "not_under_way u" and "plain_answer m"
  shows "\<exists>p u'. submit_learning_preferences_answer env now m u = (Inr p, u') \<and> interviewing [strip m] u'"
proof -
  obtain p u1 where u1: "start_learning_preferences_onboarding env now False u = (Inr p, u1)" "interviewing [] u1"
    using started_interview [OF assms(1)] by blast
  have "opt_strip (lp_status u) \<noteq> ''in_progress''" "opt_strip (lp_status u1) = ''in_progress''"
    using u1(2) assms(1) by (auto simp: not_under_way_def interviewing_def opt_strip_def str_or_def strip_def is_space_def)
  then have "submit_learning_preferences_answer env now m u = submit_learning_preferences_answer env now m u1"
    using assms(2) by (simp add: submit_learning_preferences_answer_def plain_answer_def Let_def u1(1))
  with next_answer [OF u1(2) assms(2), of env now] show ?thesis by simp
qed

fun submit_all :: "environment \<Rightarrow> (instant \<times> string) list \<Rightarrow> user_preference \<Rightarrow> user_preference" where
  "submit_all env [] u = u"
| "submit_all env ((now, m) # ms) u = submit_all env ms (snd (submit_learning_preferences_answer env now m u))"

lemma submit_all_snoc:
  "submit_all env (ms @ [(now, m)]) u = snd (submit_learning_preferences_answer env now m (submit_all env ms u))"
  by (induction ms arbitrary: u) auto

lemma some_answers:
  assumes "not_under_way u" and "list_all (\<lambda>(_, m). plain_answer m) ms"
    and "ms \<noteq> []" and "length ms \<le> 3"
  shows "interviewing (map (\<lambda>(_, m). strip m) ms) (submit_all env ms u)"
  using assms(2-)
proof (induction ms rule: rev_induct)
  case (snoc x ms)
  obtain now m where x: "x = (now, m)" by fastforce
  show ?case
  proof (cases "ms = []")
    case True
    then show ?thesis using first_answer [OF assms(1), of m env now] snoc.prems by (auto simp: x)
  next
    case False
    with snoc have "interviewing (map (\<lambda>(_, m). strip m) ms) (submit_all env ms u)" by simp
    from next_answer [OF this, of m env now] snoc.prems show ?thesis
      by (auto simp: x submit_all_snoc)
  qed
qed simp

text \<open>
  C28. A user who has not started, has finished or has skipped, and then sends four messages, none blank and none with one of the words
  that skip, gets through the onboarding whatever the language model does: it may not be configured,
  fail, answer with blanks or with anything but the JSON it is asked for. After fewer messages the
  onboarding is under way with exactly the answers given, after the fourth it is completed at that
  instant with a summary and a prompt that are not empty, and the four answers kept are the four
  messages, in their order.
\<close>

theorem four_answers_complete:
  fixes env :: environment and u :: user_preference and ms :: "(instant \<times> string) list"
  assumes "not_under_way u"
    and "list_all (\<lambda>(_, m). plain_answer m) ms" and "1 \<le> length ms" and "length ms \<le> 4"
  defines "v \<equiv> submit_all env ms u"
  shows "kept_answers v = map (\<lambda>(_, m). JStr (strip m)) ms \<and>
    lp_status v = Some (if length ms = 4 then ''completed'' else ''in_progress'') \<and>
    (length ms = 4 \<longrightarrow> lp_summary v \<noteq> None \<and> lp_prompt v \<noteq> None \<and> lp_completed_at v = Some (fst (last ms)))"
proof (cases "length ms = 4")
  case True
  then obtain ms' now m where ms: "ms = ms' @ [(now, m)]" "length ms' = 3"
    by (cases ms rule: rev_cases) auto
  then have "interviewing (map (\<lambda>(_, m). strip m) ms') (submit_all env ms' u)"
    using assms(2) by (intro some_answers [OF assms(1)]) auto
  from next_answer [OF this, of m env now] ms assms(2)
  have "completed_with now (map (\<lambda>(_, m). strip m) ms' @ [strip m]) v"
    by (auto simp: v_def submit_all_snoc)
  then show ?thesis using ms True by (auto simp: completed_with_def comp_def case_prod_beta)
next
  case False
  then have "interviewing (map (\<lambda>(_, m). strip m) ms) v"
    unfolding v_def using assms(2-4) by (intro some_answers [OF assms(1)]) auto
  then show ?thesis using False interviewing_answers [of "map (\<lambda>(_, m). strip m) ms" v]
    by (auto simp: interviewing_def comp_def case_prod_beta)
qed

lemma contains_head: "contains_text s w \<Longrightarrow> w \<noteq> [] \<Longrightarrow> hd w \<in> set s"
proof (induction s)
  case (Cons c s)
  then show ?case by (cases w) (auto simp: starts_with_def)
qed simp

text \<open>In an ASCII text only the English words skip.\<close>

lemma ascii_skip:
  assumes "list_all (\<lambda>c. (of_char c :: nat) < 128) s"
  shows "names_any SKIP_KEYWORDS s \<longleftrightarrow> names_any [''skip'', ''later'', ''not now''] s"
proof -
  have hex: "hex_text (a # b # cs) \<noteq> []" "hd (hex_text (a # b # cs)) = char_of (16 * hex_value a + hex_value b)" for a b cs
    by simp_all
  have "\<not> contains_text s w" if "w \<noteq> [] \<and> 128 \<le> (of_char (hd w) :: nat)" for w
  proof
    assume "contains_text s w"
    with contains_head that have "hd w \<in> set s" by blast
    with assms have "(of_char (hd w) :: nat) < 128" by (simp add: list_all_iff)
    with that show False by simp
  qed
  moreover have "list_all (\<lambda>w. w \<noteq> [] \<and> 128 \<le> (of_char (hd w) :: nat)) (drop 3 SKIP_KEYWORDS)"
    by (simp only: SKIP_KEYWORDS_def drop_Cons_numeral drop_0 pred_numeral_simps numeral_1_eq_Suc_0 list.pred_inject hex)
       (simp add: hex_value_def)
  ultimately have "\<not> list_ex (contains_text s) (drop 3 SKIP_KEYWORDS)"
    unfolding list_ex_iff list_all_iff by blast
  moreover have "take 3 SKIP_KEYWORDS = [''skip'', ''later'', ''not now'']"
    by (simp only: SKIP_KEYWORDS_def take_Cons_numeral) simp
  moreover have "names_any SKIP_KEYWORDS s \<longleftrightarrow> list_ex (contains_text s) (take 3 SKIP_KEYWORDS @ drop 3 SKIP_KEYWORDS)"
    unfolding append_take_drop_id names_any_def ..
  ultimately show ?thesis unfolding names_any_def list_ex_append by simp
qed

text \<open>A sentence with one of the words in it wipes the profile of a user who had finished.\<close>

lemma keyword_in_sentence_wipes_profile:
  "submit_learning_preferences_answer env now ''I will read it later'' u =
     skip_learning_preferences_onboarding env now (Some ''user_skip_keyword'') u \<and>
   lp_profile (snd (submit_learning_preferences_answer env now ''I will read it later'' u)) = JNull \<and>
   lp_status (snd (submit_learning_preferences_answer env now ''I will read it later'' u)) = Some ''skipped''"
proof -
  have s: "strip ''I will read it later'' = ''I will read it later''" by (simp add: strip_def is_space_def)
  have "names_any SKIP_KEYWORDS (lower ''I will read it later'')"
    by (simp add: ascii_skip lower_def lower_char_def) (simp add: names_any_def starts_with_def)
  then show ?thesis
    by (simp add: submit_learning_preferences_answer_def s Let_def skip_learning_preferences_onboarding_def)
qed

text \<open>No model is configured; the profile is the one read off the answers.\<close>

definition silent :: environment where
  "silent = \<lparr>str_of = (\<lambda>_. []), isoformat = (\<lambda>_. ''t''), json_loads = (\<lambda>_. None), float_of = (\<lambda>_. None),
     call_model = (\<lambda>_. None)\<rparr>"

definition newcomer :: user_preference where
  "newcomer = \<lparr>telegram_user_id = Some 5, first_name = Some ''Sara'', username = None, preferred_name = None,
     phone_number = None, account_status = None, credit_balance_usd = None, is_admin = False, is_pro = False,
     total_charged_usd = None, trial_used = False, referral_campaign_id = None, lp_status = Some ''not_started'',
     lp_summary = None, lp_prompt = None, lp_profile = JNull, lp_onboarding = JNull, lp_completed_at = None,
     created_at = 0\<rparr>"

theorem four_answers_complete_witness:
  "lp_status (submit_all silent [(1, ''real examples''), (2, '' short ''), (3, ''a quiz''), (4, ''stepwise'')] newcomer)
     = Some ''completed''"
proof -
  let ?ms = "[(1, ''real examples''), (2, '' short ''), (3, ''a quiz''), (4, ''stepwise'')] :: (instant \<times> string) list"
  have "list_all (\<lambda>(_, m). plain_answer m) ?ms"
    by (simp add: plain_answer_def ascii_skip strip_def is_space_def lower_def lower_char_def)
       (simp add: names_any_def starts_with_def)
  moreover have "not_under_way newcomer"
    by (simp add: not_under_way_def newcomer_def opt_strip_def str_or_def strip_def is_space_def dict_or_empty_def dict_get_def)
  ultimately show ?thesis using four_answers_complete [of newcomer ?ms silent] by simp
qed

end
