(* ===== verification/Web_Credits.thy ===== *)
theory Web_Credits
  imports Prelude
begin

text \<open>
  The simple credits, the subscriptions and the payment orders of the web application
  (\<open>src/backend/open_webui\<close>: \<open>models/user_credits.py\<close>, \<open>routers/credits.py\<close>,
  \<open>models/subscriptions.py\<close>, \<open>routers/subscriptions.py\<close>, \<open>models/payment_orders.py\<close>,
  \<open>routers/billing.py\<close>), and the check of the credits before a chat (\<open>main.py\<close>).

  Its tables are keyed by texts, so a table is an association list in the order of insertion. The
  clock counts seconds, and a fresh \<open>uuid4\<close> is an argument, as is the configuration. Every method
  commits what it changed. Persian texts are English tags.
\<close>

section \<open>The tables\<close>

record user_credits =
  uc_balance :: int
  uc_total_used :: int
  uc_reset_date :: "int option"

record credit_transaction =
  ct_user_id :: string
  ct_amount :: int
  ct_type :: string
  ct_reference :: string
  ct_created_at :: int

record web_subscription =
  ws_user_id :: string
  ws_plan :: string
  ws_status :: string
  ws_payment_provider :: "string option"
  ws_payment_id :: "string option"
  ws_started_at :: int
  ws_expires_at :: "int option"
  ws_created_at :: int
  ws_updated_at :: int

record payment_order =
  po_user_id :: string
  po_bale_user_id :: string
  po_plan_type :: string
  po_amount_toman :: int
  po_status :: string
  po_payment_method :: "string option"
  po_receipt_file_id :: "string option"
  po_admin_notes :: "string option"
  po_subscription_id :: "string option"
  po_created_at :: int
  po_updated_at :: int

record web_db =
  credit_rows :: "(string \<times> user_credits) list"
  credit_transactions :: "(string \<times> credit_transaction) list"
  web_subscriptions :: "(string \<times> web_subscription) list"
  payment_orders :: "(string \<times> payment_order) list"

section \<open>Credits\<close>

definition MONTHLY_CREDITS :: int where
  "MONTHLY_CREDITS = 50"

definition MONTH_SECONDS :: int where
  "MONTH_SECONDS = 30 * 24 * 3600"

definition fresh_credits :: "int \<Rightarrow> int \<Rightarrow> user_credits" where
  "fresh_credits now b = \<lparr>uc_balance = b, uc_total_used = 0, uc_reset_date = Some (now + MONTH_SECONDS)\<rparr>"

definition credits_of :: "string \<Rightarrow> web_db \<Rightarrow> user_credits option" where
  "credits_of uid d = map_of (credit_rows d) uid"

definition put_credits :: "string \<Rightarrow> user_credits \<Rightarrow> web_db \<Rightarrow> web_db" where
  "put_credits uid c d = d\<lparr>credit_rows := AList.update uid c (credit_rows d)\<rparr>"

definition add_transaction :: "string \<Rightarrow> credit_transaction \<Rightarrow> web_db \<Rightarrow> web_db" where
  "add_transaction i t d = d\<lparr>credit_transactions := credit_transactions d @ [(i, t)]\<rparr>"

definition get_user_credits :: "int \<Rightarrow> string \<Rightarrow> web_db \<Rightarrow> user_credits \<times> web_db" where
  "get_user_credits now uid d =
     (case credits_of uid d of
        Some c \<Rightarrow> (c, d)
      | None \<Rightarrow> let c = fresh_credits now MONTHLY_CREDITS in (c, put_credits uid c d))"

definition deduct_credit ::
  "int \<Rightarrow> string \<Rightarrow> string \<Rightarrow> int \<Rightarrow> string \<Rightarrow> web_db \<Rightarrow> bool \<times> web_db" where
  "deduct_credit now txid uid amount reference d =
     (case credits_of uid d of
        None \<Rightarrow> (False, d)
      | Some c \<Rightarrow>
          if uc_balance c < amount then (False, d)
          else (True, add_transaction txid
                  \<lparr>ct_user_id = uid, ct_amount = - amount, ct_type = ''usage'', ct_reference = reference,
                   ct_created_at = now\<rparr>
                  (put_credits uid (c\<lparr>uc_balance := uc_balance c - amount,
                                      uc_total_used := uc_total_used c + amount\<rparr>) d)))"

definition add_credits ::
  "int \<Rightarrow> string \<Rightarrow> string \<Rightarrow> int \<Rightarrow> string \<Rightarrow> string \<Rightarrow> web_db \<Rightarrow> user_credits \<times> web_db" where
  "add_credits now txid uid amount kind reference d =
     (let c = (case credits_of uid d of
                 None \<Rightarrow> fresh_credits now amount
               | Some c \<Rightarrow> c\<lparr>uc_balance := uc_balance c + amount\<rparr>)
      in (c, add_transaction txid
               \<lparr>ct_user_id = uid, ct_amount = amount, ct_type = kind, ct_reference = reference,
                ct_created_at = now\<rparr>
               (put_credits uid c d)))"

definition get_transaction_history ::
  "string \<Rightarrow> nat \<Rightarrow> nat \<Rightarrow> web_db \<Rightarrow> (string \<times> credit_transaction) list" where
  "get_transaction_history uid skip_n limit_n d =
     take limit_n (drop skip_n (sort_key (\<lambda>(_, t). - ct_created_at t)
       (filter (\<lambda>(_, t). ct_user_id t = uid) (credit_transactions d))))"

definition check_and_reset_monthly :: "int \<Rightarrow> string \<Rightarrow> web_db \<Rightarrow> user_credits option \<times> web_db" where
  "check_and_reset_monthly now uid d =
     (case credits_of uid d of
        None \<Rightarrow> (None, d)
      | Some c \<Rightarrow>
          if or0 (uc_reset_date c) \<noteq> 0 \<and> or0 (uc_reset_date c) \<le> now
          then (let c' = fresh_credits now MONTHLY_CREDITS in (Some c', put_credits uid c' d))
          else (Some c, d))"

definition get_credits_status :: "int \<Rightarrow> string \<Rightarrow> web_db \<Rightarrow> user_credits \<times> web_db" where
  "get_credits_status now uid d =
     (case check_and_reset_monthly now uid d of
        (None, d') \<Rightarrow> (\<lparr>uc_balance = 0, uc_total_used = 0, uc_reset_date = None\<rparr>, d')
      | (Some c, d') \<Rightarrow> (c, d'))"

section \<open>Subscriptions\<close>

record subscription_form =
  sf_plan :: string
  sf_status :: "string option"
  sf_payment_provider :: "string option"
  sf_payment_id :: "string option"
  sf_expires_at :: "int option"

definition active_for :: "string \<Rightarrow> web_subscription \<Rightarrow> bool" where
  "active_for uid s \<longleftrightarrow> ws_user_id s = uid \<and> ws_status s = ''active''"

definition get_subscription_by_user_id :: "string \<Rightarrow> web_db \<Rightarrow> (string \<times> web_subscription) option" where
  "get_subscription_by_user_id uid d = find (\<lambda>(_, s). active_for uid s) (web_subscriptions d)"

definition create_or_update_subscription ::
  "int \<Rightarrow> string \<Rightarrow> string \<Rightarrow> subscription_form \<Rightarrow> web_db \<Rightarrow> (string \<times> web_subscription) \<times> web_db" where
  "create_or_update_subscription now nid uid form d =
     (case get_subscription_by_user_id uid d of
        Some (i, s) \<Rightarrow>
          (let s' = s\<lparr>ws_plan := sf_plan form, ws_status := str_or (sf_status form) ''active'',
                      ws_payment_provider := sf_payment_provider form, ws_payment_id := sf_payment_id form,
                      ws_expires_at := sf_expires_at form, ws_updated_at := now\<rparr>
           in ((i, s'), d\<lparr>web_subscriptions := AList.update i s' (web_subscriptions d)\<rparr>))
      | None \<Rightarrow>
          (let s' = \<lparr>ws_user_id = uid, ws_plan = sf_plan form, ws_status = str_or (sf_status form) ''active'',
                     ws_payment_provider = sf_payment_provider form, ws_payment_id = sf_payment_id form,
                     ws_started_at = now, ws_expires_at = sf_expires_at form, ws_created_at = now,
                     ws_updated_at = now\<rparr>
           in ((nid, s'), d\<lparr>web_subscriptions := web_subscriptions d @ [(nid, s')]\<rparr>)))"

definition get_all_subscriptions ::
  "nat option \<Rightarrow> nat option \<Rightarrow> web_db \<Rightarrow> (string \<times> web_subscription) list" where
  "get_all_subscriptions skip_n limit_n d =
     (let rows = sort_key (\<lambda>(_, s). - ws_created_at s) (web_subscriptions d);
          rest = (case skip_n of None \<Rightarrow> rows | Some n \<Rightarrow> drop n rows)
      in case limit_n of None \<Rightarrow> rest | Some n \<Rightarrow> take n rest)"

record subscription_view =
  sv_plan :: string
  sv_status :: string
  sv_expires_at :: "int option"
  sv_payment_provider :: "string option"

definition get_subscription_status :: "string \<Rightarrow> web_db \<Rightarrow> subscription_view" where
  "get_subscription_status uid d =
     (case get_subscription_by_user_id uid d of
        None \<Rightarrow> \<lparr>sv_plan = ''free'', sv_status = ''active'', sv_expires_at = None, sv_payment_provider = None\<rparr>
      | Some (_, s) \<Rightarrow> \<lparr>sv_plan = ws_plan s, sv_status = ws_status s, sv_expires_at = ws_expires_at s,
                        sv_payment_provider = ws_payment_provider s\<rparr>)"

section \<open>The check before a chat\<close>

text \<open>What a request answers: a status and a reason, or a value.\<close>

type_synonym 'a answer = "(nat \<times> string) + 'a"

definition credit_gate :: "int \<Rightarrow> string \<Rightarrow> string \<Rightarrow> web_db \<Rightarrow> unit answer \<times> web_db" where
  "credit_gate now txid uid d0 =
     (case check_and_reset_monthly now uid d0 of (checked, d1) \<Rightarrow>
      let sub = get_subscription_by_user_id uid d1;
          pro = (case sub of None \<Rightarrow> False | Some (_, s) \<Rightarrow> ws_plan s = ''pro'');
          (found, d2) = (if pro then (checked, d1)
                         else case checked of
                           Some c \<Rightarrow> (Some c, d1)
                         | None \<Rightarrow> map_prod Some id (get_user_credits now uid d1))
      in case found of
           None \<Rightarrow> (Inr (), d2)
         | Some c \<Rightarrow>
             if \<not> pro \<and> uc_balance c \<le> 0 then (Inl (402, ''no credits left''), d2)
             else (Inr (), snd (deduct_credit now txid uid 1 (''chat:'' @ txid) d2)))"

section \<open>Payment orders\<close>

definition create_payment_order ::
  "int \<Rightarrow> string \<Rightarrow> string \<Rightarrow> string \<Rightarrow> string \<Rightarrow> int \<Rightarrow> string option \<Rightarrow> web_db \<Rightarrow>
   (string \<times> payment_order) \<times> web_db" where
  "create_payment_order now oid uid bale_uid plan_type amount payment_way d =
     (let row = \<lparr>po_user_id = uid, po_bale_user_id = bale_uid, po_plan_type = plan_type, po_amount_toman = amount,
               po_status = ''pending'', po_payment_method = payment_way, po_receipt_file_id = None,
               po_admin_notes = None, po_subscription_id = None, po_created_at = now, po_updated_at = now\<rparr>
      in ((oid, row), d\<lparr>payment_orders := payment_orders d @ [(oid, row)]\<rparr>))"

definition get_order_by_id :: "string \<Rightarrow> web_db \<Rightarrow> payment_order option" where
  "get_order_by_id oid d = map_of (payment_orders d) oid"

text \<open>An empty text is no text: \<open>if admin_notes\<close>, \<open>if subscription_id\<close>.\<close>

definition update_order_status ::
  "int \<Rightarrow> string \<Rightarrow> string \<Rightarrow> string \<Rightarrow> string \<Rightarrow> web_db \<Rightarrow> payment_order option \<times> web_db" where
  "update_order_status now oid status admin_notes subscription_id d =
     (case get_order_by_id oid d of
        None \<Rightarrow> (None, d)
      | Some row \<Rightarrow>
          (let row' = row\<lparr>po_status := status, po_updated_at := now,
                      po_admin_notes := (if admin_notes = [] then po_admin_notes row else Some admin_notes),
                      po_subscription_id := (if subscription_id = [] then po_subscription_id row
                                             else Some subscription_id)\<rparr>
           in (Some row', d\<lparr>payment_orders := AList.update oid row' (payment_orders d)\<rparr>)))"

definition list_pending_card :: "web_db \<Rightarrow> (string \<times> payment_order) list" where
  "list_pending_card d =
     sort_key (\<lambda>(_, x). - po_created_at x) (filter (\<lambda>(_, x). po_status x = ''awaiting_card'') (payment_orders d))"

definition list_orders_by_user :: "string \<Rightarrow> web_db \<Rightarrow> (string \<times> payment_order) list" where
  "list_orders_by_user uid d =
     sort_key (\<lambda>(_, x). - po_created_at x) (filter (\<lambda>(_, x). po_user_id x = uid) (payment_orders d))"

subsection \<open>Who may call\<close>

text \<open>The configuration, and the headers of a call. A header that is missing is refused by FastAPI.\<close>

record bot_config =
  BOT_SHARED_SECRET :: string
  BOT_ADMIN_IDS :: "string list"

record bot_headers =
  x_bot_secret :: "string option"
  x_bot_admin_id :: "string option"

definition require_bot_secret :: "bot_config \<Rightarrow> bot_headers \<Rightarrow> string answer" where
  "require_bot_secret cfg h =
     (case x_bot_secret h of
        None \<Rightarrow> Inl (422, ''missing header'')
      | Some s \<Rightarrow>
          if BOT_SHARED_SECRET cfg = [] then Inl (503, ''Bot shared secret not configured on server'')
          else if s \<noteq> BOT_SHARED_SECRET cfg then Inl (401, ''Invalid bot credentials'')
          else Inr s)"

definition require_bot_admin :: "bot_config \<Rightarrow> bot_headers \<Rightarrow> string answer" where
  "require_bot_admin cfg h =
     (case require_bot_secret cfg h of
        Inl e \<Rightarrow> Inl e
      | Inr _ \<Rightarrow>
          (case x_bot_admin_id h of
             None \<Rightarrow> Inl (422, ''missing header'')
           | Some a \<Rightarrow>
               if BOT_ADMIN_IDS cfg = [] then Inl (503, ''No bot admins configured'')
               else if a \<notin> set (BOT_ADMIN_IDS cfg) then Inl (403, ''Admin privilege required'')
               else Inr a))"

text \<open>A handler behind such a check runs only when the check passes.\<close>

definition guarded :: "string answer \<Rightarrow> (string \<Rightarrow> web_db \<Rightarrow> 'a answer \<times> web_db) \<Rightarrow> web_db \<Rightarrow> 'a answer \<times> web_db" where
  "guarded chk handler d = (case chk of Inl e \<Rightarrow> (Inl e, d) | Inr who \<Rightarrow> handler who d)"

definition or_404 :: "payment_order option \<times> web_db \<Rightarrow> payment_order answer \<times> web_db" where
  "or_404 r = (case r of (None, d) \<Rightarrow> (Inl (404, ''Order not found''), d) | (Some x, d) \<Rightarrow> (Inr x, d))"

text \<open>A paid order gives its user the plan it was for.\<close>

definition activate_paid :: "int \<Rightarrow> string \<Rightarrow> string \<Rightarrow> string \<Rightarrow> payment_order \<Rightarrow> web_db \<Rightarrow> payment_order answer \<times> web_db" where
  "activate_paid now nid provider oid row d =
     (if po_plan_type row = [] then (Inr row, d)
      else case create_or_update_subscription now nid (po_user_id row)
             \<lparr>sf_plan = po_plan_type row, sf_status = Some ''active'', sf_payment_provider = Some provider,
              sf_payment_id = Some oid, sf_expires_at = None\<rparr> d of
        ((i, _), d1) \<Rightarrow>
          (case update_order_status now oid ''paid'' [] i d1 of
             (_, d2) \<Rightarrow> or_404 (get_order_by_id oid d2, d2)))"

definition create_order ::
  "bot_config \<Rightarrow> bot_headers \<Rightarrow> int \<Rightarrow> string \<Rightarrow> string \<Rightarrow> string option \<Rightarrow> string \<Rightarrow> int \<Rightarrow> string option \<Rightarrow>
   web_db \<Rightarrow> payment_order answer \<times> web_db" where
  "create_order cfg h now oid uid bale_uid plan_type amount payment_way =
     guarded (require_bot_secret cfg h) (\<lambda>_ d.
       map_prod (Inr \<circ> snd) id
         (create_payment_order now oid uid (str_or bale_uid []) plan_type amount payment_way d))"

definition get_order :: "bot_config \<Rightarrow> bot_headers \<Rightarrow> string \<Rightarrow> web_db \<Rightarrow> payment_order answer \<times> web_db" where
  "get_order cfg h oid = guarded (require_bot_secret cfg h) (\<lambda>_ d. or_404 (get_order_by_id oid d, d))"

definition mark_paid ::
  "bot_config \<Rightarrow> bot_headers \<Rightarrow> int \<Rightarrow> string \<Rightarrow> string \<Rightarrow> web_db \<Rightarrow> payment_order answer \<times> web_db" where
  "mark_paid cfg h now nid oid = guarded (require_bot_secret cfg h) (\<lambda>_ d.
     case update_order_status now oid ''paid'' [] [] d of
       (None, d1) \<Rightarrow> (Inl (404, ''Order not found''), d1)
     | (Some row, d1) \<Rightarrow> activate_paid now nid ''bale'' oid row d1)"

definition reject_order ::
  "bot_config \<Rightarrow> bot_headers \<Rightarrow> int \<Rightarrow> string \<Rightarrow> web_db \<Rightarrow> payment_order answer \<times> web_db" where
  "reject_order cfg h now oid = guarded (require_bot_secret cfg h) (\<lambda>_ d.
     or_404 (update_order_status now oid ''rejected'' [] [] d))"

definition cancel_order ::
  "bot_config \<Rightarrow> bot_headers \<Rightarrow> int \<Rightarrow> string \<Rightarrow> web_db \<Rightarrow> payment_order answer \<times> web_db" where
  "cancel_order cfg h now oid = guarded (require_bot_secret cfg h) (\<lambda>_ d.
     or_404 (update_order_status now oid ''cancelled'' [] [] d))"

definition admin_create_order ::
  "bot_config \<Rightarrow> bot_headers \<Rightarrow> int \<Rightarrow> string \<Rightarrow> string \<Rightarrow> string option \<Rightarrow> string \<Rightarrow> int \<Rightarrow> web_db \<Rightarrow>
   payment_order answer \<times> web_db" where
  "admin_create_order cfg h now oid uid bale_uid plan_type amount =
     guarded (require_bot_admin cfg h) (\<lambda>_ d.
       map_prod (Inr \<circ> snd) id
         (create_payment_order now oid uid (str_or bale_uid []) plan_type amount (Some ''admin'') d))"

definition admin_list_pending_card ::
  "bot_config \<Rightarrow> bot_headers \<Rightarrow> web_db \<Rightarrow> (string \<times> payment_order) list answer \<times> web_db" where
  "admin_list_pending_card cfg h =
     guarded (require_bot_admin cfg h) (\<lambda>_ d. (Inr (list_pending_card d), d))"

definition admin_approve ::
  "bot_config \<Rightarrow> bot_headers \<Rightarrow> int \<Rightarrow> string \<Rightarrow> string \<Rightarrow> web_db \<Rightarrow> payment_order answer \<times> web_db" where
  "admin_approve cfg h now nid oid = guarded (require_bot_admin cfg h) (\<lambda>admin_id d.
     case get_order_by_id oid d of
       None \<Rightarrow> (Inl (404, ''Order not found''), d)
     | Some _ \<Rightarrow>
         (case update_order_status now oid ''paid'' (''Approved by admin '' @ admin_id) [] d of
            (None, d1) \<Rightarrow> (Inl (500, ''no order''), d1)
          | (Some row, d1) \<Rightarrow> activate_paid now nid ''card'' oid row d1))"

definition admin_reject ::
  "bot_config \<Rightarrow> bot_headers \<Rightarrow> int \<Rightarrow> string \<Rightarrow> web_db \<Rightarrow> payment_order answer \<times> web_db" where
  "admin_reject cfg h now oid = guarded (require_bot_admin cfg h) (\<lambda>admin_id d.
     or_404 (update_order_status now oid ''rejected'' (''Rejected by admin '' @ admin_id) [] d))"

section \<open>Tables keyed by texts\<close>

lemma count_update:
  assumes "distinct (map fst xs)" and "(i, r) \<in> set xs"
  shows "length (filter (\<lambda>(_, q). R q) (AList.update i r' xs)) + (if R r then 1 else 0) =
    length (filter (\<lambda>(_, q). R q) xs) + (if R r' then 1 else 0)"
  using assms
proof (induction xs)
  case (Cons x xs)
  show ?case
  proof (cases "fst x = i")
    case True
    with Cons.prems have "x = (i, r)" by (force simp: image_iff)
    then show ?thesis by simp
  next
    case False
    with Cons.prems have "(i, r) \<in> set xs" by auto
    with Cons.IH Cons.prems(1) False show ?thesis by (auto split: prod.splits)
  qed
qed simp

lemma set_update: "distinct (map fst xs) \<Longrightarrow> set (AList.update i r xs) \<subseteq> insert (i, r) (set xs)"
  by (induction xs) auto

lemma fst_update: "i \<in> fst ` set xs \<Longrightarrow> map fst (AList.update i r xs) = map fst xs"
  by (induction xs) auto

lemma find_in: "find (\<lambda>(_, s). P s) xs = Some (i, s) \<Longrightarrow> (i, s) \<in> set xs \<and> P s"
  by (fastforce simp: find_Some_iff in_set_conv_nth)

lemma find_none: "find (\<lambda>(_, s). P s) xs = None \<longleftrightarrow> filter (\<lambda>(_, s). P s) xs = []"
  by (auto simp: find_None_iff filter_empty_conv)

section \<open>What holds of every database\<close>

definition ORDER_STATUSES :: "string list" where
  "ORDER_STATUSES = [''pending'', ''paid'', ''rejected'', ''cancelled'']"

definition actives :: "string \<Rightarrow> web_db \<Rightarrow> nat" where
  "actives uid d = length (filter (\<lambda>(_, s). active_for uid s) (web_subscriptions d))"

definition web_ok :: "web_db \<Rightarrow> bool" where
  "web_ok d \<longleftrightarrow> distinct (map fst (web_subscriptions d)) \<and> (\<forall>uid. actives uid d \<le> 1) \<and>
     (\<forall>(_, x) \<in> set (payment_orders d). po_status x \<in> set ORDER_STATUSES) \<and>
     distinct (map fst (payment_orders d))"

lemma web_ok_credits [simp]:
  "web_ok (d\<lparr>credit_rows := c\<rparr>) = web_ok d" "web_ok (d\<lparr>credit_transactions := t\<rparr>) = web_ok d"
  by (simp_all add: web_ok_def actives_def)

lemma web_ok_subscription:
  assumes ok: "web_ok d" and fresh: "nid \<notin> fst ` set (web_subscriptions d)"
  shows "web_ok (snd (create_or_update_subscription now nid uid form d))"
proof (cases "get_subscription_by_user_id uid d")
  case None
  then have "actives uid d = 0"
    by (simp add: get_subscription_by_user_id_def find_none actives_def)
  with None ok fresh show ?thesis
    by (auto simp: create_or_update_subscription_def web_ok_def actives_def active_for_def Let_def)
next
  case (Some x)
  then obtain i s where x: "get_subscription_by_user_id uid d = Some (i, s)" by (cases x) auto
  then have s: "(i, s) \<in> set (web_subscriptions d)" "active_for uid s"
    by (auto simp: get_subscription_by_user_id_def dest!: find_in)
  define s' where "s' = s\<lparr>ws_plan := sf_plan form, ws_status := str_or (sf_status form) ''active'',
      ws_payment_provider := sf_payment_provider form, ws_payment_id := sf_payment_id form,
      ws_expires_at := sf_expires_at form, ws_updated_at := now\<rparr>"
  have run: "snd (create_or_update_subscription now nid uid form d) =
      d\<lparr>web_subscriptions := AList.update i s' (web_subscriptions d)\<rparr>"
    by (simp add: create_or_update_subscription_def x Let_def s'_def)
  have "actives v (d\<lparr>web_subscriptions := AList.update i s' (web_subscriptions d)\<rparr>) \<le> actives v d" for v
  proof -
    have "active_for v s' \<Longrightarrow> active_for v s" using s(2) by (simp add: active_for_def s'_def)
    with count_update [of "web_subscriptions d" i s "active_for v" s'] s(1) ok show ?thesis
      by (simp add: actives_def web_ok_def split: if_splits)
  qed
  then have "actives v (d\<lparr>web_subscriptions := AList.update i s' (web_subscriptions d)\<rparr>) \<le> 1" for v
    using ok le_trans unfolding web_ok_def by blast
  moreover have "i \<in> fst ` set (web_subscriptions d)" using s(1) by (force simp: image_iff)
  ultimately show ?thesis using ok unfolding run by (simp add: web_ok_def fst_update)
qed

lemma web_ok_new_order:
  assumes "web_ok d" and "oid \<notin> fst ` set (payment_orders d)"
  shows "web_ok (snd (create_payment_order now oid uid b p n w d))"
  using assms by (auto simp: create_payment_order_def web_ok_def actives_def ORDER_STATUSES_def Let_def)

lemma web_ok_status:
  assumes ok: "web_ok d" and status: "status \<in> set ORDER_STATUSES"
  shows "web_ok (snd (update_order_status now oid status notes sid d))"
proof (cases "get_order_by_id oid d")
  case (Some row)
  then have key: "oid \<in> fst ` set (payment_orders d)"
    by (force simp: get_order_by_id_def dest: map_of_SomeD)
  obtain row' where run: "snd (update_order_status now oid status notes sid d) =
      d\<lparr>payment_orders := AList.update oid row' (payment_orders d)\<rparr>" and s: "po_status row' = status"
    by (simp add: update_order_status_def Some Let_def)
  have distinct: "distinct (map fst (payment_orders d))" using ok by (simp add: web_ok_def)
  have "\<forall>(_, x) \<in> set (AList.update oid row' (payment_orders d)). po_status x \<in> set ORDER_STATUSES"
    using set_update [OF distinct, of oid row'] ok s status by (auto simp: web_ok_def)
  with ok distinct key show ?thesis by (simp add: run web_ok_def actives_def fst_update)
qed (simp add: update_order_status_def ok)

section \<open>What the web application can do\<close>

text \<open>
  One call: a chat, a look at the credits, an administrator writing a subscription, or one of the
  endpoints for orders, whatever its headers are. Credits are only granted with a positive amount.
  A fresh \<open>uuid4\<close> is one that no row has.
\<close>

inductive web_call :: "bot_config \<Rightarrow> web_db \<Rightarrow> web_db \<Rightarrow> bool" for cfg where
  chat: "web_call cfg d (snd (credit_gate now txid uid d))"
| credits: "web_call cfg d (snd (get_credits_status now uid d))"
| grant: "0 < n \<Longrightarrow> web_call cfg d (snd (add_credits now txid uid n kind reference d))"
| subscription: "nid \<notin> fst ` set (web_subscriptions d) \<Longrightarrow>
    web_call cfg d (snd (create_or_update_subscription now nid uid form d))"
| new_order: "oid \<notin> fst ` set (payment_orders d) \<Longrightarrow>
    web_call cfg d (snd (create_order cfg h now oid uid b p n w d))"
| admin_order: "oid \<notin> fst ` set (payment_orders d) \<Longrightarrow>
    web_call cfg d (snd (admin_create_order cfg h now oid uid b p n d))"
| paid: "nid \<notin> fst ` set (web_subscriptions d) \<Longrightarrow> web_call cfg d (snd (mark_paid cfg h now nid oid d))"
| approved: "nid \<notin> fst ` set (web_subscriptions d) \<Longrightarrow> web_call cfg d (snd (admin_approve cfg h now nid oid d))"
| rejected: "web_call cfg d (snd (reject_order cfg h now oid d))"
| cancelled: "web_call cfg d (snd (cancel_order cfg h now oid d))"
| refused: "web_call cfg d (snd (admin_reject cfg h now oid d))"

definition empty_web :: web_db where
  "empty_web = \<lparr>credit_rows = [], credit_transactions = [], web_subscriptions = [], payment_orders = []\<rparr>"

inductive web_reachable :: "bot_config \<Rightarrow> web_db \<Rightarrow> bool" for cfg where
  start: "web_reachable cfg empty_web"
| call: "web_reachable cfg d \<Longrightarrow> web_call cfg d d' \<Longrightarrow> web_reachable cfg d'"

lemma web_ok_guarded:
  "web_ok d \<Longrightarrow> (\<And>who. web_ok (snd (handler who d))) \<Longrightarrow> web_ok (snd (guarded chk handler d))"
  by (simp add: guarded_def split: sum.splits)

lemma snd_or_404 [simp]: "snd (or_404 r) = snd r"
  by (cases r) (simp add: or_404_def split: option.splits)

lemma subscriptions_after_status [simp]:
  "web_subscriptions (snd (update_order_status now oid status notes sid d)) = web_subscriptions d"
  by (simp add: update_order_status_def Let_def split: option.splits)

lemma web_ok_activated:
  assumes "web_ok d" and "nid \<notin> fst ` set (web_subscriptions d)"
  shows "web_ok (snd (activate_paid now nid provider oid row d))"
proof (cases "po_plan_type row = []")
  case False
  obtain i s d1 where c: "create_or_update_subscription now nid (po_user_id row)
      \<lparr>sf_plan = po_plan_type row, sf_status = Some ''active'', sf_payment_provider = Some provider,
       sf_payment_id = Some oid, sf_expires_at = None\<rparr> d = ((i, s), d1)" by (metis prod.exhaust)
  have "web_ok d1" using web_ok_subscription [OF assms] c by (metis snd_conv)
  then have "web_ok (snd (update_order_status now oid ''paid'' [] i d1))"
    by (rule web_ok_status) (simp add: ORDER_STATUSES_def)
  then show ?thesis using False by (simp add: activate_paid_def c case_prod_beta)
qed (simp add: activate_paid_def assms)

lemma web_ok_paid:
  assumes "web_ok d" and "nid \<notin> fst ` set (web_subscriptions d)"
  shows "web_ok (snd (mark_paid cfg h now nid oid d))" and "web_ok (snd (admin_approve cfg h now nid oid d))"
proof -
  have step: "web_ok d1 \<and> nid \<notin> fst ` set (web_subscriptions d1)"
    if "update_order_status now oid ''paid'' remark [] d = (r, d1)" for remark r d1
    using that assms web_ok_status [of d "''paid''" now oid remark "[]"]
      subscriptions_after_status [of now oid "''paid''" remark "[]" d] by (simp add: ORDER_STATUSES_def)
  show "web_ok (snd (mark_paid cfg h now nid oid d))"
    unfolding mark_paid_def
    by (rule web_ok_guarded [OF assms(1)]) (auto dest!: step intro: web_ok_activated split: prod.splits option.splits)
  show "web_ok (snd (admin_approve cfg h now nid oid d))"
    unfolding admin_approve_def
    by (rule web_ok_guarded [OF assms(1)])
       (auto dest!: step intro: web_ok_activated simp: assms split: prod.splits option.splits)
qed

lemma web_ok_put [simp]: "web_ok (put_credits uid c d) = web_ok d" "web_ok (add_transaction i t d) = web_ok d"
  by (simp_all add: put_credits_def add_transaction_def)

lemma web_ok_gate: "web_ok d \<Longrightarrow> web_ok (snd (credit_gate now txid uid d))"
  by (simp add: credit_gate_def check_and_reset_monthly_def get_user_credits_def deduct_credit_def Let_def
      split: option.splits prod.splits)

lemma web_ok_call: "web_call cfg d d' \<Longrightarrow> web_ok d \<Longrightarrow> web_ok d'"
proof (induction rule: web_call.induct)
  case (chat d now txid uid)
  then show ?case by (rule web_ok_gate)
next
  case (credits d now uid)
  then show ?case
    by (simp add: get_credits_status_def check_and_reset_monthly_def Let_def split: option.splits prod.splits)
next
  case (grant n d now txid uid kind reference)
  then show ?case by (simp add: add_credits_def Let_def)
next
  case (subscription nid d now uid form)
  then show ?case by (intro web_ok_subscription)
next
  case (new_order oid d h now uid b p n w)
  then show ?case unfolding create_order_def by (intro web_ok_guarded) (simp_all add: web_ok_new_order)
next
  case (admin_order oid d h now uid b p n)
  then show ?case unfolding admin_create_order_def by (intro web_ok_guarded) (simp_all add: web_ok_new_order)
next
  case (paid nid d h now oid)
  then show ?case by (intro web_ok_paid)
next
  case (approved nid d h now oid)
  then show ?case by (intro web_ok_paid)
next
  case (rejected d h now oid)
  then show ?case unfolding reject_order_def
    by (intro web_ok_guarded) (simp_all add: web_ok_status ORDER_STATUSES_def)
next
  case (cancelled d h now oid)
  then show ?case unfolding cancel_order_def
    by (intro web_ok_guarded) (simp_all add: web_ok_status ORDER_STATUSES_def)
next
  case (refused d h now oid)
  then show ?case unfolding admin_reject_def
    by (intro web_ok_guarded) (simp_all add: web_ok_status ORDER_STATUSES_def)
qed

lemma web_ok_empty: "web_ok empty_web"
  by (simp add: empty_web_def web_ok_def actives_def)

lemma web_reachable_ok: "web_reachable cfg d \<Longrightarrow> web_ok d"
  by (induction rule: web_reachable.induct) (simp_all add: web_ok_empty web_ok_call)

text \<open>No balance is negative.\<close>

definition credits_ok :: "web_db \<Rightarrow> bool" where
  "credits_ok d \<longleftrightarrow> (\<forall>(_, c) \<in> set (credit_rows d). 0 \<le> uc_balance c)"

lemma update_in: "(k, v) \<in> set (AList.update i r xs) \<Longrightarrow> (k, v) \<in> set xs \<or> (k, v) = (i, r)"
  by (induction xs) (auto split: if_splits)

lemma credits_ok_put: "credits_ok d \<Longrightarrow> 0 \<le> uc_balance c \<Longrightarrow> credits_ok (put_credits uid c d)"
  by (auto simp: credits_ok_def put_credits_def dest!: update_in)

lemma credits_ok_of: "credits_ok d \<Longrightarrow> credits_of uid d = Some c \<Longrightarrow> 0 \<le> uc_balance c"
  by (auto simp: credits_ok_def credits_of_def dest: map_of_SomeD)

lemma credits_ok_transaction [simp]: "credits_ok (add_transaction i t d) = credits_ok d"
  by (simp add: credits_ok_def add_transaction_def)

lemma credits_ok_parts:
  assumes "credits_ok d"
  shows "credits_ok (snd (get_user_credits now uid d))" and "credits_ok (snd (check_and_reset_monthly now uid d))"
    and "credits_ok (snd (deduct_credit now txid uid n reference d))"
    and "0 < n \<Longrightarrow> credits_ok (snd (add_credits now txid uid n kind reference d))"
  using assms credits_ok_of [OF assms, of uid]
  by (auto simp: get_user_credits_def check_and_reset_monthly_def deduct_credit_def add_credits_def Let_def
      fresh_credits_def MONTHLY_CREDITS_def intro!: credits_ok_put split: option.splits)

lemma credits_ok_gate: "credits_ok d \<Longrightarrow> credits_ok (snd (credit_gate now txid uid d))"
  by (simp add: credit_gate_def Let_def case_prod_beta credits_ok_parts split: option.splits)

lemma web_reachable_credits: "web_reachable cfg d \<Longrightarrow> credits_ok d"
proof (induction rule: web_reachable.induct)
  case start
  then show ?case by (simp add: credits_ok_def empty_web_def)
next
  case (call d d')
  have orders: "credit_rows (snd (create_or_update_subscription now nid uid form e)) = credit_rows e"
    "credit_rows (snd (create_payment_order now oid uid b p n w e)) = credit_rows e"
    "credit_rows (snd (update_order_status now oid status remark sid e)) = credit_rows e"
    for now nid uid form oid b p n w status remark sid e
    by (simp_all add: create_or_update_subscription_def create_payment_order_def update_order_status_def Let_def
        split: option.splits prod.splits)
  have paid: "credit_rows (snd (activate_paid now nid provider oid row e)) = credit_rows e" for now nid provider oid row e
    by (simp add: activate_paid_def case_prod_beta orders)
  from call(2) show ?case
  proof cases
    case (chat now txid uid)
    then show ?thesis using call.IH by (simp add: credits_ok_gate)
  next
    case (credits now uid)
    then show ?thesis using credits_ok_parts(2) [OF call.IH, of now uid]
      by (simp add: get_credits_status_def case_prod_beta split: option.splits)
  next
    case (grant n now txid uid kind reference)
    then show ?thesis using credits_ok_parts(4) [OF call.IH] by simp
  qed (use call.IH in \<open>auto simp: credits_ok_def orders paid guarded_def create_order_def admin_create_order_def
      mark_paid_def admin_approve_def reject_order_def cancel_order_def admin_reject_def case_prod_beta
      split: sum.splits option.splits\<close>)
qed


definition shop :: bot_config where
  "shop = \<lparr>BOT_SHARED_SECRET = ''s3'', BOT_ADMIN_IDS = [''7'']\<rparr>"

definition bot_call :: bot_headers where
  "bot_call = \<lparr>x_bot_secret = Some ''s3'', x_bot_admin_id = None\<rparr>"

definition one_order :: web_db where
  "one_order = snd (create_order shop bot_call 10 ''o1'' ''ali'' None ''pro'' 900 (Some ''card'') empty_web)"


text \<open>
  Without the configured secret no endpoint for orders shows or changes anything, and when no
  secret is configured none does for anybody; the administrator's endpoints ask for a known
  administrator besides.
\<close>

theorem orders_need_the_secret:
  assumes "x_bot_secret h \<noteq> Some (BOT_SHARED_SECRET cfg) \<or> BOT_SHARED_SECRET cfg = [] \<or>
      (admin_only \<and> (\<forall>a. x_bot_admin_id h = Some a \<longrightarrow> a \<notin> set (BOT_ADMIN_IDS cfg)))"
    and "call \<in> (if admin_only then {admin_create_order cfg h now oid uid b p n, admin_approve cfg h now nid oid,
                 admin_reject cfg h now oid}
               else {create_order cfg h now oid uid b p n w, get_order cfg h oid, mark_paid cfg h now nid oid,
                 reject_order cfg h now oid, cancel_order cfg h now oid})"
  shows "\<exists>refusal. call d = (Inl refusal, d) \<and> fst refusal \<in> {401, 403, 422, 503}"
proof -
  have e: "fst e \<in> {401, 422, 503}" if "require_bot_secret cfg h = Inl e" for e
    using that by (auto simp: require_bot_secret_def split: option.splits if_splits)
  have "\<exists>e. require_bot_secret cfg h = Inl e \<and> fst e \<in> {401, 403, 422, 503}"
    if "x_bot_secret h \<noteq> Some (BOT_SHARED_SECRET cfg) \<or> BOT_SHARED_SECRET cfg = []"
    using that by (auto simp: require_bot_secret_def split: option.splits)
  moreover have "\<exists>e. require_bot_admin cfg h = Inl e \<and> fst e \<in> {401, 403, 422, 503}" if admin_only
    using that assms(1) calculation by (auto simp: require_bot_admin_def dest!: e split: option.splits sum.splits)
  ultimately show ?thesis using assms
    by (cases admin_only)
       (force simp: guarded_def create_order_def get_order_def mark_paid_def reject_order_def cancel_order_def
          admin_create_order_def admin_approve_def admin_reject_def)+
qed

theorem orders_need_the_secret_witness:
  "\<exists>refusal. mark_paid shop \<lparr>x_bot_secret = Some ''x'', x_bot_admin_id = None\<rparr> 20 ''n1'' ''o1'' one_order =
     (Inl refusal, one_order)"
  using orders_need_the_secret
    [of "\<lparr>x_bot_secret = Some ''x'', x_bot_admin_id = None\<rparr>" shop False
      "mark_paid shop \<lparr>x_bot_secret = Some ''x'', x_bot_admin_id = None\<rparr> 20 ''n1'' ''o1''" 20 "''o1''" "''ali''"
      None "''pro''" 900 "''n1''" None one_order]
  by (auto simp: shop_def)

lemma find_update_other:
  assumes "distinct (map fst xs)" and "(i, r) \<in> set xs" and "\<not> P r" and "\<not> P r'"
  shows "find (\<lambda>(_, q). P q) (AList.update i r' xs) = find (\<lambda>(_, q). P q) xs"
  using assms by (induction xs) force+

lemma find_updated:
  assumes "distinct (map fst xs)" and "find (\<lambda>(_, q). P q) xs = Some (i, r)" and "P r'"
  shows "find (\<lambda>(_, q). P q) (AList.update i r' xs) = Some (i, r')"
  using assms
proof (induction xs)
  case (Cons x xs)
  show ?case
  proof (cases "P (snd x)")
    case True
    then show ?thesis using Cons.prems by (cases x) auto
  next
    case False
    then have f: "find (\<lambda>(_, q). P q) xs = Some (i, r)" using Cons.prems by (cases x) auto
    then have "(i, r) \<in> set xs" by (auto dest!: find_in)
    then have "fst x \<noteq> i" using Cons.prems(1) by (auto simp: image_iff)
    with Cons.IH [OF _ f] Cons.prems False show ?thesis by (cases x) auto
  qed
qed simp

lemma subscription_given:
  assumes ok: "distinct (map fst (web_subscriptions d))"
    and run: "create_or_update_subscription now nid uid form d = ((sid, sub), d')"
    and active: "str_or (sf_status form) ''active'' = ''active''"
  shows "get_subscription_by_user_id uid d' = Some (sid, sub)"
    and "ws_plan sub = sf_plan form" "ws_payment_id sub = sf_payment_id form" "ws_expires_at sub = sf_expires_at form"
    and "payment_orders d' = payment_orders d" "sid \<in> insert nid (fst ` set (web_subscriptions d))"
    and "v \<noteq> uid \<Longrightarrow> get_subscription_by_user_id v d' = get_subscription_by_user_id v d"
proof -
  have "get_subscription_by_user_id uid d' = Some (sid, sub) \<and> ws_plan sub = sf_plan form \<and>
    ws_payment_id sub = sf_payment_id form \<and> ws_expires_at sub = sf_expires_at form \<and>
    payment_orders d' = payment_orders d \<and> sid \<in> insert nid (fst ` set (web_subscriptions d)) \<and>
    (v \<noteq> uid \<longrightarrow> get_subscription_by_user_id v d' = get_subscription_by_user_id v d)"
  proof (cases "get_subscription_by_user_id uid d")
    case None
    with run active show ?thesis
      by (auto simp: create_or_update_subscription_def get_subscription_by_user_id_def Let_def find_append active_for_def
          split: option.split)
  next
    case (Some x)
    then obtain s where x: "get_subscription_by_user_id uid d = Some (sid, s)"
      using run by (cases x) (auto simp: create_or_update_subscription_def Let_def)
    then have s: "(sid, s) \<in> set (web_subscriptions d)" "active_for uid s"
      by (auto simp: get_subscription_by_user_id_def dest!: find_in)
    have sub: "sub = s\<lparr>ws_plan := sf_plan form, ws_status := ''active'',
        ws_payment_provider := sf_payment_provider form, ws_payment_id := sf_payment_id form,
        ws_expires_at := sf_expires_at form, ws_updated_at := now\<rparr>"
      "d' = d\<lparr>web_subscriptions := AList.update sid sub (web_subscriptions d)\<rparr>"
      using run active by (auto simp: create_or_update_subscription_def x Let_def)
    have "active_for uid sub" "v \<noteq> uid \<Longrightarrow> \<not> active_for v s" "v \<noteq> uid \<Longrightarrow> \<not> active_for v sub"
      using s(2) by (simp_all add: sub(1) active_for_def)
    then show ?thesis
      using x s(1) find_updated [OF ok, of "active_for uid" sid s sub] find_update_other [OF ok s(1), of "active_for v" sub]
      by (auto simp: sub(2) get_subscription_by_user_id_def image_iff) (auto simp: sub(1) intro: bexI [of _ "(sid, s)"])
  qed
  then show "get_subscription_by_user_id uid d' = Some (sid, sub)"
    and "ws_plan sub = sf_plan form" "ws_payment_id sub = sf_payment_id form" "ws_expires_at sub = sf_expires_at form"
    and "payment_orders d' = payment_orders d" "sid \<in> insert nid (fst ` set (web_subscriptions d))"
    and "v \<noteq> uid \<Longrightarrow> get_subscription_by_user_id v d' = get_subscription_by_user_id v d" by simp_all
qed

text \<open>
  C30. A paid order: its status is \<open>paid\<close>, its user has the plan it was for, in an active
  subscription that names the order and never expires, and nobody else's subscription changes.
\<close>

theorem paid_order_activates_plan:
  assumes "web_ok d" and "require_bot_secret cfg h = Inr who" and "get_order_by_id oid d = Some row"
    and "po_plan_type row \<noteq> []" and "nid \<notin> insert [] (fst ` set (web_subscriptions d))"
    and "[] \<notin> fst ` set (web_subscriptions d)"
  shows "\<exists>row' sid sub d'. mark_paid cfg h now nid oid d = (Inr row', d') \<and>
    po_status row' = ''paid'' \<and> po_subscription_id row' = Some sid \<and>
    get_subscription_by_user_id (po_user_id row) d' = Some (sid, sub) \<and>
    ws_plan sub = po_plan_type row \<and> ws_payment_id sub = Some oid \<and> ws_expires_at sub = None \<and>
    (\<forall>uid. uid \<noteq> po_user_id row \<longrightarrow>
       get_subscription_by_user_id uid d' = get_subscription_by_user_id uid d)"
proof -
  define form where "form = \<lparr>sf_plan = po_plan_type row, sf_status = Some ''active'', sf_payment_provider = Some ''bale'',
      sf_payment_id = Some oid, sf_expires_at = None\<rparr>"
  define row1 where "row1 = row\<lparr>po_status := ''paid'', po_updated_at := now\<rparr>"
  define d1 where "d1 = d\<lparr>payment_orders := AList.update oid row1 (payment_orders d)\<rparr>"
  have paid: "update_order_status now oid ''paid'' [] [] d = (Some row1, d1)"
    by (simp add: update_order_status_def assms(3) Let_def row1_def d1_def)
  have sub_of: "get_subscription_by_user_id uid d1 = get_subscription_by_user_id uid d" for uid
    by (simp add: d1_def get_subscription_by_user_id_def)
  obtain sid sub d2 where c: "create_or_update_subscription now nid (po_user_id row) form d1 = ((sid, sub), d2)"
    by (metis prod.exhaust)
  have new: "ws_plan sub = po_plan_type row" "ws_payment_id sub = Some oid" "ws_expires_at sub = None"
    "payment_orders d2 = payment_orders d1" "sid \<noteq> []"
    "get_subscription_by_user_id (po_user_id row) d2 = Some (sid, sub)"
    "uid \<noteq> po_user_id row \<Longrightarrow> get_subscription_by_user_id uid d2 = get_subscription_by_user_id uid d1" for uid
  proof -
    have "distinct (map fst (web_subscriptions d1))" "web_subscriptions d1 = web_subscriptions d"
      using assms(1) by (simp_all add: web_ok_def d1_def)
    note g = subscription_given [OF this(1) c, unfolded this(2)]
    have a: "str_or (sf_status form) ''active'' = ''active''" by (simp add: form_def str_or_def)
    show "ws_plan sub = po_plan_type row" "ws_payment_id sub = Some oid" "ws_expires_at sub = None"
      "payment_orders d2 = payment_orders d1"
      "get_subscription_by_user_id (po_user_id row) d2 = Some (sid, sub)"
      "uid \<noteq> po_user_id row \<Longrightarrow> get_subscription_by_user_id uid d2 = get_subscription_by_user_id uid d1"
      using g(1-5,7) [OF a] by (simp_all add: form_def)
    show "sid \<noteq> []" using g(6) [OF a] assms(5,6) by auto
  qed
  define row2 where "row2 = row1\<lparr>po_subscription_id := Some sid\<rparr>"
  define d3 where "d3 = d2\<lparr>payment_orders := AList.update oid row2 (payment_orders d2)\<rparr>"
  have "get_order_by_id oid d2 = Some row1"
    by (simp add: get_order_by_id_def new(4) d1_def AList.update_conv)
  then have "update_order_status now oid ''paid'' [] sid d2 = (Some row2, d3)"
    using new(5) by (simp add: update_order_status_def Let_def row2_def d3_def row1_def)
  moreover have "get_order_by_id oid d3 = Some row2"
    by (simp add: get_order_by_id_def d3_def AList.update_conv)
  ultimately have "mark_paid cfg h now nid oid d = (Inr row2, d3)"
    using assms(2,4) c by (simp add: mark_paid_def guarded_def paid activate_paid_def form_def row1_def or_404_def)
  moreover have "get_subscription_by_user_id uid d3 = get_subscription_by_user_id uid d2" for uid
    by (simp add: d3_def get_subscription_by_user_id_def)
  ultimately show ?thesis using new sub_of
    by (intro exI [of _ row2] exI [of _ sid] exI [of _ sub] exI [of _ d3]) (auto simp: row2_def row1_def)
qed

theorem paid_order_activates_plan_witness:
  "map_option (ws_plan \<circ> snd) (get_subscription_by_user_id ''ali''
     (snd (mark_paid shop bot_call 20 ''n1'' ''o1'' one_order))) = Some ''pro''"
proof -
  have "web_reachable shop one_order" unfolding one_order_def
    by (rule web_reachable.call [OF web_reachable.start web_call.new_order]) (simp add: empty_web_def)
  then have "web_ok one_order" by (rule web_reachable_ok)
  moreover have "require_bot_secret shop bot_call = Inr ''s3''" by code_simp
  moreover have "web_subscriptions one_order = []" by code_simp
  moreover obtain row where "get_order_by_id ''o1'' one_order = Some row" "po_user_id row = ''ali''" "po_plan_type row = ''pro''"
    by (simp add: one_order_def create_order_def guarded_def require_bot_secret_def shop_def bot_call_def
        create_payment_order_def get_order_by_id_def empty_web_def Let_def)
  ultimately show ?thesis using paid_order_activates_plan [of one_order shop bot_call "''s3''" "''o1''" row "''n1''" 20]
    by auto
qed

text \<open>The status of an order is no state machine: any order can be paid or rejected at any time.\<close>

lemma cancelled_order_can_be_paid:
  "let d = snd (cancel_order shop bot_call 15 ''o1'' one_order); d' = snd (mark_paid shop bot_call 20 ''n1'' ''o1'' d)
   in map_option po_status (get_order_by_id ''o1'' d) = Some ''cancelled'' \<and>
      map_option po_status (get_order_by_id ''o1'' d') = Some ''paid'' \<and>
      sv_plan (get_subscription_status ''ali'' d') = ''pro''"
  by code_simp

lemma rejection_keeps_the_plan:
  "let d = snd (mark_paid shop bot_call 20 ''n1'' ''o1'' one_order); d' = snd (reject_order shop bot_call 30 ''o1'' d)
   in map_option po_status (get_order_by_id ''o1'' d') = Some ''rejected'' \<and>
      sv_plan (get_subscription_status ''ali'' d') = ''pro''"
  by code_simp

section \<open>Chats on credit\<close>

definition credit_pay :: "int \<Rightarrow> string \<Rightarrow> string \<Rightarrow> string \<Rightarrow> int \<Rightarrow> web_db \<Rightarrow> bool \<times> web_db" where
  "credit_pay now txid uid reference n d = deduct_credit now txid uid n reference d"

definition credits_left :: "string \<Rightarrow> web_db \<Rightarrow> int" where
  "credits_left uid d = (case credits_of uid d of None \<Rightarrow> 0 | Some c \<Rightarrow> uc_balance c)"

lemma credits_of_put [simp]:
  "credits_of uid (put_credits v c d) = (if uid = v then Some c else credits_of uid d)"
  "credits_of uid (add_transaction i t d) = credits_of uid d"
  by (simp_all add: credits_of_def put_credits_def add_transaction_def AList.update_conv)

interpretation tokens: prepaid "\<lambda>d. credits_of uid d \<noteq> None \<and> credits_ok d" "credits_left uid"
  "credit_pay now txid uid reference"
proof unfold_locales
  fix d n assume d: "credits_of uid d \<noteq> None \<and> credits_ok d"
  then obtain c where c: "credits_of uid d = Some c" by auto
  show "0 \<le> credits_left uid d" using c credits_ok_of d by (simp add: credits_left_def)
  show "credits_of uid (snd (credit_pay now txid uid reference n d)) \<noteq> None \<and>
      credits_ok (snd (credit_pay now txid uid reference n d))"
    using credits_ok_parts(3) [of d now txid uid n reference] c d by (auto simp: credit_pay_def deduct_credit_def)
  show "fst (credit_pay now txid uid reference n d) = (n \<le> credits_left uid d)"
    using c by (auto simp: credit_pay_def deduct_credit_def credits_left_def)
  show "credits_left uid (snd (credit_pay now txid uid reference n d)) =
      credits_left uid d - (if fst (credit_pay now txid uid reference n d) then n else 0)"
    using c by (auto simp: credit_pay_def deduct_credit_def credits_left_def)
qed

fun chats :: "string \<Rightarrow> (int \<times> string) list \<Rightarrow> web_db \<Rightarrow> bool list \<times> web_db" where
  "chats uid [] d = ([], d)"
| "chats uid ((now, txid) # ts) d =
     (case credit_gate now txid uid d of (r, d') \<Rightarrow>
      case chats uid ts d' of (oks, e) \<Rightarrow> ((r = Inr ()) # oks, e))"

definition is_pro_user :: "string \<Rightarrow> web_db \<Rightarrow> bool" where
  "is_pro_user uid d \<longleftrightarrow> (case get_subscription_by_user_id uid d of None \<Rightarrow> False | Some (_, s) \<Rightarrow> ws_plan s = ''pro'')"

lemma is_pro_put [simp]:
  "is_pro_user uid (put_credits v c d) = is_pro_user uid d" "is_pro_user uid (add_transaction i t d) = is_pro_user uid d"
  by (simp_all add: is_pro_user_def get_subscription_by_user_id_def put_credits_def add_transaction_def)

text \<open>A chat of a user whose month is not over.\<close>

lemma gate_within_month:
  assumes "credits_of uid d = Some c" and "uc_reset_date c = Some r" and "now < r" and "\<not> is_pro_user uid d"
  shows "credit_gate now txid uid d =
    (if uc_balance c \<le> 0 then (Inl (402, ''no credits left''), d)
     else (Inr (), snd (credit_pay now txid uid (''chat:'' @ txid) 1 d)))"
  using assms by (simp add: credit_gate_def check_and_reset_monthly_def is_pro_user_def Let_def credit_pay_def)

text \<open>
  C31. Until the end of the month a user without the pro plan gets exactly as many chats as the
  balance has credits: the first ones, and not one more, however many are asked for.
\<close>

theorem chats_on_credit_exact:
  assumes "credits_of uid d = Some c" and "0 \<le> uc_balance c" and "uc_reset_date c = Some r"
    and "\<forall>(now, _) \<in> set ts. now < r" and "\<not> is_pro_user uid d"
  shows "fst (chats uid ts d) = map (\<lambda>i. int i < uc_balance c) [0..<length ts] \<and>
    credits_left uid (snd (chats uid ts d)) = uc_balance c - min (uc_balance c) (int (length ts))"
  using assms
proof (induction ts arbitrary: c d)
  case Nil
  then show ?case by (simp add: credits_left_def)
next
  case (Cons x ts)
  obtain now txid where x: "x = (now, txid)" by (cases x)
  have shift: "map (\<lambda>i. P i) [0..<Suc n] = P 0 # map (\<lambda>i. P (Suc i)) [0..<n]" for P and n :: nat
    by (simp only: upt_conv_Cons [OF zero_less_Suc] map_Suc_upt [symmetric] list.map map_map comp_def)
  from Cons.prems x have gate: "credit_gate now txid uid d =
      (if uc_balance c \<le> 0 then (Inl (402, ''no credits left''), d)
       else (Inr (), snd (credit_pay now txid uid (''chat:'' @ txid) 1 d)))"
    by (intro gate_within_month) auto
  show ?case
  proof (cases "uc_balance c = 0")
    case True
    with Cons.IH [of d c] Cons.prems gate show ?thesis
      by (auto simp: x shift case_prod_beta simp del: upt_Suc)
  next
    case False
    define c' where "c' = c\<lparr>uc_balance := uc_balance c - 1, uc_total_used := uc_total_used c + 1\<rparr>"
    define d' where "d' = snd (credit_pay now txid uid (''chat:'' @ txid) 1 d)"
    have "credits_of uid d' = Some c'" "\<not> is_pro_user uid d'"
      using Cons.prems False by (auto simp: d'_def credit_pay_def deduct_credit_def c'_def)
    with Cons.IH [of d' c'] Cons.prems False x have
      "fst (chats uid ts d') = map (\<lambda>i. int i < uc_balance c - 1) [0..<length ts]"
      "credits_left uid (snd (chats uid ts d')) = uc_balance c - 1 - min (uc_balance c - 1) (int (length ts))"
      by (auto simp: c'_def)
    moreover have "credit_gate now txid uid d = (Inr (), d')" using gate Cons.prems(2) False by (simp add: d'_def)
    ultimately show ?thesis using Cons.prems(2) False by (auto simp: x shift case_prod_beta simp del: upt_Suc)
  qed
qed

theorem chats_on_credit_exact_witness:
  "fst (chats ''ali'' [(5, ''a''), (6, ''b''), (7, ''c'')]
     (put_credits ''ali'' \<lparr>uc_balance = 2, uc_total_used = 48, uc_reset_date = Some 9\<rparr> empty_web)) =
   [True, True, False]"
  using chats_on_credit_exact [of "''ali''" "put_credits ''ali'' \<lparr>uc_balance = 2, uc_total_used = 48, uc_reset_date = Some 9\<rparr> empty_web"
      "\<lparr>uc_balance = 2, uc_total_used = 48, uc_reset_date = Some 9\<rparr>" 9 "[(5, ''a''), (6, ''b''), (7, ''c'')]"]
  by (simp add: is_pro_user_def get_subscription_by_user_id_def put_credits_def empty_web_def credits_of_def upt_rec)

end
