(* ===== verification/Era_Account.thy ===== *)
theory Era_Account
  imports Web_Credits Json_Values Payloads
begin

text \<open>
  The account of a user of the web application in the ERA database
  (\<open>src/backend/open_webui\<close>: \<open>models/era_db.py\<close>, \<open>routers/account.py\<close>), the
  administration of its plans, and the check of the limits before a chat (\<open>main.py\<close>). The tables
  are those of \<open>models.py\<close> with the columns \<open>era_db.py\<close> names and this code uses. MD5 is an
  argument, as is whether the database file is there. A function that raises where its caller
  catches everything answers what the caller does then.
\<close>

section \<open>The tables\<close>

record era_user =
  eu_telegram_user_id :: "int option"
  eu_first_name :: "string option"
  eu_preferred_name :: "string option"
  eu_phone_number :: "string option"
  eu_account_status :: "string option"
  eu_referral_campaign_id :: "int option"

record era_plan =
  ep_name :: "string option"
  ep_plan_type :: "string option"
  ep_monthly_price_toman :: "int option"
  ep_gift_credit_toman :: "int option"
  ep_cooldown_limit_toman :: "int option"
  ep_cooldown_hours :: "int option"
  ep_weekly_limit_toman :: "int option"
  ep_is_active :: "bool option"

record era_subscription =
  es_user_id :: int
  es_plan_id :: int
  es_status :: string
  es_purchased_at :: "instant option"
  es_expires_at :: instant
  es_cooldown_spent_toman :: "int option"
  es_cooldown_ends_at :: "instant option"
  es_weekly_spent_toman :: "int option"
  es_week_resets_at :: "instant option"

record era_billing_account =
  eb_user_id :: int
  eb_gift_balance_toman :: "int option"
  eb_paid_balance_toman :: "int option"
  eb_total_gift_spent_toman :: "int option"
  eb_total_paid_spent_toman :: "int option"

record era_ledger_entry =
  el_user_id :: int
  el_billing_account_id :: int
  el_amount_toman :: int
  el_gift_delta_toman :: int
  el_paid_delta_toman :: int
  el_gift_balance_after_toman :: "int option"
  el_paid_balance_after_toman :: "int option"
  el_entry_type :: string
  el_reason :: string
  el_idempotency_key :: "string option"
  el_metadata_json :: dict
  el_created_at :: instant

record era_campaign =
  ec_code :: string
  ec_description :: string
  ec_is_active :: bool

record era_event =
  ee_campaign_id :: int
  ee_event_type :: string

record era_db =
  era_users :: "era_user table"
  era_plans :: "era_plan table"
  era_subscriptions :: "era_subscription table"
  era_accounts :: "era_billing_account table"
  era_ledger :: "era_ledger_entry table"
  era_campaigns :: "era_campaign table"
  era_events :: "era_event table"

text \<open>A user of the web application; \<open>oauth\<close> maps a provider to what it said of the user.\<close>

record webui_user =
  wu_email :: string
  wu_username :: "string option"
  wu_name :: string
  wu_phone :: "string option"
  wu_role :: string
  wu_oauth :: "(string \<times> dict) list"

section \<open>Whose account\<close>

text \<open>\<open>int(x)\<close>; a TypeError and a ValueError are both \<open>None\<close>.\<close>

fun json_int :: "json \<Rightarrow> int option" where
  "json_int (JBool b) = Some (if b then 1 else 0)"
| "json_int (JInt n) = Some n"
| "json_int (JFloat x) = Some (trunc x)"
| "json_int (JStr s) = int_of_str s"
| "json_int _ = None"

definition provider_sub :: "(string \<times> dict) list \<Rightarrow> string \<Rightarrow> int option" where
  "provider_sub oauth provider =
     (case map_of oauth provider of
        None \<Rightarrow> None
      | Some data \<Rightarrow> (case map_of data ''sub'' of None \<Rightarrow> None | Some j \<Rightarrow> json_int j))"

text \<open>\<open>md5 uid\<close> is the number that the first ten hexadecimal digits of the digest spell.\<close>

definition synthetic_era_id :: "(string \<Rightarrow> nat) \<Rightarrow> string \<Rightarrow> int" where
  "synthetic_era_id md5 uid = 9000000000 + int (md5 uid) mod 1000000000"

definition era_tracking_id :: "(string \<Rightarrow> nat) \<Rightarrow> string \<Rightarrow> webui_user \<Rightarrow> int" where
  "era_tracking_id md5 uid u =
     (case provider_sub (wu_oauth u) ''telegram'' of
        Some n \<Rightarrow> n
      | None \<Rightarrow>
          (case provider_sub (wu_oauth u) ''bale'' of
             Some n \<Rightarrow> n
           | None \<Rightarrow> synthetic_era_id md5 uid))"

definition find_era_user :: "int \<Rightarrow> era_db \<Rightarrow> era_user obj option" where
  "find_era_user tid d = t_first (\<lambda>_ u. eu_telegram_user_id u = Some tid) (era_users d)"

text \<open>The user of that id, or else of the telephone number.\<close>

definition find_era_user_or_phone :: "int \<Rightarrow> string option \<Rightarrow> era_db \<Rightarrow> era_user obj option" where
  "find_era_user_or_phone tid phone d =
     (case find_era_user tid d of
        Some u \<Rightarrow> Some u
      | None \<Rightarrow>
          if str_or phone [] = [] then None
          else t_first (\<lambda>_ u. eu_phone_number u = phone) (era_users d))"

definition active_at :: "instant \<Rightarrow> int \<Rightarrow> era_subscription \<Rightarrow> bool" where
  "active_at now uid s \<longleftrightarrow> es_user_id s = uid \<and> es_status s = ''active'' \<and> now < es_expires_at s"

definition get_active_subscription :: "instant \<Rightarrow> int \<Rightarrow> era_db \<Rightarrow> era_subscription obj option" where
  "get_active_subscription now uid d =
     t_first_by (\<lambda>_ s. - es_expires_at s) (t_select (\<lambda>_ s. active_at now uid s) (era_subscriptions d))"

definition era_billing_account_of :: "int \<Rightarrow> era_db \<Rightarrow> era_billing_account obj option" where
  "era_billing_account_of uid d = t_first (\<lambda>_ a. eb_user_id a = uid) (era_accounts d)"

section \<open>A new account\<close>

text \<open>\<open>x or 5\<close>.\<close>

definition hours_or_5 :: "int option \<Rightarrow> int" where
  "hours_or_5 h = (if or0 h = 0 then 5 else or0 h)"

definition era_billing_row :: "int \<Rightarrow> era_billing_account" where
  "era_billing_row uid =
     \<lparr>eb_user_id = uid, eb_gift_balance_toman = Some 0, eb_paid_balance_toman = Some 0,
      eb_total_gift_spent_toman = Some 0, eb_total_paid_spent_toman = Some 0\<rparr>"

definition add_era_user :: "int \<Rightarrow> string \<Rightarrow> string option \<Rightarrow> era_db \<Rightarrow> int \<times> era_db" where
  "add_era_user tid name phone d =
     (let uid = t_next (era_users d) in
      (uid, d\<lparr>era_users := t_add \<lparr>eu_telegram_user_id = Some tid, eu_first_name = Some name,
                eu_preferred_name = Some name, eu_phone_number = phone, eu_account_status = Some ''active'',
                eu_referral_campaign_id = None\<rparr> (era_users d),
              era_accounts := t_add (era_billing_row uid) (era_accounts d)\<rparr>))"

definition plan_subscription :: "instant \<Rightarrow> int \<Rightarrow> era_plan obj \<Rightarrow> era_subscription" where
  "plan_subscription now uid plan =
     \<lparr>es_user_id = uid, es_plan_id = fst plan, es_status = ''active'', es_purchased_at = Some now,
      es_expires_at = now + days 36500, es_cooldown_spent_toman = Some 0,
      es_cooldown_ends_at = Some (now + hours (hours_or_5 (ep_cooldown_hours (snd plan)))),
      es_weekly_spent_toman = Some 0, es_week_resets_at = Some (now + days 7)\<rparr>"

definition plan_of_type :: "string \<Rightarrow> era_db \<Rightarrow> era_plan obj option" where
  "plan_of_type kind d = t_first (\<lambda>_ p. ep_plan_type p = Some kind) (era_plans d)"

definition add_subscription_of :: "instant \<Rightarrow> int \<Rightarrow> era_plan obj option \<Rightarrow> era_db \<Rightarrow> era_db" where
  "add_subscription_of now uid plan d =
     (case plan of
        None \<Rightarrow> d
      | Some p \<Rightarrow> d\<lparr>era_subscriptions := t_add (plan_subscription now uid p) (era_subscriptions d)\<rparr>)"

section \<open>Usage and limits\<close>

record limit_window =
  lw_used :: int
  lw_total :: "int option"
  lw_remaining :: "int option"
  lw_reached :: bool
  lw_reset_at :: "instant option"

record usage_view =
  uv_plan :: string
  uv_status :: string
  uv_expires_at :: "instant option"
  uv_five_hour :: limit_window
  uv_seven_day :: limit_window

definition no_window :: limit_window where
  "no_window = \<lparr>lw_used = 0, lw_total = Some 0, lw_remaining = Some 0, lw_reached = False, lw_reset_at = None\<rparr>"

definition no_usage :: usage_view where
  "no_usage = \<lparr>uv_plan = ''free'', uv_status = ''active'', uv_expires_at = None, uv_five_hour = no_window,
     uv_seven_day = no_window\<rparr>"

definition window_of :: "int \<Rightarrow> int \<Rightarrow> instant option \<Rightarrow> limit_window" where
  "window_of spent limit reset_at =
     \<lparr>lw_used = spent, lw_total = Some limit, lw_remaining = Some (max 0 (limit - spent)),
      lw_reached = (0 < limit \<and> limit \<le> spent), lw_reset_at = reset_at\<rparr>"

text \<open>A five-hour window that is over counts as unused. The week is taken as it is stored.\<close>

definition cooldown_over :: "instant \<Rightarrow> era_subscription \<Rightarrow> bool" where
  "cooldown_over now s \<longleftrightarrow> (case es_cooldown_ends_at s of None \<Rightarrow> False | Some t \<Rightarrow> t \<le> now)"

text \<open>The view of an existing user; \<open>None\<close> is the AttributeError of a plan that is gone.\<close>

definition usage_of :: "instant \<Rightarrow> int \<Rightarrow> era_db \<Rightarrow> usage_view option" where
  "usage_of now uid d =
     (case get_active_subscription now uid d of
        None \<Rightarrow> Some \<lparr>uv_plan = ''free'', uv_status = ''active'', uv_expires_at = None,
                  uv_five_hour = window_of 0 0 None, uv_seven_day = window_of 0 0 None\<rparr>
      | Some (_, s) \<Rightarrow>
          (case t_get (era_plans d) (es_plan_id s) of
             None \<Rightarrow> None
           | Some p \<Rightarrow> Some
               \<lparr>uv_plan = lower (str_or (ep_name p) ''unknown''), uv_status = es_status s,
                uv_expires_at = Some (es_expires_at s),
                uv_five_hour =
                  (if cooldown_over now s then window_of 0 (or0 (ep_cooldown_limit_toman p)) None
                   else window_of (or0 (es_cooldown_spent_toman s)) (or0 (ep_cooldown_limit_toman p))
                          (es_cooldown_ends_at s)),
                uv_seven_day = window_of (or0 (es_weekly_spent_toman s)) (or0 (ep_weekly_limit_toman p))
                                 (es_week_resets_at s)\<rparr>))"

text \<open>The name of a new account: of the user, or the username a provider gave.\<close>

definition new_account_name :: "webui_user \<Rightarrow> string" where
  "new_account_name u =
     (let data = (\<lambda>p. case map_of (wu_oauth u) p of None \<Rightarrow> [] | Some d \<Rightarrow> d);
          tg = (if data ''telegram'' \<noteq> [] then data ''telegram'' else data ''bale'');
          uname = (case dict_get tg ''username'' of JStr s \<Rightarrow> s | _ \<Rightarrow> [])
      in if wu_name u \<noteq> [] then wu_name u else if uname \<noteq> [] then uname else ''<user>'')"

definition get_account_usage ::
  "(string \<Rightarrow> nat) \<Rightarrow> bool \<Rightarrow> instant \<Rightarrow> string \<Rightarrow> webui_user \<Rightarrow> era_db \<Rightarrow> usage_view \<times> era_db" where
  "get_account_usage md5 available now wid u d =
     (if \<not> available then (no_usage, d)
      else
        let tid = era_tracking_id md5 wid u in
        case find_era_user_or_phone tid (wu_phone u) d of
          Some (uid, _) \<Rightarrow> (case usage_of now uid d of None \<Rightarrow> (no_usage, d) | Some v \<Rightarrow> (v, d))
        | None \<Rightarrow>
            (case add_era_user tid (new_account_name u) (wu_phone u) d of
               (uid, d1) \<Rightarrow>
                 (case plan_of_type ''free'' d of
                    None \<Rightarrow> (no_usage, d1)
                  | Some (pid, p) \<Rightarrow>
                      (\<lparr>uv_plan = ''free'', uv_status = ''active'', uv_expires_at = None,
                        uv_five_hour = \<lparr>lw_used = 0, lw_total = ep_cooldown_limit_toman p,
                          lw_remaining = ep_cooldown_limit_toman p, lw_reached = False,
                          lw_reset_at = Some (now + hours (hours_or_5 (ep_cooldown_hours p)))\<rparr>,
                        uv_seven_day = \<lparr>lw_used = 0, lw_total = ep_weekly_limit_toman p,
                          lw_remaining = ep_weekly_limit_toman p, lw_reached = False,
                          lw_reset_at = Some (now + days 7)\<rparr>\<rparr>,
                       add_subscription_of now uid (Some (pid, p)) d1))))"

section \<open>The check before a chat\<close>

text \<open>
  With the database the limits decide, without it the credits do; an administrator is not checked.
  The credits count seconds.
\<close>

definition chat_gate ::
  "(string \<Rightarrow> nat) \<Rightarrow> bool \<Rightarrow> instant \<Rightarrow> string \<Rightarrow> string \<Rightarrow> webui_user \<Rightarrow> era_db \<times> web_db \<Rightarrow>
   unit answer \<times> era_db \<times> web_db" where
  "chat_gate md5 available now txid wid u s =
     (if wu_role u = ''admin'' then (Inr (), s)
      else if available
      then (case get_account_usage md5 available now wid u (fst s) of
              (v, d) \<Rightarrow>
                (if uv_status v \<noteq> ''active'' then Inl (402, ''subscription expired'')
                 else if lw_reached (uv_five_hour v) then Inl (402, ''five-hour limit reached'')
                 else if lw_reached (uv_seven_day v) then Inl (402, ''weekly limit reached'')
                 else Inr (), d, snd s))
      else (case credit_gate (now div 1000000) txid wid (snd s) of (r, w) \<Rightarrow> (r, fst s, w)))"

section \<open>Administration\<close>

text \<open>The fields an administrator may change; the body names some of them.\<close>

datatype plan_change =
    Set_name "string option"
  | Set_plan_type "string option"
  | Set_monthly_price "int option"
  | Set_gift_credit "int option"
  | Set_cooldown_limit "int option"
  | Set_cooldown_hours "int option"
  | Set_weekly_limit "int option"
  | Set_is_active "bool option"

fun change_plan :: "plan_change \<Rightarrow> era_plan \<Rightarrow> era_plan" where
  "change_plan (Set_name x) p = p\<lparr>ep_name := x\<rparr>"
| "change_plan (Set_plan_type x) p = p\<lparr>ep_plan_type := x\<rparr>"
| "change_plan (Set_monthly_price x) p = p\<lparr>ep_monthly_price_toman := x\<rparr>"
| "change_plan (Set_gift_credit x) p = p\<lparr>ep_gift_credit_toman := x\<rparr>"
| "change_plan (Set_cooldown_limit x) p = p\<lparr>ep_cooldown_limit_toman := x\<rparr>"
| "change_plan (Set_cooldown_hours x) p = p\<lparr>ep_cooldown_hours := x\<rparr>"
| "change_plan (Set_weekly_limit x) p = p\<lparr>ep_weekly_limit_toman := x\<rparr>"
| "change_plan (Set_is_active x) p = p\<lparr>ep_is_active := x\<rparr>"

definition admin_update_plan :: "bool \<Rightarrow> int \<Rightarrow> plan_change list \<Rightarrow> era_db \<Rightarrow> era_plan answer \<times> era_db" where
  "admin_update_plan available pid changes d =
     (if \<not> available then (Inl (503, ''ERA database not available''), d)
      else case t_get (era_plans d) pid of
        None \<Rightarrow> (Inl (404, ''Plan not found''), d)
      | Some p \<Rightarrow>
          (let p' = fold change_plan changes p in (Inr p', d\<lparr>era_plans := t_put pid p' (era_plans d)\<rparr>)))"

definition admin_create_plan :: "bool \<Rightarrow> plan_change list \<Rightarrow> era_db \<Rightarrow> era_plan answer \<times> era_db" where
  "admin_create_plan available changes d =
     (if \<not> available then (Inl (503, ''ERA database not available''), d)
      else
        let p = fold change_plan changes
          \<lparr>ep_name = Some ''New Plan'', ep_plan_type = Some ''free'', ep_monthly_price_toman = Some 0,
           ep_gift_credit_toman = Some 0, ep_cooldown_limit_toman = Some 0, ep_cooldown_hours = Some 5,
           ep_weekly_limit_toman = Some 0, ep_is_active = Some True\<rparr>
        in (Inr p, d\<lparr>era_plans := t_add p (era_plans d)\<rparr>))"

definition admin_delete_plan :: "bool \<Rightarrow> int \<Rightarrow> era_db \<Rightarrow> int answer \<times> era_db" where
  "admin_delete_plan available pid d =
     (if \<not> available then (Inl (503, ''ERA database not available''), d)
      else case t_get (era_plans d) pid of
        None \<Rightarrow> (Inl (404, ''Plan not found''), d)
      | Some _ \<Rightarrow> (Inr pid, d\<lparr>era_plans := t_del pid (era_plans d)\<rparr>))"

definition cancel_active :: "int \<Rightarrow> era_subscription table \<Rightarrow> era_subscription table" where
  "cancel_active uid t = map (\<lambda>(i, s). (i,
     if es_user_id s = uid \<and> es_status s = ''active'' then s\<lparr>es_status := ''cancelled''\<rparr> else s)) t"

text \<open>
  \<open>wanted\<close> is the plan type of the body. Nothing is committed before the end: a plan that is not
  in the database leaves no trace of the new account.
\<close>

definition admin_set_user_plan ::
  "(string \<Rightarrow> nat) \<Rightarrow> bool \<Rightarrow> instant \<Rightarrow> (string \<Rightarrow> webui_user option) \<Rightarrow> string \<Rightarrow> string \<Rightarrow> era_db \<Rightarrow>
   string answer \<times> era_db" where
  "admin_set_user_plan md5 available now webui_users wid wanted d =
     (let kind = lower (strip wanted) in
      if \<not> available then (Inl (503, ''ERA database not available''), d)
      else if kind \<notin> {''free'', ''pro'', ''plus'', ''max''} then (Inl (400, ''Invalid plan_type''), d)
      else case webui_users wid of
        None \<Rightarrow> (Inl (404, ''User not found''), d)
      | Some u \<Rightarrow>
          (let tid = era_tracking_id md5 wid u in
           case (case find_era_user_or_phone tid (wu_phone u) d of
                   Some (uid, _) \<Rightarrow> (uid, d)
                 | None \<Rightarrow> add_era_user tid (if wu_name u = [] then ''<user>'' else wu_name u) (wu_phone u) d) of
             (uid, d1) \<Rightarrow>
               (case plan_of_type kind d1 of
                  None \<Rightarrow> (Inl (404, ''Plan type not found in database''), d)
                | Some (pid, p) \<Rightarrow>
                    (Inr (str_or (ep_name p) kind),
                     d1\<lparr>era_subscriptions := t_add (plan_subscription now uid (pid, p))
                         (cancel_active uid (era_subscriptions d1))\<rparr>))))"

text \<open>The plan of a user as an administrator sees it.\<close>

definition admin_get_user_plan ::
  "(string \<Rightarrow> nat) \<Rightarrow> bool \<Rightarrow> instant \<Rightarrow> (string \<Rightarrow> webui_user option) \<Rightarrow> string \<Rightarrow> era_db \<Rightarrow>
   (string option \<times> int option \<times> era_subscription option) answer" where
  "admin_get_user_plan md5 available now webui_users wid d =
     (if \<not> available then Inl (503, ''ERA database not available'')
      else case webui_users wid of
        None \<Rightarrow> Inl (404, ''User not found'')
      | Some u \<Rightarrow>
          (case find_era_user_or_phone (era_tracking_id md5 wid u) (wu_phone u) d of
             None \<Rightarrow> Inr (Some ''free'', None, None)
           | Some (uid, _) \<Rightarrow>
               (case get_active_subscription now uid d of
                  None \<Rightarrow> Inr (Some ''free'', None, None)
                | Some (_, s) \<Rightarrow>
                    (case (if es_plan_id s = 0 then None else t_get (era_plans d) (es_plan_id s)) of
                       None \<Rightarrow> Inr (Some ''free'', None, Some s)
                     | Some p \<Rightarrow> Inr (ep_plan_type p, Some (es_plan_id s), Some s)))))"

section \<open>Referrals\<close>

record referral_view =
  rv_code :: string
  rv_total_invites :: nat
  rv_rewarded :: nat

definition user_ref_code :: "int \<Rightarrow> int option \<Rightarrow> string" where
  "user_ref_code uid tid = ''ref_u'' @ str_int uid @ ''_'' @ (case tid of None \<Rightarrow> ''None'' | Some n \<Rightarrow> str_int n)"

definition get_account_referral ::
  "(string \<Rightarrow> nat) \<Rightarrow> bool \<Rightarrow> string \<Rightarrow> webui_user \<Rightarrow> era_db \<Rightarrow> referral_view option \<times> era_db" where
  "get_account_referral md5 available wid u d =
     (if \<not> available then (None, d)
      else case find_era_user_or_phone (era_tracking_id md5 wid u) (wu_phone u) d of
        None \<Rightarrow> (None, d)
      | Some (uid, e) \<Rightarrow>
          (let found = (if or0 (eu_referral_campaign_id e) = 0 then None
                        else t_first (\<lambda>i _. i = or0 (eu_referral_campaign_id e)) (era_campaigns d));
               cid = t_next (era_campaigns d);
               c = \<lparr>ec_code = user_ref_code uid (eu_telegram_user_id e),
                     ec_description = ''Referral link for user '' @ str_int uid, ec_is_active = True\<rparr>;
               made = (case found of
                 Some x \<Rightarrow> (x, d)
               | None \<Rightarrow> ((cid, c), d\<lparr>era_campaigns := t_add c (era_campaigns d),
                   era_users := t_put uid (e\<lparr>eu_referral_campaign_id := Some cid\<rparr>) (era_users d)\<rparr>));
               events = t_select (\<lambda>_ v. ee_campaign_id v = fst (fst made)) (era_events (snd made))
           in (Some \<lparr>rv_code = ec_code (snd (fst made)), rv_total_invites = length events,
                 rv_rewarded = length (t_select (\<lambda>_ v. ee_event_type v = ''signup'') events)\<rparr>, snd made)))"

section \<open>What the limits do\<close>

lemma get_active_in:
  assumes "get_active_subscription now uid d = Some (i, s)"
  shows "(i, s) \<in> set (era_subscriptions d)" and "active_at now uid s"
  using t_first_by_Some(1) [OF assms [unfolded get_active_subscription_def]] by (auto simp: t_select_def)

text \<open>The subscription that counts stays the same until it expires.\<close>

lemma get_active_later:
  assumes "get_active_subscription now uid d = Some (i, s)" and "now \<le> t" and "t < es_expires_at s"
  shows "get_active_subscription t uid d = Some (i, s)"
proof -
  let ?k = "\<lambda>(_ :: int, s). - es_expires_at s"
  let ?P = "\<lambda>(_ :: int, s). active_at t uid s"
  obtain rest where sorted: "sort_key ?k (t_select (\<lambda>_ s. active_at now uid s) (era_subscriptions d)) = (i, s) # rest"
    using assms(1) by (auto simp: get_active_subscription_def t_first_by_def split: list.splits)
  have "t_select (\<lambda>_ s. active_at t uid s) (era_subscriptions d) =
      filter ?P (t_select (\<lambda>_ s. active_at now uid s) (era_subscriptions d))"
    using assms(2) by (auto simp: t_select_def active_at_def intro: filter_cong)
  then have "sort_key ?k (t_select (\<lambda>_ s. active_at t uid s) (era_subscriptions d)) = filter ?P ((i, s) # rest)"
    by (simp only: filter_sort [symmetric] sorted)
  moreover have "active_at t uid s" using get_active_in(2) [OF assms(1)] assms(3) by (simp add: active_at_def)
  ultimately show ?thesis by (simp add: get_active_subscription_def t_first_by_def)
qed

text \<open>The check of a user with an account and a running subscription to a plan that exists.\<close>

definition subscribed ::
  "(string \<Rightarrow> nat) \<Rightarrow> instant \<Rightarrow> string \<Rightarrow> webui_user \<Rightarrow> era_db \<Rightarrow> era_subscription \<Rightarrow> era_plan \<Rightarrow> bool" where
  "subscribed md5 now wid u d s p \<longleftrightarrow>
     (\<exists>uid e i. find_era_user_or_phone (era_tracking_id md5 wid u) (wu_phone u) d = Some (uid, e) \<and>
        get_active_subscription now uid d = Some (i, s) \<and> t_get (era_plans d) (es_plan_id s) = Some p)"

lemma gate_of_subscribed:
  assumes "subscribed md5 now wid u d s p" and "wu_role u \<noteq> ''admin''"
  shows "chat_gate md5 True now txid wid u (d, w) =
    (if 0 < or0 (ep_cooldown_limit_toman p) \<and> \<not> cooldown_over now s \<and>
        or0 (ep_cooldown_limit_toman p) \<le> or0 (es_cooldown_spent_toman s)
     then Inl (402, ''five-hour limit reached'')
     else if 0 < or0 (ep_weekly_limit_toman p) \<and> or0 (ep_weekly_limit_toman p) \<le> or0 (es_weekly_spent_toman s)
     then Inl (402, ''weekly limit reached'')
     else Inr (), d, w)"
proof -
  obtain uid e i where a: "find_era_user_or_phone (era_tracking_id md5 wid u) (wu_phone u) d = Some (uid, e)"
    "get_active_subscription now uid d = Some (i, s)" "t_get (era_plans d) (es_plan_id s) = Some p"
    using assms(1) by (auto simp: subscribed_def)
  have "es_status s = ''active''" using get_active_in(2) [OF a(2)] by (simp add: active_at_def)
  with a assms(2) show ?thesis
    by (simp add: chat_gate_def get_account_usage_def usage_of_def window_of_def Let_def)
qed

text \<open>
  With the ERA database the limits decide: a user with a running subscription chats exactly when
  each limit of the plan is either not set or not used up, the five-hour window counting as unused
  when it is over; and the check changes nothing.
\<close>

theorem gate_follows_the_limits:
  assumes "subscribed md5 now wid u d s p" and "wu_role u \<noteq> ''admin''"
  shows "(fst (chat_gate md5 True now txid wid u (d, w)) = Inr ()) =
      ((or0 (ep_cooldown_limit_toman p) \<le> 0 \<or> cooldown_over now s \<or>
        or0 (es_cooldown_spent_toman s) < or0 (ep_cooldown_limit_toman p)) \<and>
       (or0 (ep_weekly_limit_toman p) \<le> 0 \<or> or0 (es_weekly_spent_toman s) < or0 (ep_weekly_limit_toman p))) \<and>
    snd (chat_gate md5 True now txid wid u (d, w)) = (d, w)"
  unfolding gate_of_subscribed [OF assms] by auto

text \<open>A user of the free plan, of 100 Toman in five hours and 300 in a week.\<close>

definition reader :: webui_user where
  "reader = \<lparr>wu_email = ''s@x'', wu_username = None, wu_name = ''Sara'', wu_phone = Some ''+98912'', wu_role = ''user'',
     wu_oauth = [(''telegram'', [(''sub'', JStr ''77'')])]\<rparr>"

definition free_plan :: era_plan where
  "free_plan = \<lparr>ep_name = Some ''Free'', ep_plan_type = Some ''free'', ep_monthly_price_toman = Some 0,
     ep_gift_credit_toman = Some 0, ep_cooldown_limit_toman = Some 100, ep_cooldown_hours = Some 5,
     ep_weekly_limit_toman = Some 300, ep_is_active = Some True\<rparr>"

definition reader_sub :: "int \<Rightarrow> int \<Rightarrow> era_subscription" where
  "reader_sub cooldown week = \<lparr>es_user_id = 1, es_plan_id = 1, es_status = ''active'', es_purchased_at = Some 0,
     es_expires_at = 1000, es_cooldown_spent_toman = Some cooldown, es_cooldown_ends_at = Some 50,
     es_weekly_spent_toman = Some week, es_week_resets_at = Some 70\<rparr>"

definition reader_db :: "int \<Rightarrow> int \<Rightarrow> era_db" where
  "reader_db cooldown week =
     \<lparr>era_users = [(1, \<lparr>eu_telegram_user_id = Some 77, eu_first_name = Some ''Sara'', eu_preferred_name = None,
        eu_phone_number = None, eu_account_status = Some ''active'', eu_referral_campaign_id = None\<rparr>)],
      era_plans = [(1, free_plan)], era_subscriptions = [(4, reader_sub cooldown week)],
      era_accounts = [(1, era_billing_row 1)], era_ledger = [], era_campaigns = [], era_events = []\<rparr>"

lemma reader_subscribed:
  "now < 1000 \<Longrightarrow> subscribed (\<lambda>_. 0) now ''w'' reader (reader_db c k) (reader_sub c k) free_plan"
proof -
  have "int_of_str ''77'' = Some 77" by code_simp
  moreover assume "now < 1000"
  ultimately show ?thesis
    by (simp add: subscribed_def find_era_user_or_phone_def find_era_user_def era_tracking_id_def provider_sub_def
        reader_def reader_db_def get_active_subscription_def t_first_by_def t_select_def active_at_def reader_sub_def
        t_first_def t_get_def)
qed

theorem gate_follows_the_limits_witness:
  "fst (chat_gate (\<lambda>_. 0) True 40 ''x'' ''w'' reader (reader_db 99 299, empty_web)) = Inr () \<and>
   fst (chat_gate (\<lambda>_. 0) True 40 ''x'' ''w'' reader (reader_db 100 299, empty_web)) \<noteq> Inr ()"
  using gate_follows_the_limits [OF reader_subscribed [of 40 99 299], of "''x''" empty_web]
    gate_follows_the_limits [OF reader_subscribed [of 40 100 299], of "''x''" empty_web]
  by (simp add: reader_def free_plan_def reader_sub_def cooldown_over_def)



text \<open>A user whose subscriptions have all expired is not limited at all.\<close>

lemma expired_subscription_is_unlimited:
  assumes "find_era_user_or_phone (era_tracking_id md5 wid u) (wu_phone u) d = Some (uid, e)"
    and "\<forall>(_, s) \<in> set (era_subscriptions d). es_user_id s = uid \<longrightarrow> es_expires_at s \<le> now"
  shows "chat_gate md5 True now txid wid u (d, w) = (Inr (), d, w)"
proof -
  have "t_select (\<lambda>_ s. active_at now uid s) (era_subscriptions d) = []"
    using assms(2) by (force simp: t_select_def filter_empty_conv active_at_def)
  then have "get_active_subscription now uid d = None"
    by (simp add: get_active_subscription_def t_first_by_None)
  with assms(1) show ?thesis
    by (simp add: chat_gate_def get_account_usage_def usage_of_def window_of_def Let_def)
qed

text \<open>What an order buys is written where this check does not look.\<close>

lemma paid_plan_does_not_count:
  "fst (chat_gate md5 True now txid wid u (d, w)) = fst (chat_gate md5 True now txid wid u (d, w'))"
  by (simp add: chat_gate_def case_prod_beta)

section \<open>An administrator sets a plan\<close>

lemma find_user_frame [simp]:
  "find_era_user_or_phone tid phone (d\<lparr>era_subscriptions := x\<rparr>) = find_era_user_or_phone tid phone d"
  by (simp add: find_era_user_or_phone_def find_era_user_def split: option.split)

lemma cancelled_not_active:
  "filter (\<lambda>(_, s). active_at t uid s) (cancel_active uid xs) = []"
  by (auto simp: cancel_active_def filter_empty_conv active_at_def split: if_splits)

lemma cancelled_others:
  "v \<noteq> uid \<Longrightarrow> filter (\<lambda>(_, s). active_at t v s) (cancel_active uid xs) = filter (\<lambda>(_, s). active_at t v s) xs"
  by (induction xs) (auto simp: cancel_active_def active_at_def split: if_splits)

text \<open>
  After an administrator has set a plan, the user has exactly one active subscription, to a plan
  of that type, unused, from now on and for a hundred years; the subscriptions of everybody else are
  what they were.
\<close>

theorem set_plan_leaves_one_subscription:
  assumes "admin_set_user_plan md5 True now webui_users wid wanted d = (Inr name, d')"
  shows "\<exists>u uid e pid p. webui_users wid = Some u \<and>
    find_era_user_or_phone (era_tracking_id md5 wid u) (wu_phone u) d' = Some (uid, e) \<and>
    (pid, p) \<in> set (era_plans d') \<and> ep_plan_type p = Some (lower (strip wanted)) \<and>
    map snd (t_select (\<lambda>_ s. active_at now uid s) (era_subscriptions d')) = [plan_subscription now uid (pid, p)] \<and>
    (\<forall>v t. v \<noteq> uid \<longrightarrow> t_select (\<lambda>_ s. active_at t v s) (era_subscriptions d') =
                          t_select (\<lambda>_ s. active_at t v s) (era_subscriptions d))"
proof -
  obtain u where u: "webui_users wid = Some u"
    using assms by (auto simp: admin_set_user_plan_def Let_def split: if_splits option.splits)
  define tid where "tid = era_tracking_id md5 wid u"
  define found where "found = (case find_era_user_or_phone tid (wu_phone u) d of
      Some (uid, _) \<Rightarrow> (uid, d)
    | None \<Rightarrow> add_era_user tid (if wu_name u = [] then ''<user>'' else wu_name u) (wu_phone u) d)"
  obtain uid d1 where d1: "found = (uid, d1)" by fastforce
  obtain pid p where p: "plan_of_type (lower (strip wanted)) d1 = Some (pid, p)"
    "d' = d1\<lparr>era_subscriptions := t_add (plan_subscription now uid (pid, p)) (cancel_active uid (era_subscriptions d1))\<rparr>"
    using assms u d1 by (auto simp: admin_set_user_plan_def Let_def tid_def [symmetric] found_def [symmetric]
        split: if_splits option.splits prod.splits)
  have keep: "era_subscriptions d1 = era_subscriptions d \<and> (\<exists>e. find_era_user_or_phone tid (wu_phone u) d1 = Some (uid, e))"
  proof (cases "find_era_user_or_phone tid (wu_phone u) d")
    case None
    then have "find_era_user tid d = None" by (simp add: find_era_user_or_phone_def split: option.splits)
    with None d1 show ?thesis
      by (auto simp: found_def add_era_user_def Let_def find_era_user_or_phone_def find_era_user_def t_first_add)
  next
    case (Some x)
    then show ?thesis using d1 by (cases x) (simp add: found_def)
  qed
  then obtain e where e: "find_era_user_or_phone tid (wu_phone u) d1 = Some (uid, e)" by blast
  have new: "active_at now uid (plan_subscription now uid (pid, p))"
    by (simp add: active_at_def plan_subscription_def days_def microseconds_def)
  have "t_select (\<lambda>_ s. active_at now uid s) (era_subscriptions d') =
      [(t_next (cancel_active uid (era_subscriptions d1)), plan_subscription now uid (pid, p))]"
    by (simp add: p(2) t_select_def t_add_def cancelled_not_active new)
  moreover have "t_select (\<lambda>_ s. active_at t v s) (era_subscriptions d') =
      t_select (\<lambda>_ s. active_at t v s) (era_subscriptions d)" if "v \<noteq> uid" for v t
  proof -
    have "\<not> active_at t v (plan_subscription now uid (pid, p))"
      using that by (simp add: active_at_def plan_subscription_def)
    then show ?thesis using that keep by (simp add: p(2) t_select_def t_add_def cancelled_others)
  qed
  moreover have "(pid, p) \<in> set (era_plans d') \<and> ep_plan_type p = Some (lower (strip wanted))"
    using t_first_SomeD [OF p(1) [unfolded plan_of_type_def]] by (simp add: p(2))
  moreover have "find_era_user_or_phone tid (wu_phone u) d' = Some (uid, e)"
    using e by (simp add: p(2))
  ultimately show ?thesis using u unfolding tid_def by (intro exI [of _ u] exI [of _ uid] exI [of _ e] exI [of _ pid] exI [of _ p]) simp
qed

theorem set_plan_leaves_one_subscription_witness:
  "\<exists>d' uid sub. admin_set_user_plan (\<lambda>_. 0) True 40 (\<lambda>_. Some reader) ''w'' '' FREE '' (reader_db 5 300) = (Inr ''Free'', d') \<and>
     map snd (t_select (\<lambda>_ s. active_at 40 uid s) (era_subscriptions d')) = [sub]"
proof -
  obtain d' where d': "admin_set_user_plan (\<lambda>_. 0) True 40 (\<lambda>_. Some reader) ''w'' '' FREE '' (reader_db 5 300) = (Inr ''Free'', d')"
  proof -
    have "fst (admin_set_user_plan (\<lambda>_. 0) True 40 (\<lambda>_. Some reader) ''w'' '' FREE '' (reader_db 5 300)) = Inr ''Free''"
      by code_simp
    then show ?thesis using that by (metis prod.collapse)
  qed
  obtain uid sub where "map snd (t_select (\<lambda>_ s. active_at 40 uid s) (era_subscriptions d')) = [sub]"
    using set_plan_leaves_one_subscription [OF d'] by (elim exE conjE) (rule that)
  with d' show ?thesis by (intro exI conjI)
qed

end
