(* ===== verification/Era_Spending.thy ===== *)
theory Era_Spending
  imports Era_Account
begin

text \<open>
  What a chat of the web application costs (\<open>src/backend/open_webui/utils/spending.py\<close>): the price
  of a message from its tokens, and its charge to the limits and the balances of the ERA account,
  once per message. The price list is what \<open>json.loads\<close> makes of the configuration, an empty object
  when it does not parse. \<open>None\<close> stands for an exception, on which nothing is charged.
\<close>

section \<open>The price of a message\<close>

text \<open>The entry of the model, or of the first name that contains it or that it contains.\<close>

definition model_price :: "dict \<Rightarrow> string \<Rightarrow> json" where
  "model_price prices model =
     (let exact = (case map_of prices model of None \<Rightarrow> JDict [] | Some p \<Rightarrow> p) in
      if truthy exact then exact
      else case find (\<lambda>(k, _). contains_text model k \<or> contains_text k model) prices of
        None \<Rightarrow> exact
      | Some (_, p) \<Rightarrow> p)"

definition price_per_million :: "dict \<Rightarrow> string \<Rightarrow> int \<Rightarrow> pyfloat option" where
  "price_per_million p k preset =
     (case map_of p k of
        None \<Rightarrow> Some (fl (of_int preset))
      | Some (JInt n) \<Rightarrow> Some (fl (of_int n))
      | Some (JFloat x) \<Rightarrow> Some x
      | Some (JBool b) \<Rightarrow> Some (if b then 1 else 0)
      | Some _ \<Rightarrow> None)"

definition token_count :: "dict \<Rightarrow> string \<Rightarrow> int option" where
  "token_count u k = (case int_or_zero (dict_get u k) of Inl _ \<Rightarrow> None | Inr n \<Rightarrow> Some n)"

text \<open>A total without its parts is split evenly; an answer without a count is estimated from its length.\<close>

definition billed_tokens :: "dict \<Rightarrow> nat \<Rightarrow> (int \<times> int) option" where
  "billed_tokens u text_length =
     Option.bind (token_count u ''input_tokens'') (\<lambda>i.
     Option.bind (token_count u ''output_tokens'') (\<lambda>out.
     map_option (\<lambda>(i, out).
         (i, if out = 0 \<and> 0 < text_length then max 1 (int (text_length div 4)) else out))
       (if i = 0 \<and> out = 0
        then map_option (\<lambda>n. if 0 < n then (n div 2, n - n div 2) else (0, 0)) (token_count u ''total_tokens'')
        else Some (i, out))))"

definition price_of_tokens :: "int \<times> int \<Rightarrow> pyfloat \<Rightarrow> pyfloat \<Rightarrow> int" where
  "price_of_tokens t input_price output_price =
     (if t = (0, 0) then 0
      else max 1 (trunc (fl (fl (fl (of_int (fst t) / 1000000) * input_price) +
                             fl (fl (of_int (snd t) / 1000000) * output_price)))))"

definition calculate_cost :: "json \<Rightarrow> string \<Rightarrow> dict \<Rightarrow> nat \<Rightarrow> int option" where
  "calculate_cost pricing model u text_length =
     (case pricing of
        JDict prices \<Rightarrow>
          (case model_price prices model of
             JDict p \<Rightarrow>
               Option.bind (billed_tokens u text_length) (\<lambda>t.
               if t = (0, 0) then Some 0
               else Option.bind (price_per_million p ''input'' 500) (\<lambda>a.
                 Option.bind (price_per_million p ''output'' 1000) (\<lambda>b. Some (price_of_tokens t a b))))
           | _ \<Rightarrow> None)
      | _ \<Rightarrow> None)"

section \<open>The charge\<close>

text \<open>The windows that are over start anew, those that were never started start; both take the cost.\<close>

definition charge_windows :: "instant \<Rightarrow> int \<Rightarrow> era_plan option \<Rightarrow> era_subscription \<Rightarrow> era_subscription" where
  "charge_windows now cost plan s0 =
     (let h = (case plan of None \<Rightarrow> 5 | Some p \<Rightarrow> hours_or_5 (ep_cooldown_hours p));
          s1 = (if cooldown_over now s0
                then s0\<lparr>es_cooldown_spent_toman := Some 0, es_cooldown_ends_at := None\<rparr> else s0);
          s2 = (case es_week_resets_at s1 of
                  Some t \<Rightarrow> if t \<le> now then s1\<lparr>es_weekly_spent_toman := Some 0, es_week_resets_at := Some (now + days 7)\<rparr>
                            else s1
                | None \<Rightarrow> s1);
          s3 = (if es_cooldown_ends_at s2 = None
                then s2\<lparr>es_cooldown_ends_at := Some (now + hours h), es_cooldown_spent_toman := Some 0\<rparr> else s2);
          s4 = (if es_week_resets_at s3 = None
                then s3\<lparr>es_week_resets_at := Some (now + days 7), es_weekly_spent_toman := Some 0\<rparr> else s3)
      in s4\<lparr>es_cooldown_spent_toman := Some (or0 (es_cooldown_spent_toman s4) + cost),
            es_weekly_spent_toman := Some (or0 (es_weekly_spent_toman s4) + cost)\<rparr>)"

text \<open>Gift before paid: what each balance gives, and the account afterwards.\<close>

definition gift_share :: "int \<Rightarrow> era_billing_account \<Rightarrow> int" where
  "gift_share cost a = (let gift = or0 (eb_gift_balance_toman a) in if 0 < gift then min gift cost else 0)"

definition paid_share :: "int \<Rightarrow> era_billing_account \<Rightarrow> int" where
  "paid_share cost a =
     (let rest = cost - gift_share cost a in if 0 < rest then min (or0 (eb_paid_balance_toman a)) rest else 0)"

definition spend_from :: "int \<Rightarrow> era_billing_account \<Rightarrow> era_billing_account" where
  "spend_from cost a0 =
     (let a1 = (if 0 < or0 (eb_gift_balance_toman a0)
                then a0\<lparr>eb_gift_balance_toman := Some (or0 (eb_gift_balance_toman a0) - gift_share cost a0),
                        eb_total_gift_spent_toman := Some (or0 (eb_total_gift_spent_toman a0) + gift_share cost a0)\<rparr>
                else a0)
      in if 0 < cost - gift_share cost a0
         then a1\<lparr>eb_paid_balance_toman := Some (or0 (eb_paid_balance_toman a0) - paid_share cost a0),
                 eb_total_paid_spent_toman := Some (or0 (eb_total_paid_spent_toman a0) + paid_share cost a0)\<rparr>
         else a1)"

definition message_key :: "string \<Rightarrow> string" where
  "message_key mid = ''msg:'' @ mid"

definition ledger_exists :: "string \<Rightarrow> era_db \<Rightarrow> bool" where
  "ledger_exists mid d \<longleftrightarrow> t_first (\<lambda>_ e. el_idempotency_key e = Some (message_key mid)) (era_ledger d) \<noteq> None"

definition get_or_create_account :: "int \<Rightarrow> era_db \<Rightarrow> era_billing_account obj \<times> era_db" where
  "get_or_create_account uid d =
     (case era_billing_account_of uid d of
        Some a \<Rightarrow> (a, d)
      | None \<Rightarrow> ((t_next (era_accounts d), era_billing_row uid),
                 d\<lparr>era_accounts := t_add (era_billing_row uid) (era_accounts d)\<rparr>))"

definition message_entry ::
  "instant \<Rightarrow> int \<Rightarrow> string option \<Rightarrow> dict \<Rightarrow> string \<Rightarrow> int \<Rightarrow> era_billing_account obj \<Rightarrow> era_ledger_entry" where
  "message_entry now uid model u mid cost acc =
     \<lparr>el_user_id = uid, el_billing_account_id = fst acc, el_amount_toman = - cost,
      el_gift_delta_toman = - gift_share cost (snd acc), el_paid_delta_toman = - paid_share cost (snd acc),
      el_gift_balance_after_toman = eb_gift_balance_toman (spend_from cost (snd acc)),
      el_paid_balance_after_toman = eb_paid_balance_toman (spend_from cost (snd acc)),
      el_entry_type = ''chat_completion_usage'',
      el_reason = ''Chat completion: '' @ str_or model ''unknown'',
      el_idempotency_key = Some (message_key mid),
      el_metadata_json = [(''model_id'', json_text_option model), (''message_id'', JStr mid),
        (''input_tokens'', (case map_of u ''input_tokens'' of None \<Rightarrow> JInt 0 | Some j \<Rightarrow> j)),
        (''output_tokens'', (case map_of u ''output_tokens'' of None \<Rightarrow> JInt 0 | Some j \<Rightarrow> j)),
        (''cost_toman'', JInt cost)],
      el_created_at = now\<rparr>"

definition charge_message ::
  "instant \<Rightarrow> int \<Rightarrow> string option \<Rightarrow> dict \<Rightarrow> string \<Rightarrow> int \<Rightarrow> era_db \<Rightarrow> era_db" where
  "charge_message now uid model u mid cost d =
     (let d1 = (case get_active_subscription now uid d of
                  None \<Rightarrow> d
                | Some (i, s) \<Rightarrow> d\<lparr>era_subscriptions :=
                    t_put i (charge_windows now cost (t_get (era_plans d) (es_plan_id s)) s) (era_subscriptions d)\<rparr>)
      in case get_or_create_account uid d1 of
           (acc, d2) \<Rightarrow>
             d2\<lparr>era_accounts := t_put (fst acc) (spend_from cost (snd acc)) (era_accounts d2),
                era_ledger := t_add (message_entry now uid model u mid cost acc) (era_ledger d2)\<rparr>)"

text \<open>The user the charge is for: by the tracking id alone, made when there is none.\<close>

definition charged_user :: "instant \<Rightarrow> int \<Rightarrow> era_db \<Rightarrow> int \<times> era_db" where
  "charged_user now tid d =
     (case find_era_user tid d of
        Some (uid, _) \<Rightarrow> (uid, d)
      | None \<Rightarrow>
          (case add_era_user tid ''<user>'' None d of
             (uid, d1) \<Rightarrow> (uid, add_subscription_of now uid (plan_of_type ''free'' d) d1)))"

record spending_env =
  pricing_config :: json
  md5_number :: "string \<Rightarrow> nat"
  webui_user_of :: "string \<Rightarrow> webui_user option"

definition tracking_id_of :: "spending_env \<Rightarrow> string \<Rightarrow> int" where
  "tracking_id_of env wid =
     (case webui_user_of env wid of
        None \<Rightarrow> synthetic_era_id (md5_number env) wid
      | Some u \<Rightarrow> era_tracking_id (md5_number env) wid u)"

definition record_spending_from_message ::
  "spending_env \<Rightarrow> bool \<Rightarrow> instant \<Rightarrow> string \<Rightarrow> string option \<Rightarrow> dict \<Rightarrow> string \<Rightarrow> nat \<Rightarrow> era_db \<Rightarrow> era_db" where
  "record_spending_from_message env available now wid model u mid text_length d =
     (if \<not> available then d
      else case calculate_cost (pricing_config env) (str_or model ''unknown'') u text_length of
        None \<Rightarrow> d
      | Some cost \<Rightarrow>
          if cost \<le> 0 then d
          else case charged_user now (tracking_id_of env wid) d of
            (uid, d1) \<Rightarrow> if ledger_exists mid d1 then d1 else charge_message now uid model u mid cost d1)"

section \<open>Charged once, and exactly\<close>

lemma calculate_cost_nonneg: "calculate_cost pricing model u n = Some c \<Longrightarrow> 0 \<le> c"
  by (auto simp: calculate_cost_def price_of_tokens_def Option.bind_eq_Some_conv split: json.splits if_splits)

lemma spend_from_fields:
  assumes "0 \<le> or0 (eb_gift_balance_toman a)" and "0 \<le> or0 (eb_paid_balance_toman a)" and "0 \<le> cost"
  shows "or0 (eb_gift_balance_toman (spend_from cost a)) = or0 (eb_gift_balance_toman a) - gift_share cost a"
    and "or0 (eb_paid_balance_toman (spend_from cost a)) = or0 (eb_paid_balance_toman a) - paid_share cost a"
    and "gift_share cost a = min (or0 (eb_gift_balance_toman a)) cost"
    and "paid_share cost a = min (or0 (eb_paid_balance_toman a)) (cost - gift_share cost a)"
    and "eb_user_id (spend_from cost a) = eb_user_id a"
  using assms by (auto simp: spend_from_def gift_share_def paid_share_def Let_def)

lemma charge_message_frame:
  "era_users (charge_message now uid model u mid cost d) = era_users d"
  "era_plans (charge_message now uid model u mid cost d) = era_plans d"
  by (simp_all add: charge_message_def get_or_create_account_def Let_def case_prod_beta split: option.split)

lemma charge_message_ledger:
  "\<exists>e. era_ledger (charge_message now uid model u mid cost d) = t_add e (era_ledger d) \<and>
     el_idempotency_key e = Some (message_key mid)"
  by (auto simp: charge_message_def get_or_create_account_def Let_def case_prod_beta message_entry_def split: option.splits)

lemma charge_message_recorded: "ledger_exists mid (charge_message now uid model u mid cost d)"
  using charge_message_ledger [of now uid model u mid cost d]
  by (auto simp: ledger_exists_def t_first_add split: option.splits)

lemma charged_user_found:
  assumes "charged_user now tid d = (uid, d')"
  shows "\<exists>e. find_era_user tid d' = Some (uid, e)"
  using assms
  by (auto simp: charged_user_def find_era_user_def add_era_user_def add_subscription_of_def Let_def t_first_add
      split: option.splits prod.splits)

lemma charged_user_known: "find_era_user tid d = Some (uid, e) \<Longrightarrow> charged_user now tid d = (uid, d)"
  by (simp add: charged_user_def)

lemma recorded:
  assumes "calculate_cost (pricing_config env) (str_or model ''unknown'') u n = Some cost" and "0 < cost"
  shows "ledger_exists mid (record_spending_from_message env True now wid model u mid n d)"
    and "\<exists>uid e. find_era_user (tracking_id_of env wid) (record_spending_from_message env True now wid model u mid n d) =
      Some (uid, e)"
proof -
  obtain uid d1 where d1: "charged_user now (tracking_id_of env wid) d = (uid, d1)" by fastforce
  show "ledger_exists mid (record_spending_from_message env True now wid model u mid n d)"
    using assms d1 charge_message_recorded by (simp add: record_spending_from_message_def)
  show "\<exists>uid e. find_era_user (tracking_id_of env wid) (record_spending_from_message env True now wid model u mid n d) =
      Some (uid, e)"
    using assms d1 charged_user_found [OF d1] charge_message_frame(1)
    by (auto simp: record_spending_from_message_def find_era_user_def)
qed


definition free_model_env :: spending_env where
  "free_model_env = \<lparr>pricing_config = JDict [(''m'', JDict [(''input'', JInt 0), (''output'', JInt 0)])],
     md5_number = (\<lambda>_. 0), webui_user_of = (\<lambda>_. Some reader)\<rparr>"

lemma free_model_cost:
  "calculate_cost (pricing_config free_model_env) (str_or (Some ''m'') ''unknown'') [(''output_tokens'', JInt 2)] 0 = Some 1"
  by (simp add: free_model_env_def calculate_cost_def model_price_def str_or_def billed_tokens_def token_count_def
      price_per_million_def price_of_tokens_def dict_get_def trunc_def)

lemma free_model_user:
  "tracking_id_of free_model_env ''w'' = 77" "find_era_user 77 (reader_db c k) = Some (1, snd (hd (era_users (reader_db c k))))"
proof -
  have "int_of_str ''77'' = Some 77" by code_simp
  then show "tracking_id_of free_model_env ''w'' = 77"
    by (simp add: tracking_id_of_def free_model_env_def era_tracking_id_def provider_sub_def reader_def)
  show "find_era_user 77 (reader_db c k) = Some (1, snd (hd (era_users (reader_db c k))))"
    by (simp add: find_era_user_def reader_db_def t_first_def)
qed


text \<open>A user who is only known by telephone number is given a second account by the first charge, which hides the first.\<close>

lemma first_charge_hides_phone_account:
  assumes "calculate_cost (pricing_config env) (str_or model ''unknown'') u n = Some cost" and "0 < cost"
    and "find_era_user (tracking_id_of env wid) d = None"
  shows "\<exists>e. find_era_user_or_phone (tracking_id_of env wid) phone
      (record_spending_from_message env True now wid model u mid n d) = Some (t_next (era_users d), e)"
proof -
  obtain uid d1 where d1: "charged_user now (tracking_id_of env wid) d = (uid, d1)" by fastforce
  then have "uid = t_next (era_users d)"
    using assms(3) by (auto simp: charged_user_def add_era_user_def Let_def)
  with charged_user_found [OF d1] assms(1,2) d1 charge_message_frame(1) show ?thesis
    by (auto simp: record_spending_from_message_def find_era_user_or_phone_def find_era_user_def)
qed

section \<open>Balances\<close>

lemma get_account_put:
  assumes "t_wf (era_accounts d)" and "era_billing_account_of uid d = Some (i, a)" and "eb_user_id a' = uid"
    and "era_accounts d' = t_put i a' (era_accounts d)"
  shows "era_billing_account_of uid d' = Some (i, a')"
    and "v \<noteq> uid \<Longrightarrow> era_billing_account_of v d' = era_billing_account_of v d"
proof -
  show "era_billing_account_of uid d' = Some (i, a')"
    using assms by (simp add: era_billing_account_of_def t_first_put)
  assume v: "v \<noteq> uid"
  have i: "(i, a) \<in> set (era_accounts d)" "eb_user_id a = uid"
    using t_first_SomeD [OF assms(2) [unfolded era_billing_account_of_def]] by auto
  have "find (\<lambda>(_, a). eb_user_id a = v) (t_put i a' t) = find (\<lambda>(_, a). eb_user_id a = v) t"
    if "t_wf t" "(i, a) \<in> set t" for t
    using that
  proof (induction t)
    case (Cons x t)
    obtain j b where x: "x = (j, b)" by fastforce
    show ?case
    proof (cases "j = i")
      case True
      with Cons.prems x have "b = a" "t_put i a' t = t"
        by (force simp: t_wf_def, force simp: t_wf_def t_put_def intro: map_idI)
      then show ?thesis using True v assms(3) i(2) by (simp add: x t_put_def)
    next
      case False
      with Cons show ?thesis by (auto simp: x t_wf_def t_put_def)
    qed
  qed (simp add: t_put_def)
  then show "era_billing_account_of v d' = era_billing_account_of v d"
    using assms(1,4) i(1) by (simp add: era_billing_account_of_def t_first_def)
qed

text \<open>
  C33. The charge of a message: the gift balance pays first and the paid balance the rest, together
  exactly the cost or all that is there, no balance goes below zero, one row of the ledger records
  the change under the message's key, and nobody else's account is touched.
\<close>

theorem message_charged_exactly:
  assumes "calculate_cost (pricing_config env) (str_or model ''unknown'') u n = Some cost" and "0 < cost"
    and "find_era_user (tracking_id_of env wid) d = Some (uid, e)" and "\<not> ledger_exists mid d"
    and "era_billing_account_of uid d = Some (aid, a)" and "t_wf (era_accounts d)"
    and "0 \<le> or0 (eb_gift_balance_toman a)" and "0 \<le> or0 (eb_paid_balance_toman a)"
  shows "\<exists>a' entry. (let d' = record_spending_from_message env True now wid model u mid n d;
       gift = or0 (eb_gift_balance_toman a); paid = or0 (eb_paid_balance_toman a);
       gift' = or0 (eb_gift_balance_toman a'); paid' = or0 (eb_paid_balance_toman a') in
     era_billing_account_of uid d' = Some (aid, a') \<and>
     gift' = max 0 (gift - cost) \<and> paid' = max 0 (paid - (cost - (gift - gift'))) \<and>
     gift' + paid' = gift + paid - min cost (gift + paid) \<and>
     map snd (era_ledger d') = map snd (era_ledger d) @ [entry] \<and>
     el_idempotency_key entry = Some (message_key mid) \<and> el_amount_toman entry = - cost \<and>
     el_gift_delta_toman entry = gift' - gift \<and> el_paid_delta_toman entry = paid' - paid \<and>
     (\<forall>v. v \<noteq> uid \<longrightarrow> era_billing_account_of v d' = era_billing_account_of v d))"
proof -
  define d' where "d' = record_spending_from_message env True now wid model u mid n d"
  define entry where "entry = message_entry now uid model u mid cost (aid, a)"
  have run: "d' = charge_message now uid model u mid cost d"
    using assms(1-4) by (simp add: d'_def record_spending_from_message_def charged_user_known)
  have acc: "get_or_create_account uid (d\<lparr>era_subscriptions := x\<rparr>) = ((aid, a), d\<lparr>era_subscriptions := x\<rparr>)"
    "get_or_create_account uid d = ((aid, a), d)" for x
    using assms(5) by (simp_all add: get_or_create_account_def era_billing_account_of_def)
  have tables: "era_accounts d' = t_put aid (spend_from cost a) (era_accounts d)"
    "era_ledger d' = t_add entry (era_ledger d)"
    unfolding run charge_message_def Let_def by (simp_all add: acc entry_def split: option.split)
  have "eb_user_id a = uid"
    using t_first_SomeD [OF assms(5) [unfolded era_billing_account_of_def]] by simp
  note f = spend_from_fields [OF assms(7,8) less_imp_le [OF assms(2)]]
  from f(5) \<open>eb_user_id a = uid\<close> have "eb_user_id (spend_from cost a) = uid" by simp
  note g = get_account_put [OF assms(6,5) this tables(1)]
  show ?thesis
  proof (intro exI [of _ "spend_from cost a"] exI [of _ entry], unfold Let_def d'_def [symmetric], intro conjI allI impI)
    show "era_billing_account_of uid d' = Some (aid, spend_from cost a)" by (rule g(1))
    show "map snd (era_ledger d') = map snd (era_ledger d) @ [entry]" by (simp add: tables t_add_def)
    show "era_billing_account_of v d' = era_billing_account_of v d" if "v \<noteq> uid" for v using g(2) [OF that] .
  qed (use f assms(2,7,8) in \<open>simp_all add: entry_def message_entry_def min_def max_def\<close>)
qed

theorem message_charged_exactly_witness:
  "\<exists>a' entry. let d' = record_spending_from_message free_model_env True 40 ''w'' (Some ''m'')
       [(''output_tokens'', JInt 2)] ''x1'' 0
       (reader_db 5 6\<lparr>era_accounts := [(3, era_billing_row 1\<lparr>eb_paid_balance_toman := Some 10\<rparr>)]\<rparr>) in
     era_billing_account_of 1 d' = Some (3, a') \<and> or0 (eb_paid_balance_toman a') = 9 \<and> map snd (era_ledger d') = [entry]"
proof -
  let ?a = "era_billing_row 1\<lparr>eb_paid_balance_toman := Some 10\<rparr>"
  let ?d = "reader_db 5 6\<lparr>era_accounts := [(3, ?a)]\<rparr>"
  have "find_era_user (tracking_id_of free_model_env ''w'') ?d = Some (1, snd (hd (era_users (reader_db 5 6))))"
    using free_model_user(1) free_model_user(2) [of 5 6] by (simp add: find_era_user_def)
  moreover have "\<not> ledger_exists ''x1'' ?d" by (simp add: ledger_exists_def reader_db_def t_first_def)
  moreover have "era_billing_account_of 1 ?d = Some (3, ?a)" by (simp add: era_billing_account_of_def t_first_def era_billing_row_def)
  moreover have "t_wf (era_accounts ?d)" by (simp add: t_wf_def)
  moreover have "or0 (eb_gift_balance_toman ?a) = 0" "or0 (eb_paid_balance_toman ?a) = 10" "era_ledger ?d = []"
    by (simp_all add: era_billing_row_def reader_db_def)
  ultimately show ?thesis
    using message_charged_exactly [OF free_model_cost, where wid = "''w''" and d = ?d and uid = 1 and mid = "''x1''"
        and aid = 3 and a = ?a and now = 40] by (fastforce simp: Let_def)
qed

section \<open>The check and the charge together\<close>

lemma charge_windows_spent:
  "or0 (es_cooldown_spent_toman (charge_windows now cost plan s)) =
     (if cooldown_over now s \<or> es_cooldown_ends_at s = None then cost else or0 (es_cooldown_spent_toman s) + cost)"
  "or0 (es_weekly_spent_toman (charge_windows now cost plan s)) =
     (case es_week_resets_at s of
        None \<Rightarrow> cost
      | Some t \<Rightarrow> if t \<le> now then cost else or0 (es_weekly_spent_toman s) + cost)"
  by (cases "es_week_resets_at s"; cases "es_cooldown_ends_at s"; simp add: charge_windows_def Let_def cooldown_over_def)+

lemma charge_message_subscription:
  assumes "get_active_subscription now uid d = Some (i, s)" and "t_wf (era_subscriptions d)"
  shows "t_get (era_subscriptions (charge_message now uid model u mid cost d)) i =
    Some (charge_windows now cost (t_get (era_plans d) (es_plan_id s)) s)"
proof -
  have "t_get (era_subscriptions d) i = Some s"
    using get_active_in(1) [OF assms(1)] t_get_in [OF assms(2)] by simp
  then show ?thesis
    by (simp add: charge_message_def assms(1) get_or_create_account_def Let_def case_prod_beta t_get_put split: option.split)
qed



end
