(* ===== verification/Web_Login.thy ===== *)
theory Web_Login
  imports Era_Account Bot_Payments "HOL-Library.List_Lexorder" "HOL-Library.Multiset"
begin

text \<open>
  Signing in to the web application (\<open>src/backend/open_webui\<close>: \<open>routers/otp_auth.py\<close>,
  \<open>routers/bot_auth.py\<close>, \<open>utils/telegram_auth.py\<close>, \<open>utils/bale_auth.py\<close> and the queries of
  \<open>models/users.py\<close> they use): by a code sent to a telephone, by a code from the bot (\<open>bot.py\<close>), and by
  the data a messenger signs. Redis, the two hash functions, \<open>unquote\<close>, the JSON reader and writer,
  the random codes and the SQL containment test are arguments; texts are ASCII (the code's pattern of
  a digit also matches those of other scripts). The answer of a login is the user the token is made
  for; an error that is not handled is a 500. Times are seconds.
\<close>

section \<open>Users\<close>

type_synonym webui_users = "(string \<times> webui_user) list"

text \<open>\<open>oauth_has u provider sub\<close> is the database's answer to \<open>oauth.contains({provider: {'sub': sub}})\<close>.\<close>

type_synonym oauth_test = "(string \<times> dict) list \<Rightarrow> string \<Rightarrow> json \<Rightarrow> bool"

definition get_user_by_oauth_sub :: "oauth_test \<Rightarrow> string \<Rightarrow> json \<Rightarrow> webui_users \<Rightarrow> (string \<times> webui_user) option" where
  "get_user_by_oauth_sub oauth_has provider sub us = find (\<lambda>(_, u). oauth_has (wu_oauth u) provider sub) us"

definition webui_user_by_phone :: "string \<Rightarrow> webui_users \<Rightarrow> (string \<times> webui_user) option" where
  "webui_user_by_phone phone us = find (\<lambda>(_, u). wu_phone u = Some phone) us"

definition insert_new_user ::
  "string \<Rightarrow> string \<Rightarrow> string \<Rightarrow> string option \<Rightarrow> (string \<times> dict) list \<Rightarrow> string option \<Rightarrow> webui_users \<Rightarrow>
   (string \<times> webui_user) \<times> webui_users" where
  "insert_new_user nid name email uname oauth phone us =
     (let u = (nid, \<lparr>wu_email = email, wu_username = uname, wu_name = name, wu_phone = phone,
                     wu_role = ''user'', wu_oauth = oauth\<rparr>)
      in (u, us @ [u]))"

definition update_user_oauth_by_id :: "string \<Rightarrow> string \<Rightarrow> json \<Rightarrow> webui_users \<Rightarrow> webui_users" where
  "update_user_oauth_by_id i provider sub us =
     (case map_of us i of
        None \<Rightarrow> us
      | Some u \<Rightarrow> AList.update i (u\<lparr>wu_oauth := AList.update provider [(''sub'', sub)] (wu_oauth u)\<rparr>) us)"

text \<open>\<open>update_user_by_id\<close> with the columns the logins set.\<close>

definition update_user_by_id :: "string \<Rightarrow> string option \<Rightarrow> string option \<Rightarrow> webui_users \<Rightarrow> webui_users" where
  "update_user_by_id i phone name us =
     (case map_of us i of
        None \<Rightarrow> us
      | Some u \<Rightarrow> AList.update i (u\<lparr>wu_phone := (case phone of None \<Rightarrow> wu_phone u | Some p \<Rightarrow> Some p),
                                    wu_name := (case name of None \<Rightarrow> wu_name u | Some n \<Rightarrow> n)\<rparr>) us)"

section \<open>Redis\<close>

text \<open>The commands the code uses, at an instant, as functions of a store.\<close>

record 'r redis_client =
  r_get :: "int \<Rightarrow> string \<Rightarrow> 'r \<Rightarrow> string option"
  r_setex :: "int \<Rightarrow> string \<Rightarrow> int \<Rightarrow> string \<Rightarrow> 'r \<Rightarrow> 'r"
  r_delete :: "int \<Rightarrow> string list \<Rightarrow> 'r \<Rightarrow> 'r"
  r_incr :: "int \<Rightarrow> string \<Rightarrow> 'r \<Rightarrow> int \<times> 'r"
  r_expire :: "int \<Rightarrow> string \<Rightarrow> int \<Rightarrow> 'r \<Rightarrow> 'r"

text \<open>What the commands promise about every later look at a key.\<close>

locale redis_server =
  fixes R :: "'r redis_client"
  assumes get_setex: "t \<le> t' \<Longrightarrow> r_get R t' k' (r_setex R t k ttl v s) =
      (if k' = k then if t' < t + ttl then Some v else None else r_get R t' k' s)"
    and get_delete: "t \<le> t' \<Longrightarrow> r_get R t' k' (r_delete R t ks s) = (if k' \<in> set ks then None else r_get R t' k' s)"
    and incr_first: "r_get R t k s = None \<Longrightarrow> fst (r_incr R t k s) = 1"
    and incr_next: "r_get R t k s = Some (str_int n) \<Longrightarrow> fst (r_incr R t k s) = n + 1"
    and get_incr_first: "t \<le> t' \<Longrightarrow> r_get R t k s = None \<Longrightarrow> r_get R t' k (snd (r_incr R t k s)) = Some (str_int 1)"
    and get_incr_next: "t \<le> t' \<Longrightarrow> r_get R t k s = Some (str_int n) \<Longrightarrow> r_get R t' k (snd (r_incr R t k s)) =
      (if r_get R t' k s = None then None else Some (str_int (n + 1)))"
    and get_incr_other: "t \<le> t' \<Longrightarrow> k' \<noteq> k \<Longrightarrow> r_get R t' k' (snd (r_incr R t k s)) = r_get R t' k' s"
    and get_expire: "t \<le> t' \<Longrightarrow> r_get R t' k' (r_expire R t k ttl s) =
      (if k' = k then if t' < t + ttl then r_get R t k s else None else r_get R t' k' s)"

section \<open>A code for a telephone\<close>

definition OTP_TTL_SECONDS :: int where
  "OTP_TTL_SECONDS = 300"

definition RESEND_COOLDOWN_SECONDS :: int where
  "RESEND_COOLDOWN_SECONDS = 60"

definition MAX_VERIFY_ATTEMPTS :: int where
  "MAX_VERIFY_ATTEMPTS = 5"

definition MOCK_BYPASS_CODE :: string where
  "MOCK_BYPASS_CODE = ''123456''"

text \<open>Without its prefix an Iranian mobile number is a 9 and nine more digits.\<close>

definition without_prefix :: "string \<Rightarrow> string" where
  "without_prefix ds =
     (if starts_with ds ''+98'' then drop 3 ds
      else if starts_with ds ''0098'' then drop 4 ds
      else if starts_with ds ''98'' \<and> length ds = 12 then drop 2 ds
      else if starts_with ds ''0'' then drop 1 ds
      else ds)"

definition is_mobile :: "string \<Rightarrow> bool" where
  "is_mobile ds \<longleftrightarrow> length ds = 10 \<and> hd ds = CHR ''9'' \<and> list_all is_digit ds"

definition normalize_iran_phone :: "string \<Rightarrow> string answer" where
  "normalize_iran_phone raw =
     (if raw = [] then Inl (400, ''no telephone number'')
      else let ds = without_prefix (strip (filter (\<lambda>c. is_digit c \<or> c = CHR ''+'') raw)) in
        if is_mobile ds then Inr (''+98'' @ ds) else Inl (400, ''telephone number not valid''))"

definition otp_key :: "string \<Rightarrow> string" where "otp_key phone = ''otp:phone:'' @ phone"
definition attempts_key :: "string \<Rightarrow> string" where "attempts_key phone = ''otp:attempts:'' @ phone"
definition cooldown_key :: "string \<Rightarrow> string" where "cooldown_key phone = ''otp:cooldown:'' @ phone"

text \<open>A request for a code; \<open>code\<close> is the one drawn. \<open>None\<close> is a Redis that is not there.\<close>

definition request_otp :: "'r redis_client option \<Rightarrow> int \<Rightarrow> string \<Rightarrow> string \<Rightarrow> 'r \<Rightarrow> unit answer \<times> 'r" where
  "request_otp client now drawn raw s =
     (case normalize_iran_phone raw of
        Inl e \<Rightarrow> (Inl e, s)
      | Inr phone \<Rightarrow>
          (case client of
             None \<Rightarrow> (Inl (503, ''no authentication service''), s)
           | Some R \<Rightarrow>
               if str_or (r_get R now (cooldown_key phone) s) [] \<noteq> []
               then (Inl (429, ''try again in a few seconds''), s)
               else (Inr (), r_setex R now (cooldown_key phone) RESEND_COOLDOWN_SECONDS ''1''
                 (r_delete R now [attempts_key phone]
                   (r_setex R now (otp_key phone) OTP_TTL_SECONDS drawn s)))))"

text \<open>The check of a code against the one stored, and its removal once it is accepted.\<close>

definition check_otp :: "'r redis_client \<Rightarrow> int \<Rightarrow> string \<Rightarrow> string \<Rightarrow> 'r \<Rightarrow> unit answer \<times> 'r" where
  "check_otp R now phone guess s =
     (if guess = MOCK_BYPASS_CODE then (Inr (), r_delete R now [otp_key phone, attempts_key phone] s)
      else case r_get R now (otp_key phone) s of
        None \<Rightarrow> (Inl (401, ''code expired''), s)
      | Some stored \<Rightarrow>
          if stored = [] then (Inl (401, ''code expired''), s)
          else
            (case r_incr R now (attempts_key phone) s of
               (attempts, s1) \<Rightarrow>
                 let s2 = (if attempts = 1 then r_expire R now (attempts_key phone) OTP_TTL_SECONDS s1 else s1) in
                 if MAX_VERIFY_ATTEMPTS < attempts
                 then (Inl (401, ''no attempts left''), r_delete R now [otp_key phone] s2)
                 else if stored \<noteq> guess then (Inl (401, ''wrong code''), s2)
                 else (Inr (), r_delete R now [otp_key phone, attempts_key phone] s2)))"

definition phone_login :: "oauth_test \<Rightarrow> string \<Rightarrow> string \<Rightarrow> webui_users \<Rightarrow> (string \<times> webui_user) \<times> webui_users" where
  "phone_login oauth_has nid phone us =
     (case get_user_by_oauth_sub oauth_has ''phone'' (JStr phone) us of
        None \<Rightarrow> insert_new_user nid phone (''phone_'' @ dropWhile (\<lambda>c. c = CHR ''+'') phone @ ''@drboz.local'') None
                  [(''phone'', [(''sub'', JStr phone)])] (Some phone) us
      | Some (i, u) \<Rightarrow>
          if str_or (wu_phone u) [] = []
          then (let us' = update_user_by_id i (Some phone) None us in
                ((i, case map_of us' i of None \<Rightarrow> u | Some u' \<Rightarrow> u'), us'))
          else ((i, u), us))"

definition verify_otp ::
  "oauth_test \<Rightarrow> 'r redis_client option \<Rightarrow> int \<Rightarrow> string \<Rightarrow> string \<Rightarrow> string \<Rightarrow> 'r \<times> webui_users \<Rightarrow>
   (string \<times> webui_user) answer \<times> 'r \<times> webui_users" where
  "verify_otp oauth_has client now nid raw code_text s =
     (case normalize_iran_phone raw of
        Inl e \<Rightarrow> (Inl e, s)
      | Inr phone \<Rightarrow>
          (let guess = strip code_text in
           if length guess \<noteq> 6 \<or> \<not> list_all is_digit guess then (Inl (400, ''code not valid''), s)
           else case client of
             None \<Rightarrow> (Inl (503, ''no authentication service''), s)
           | Some R \<Rightarrow>
               (case check_otp R now phone guess (fst s) of
                  (Inl e, r) \<Rightarrow> (Inl e, r, snd s)
                | (Inr _, r) \<Rightarrow> (case phone_login oauth_has nid phone (snd s) of (u, us) \<Rightarrow> (Inr u, r, us)))))"

section \<open>What a messenger signs\<close>

record crypto =
  sha256 :: "string \<Rightarrow> string"
  hmac_sha256 :: "string \<Rightarrow> string \<Rightarrow> string"
  unquote :: "string \<Rightarrow> string"
  loads :: "string \<Rightarrow> json option"
  dumps :: "json \<Rightarrow> string"
  shown :: "json \<Rightarrow> string"

text \<open>\<open>s.split(c)\<close>, and \<open>pair.split('=', 1)\<close> where there is a \<open>=\<close>.\<close>

fun split_on :: "char \<Rightarrow> string \<Rightarrow> string list" where
  "split_on c [] = [[]]"
| "split_on c (x # xs) =
     (if x = c then [] # split_on c xs
      else case split_on c xs of [] \<Rightarrow> [[x]] | w # ws \<Rightarrow> (x # w) # ws)"

definition key_and_value :: "string \<Rightarrow> (string \<times> string) list" where
  "key_and_value pair =
     (case dropWhile (\<lambda>c. c \<noteq> CHR ''='') pair of
        [] \<Rightarrow> []
      | _ # v \<Rightarrow> [(takeWhile (\<lambda>c. c \<noteq> CHR ''='') pair, v)])"

definition init_fields :: "string \<Rightarrow> (string \<times> string) list" where
  "init_fields init_data = concat (map key_and_value (split_on CHR ''&'' init_data))"

text \<open>The dictionary \<open>parsed\<close>: of two values of a key the later one counts.\<close>

definition parsed_fields :: "string \<Rightarrow> (string \<times> string) list" where
  "parsed_fields init_data = fold (\<lambda>(k, v). AList.update k v) (init_fields init_data) []"

text \<open>\<open>sorted(parsed.items())\<close>: the keys of a dictionary are different, so their order decides.\<close>

definition code_points :: "string \<Rightarrow> nat list" where
  "code_points s = map of_char s"

definition check_string :: "(string \<times> string) list \<Rightarrow> string" where
  "check_string fs =
     join_with [CHR 0x0A] (map (\<lambda>(k, v). k @ ''='' @ v) (sort_key (\<lambda>(k, _). code_points k) fs))"

text \<open>\<open>'id' in user\<close>; a value that cannot be searched raises, which is caught.\<close>

fun names_id :: "json \<Rightarrow> bool" where
  "names_id (JDict d) \<longleftrightarrow> ''id'' \<in> fst ` set d"
| "names_id (JList xs) \<longleftrightarrow> JStr ''id'' \<in> set xs"
| "names_id (JStr s) \<longleftrightarrow> contains_text s ''id''"
| "names_id _ \<longleftrightarrow> False"

text \<open>The same function for Telegram and for Bale.\<close>

definition verify_init_data :: "crypto \<Rightarrow> string \<Rightarrow> string \<Rightarrow> json option" where
  "verify_init_data cr init_data bot_token =
     (let parsed = parsed_fields init_data;
          fs = filter (\<lambda>(k, _). k \<noteq> ''hash'' \<and> k \<noteq> ''signature'') parsed
      in case map_of parsed ''hash'' of
           None \<Rightarrow> None
         | Some received \<Rightarrow>
             if received = [] \<or> hmac_sha256 cr (sha256 cr bot_token) (check_string fs) \<noteq> received then None
             else case loads cr (unquote cr (case map_of fs ''user'' of None \<Rightarrow> ''{}'' | Some v \<Rightarrow> v)) of
               None \<Rightarrow> None
             | Some user \<Rightarrow> if names_id user then Some user else None)"

section \<open>Users of a messenger\<close>

text \<open>A username that is neither a text nor null fails the validation of the new user.\<close>

definition get_or_create_user_by_oauth ::
  "crypto \<Rightarrow> oauth_test \<Rightarrow> string \<Rightarrow> string \<Rightarrow> json \<Rightarrow> json \<Rightarrow> json \<Rightarrow> string option \<Rightarrow> webui_users \<Rightarrow>
   (string \<times> webui_user) answer \<times> webui_users" where
  "get_or_create_user_by_oauth cr oauth_has nid provider sub name uname phone us =
     (case get_user_by_oauth_sub oauth_has provider sub us of
        Some (i, u) \<Rightarrow> (Inr (i, u), update_user_oauth_by_id i provider sub us)
      | None \<Rightarrow>
          (case (name, uname) of
             (JStr n, JStr w) \<Rightarrow> apfst Inr (insert_new_user nid n
                (provider @ ''_'' @ py_str (shown cr) sub @ ''@drboz.local'') (Some w) [(provider, [(''sub'', sub)])] phone us)
           | (JStr n, JNull) \<Rightarrow> apfst Inr (insert_new_user nid n
                (provider @ ''_'' @ py_str (shown cr) sub @ ''@drboz.local'') None [(provider, [(''sub'', sub)])] phone us)
           | _ \<Rightarrow> (Inl (500, ''ValidationError''), us)))"

definition miniapp_name :: "crypto \<Rightarrow> dict \<Rightarrow> string \<Rightarrow> string" where
  "miniapp_name cr d sub =
     (let part = (\<lambda>k. case map_of d k of None \<Rightarrow> [] | Some j \<Rightarrow> py_str (shown cr) j);
          n = strip (part ''first_name'' @ '' '' @ part ''last_name'')
      in if n = [] then ''User_'' @ sub else n)"

text \<open>The age of the data, by a date inside the user object; \<open>None\<close> is a value that is no number.\<close>

definition too_old :: "int \<Rightarrow> dict \<Rightarrow> bool option" where
  "too_old now d =
     (let date = (case map_of d ''auth_date'' of None \<Rightarrow> JInt 0 | Some j \<Rightarrow> j) in
      if \<not> truthy date then Some False
      else map_option (\<lambda>n. 86400 < now - n) (json_int date))"

definition telegram_miniapp_login ::
  "crypto \<Rightarrow> oauth_test \<Rightarrow> string \<Rightarrow> int \<Rightarrow> string \<Rightarrow> string \<Rightarrow> webui_users \<Rightarrow> (string \<times> webui_user) answer \<times> webui_users" where
  "telegram_miniapp_login cr oauth_has bot_token now nid init_data us =
     (if bot_token = [] then (Inl (503, ''Telegram bot token not configured''), us)
      else case verify_init_data cr init_data bot_token of
        None \<Rightarrow> (Inl (401, ''Invalid Telegram initData''), us)
      | Some (JDict d) \<Rightarrow>
          (let sub = py_str (shown cr) (dict_get d ''id'') in
           case too_old now d of
             None \<Rightarrow> (Inl (500, ''int()''), us)
           | Some True \<Rightarrow> (Inl (401, ''initData is too old (max 24h)''), us)
           | Some False \<Rightarrow> get_or_create_user_by_oauth cr oauth_has nid ''telegram'' (JStr sub)
                             (JStr (miniapp_name cr d sub)) (dict_get d ''username'') None us)
      | Some _ \<Rightarrow> (Inl (500, ''AttributeError''), us))"

definition bale_miniapp_login ::
  "crypto \<Rightarrow> oauth_test \<Rightarrow> string \<Rightarrow> string \<Rightarrow> string \<Rightarrow> webui_users \<Rightarrow> (string \<times> webui_user) answer \<times> webui_users" where
  "bale_miniapp_login cr oauth_has bot_token nid init_data us =
     (if bot_token = [] then (Inl (503, ''Bale bot token not configured''), us)
      else case verify_init_data cr init_data bot_token of
        None \<Rightarrow> (Inl (401, ''Invalid Bale initData''), us)
      | Some (JDict d) \<Rightarrow>
          (let sub = py_str (shown cr) (dict_get d ''id'') in
           get_or_create_user_by_oauth cr oauth_has nid ''bale'' (JStr sub)
             (JStr (miniapp_name cr d sub)) (dict_get d ''username'') None us)
      | Some _ \<Rightarrow> (Inl (500, ''AttributeError''), us))"

section \<open>A code from the bot\<close>

definition AUTH_CODE_TTL :: int where
  "AUTH_CODE_TTL = 300"

definition auth_code_key :: "string \<Rightarrow> string" where
  "auth_code_key c = ''auth:code:'' @ c"

text \<open>What the bot stores under a code, for the user of its database that it found or made.\<close>

definition login_phone :: "user_preference \<Rightarrow> string" where
  "login_phone u =
     (let phone = strip (str_or (phone_number u) []) in
      if phone = [] \<or> starts_with phone ''+'' then phone
      else str_or (normalize_phone_number (Some phone) ''98'') phone)"

definition login_payload :: "telegram_user \<Rightarrow> user_preference \<Rightarrow> dict" where
  "login_payload who u =
     (let chosen = strip (str_or (preferred_name u) []);
          shown_name = (if chosen \<noteq> [] then chosen
                        else if tu_first_name who \<noteq> [] then tu_first_name who
                        else ''User_'' @ str_int (tu_id who))
      in [(''user_id'', JStr (str_int (tu_id who))), (''provider'', JStr ''bale''),
          (''sub'', JStr (str_int (tu_id who))), (''name'', JStr shown_name),
          (''username'', if tu_username who = [] then JNull else JStr (tu_username who)),
          (''phone'', JStr (login_phone u)),
          (''preferred_name'', if chosen = [] then JNull else JStr chosen)])"

text \<open>The command of the bot; \<open>drawn\<close> is the code. Without a telephone number it asks for one.\<close>

definition cmd_get_login_code ::
  "crypto \<Rightarrow> 'r redis_client \<Rightarrow> int \<Rightarrow> string \<Rightarrow> telegram_user \<Rightarrow> user_preference \<Rightarrow> 'r \<Rightarrow> string option \<times> 'r" where
  "cmd_get_login_code cr R now drawn who u s =
     (if login_phone u = [] then (None, s)
      else (Some drawn, r_setex R now (auth_code_key drawn) AUTH_CODE_TTL (dumps cr (JDict (login_payload who u))) s))"

text \<open>A name that says nothing: none, a number, or the user's telephone.\<close>

definition placeholder_name :: "webui_user \<Rightarrow> string option \<Rightarrow> bool" where
  "placeholder_name u phone \<longleftrightarrow>
     wu_name u = [] \<or> wu_phone u = Some (wu_name u) \<or> phone = Some (wu_name u) \<or>
     starts_with (wu_name u) ''+'' \<or> list_all is_digit (wu_name u)"

text \<open>
  The merge into a user that was found. The new name is a text, as the bot writes it: what the code
  does with a name of another type is not modelled.
\<close>

definition merge_login ::
  "crypto \<Rightarrow> string \<Rightarrow> json \<Rightarrow> string option \<Rightarrow> json \<Rightarrow> string \<times> webui_user \<Rightarrow> webui_users \<Rightarrow> (string \<times> webui_user) \<times> webui_users" where
  "merge_login cr provider sub phone chosen found us =
     (case found of (i, u) \<Rightarrow>
      let us1 = update_user_oauth_by_id i provider (JStr (py_str (shown cr) sub)) us;
          new_phone = (if str_or phone [] \<noteq> [] \<and> str_or (wu_phone u) [] = [] then phone else None);
          new_name = (case chosen of
                        JStr n \<Rightarrow> if placeholder_name u phone \<and> n \<noteq> [] then Some n else None
                      | _ \<Rightarrow> None)
      in if new_phone = None \<and> new_name = None then ((i, u), us1)
         else (let us2 = update_user_by_id i new_phone new_name us1 in
               ((i, case map_of us2 i of None \<Rightarrow> u | Some v \<Rightarrow> v), us2)))"

definition code_phone :: "dict \<Rightarrow> string option" where
  "code_phone d =
     (case dict_get d ''phone'' of
        JStr p \<Rightarrow> (case normalize_iran_phone p of Inr q \<Rightarrow> Some q | Inl _ \<Rightarrow> None)
      | _ \<Rightarrow> None)"

definition code_name :: "dict \<Rightarrow> json" where
  "code_name d = (if truthy (dict_get d ''preferred_name'') then dict_get d ''preferred_name'' else dict_get d ''name'')"

text \<open>The user of a code: by telephone, then by the messenger's id, or a new one.\<close>

definition code_user :: "oauth_test \<Rightarrow> string \<Rightarrow> dict \<Rightarrow> webui_users \<Rightarrow> (string \<times> webui_user) option" where
  "code_user oauth_has provider d us =
     (case (case code_phone d of None \<Rightarrow> None | Some p \<Rightarrow> webui_user_by_phone p us) of
        Some x \<Rightarrow> Some x
      | None \<Rightarrow> get_user_by_oauth_sub oauth_has provider (dict_get d ''sub'') us)"

definition login_by_code ::
  "crypto \<Rightarrow> oauth_test \<Rightarrow> string \<Rightarrow> string \<Rightarrow> dict \<Rightarrow> webui_users \<Rightarrow> (string \<times> webui_user) answer \<times> webui_users" where
  "login_by_code cr oauth_has nid provider d us =
     (let sub = dict_get d ''sub'' in
      case code_user oauth_has provider d us of
        Some found \<Rightarrow> apfst Inr (merge_login cr provider sub (code_phone d) (code_name d) found us)
      | None \<Rightarrow> get_or_create_user_by_oauth cr oauth_has nid provider sub
                  (if truthy (code_name d) then code_name d else JStr (''User_'' @ py_str (shown cr) sub))
                  (dict_get d ''username'') (code_phone d) us)"

definition verify_bot_auth_code ::
  "crypto \<Rightarrow> oauth_test \<Rightarrow> 'r redis_client option \<Rightarrow> int \<Rightarrow> string \<Rightarrow> string \<Rightarrow> string \<Rightarrow> 'r \<times> webui_users \<Rightarrow>
   (string \<times> webui_user) answer \<times> 'r \<times> webui_users" where
  "verify_bot_auth_code cr oauth_has client now nid code_text provider s =
     (case client of
        None \<Rightarrow> (Inl (503, ''Redis not available''), s)
      | Some R \<Rightarrow>
          (let k = auth_code_key (upper (strip code_text)) in
           if provider \<notin> {''telegram'', ''bale''} then (Inl (400, ''Invalid provider''), s)
           else case r_get R now k (fst s) of
             None \<Rightarrow> (Inl (401, ''Invalid or expired auth code''), s)
           | Some stored \<Rightarrow>
               if stored = [] then (Inl (401, ''Invalid or expired auth code''), s)
               else (case loads cr stored of
                       None \<Rightarrow> (Inl (401, ''Invalid auth code data''), s)
                     | Some (JDict d) \<Rightarrow>
                         if dict_get d ''provider'' \<noteq> JStr provider then (Inl (401, ''Provider mismatch''), s)
                         else (case login_by_code cr oauth_has nid provider d (snd s) of
                                 (r, us) \<Rightarrow> (r, r_delete R now [k] (fst s), us))
                     | Some _ \<Rightarrow> (Inl (500, ''AttributeError''), s))))"

section \<open>A store with expiry\<close>

text \<open>Values with the instant they expire at, if any: an implementation of the commands.\<close>

type_synonym ttl_store = "(string \<times> string \<times> int option) list"

definition store_get :: "int \<Rightarrow> string \<Rightarrow> ttl_store \<Rightarrow> string option" where
  "store_get t k s =
     (case map_of s k of
        None \<Rightarrow> None
      | Some (v, e) \<Rightarrow> (case e of None \<Rightarrow> Some v | Some x \<Rightarrow> if t < x then Some v else None))"

definition store_incr :: "int \<Rightarrow> string \<Rightarrow> ttl_store \<Rightarrow> int \<times> ttl_store" where
  "store_incr t k s =
     (case store_get t k s of
        None \<Rightarrow> (1, AList.update k (str_int 1, None) s)
      | Some v \<Rightarrow>
          (case int_of_str v of
             None \<Rightarrow> (0, s)
           | Some n \<Rightarrow> (n + 1, AList.update k (str_int (n + 1), case map_of s k of None \<Rightarrow> None | Some (_, e) \<Rightarrow> e) s)))"

definition store_expire :: "int \<Rightarrow> string \<Rightarrow> int \<Rightarrow> ttl_store \<Rightarrow> ttl_store" where
  "store_expire t k ttl s =
     (case store_get t k s of None \<Rightarrow> s | Some v \<Rightarrow> AList.update k (v, Some (t + ttl)) s)"

definition ttl_client :: "ttl_store redis_client" where
  "ttl_client = \<lparr>r_get = store_get, r_setex = (\<lambda>t k ttl v. AList.update k (v, Some (t + ttl))),
     r_delete = (\<lambda>_ ks. filter (\<lambda>(k, _). k \<notin> set ks)), r_incr = store_incr, r_expire = store_expire\<rparr>"

lemma map_of_without: "map_of (filter (\<lambda>(k, _). k \<notin> K) s) k = (if k \<in> K then None else map_of s k)"
  by (induction s) auto

interpretation ttl: redis_server ttl_client
proof unfold_locales
  fix t t' ttl n :: int and k k' v :: string and ks :: "string list" and s :: ttl_store
  show "r_get ttl_client t' k' (r_delete ttl_client t ks s) = (if k' \<in> set ks then None else r_get ttl_client t' k' s)"
    by (simp add: ttl_client_def store_get_def map_of_without)
  show "r_get ttl_client t' k' (r_setex ttl_client t k ttl v s) =
      (if k' = k then if t' < t + ttl then Some v else None else r_get ttl_client t' k' s)"
    by (simp add: ttl_client_def store_get_def AList.update_conv)
  assume none: "r_get ttl_client t k s = None"
  then show "fst (r_incr ttl_client t k s) = 1"
    "r_get ttl_client t' k (snd (r_incr ttl_client t k s)) = Some (str_int 1)"
    by (simp_all add: ttl_client_def store_incr_def) (simp add: store_get_def AList.update_conv)
next
  fix t t' n :: int and k v :: string and s :: ttl_store
  assume some: "r_get ttl_client t k s = Some (str_int n)" and t: "t \<le> t'"
  show "r_get ttl_client t' k (snd (r_incr ttl_client t k s)) =
      (if r_get ttl_client t' k s = None then None else Some (str_int (n + 1)))"
    using some t by (auto simp: ttl_client_def store_incr_def int_of_str_int)
      (auto simp: store_get_def AList.update_conv split: option.splits if_splits)
next
  fix t t' n :: int and k v :: string and s :: ttl_store
  assume "r_get ttl_client t k s = Some (str_int n)"
  then show "fst (r_incr ttl_client t k s) = n + 1"
    by (simp add: ttl_client_def store_incr_def int_of_str_int)
next
  fix t t' ttl :: int and k k' :: string and s :: ttl_store
  assume t: "t \<le> t'"
  show "r_get ttl_client t' k' (r_expire ttl_client t k ttl s) =
      (if k' = k then if t' < t + ttl then r_get ttl_client t k s else None else r_get ttl_client t' k' s)"
    using t by (auto simp: ttl_client_def store_expire_def)
      (auto simp: store_get_def AList.update_conv split: option.splits if_splits)
  assume "k' \<noteq> k"
  then show "r_get ttl_client t' k' (snd (r_incr ttl_client t k s)) = r_get ttl_client t' k' s"
    by (auto simp: ttl_client_def store_incr_def store_get_def AList.update_conv split: option.splits if_splits)
qed

section \<open>Telephone numbers\<close>

text \<open>Every way of writing a mobile number has the same normal form.\<close>

lemma filter_number: "list_all is_digit ds \<Longrightarrow> filter (\<lambda>c. is_digit c \<or> c = CHR ''+'') ds = ds"
  by (induction ds) auto

lemma strip_number:
  assumes "list_all (\<lambda>c. is_digit c \<or> c = CHR ''+'') ds"
  shows "strip ds = ds"
proof -
  have "\<not> is_space c" if "c \<in> set ds" for c
    using assms that by (auto simp: list_all_iff is_digit_def is_space_def)
  from this [of "hd ds"] this [of "last ds"]
  have "dropWhile is_space ds = ds" "dropWhile is_space (rev ds) = rev ds"
    by (auto simp: dropWhile_eq_self_iff hd_rev)
  then show ?thesis by (simp add: strip_def)
qed

lemma mobile_normal:
  assumes "is_mobile ds" and "pre \<in> {''+98'', ''0098'', ''98'', ''0'', []}"
  shows "normalize_iran_phone (pre @ ds) = Inr (''+98'' @ ds)"
proof -
  have ds: "list_all is_digit ds" "length ds = 10" "hd ds = CHR ''9''" "ds \<noteq> []" using assms(1) by (auto simp: is_mobile_def)
  have p: "list_all (\<lambda>c. is_digit c \<or> c = CHR ''+'') (pre @ ds)"
    using assms(2) ds(1) by (auto simp: list_all_iff is_digit_def)
  then have "filter (\<lambda>c. is_digit c \<or> c = CHR ''+'') (pre @ ds) = pre @ ds" "strip (pre @ ds) = pre @ ds"
    by (simp_all only: strip_number) (simp add: list_all_iff)
  moreover have "without_prefix (pre @ ds) = ds"
    using assms(2) ds(2-4) by (cases ds) (auto simp: without_prefix_def starts_with_def)
  ultimately show ?thesis using assms(1) ds(4) by (simp add: normalize_iran_phone_def Let_def)
qed

lemma normal_phone_is_normal:
  assumes "normalize_iran_phone raw = Inr p"
  shows "normalize_iran_phone p = Inr p"
proof -
  obtain ds where "p = ''+98'' @ ds" "is_mobile ds"
    using assms by (auto simp: normalize_iran_phone_def Let_def split: if_splits)
  then show ?thesis using mobile_normal [of ds "''+98''"] by simp
qed

section \<open>Guesses\<close>

text \<open>
  What Redis knows of a code from an instant on: nothing, or the code until it expires and how many
  guesses were compared with it.
\<close>

definition code_gone :: "'r redis_client \<Rightarrow> string \<Rightarrow> int \<Rightarrow> 'r \<Rightarrow> bool" where
  "code_gone R phone t s \<longleftrightarrow> (\<forall>t'\<ge>t. r_get R t' (otp_key phone) s = None)"

definition code_open :: "'r redis_client \<Rightarrow> string \<Rightarrow> string \<Rightarrow> int \<Rightarrow> nat \<Rightarrow> int \<Rightarrow> 'r \<Rightarrow> bool" where
  "code_open R phone drawn expiry k t s \<longleftrightarrow> k \<le> 5 \<and> expiry \<le> t + OTP_TTL_SECONDS \<and>
     (\<forall>t'\<ge>t. r_get R t' (otp_key phone) s = (if t' < expiry then Some drawn else None)) \<and>
     (if k = 0 then \<forall>t'\<ge>t. r_get R t' (attempts_key phone) s = None
      else \<forall>t'\<ge>t. t' < expiry \<longrightarrow> r_get R t' (attempts_key phone) s = Some (str_int (int k)))"

lemma other_keys [simp]:
  "otp_key p \<noteq> attempts_key q" "attempts_key q \<noteq> otp_key p"
  "cooldown_key p \<noteq> otp_key q" "otp_key q \<noteq> cooldown_key p"
  "cooldown_key p \<noteq> attempts_key q" "attempts_key q \<noteq> cooldown_key p"
  by (simp_all add: otp_key_def attempts_key_def cooldown_key_def)

context redis_server begin

lemma requested:
  assumes "request_otp (Some R) t drawn raw s = (Inr (), s')" and "normalize_iran_phone raw = Inr phone"
  shows "code_open R phone drawn (t + OTP_TTL_SECONDS) 0 t s'"
  using assms by (auto simp: request_otp_def code_open_def get_setex get_delete split: if_splits)

lemma gone_refused:
  assumes "code_gone R phone t s" and "t \<le> now" and "guess \<noteq> MOCK_BYPASS_CODE"
  shows "check_otp R now phone guess s = (Inl (401, ''code expired''), s)"
  using assms by (simp add: check_otp_def code_gone_def)

lemma burnt:
  assumes "otp_key phone \<in> set ks"
  shows "code_gone R phone t (r_delete R t ks s)"
  using assms by (simp add: code_gone_def get_delete)

lemma late_refused:
  assumes "code_open R phone drawn expiry k t s" and "t \<le> now" and "expiry \<le> now" and "guess \<noteq> MOCK_BYPASS_CODE"
  shows "check_otp R now phone guess s = (Inl (401, ''code expired''), s)" and "code_gone R phone now s"
  using assms by (simp_all add: check_otp_def code_open_def code_gone_def)

lemma guess_counted:
  assumes "code_open R phone drawn expiry k t s" and "t \<le> now" and "now < expiry"
    and "r_incr R now (attempts_key phone) s = (n, s1)"
    and "s2 = (if n = 1 then r_expire R now (attempts_key phone) OTP_TTL_SECONDS s1 else s1)"
  shows "n = int k + 1" and "k < 5 \<Longrightarrow> code_open R phone drawn expiry (Suc k) now s2"
proof -
  have at: "r_get R now (attempts_key phone) s = (if k = 0 then None else Some (str_int (int k)))"
    using assms(1-3) by (auto simp: code_open_def)
  note e = arg_cong [OF assms(4), of fst] arg_cong [OF assms(4), of snd]
  show n: "n = int k + 1"
    using at incr_first [of now "attempts_key phone" s] incr_next [of now "attempts_key phone" s "int k"] e(1)
    by (auto split: if_splits)
  have s1: "r_get R t' (otp_key phone) s1 = r_get R t' (otp_key phone) s" if "now \<le> t'" for t'
    using get_incr_other [OF that, of "otp_key phone" "attempts_key phone" s] e(2) by simp
  have a1: "r_get R t' (attempts_key phone) s1 = Some (str_int (int k + 1))" if "now \<le> t'" "t' < expiry" for t'
    using at get_incr_first [OF that(1), of "attempts_key phone" s]
      get_incr_next [OF that(1), of "attempts_key phone" s "int k"] e(2) assms(1,2) that
    by (auto simp: code_open_def split: if_splits)
  show "code_open R phone drawn expiry (Suc k) now s2" if "k < 5"
    using assms(1-3,5) s1 a1 n that by (auto simp: code_open_def get_expire add.commute)
qed

text \<open>One guess: it is accepted exactly when it is right, in time and among the first five.\<close>

lemma guessed:
  assumes "code_open R phone drawn expiry k t s" and "t \<le> now" and "guess \<noteq> MOCK_BYPASS_CODE" and "drawn \<noteq> []"
    and "check_otp R now phone guess s = (r, s')"
  shows "r = Inr () \<longleftrightarrow> k < 5 \<and> now < expiry \<and> guess = drawn"
    and "code_gone R phone now s' \<and> (guess = drawn \<or> 5 \<le> k \<or> expiry \<le> now) \<or>
    guess \<noteq> drawn \<and> k < 5 \<and> now < expiry \<and> code_open R phone drawn expiry (Suc k) now s'"
proof -
  obtain n s1 where i: "r_incr R now (attempts_key phone) s = (n, s1)" by fastforce
  define s2 where "s2 = (if n = 1 then r_expire R now (attempts_key phone) OTP_TTL_SECONDS s1 else s1)"
  have stored: "r_get R now (otp_key phone) s = (if now < expiry then Some drawn else None)"
    using assms(1,2) by (simp add: code_open_def)
  have run: "(r, s') = (if expiry \<le> now then (Inl (401, ''code expired''), s)
      else if 5 < n then (Inl (401, ''no attempts left''), r_delete R now [otp_key phone] s2)
      else if drawn \<noteq> guess then (Inl (401, ''wrong code''), s2)
      else (Inr (), r_delete R now [otp_key phone, attempts_key phone] s2))"
    using assms(3-5) i stored by (auto simp: check_otp_def s2_def MAX_VERIFY_ATTEMPTS_def Let_def)
  have k: "k \<le> 5" using assms(1) by (simp add: code_open_def)
  show "r = Inr () \<longleftrightarrow> k < 5 \<and> now < expiry \<and> guess = drawn"
    using run guess_counted(1) [OF assms(1,2) _ i s2_def] k by (auto split: if_splits)
  show "code_gone R phone now s' \<and> (guess = drawn \<or> 5 \<le> k \<or> expiry \<le> now) \<or>
    guess \<noteq> drawn \<and> k < 5 \<and> now < expiry \<and> code_open R phone drawn expiry (Suc k) now s'"
  proof (cases "expiry \<le> now")
    case True
    with run late_refused(2) [OF assms(1,2) True assms(3)] show ?thesis by simp
  next
    case False
    with run guess_counted [OF assms(1,2) _ i s2_def] k burnt show ?thesis by (auto split: if_splits)
  qed
qed

end

text \<open>A series of logins for one number: the instant, the key a new user would get and the text typed.\<close>

fun logins :: "oauth_test \<Rightarrow> 'r redis_client \<Rightarrow> string \<Rightarrow> (int \<times> string \<times> string) list \<Rightarrow> 'r \<times> webui_users \<Rightarrow> bool list" where
  "logins oauth_has R raw [] s = []"
| "logins oauth_has R raw ((now, nid, c) # cs) s =
     (case verify_otp oauth_has (Some R) now nid raw c s of
        (r, s') \<Rightarrow> (\<not> isl r) # logins oauth_has R raw cs s')"

text \<open>What is guessed: six digits, and not the code that is always accepted.\<close>

definition proper_guess :: "string \<Rightarrow> bool" where
  "proper_guess g \<longleftrightarrow> length g = 6 \<and> list_all is_digit g \<and> g \<noteq> MOCK_BYPASS_CODE"

lemma verify_proper:
  assumes "normalize_iran_phone raw = Inr phone" and "proper_guess (strip c)"
    and "check_otp R now phone (strip c) (fst s) = (r, s')"
  shows "\<exists>us. verify_otp oauth_has (Some R) now nid raw c s =
    (case r of Inl e \<Rightarrow> Inl e | Inr _ \<Rightarrow> Inr (fst (phone_login oauth_has nid phone (snd s))), s', us)"
  using assms by (cases r) (simp_all add: verify_otp_def proper_guess_def Let_def case_prod_beta)

context redis_server begin

lemma none_after:
  assumes "code_gone R phone t (fst s)" and "sorted (t # map fst cs)" and "normalize_iran_phone raw = Inr phone"
    and "\<forall>(_, _, c) \<in> set cs. proper_guess (strip c)" and "i < length cs"
  shows "\<not> logins oauth_has R raw cs s ! i"
  using assms
proof (induction cs arbitrary: s t i)
  case (Cons x cs)
  obtain now nid c where x: "x = (now, nid, c)" by (cases x)
  have proper: "proper_guess (strip c)" using Cons.prems(4) by (simp add: x)
  have "t \<le> now" using Cons.prems(2) by (simp add: x)
  moreover have "strip c \<noteq> MOCK_BYPASS_CODE" using proper by (simp add: proper_guess_def)
  ultimately have "check_otp R now phone (strip c) (fst s) = (Inl (401, ''code expired''), fst s)"
    by (rule gone_refused [OF Cons.prems(1)])
  then obtain us where v: "verify_otp oauth_has (Some R) now nid raw c s = (Inl (401, ''code expired''), fst s, us)"
    using verify_proper [OF Cons.prems(3) proper] by fastforce
  have "code_gone R phone now (fst s)" using Cons.prems(1,2) x by (auto simp: code_gone_def)
  then have "\<not> logins oauth_has R raw cs (fst s, us) ! j" if "j < length cs" for j
    using Cons.IH [of now "(fst s, us)" j] Cons.prems that x by auto
  with Cons.prems(5) v x show ?case by (cases i) auto
qed simp

lemma login_series:
  assumes "code_open R phone drawn expiry k t (fst s)" and "sorted (t # map fst cs)"
    and "normalize_iran_phone raw = Inr phone" and "drawn \<noteq> []"
    and "\<forall>(_, _, c) \<in> set cs. proper_guess (strip c)" and "i < length cs"
  shows "logins oauth_has R raw cs s ! i \<longleftrightarrow>
    k + i < 5 \<and> fst (cs ! i) < expiry \<and> strip (snd (snd (cs ! i))) = drawn \<and>
    (\<forall>j<i. strip (snd (snd (cs ! j))) \<noteq> drawn)"
  using assms
proof (induction cs arbitrary: s t i k)
  case (Cons x cs)
  obtain now nid c where x: "x = (now, nid, c)" by (cases x)
  obtain r s' where chk: "check_otp R now phone (strip c) (fst s) = (r, s')" by fastforce
  have c: "t \<le> now" "proper_guess (strip c)" using Cons.prems(2,5) by (simp_all add: x)
  then have c': "strip c \<noteq> MOCK_BYPASS_CODE" by (simp add: proper_guess_def)
  note g = guessed [OF Cons.prems(1) c(1) c' Cons.prems(4) chk]
  obtain us where v: "verify_otp oauth_has (Some R) now nid raw c s =
      (case r of Inl e \<Rightarrow> Inl e | Inr _ \<Rightarrow> Inr (fst (phone_login oauth_has nid phone (snd s))), s', us)"
    using verify_proper [OF Cons.prems(3) c(2) chk] by blast
  have first: "(\<not> isl (fst (verify_otp oauth_has (Some R) now nid raw c s))) = (r = Inr ())"
    using v by (auto split: sum.splits)
  have later: "sorted (now # map fst cs)" "\<forall>(_, _, c) \<in> set cs. proper_guess (strip c)"
    using Cons.prems(2,5) x by auto
  show ?case
  proof (cases i)
    case 0
    then show ?thesis using first g(1) v x by auto
  next
    case (Suc j)
    then have j: "j < length cs" using Cons.prems(6) by simp
    have split_at: "(\<forall>l<Suc j. P l) \<longleftrightarrow> P 0 \<and> (\<forall>l<j. P (Suc l))" for P by (auto simp: less_Suc_eq_0_disj)
    have here: "logins oauth_has R raw (x # cs) s ! i = logins oauth_has R raw cs (s', us) ! j"
      using v x Suc by simp
    have order: "now \<le> fst (cs ! j)" using later(1) j by simp
    from g(2) show ?thesis
    proof
      assume "code_gone R phone now s' \<and> (strip c = drawn \<or> 5 \<le> k \<or> expiry \<le> now)"
      with none_after [of phone now "(s', us)", OF _ later(1) Cons.prems(3) later(2) j] here order Suc x
      show ?thesis by (auto simp: split_at)
    next
      assume "strip c \<noteq> drawn \<and> k < 5 \<and> now < expiry \<and> code_open R phone drawn expiry (Suc k) now s'"
      with Cons.IH [of "Suc k" now "(s', us)", OF _ later(1) Cons.prems(3,4) later(2) j] here Suc x
      show ?thesis by (auto simp: split_at)
    qed
  qed
qed simp

end

lemma request_phone:
  assumes "request_otp client t drawn raw s = (Inr (), s')"
  shows "\<exists>phone. normalize_iran_phone raw = Inr phone"
  using assms by (simp add: request_otp_def split: sum.splits)


definition no_oauth :: oauth_test where
  "no_oauth _ _ _ = False"

definition six_guesses :: "(int \<times> string \<times> string) list" where
  "six_guesses = map (\<lambda>(t, c). (t, ''n'', c))
     [(10, ''111111''), (11, ''111112''), (12, ''111113''), (13, ''111114''), (14, ''111115''), (15, ''654321'')]"


text \<open>The code that is always accepted lets anyone in as the owner of any number, whatever Redis holds.\<close>

lemma bypass_code_logs_in_anyone:
  assumes "normalize_iran_phone raw = Inr phone"
  shows "fst (verify_otp oauth_has (Some R) now nid raw ''123456'' (s, us)) =
    Inr (fst (phone_login oauth_has nid phone us))"
proof -
  have "strip ''123456'' = MOCK_BYPASS_CODE" "list_all is_digit MOCK_BYPASS_CODE" "length MOCK_BYPASS_CODE = 6" by code_simp+
  with assms show ?thesis by (simp add: verify_otp_def check_otp_def Let_def case_prod_beta)
qed

section \<open>A code of the bot\<close>

lemma payload_fields:
  "dict_get (login_payload who u) ''provider'' = JStr ''bale''"
  "dict_get (login_payload who u) ''sub'' = JStr (str_int (tu_id who))"
  "\<exists>n. code_name (login_payload who u) = JStr n \<and> n \<noteq> []"
  "\<exists>w. dict_get (login_payload who u) ''username'' = (case w of None \<Rightarrow> JNull | Some x \<Rightarrow> JStr x)"
  by (auto simp: login_payload_def dict_get_def code_name_def Let_def intro: exI [of _ None] exI [of _ "Some w" for w])

lemma payload_login:
  "\<exists>user us2. login_by_code cr oauth_has nid ''bale'' (login_payload who u) us = (Inr user, us2) \<and>
    (case code_user oauth_has ''bale'' (login_payload who u) us of
       Some v \<Rightarrow> fst user = fst v | None \<Rightarrow> fst user = nid \<and> us2 = us @ [user])"
proof (cases "code_user oauth_has ''bale'' (login_payload who u) us")
  case None
  then have "get_user_by_oauth_sub oauth_has ''bale'' (dict_get (login_payload who u) ''sub'') us = None"
    by (simp add: code_user_def split: option.splits)
  moreover obtain n w where "code_name (login_payload who u) = JStr n" "n \<noteq> []"
    "dict_get (login_payload who u) ''username'' = (case w of None \<Rightarrow> JNull | Some x \<Rightarrow> JStr x)"
    using payload_fields(3,4) by metis
  ultimately show ?thesis using None
    by (cases w) (simp_all add: login_by_code_def Let_def get_or_create_user_by_oauth_def insert_new_user_def)
next
  case (Some v)
  then show ?thesis
    by (cases v) (simp add: login_by_code_def Let_def merge_login_def apfst_def map_prod_def case_prod_beta)
qed


definition sara :: user_preference where
  "sara = new_user 0 7 (Some ''Sara'') None None (Some ''0912 345 6789'') False"

definition sara_sender :: telegram_user where
  "sara_sender = \<lparr>tu_id = 7, tu_first_name = ''Sara'', tu_username = []\<rparr>"

definition sara_crypto :: crypto where
  "sara_crypto = \<lparr>sha256 = (\<lambda>_. []), hmac_sha256 = (\<lambda>_ _. []), unquote = id,
     loads = (\<lambda>_. Some (JDict (login_payload sara_sender sara))), dumps = (\<lambda>_. ''{}''), shown = (\<lambda>_. [])\<rparr>"


text \<open>The bot writes \<open>bale\<close> whatever messenger it runs on: a code from its Telegram side is refused as one of Telegram.\<close>

lemma telegram_code_refused:
  assumes "redis_server R" and "cmd_get_login_code cr R t0 drawn who u r = (Some drawn, r1)"
    and "dumps cr (JDict (login_payload who u)) \<noteq> []"
    and "loads cr (dumps cr (JDict (login_payload who u))) = Some (JDict (login_payload who u))"
    and "upper (strip typed) = drawn" and "t0 \<le> t" and "t < t0 + AUTH_CODE_TTL"
  shows "verify_bot_auth_code cr oauth_has (Some R) t nid typed ''telegram'' (r1, us) =
    (Inl (401, ''Provider mismatch''), r1, us)"
proof -
  have "r1 = r_setex R t0 (auth_code_key drawn) AUTH_CODE_TTL (dumps cr (JDict (login_payload who u))) r"
    using assms(2) by (simp add: cmd_get_login_code_def split: if_splits)
  then have "r_get R t (auth_code_key drawn) r1 = Some (dumps cr (JDict (login_payload who u)))"
    using redis_server.get_setex [OF assms(1,6)] assms(7) by simp
  with assms(3-5) payload_fields(1) show ?thesis by (simp add: verify_bot_auth_code_def Let_def)
qed

section \<open>The order of signed fields\<close>

lemma parsed_distinct:
  "distinct (map fst fs) \<Longrightarrow> fst ` set fs \<inter> fst ` set acc = {} \<Longrightarrow>
   fold (\<lambda>(k, v). AList.update k v) fs acc = acc @ fs"
proof (induction fs arbitrary: acc)
  case (Cons x fs)
  obtain k v where x: "x = (k, v)" by fastforce
  have "AList.update k v acc = acc @ [(k, v)]" if "k \<notin> fst ` set acc"
    using that by (induction acc) auto
  with Cons x show ?case by auto
qed simp

lemma code_points_inject [simp]: "code_points a = code_points b \<longleftrightarrow> a = b"
  by (auto simp: code_points_def inj_map_eq_map [OF inj_of_char])

lemma sort_distinct_unique:
  fixes xs ys :: "(string \<times> string) list"
  assumes "distinct (map fst xs)" and "distinct (map fst ys)" and "set xs = set ys"
  shows "sort_key (\<lambda>(k, _). code_points k) xs = sort_key (\<lambda>(k, _). code_points k) ys"
proof (rule map_sorted_distinct_set_unique [where f = "\<lambda>(k, _). code_points k"])
  have d: "distinct (map (\<lambda>(k, _). code_points k) zs)" if "distinct (map fst zs)" for zs :: "(string \<times> string) list"
    using that by (auto simp: distinct_map inj_on_def) (metis fst_conv snd_conv)
  have "mset (map f (sort_key g zs)) = mset (map f zs)" for f g and zs :: "(string \<times> string) list" by simp
  then have s: "distinct (map f (sort_key g zs)) = distinct (map f zs)" for f g and zs :: "(string \<times> string) list"
    by (rule mset_eq_imp_distinct_iff)
  show "distinct (map (\<lambda>(k, _). code_points k) (sort_key (\<lambda>(k, _). code_points k) xs))"
    "distinct (map (\<lambda>(k, _). code_points k) (sort_key (\<lambda>(k, _). code_points k) ys))"
    unfolding s by (fact d [OF assms(1)], fact d [OF assms(2)])
  show "inj_on (\<lambda>(k, _). code_points k) (set (sort_key (\<lambda>(k, _). code_points k) xs) \<union>
      set (sort_key (\<lambda>(k, _). code_points k) ys))"
    using assms(1,3) by (auto simp: distinct_map inj_on_def) (metis fst_conv snd_conv)
qed (simp_all add: assms(3) sorted_sort_key)

text \<open>The verdict on signed data does not depend on the order in which the fields are sent.\<close>

lemma field_order_irrelevant:
  assumes "mset (init_fields a) = mset (init_fields b)" and "distinct (map fst (init_fields a))"
  shows "verify_init_data cr a bot_token = verify_init_data cr b bot_token"
proof -
  have db: "distinct (map fst (init_fields b))"
    using assms by (metis mset_eq_imp_distinct_iff mset_map)
  have p: "parsed_fields a = init_fields a" "parsed_fields b = init_fields b"
    using parsed_distinct [of _ "[]"] assms(2) db by (simp_all add: parsed_fields_def)
  define P where "P = (\<lambda>(k, v :: string). k \<noteq> ''hash'' \<and> k \<noteq> ''signature'')"
  have look: "map_of (filter Q (init_fields a)) k = map_of (filter Q (init_fields b)) k" for Q k
    using map_of_inject_set [of "filter Q (init_fields a)" "filter Q (init_fields b)"] assms(2) db
      mset_eq_setD [OF assms(1)] by (simp add: distinct_map_filter)
  have "check_string (filter P (init_fields a)) = check_string (filter P (init_fields b))"
    using mset_eq_setD [OF assms(1)] sort_distinct_unique [of "filter P (init_fields a)" "filter P (init_fields b)"]
    by (simp add: check_string_def assms(2) db distinct_map_filter)
  note same = this look
  have "map_of (init_fields a) k = map_of (init_fields b) k" for k using look [of "\<lambda>_. True"] by simp
  then show ?thesis unfolding verify_init_data_def P_def [symmetric] p Let_def same by simp
qed

end
