(* ===== verification/Codex_Usage.thy ===== *)
theory Codex_Usage
  imports Json_Values Tool_Requests "HOL-Library.Sublist" "HOL-Library.Multiset"
begin

text \<open>
  What the platform reads and keeps of a run of the Codex command line (\<open>services/codex_runtime.py\<close>):
  its arguments and environment, its output, its status text, the token counters of an account and
  the tokens that are billed. The process itself (its return code and what it printed), \<open>json.loads\<close>,
  \<open>str\<close> of a container and the clock's text are arguments; texts are ASCII. Codex prints objects
  whose \<open>type\<close> is a text.
\<close>

section \<open>Arguments and environment\<close>

definition OPENAI_COMPATIBLE_PROVIDER_KIND :: string where
  "OPENAI_COMPATIBLE_PROVIDER_KIND = ''openai_compatible''"

definition CODEX_SUBSCRIPTION_PROVIDER_KIND :: string where
  "CODEX_SUBSCRIPTION_PROVIDER_KIND = ''codex_subscription''"

definition normalize_provider_kind :: "string option \<Rightarrow> string" where
  "normalize_provider_kind kind_text =
     (let kind = lower (strip (str_or kind_text OPENAI_COMPATIBLE_PROVIDER_KIND)) in
      if kind \<in> {''openai-compatible'', ''openai compatible'', ''openai''} then OPENAI_COMPATIBLE_PROVIDER_KIND
      else if kind \<in> {''codex'', ''openai_codex'', ''openai-codex''} then CODEX_SUBSCRIPTION_PROVIDER_KIND
      else if kind = [] then OPENAI_COMPATIBLE_PROVIDER_KIND else kind)"

text \<open>The part of a folder's name that comes from the account: \<open>re.sub\<close>, then \<open>strip\<close>.\<close>

definition is_letter :: "char \<Rightarrow> bool" where
  "is_letter c \<longleftrightarrow> (let n = (of_char c :: nat) in 65 \<le> n \<and> n \<le> 90 \<or> 97 \<le> n \<and> n \<le> 122)"

definition name_char :: "char \<Rightarrow> bool" where
  "name_char c \<longleftrightarrow> is_letter c \<or> is_digit c \<or> c \<in> {CHR ''_'', CHR ''.'', CHR ''-''}"

fun underscored :: "bool \<Rightarrow> string \<Rightarrow> string" where
  "underscored in_run [] = []"
| "underscored in_run (c # cs) =
     (if name_char c then c # underscored False cs
      else if in_run then underscored True cs else CHR ''_'' # underscored True cs)"

definition strip_dots :: "string \<Rightarrow> string" where
  "strip_dots s = (let f = dropWhile (\<lambda>c. c = CHR ''.'' \<or> c = CHR ''_'') in rev (f (rev (f s))))"

definition safe_suffix :: "string \<Rightarrow> string \<Rightarrow> string" where
  "safe_suffix fresh s = (let r = strip_dots (underscored False s) in if r = [] then fresh else r)"

definition ALLOWED_ENV :: "string list" where
  "ALLOWED_ENV = [''PATH'', ''LANG'', ''LC_ALL'', ''LC_CTYPE'', ''SSL_CERT_FILE'', ''SSL_CERT_DIR'',
     ''REQUESTS_CA_BUNDLE'', ''USER'', ''USERNAME'']"

definition build_codex_process_env :: "string \<Rightarrow> (string \<times> string) list \<Rightarrow> string \<Rightarrow> (string \<times> string) list" where
  "build_codex_process_env defpath environ codex_home =
     (let env = filter (\<lambda>(k, v). k \<in> set ALLOWED_ENV \<and> v \<noteq> []) environ in
      AList.update ''HOME'' codex_home (AList.update ''CODEX_HOME'' codex_home
        (AList.update ''PATH'' (str_or (map_of env ''PATH'') defpath) env)))"

definition build_codex_exec_argv :: "string \<Rightarrow> string option \<Rightarrow> string list \<Rightarrow> string list" where
  "build_codex_exec_argv model_id thread image_files =
     [''codex'', ''--ask-for-approval'', ''never'', ''--search''] @
     (if str_or thread [] \<noteq> []
      then [''exec'', ''resume'', ''--json'', ''--model'', model_id, ''--skip-git-repo-check'', ''--ignore-rules'',
            str_or thread [], ''-'']
      else [''exec'', ''--json'', ''--model'', model_id, ''--sandbox'', ''workspace-write'', ''--skip-git-repo-check'',
            ''--ignore-rules'', ''-'']) @
     concat (map (\<lambda>f. [''--image'', f]) image_files)"

section \<open>The prompt\<close>

text \<open>The parts of a message that is a list; the counter is the number of images so far.\<close>

fun prompt_parts :: "(json \<Rightarrow> string) \<Rightarrow> nat \<Rightarrow> json list \<Rightarrow> string list \<times> nat" where
  "prompt_parts shw n [] = ([], n)"
| "prompt_parts shw n (JDict d # js) =
     (if dict_get d ''type'' = JStr ''text''
      then (case prompt_parts shw n js of (ps, k) \<Rightarrow> (py_str_or_empty shw (dict_get d ''text'') # ps, k))
      else if dict_get d ''type'' = JStr ''image_url''
      then (case prompt_parts shw (Suc n) js of (ps, k) \<Rightarrow> ((''[Image '' @ str_int (int (Suc n)) @ '']'') # ps, k))
      else prompt_parts shw n js)"
| "prompt_parts shw n (_ # js) = prompt_parts shw n js"

fun prompt_of :: "(json \<Rightarrow> string) \<Rightarrow> (json \<Rightarrow> string) \<Rightarrow> nat \<Rightarrow> dict list \<Rightarrow> string list" where
  "prompt_of shw dumped n [] = []"
| "prompt_of shw dumped n (m # ms) =
     (let role = (if truthy (dict_get m ''role'') then py_str shw (dict_get m ''role'') else ''user'');
          (content, k) = (case dict_get m ''content'' of
             JStr s \<Rightarrow> (s, n)
           | JList js \<Rightarrow> (case prompt_parts shw n js of (ps, k) \<Rightarrow> (join_with [CHR 0x0A] (filter (\<lambda>p. p \<noteq> []) ps), k))
           | j \<Rightarrow> (dumped j, n))
      in if strip content = [] then prompt_of shw dumped k ms
         else (role @ '':'' @ [CHR 0x0A] @ strip content) # prompt_of shw dumped k ms)"

definition messages_to_codex_prompt :: "(json \<Rightarrow> string) \<Rightarrow> (json \<Rightarrow> string) \<Rightarrow> dict list \<Rightarrow> string" where
  "messages_to_codex_prompt shw dumped ms = strip (join_with [CHR 0x0A, CHR 0x0A] (prompt_of shw dumped 0 ms))"

section \<open>The output\<close>

definition is_line_break :: "char \<Rightarrow> bool" where
  "is_line_break c \<longleftrightarrow> c \<in> set [CHR 0x0A, CHR 0x0B, CHR 0x0C, CHR 0x0D, CHR 0x1C, CHR 0x1D, CHR 0x1E]"

text \<open>\<open>s.splitlines()\<close>: a carriage return and a line feed are one break, and none at the end opens a line.\<close>

fun lines_from :: "string \<Rightarrow> string \<Rightarrow> string list" where
  "lines_from acc [] = (if acc = [] then [] else [rev acc])"
| "lines_from acc (c # cs) =
     (if \<not> is_line_break c then lines_from (c # acc) cs
      else rev acc # lines_from [] (if c = CHR 0x0D \<and> cs \<noteq> [] \<and> hd cs = CHR 0x0A then tl cs else cs))"

definition splitlines :: "string \<Rightarrow> string list" where
  "splitlines s = lines_from [] s"

text \<open>A line that starts with a brace and is JSON is an event; every other line is passed over.\<close>

definition event_of_line :: "(string \<Rightarrow> json option) \<Rightarrow> string \<Rightarrow> dict option" where
  "event_of_line load line =
     (if starts_with (strip line) ''{''
      then (case load (strip line) of Some (JDict d) \<Rightarrow> Some d | _ \<Rightarrow> None) else None)"

definition events_of :: "(string \<Rightarrow> json option) \<Rightarrow> string \<Rightarrow> dict list" where
  "events_of load out = List.map_filter (event_of_line load) (splitlines out)"

definition extract_thread_id :: "(string \<Rightarrow> json option) \<Rightarrow> string \<Rightarrow> json" where
  "extract_thread_id load out =
     (case filter (\<lambda>e. dict_get e ''type'' = JStr ''thread.started'') (events_of load out) of
        [] \<Rightarrow> JNull
      | e # _ \<Rightarrow> dict_get e ''thread_id'')"

definition json_or :: "json \<Rightarrow> json \<Rightarrow> json" where
  "json_or a b = (if truthy a then a else b)"

text \<open>\<open>content\<close> or \<open>text\<close>, where it is a text that is not blank.\<close>

definition content_of :: "dict \<Rightarrow> string option" where
  "content_of d =
     (case json_or (dict_get d ''content'') (dict_get d ''text'') of
        JStr s \<Rightarrow> if strip s = [] then None else Some (strip s)
      | _ \<Rightarrow> None)"

definition is_message :: "dict \<Rightarrow> bool" where
  "is_message d \<longleftrightarrow> dict_get d ''type'' \<in> {JStr ''agent_message'', JStr ''message''}"

definition event_message :: "dict \<Rightarrow> string \<Rightarrow> string" where
  "event_message e last_message =
     (let keep = (\<lambda>m prev. case m of None \<Rightarrow> prev | Some s \<Rightarrow> s);
          inner = (case json_or (dict_get e ''message'') (json_or (dict_get e ''msg'') (JDict [])) of
                     JDict m \<Rightarrow> content_of m | _ \<Rightarrow> None);
          own = (if is_message e then content_of e else None);
          item = (case dict_get e ''item'' of
                    JDict i \<Rightarrow> if dict_get e ''type'' = JStr ''item.completed'' \<and> is_message i then content_of i else None
                  | _ \<Rightarrow> None)
      in keep item (keep own (keep inner last_message)))"

definition extract_last_message :: "(string \<Rightarrow> json option) \<Rightarrow> string \<Rightarrow> string" where
  "extract_last_message load out = fold event_message (events_of load out) []"

text \<open>\<open>int(value or 0)\<close>, and 0 where it raises.\<close>

definition coerce_tokens :: "json \<Rightarrow> int" where
  "coerce_tokens j = (case int_or_zero j of Inl _ \<Rightarrow> 0 | Inr n \<Rightarrow> n)"

definition TOKEN_KEYS :: "string list" where
  "TOKEN_KEYS = [''input_tokens'', ''cached_input_tokens'', ''output_tokens'', ''reasoning_output_tokens'', ''total_tokens'']"

definition event_usage :: "dict \<Rightarrow> dict \<Rightarrow> dict" where
  "event_usage e usage =
     (case dict_get e ''usage'' of
        JDict u \<Rightarrow>
          if dict_get e ''type'' = JStr ''turn.completed''
          then map (\<lambda>k. (k, JInt (coerce_tokens (dict_get u k)))) (butlast TOKEN_KEYS) @
               [(''total_tokens'', JInt (coerce_tokens (dict_get u ''input_tokens'') +
                                          coerce_tokens (dict_get u ''output_tokens'')))]
          else usage
      | _ \<Rightarrow> usage)"

definition extract_usage :: "(string \<Rightarrow> json option) \<Rightarrow> string \<Rightarrow> dict" where
  "extract_usage load out = fold event_usage (events_of load out) []"

text \<open>The end of a run: the error it raises, or what it answers.\<close>

record codex_run =
  run_content :: string
  run_usage :: dict
  run_thread :: json

definition run_codex_exec ::
  "(string \<Rightarrow> json option) \<Rightarrow> string option \<Rightarrow> int \<Rightarrow> string \<Rightarrow> string \<Rightarrow> string + codex_run" where
  "run_codex_exec load thread returncode out err =
     (if returncode \<noteq> 0
      then Inl (take 1000 (strip (if err \<noteq> [] then err else if out \<noteq> [] then out
             else ''Codex CLI exited with status '' @ str_int returncode)))
      else Inr \<lparr>run_content = (let m = extract_last_message load out in if m = [] then strip out else m),
             run_usage = extract_usage load out,
             run_thread = json_or (extract_thread_id load out) (json_text_option thread)\<rparr>)"

definition check_codex_login_status :: "int \<Rightarrow> string \<Rightarrow> string \<Rightarrow> bool \<times> string" where
  "check_codex_login_status returncode out err =
     (let combined = lower (out @ [CHR 0x0A] @ err);
          ok = (returncode = 0 \<and> list_ex (contains_text combined) [''logged in'', ''authenticated'', ''chatgpt''])
      in (ok, if ok then ''authenticated'' else ''pending''))"

section \<open>The status text\<close>

text \<open>
  \<open>re.sub\<close> with one of the patterns: at a place where it matches, the part to keep and the length of
  the match. All parts of the patterns but their optional ones are disjoint, so nothing is tried twice.
\<close>

definition key_char :: "char \<Rightarrow> bool" where
  "key_char c \<longleftrightarrow> is_letter c \<or> is_digit c \<or> c = CHR ''_'' \<or> c = CHR ''-''"

definition match_key :: "string \<Rightarrow> (string \<times> nat) option" where
  "match_key s =
     (let run = takeWhile key_char (drop 3 s) in
      if lower (take 3 s) = ''sk-'' \<and> 20 \<le> length run then Some ([], 3 + length run) else None)"

definition token_char :: "char \<Rightarrow> bool" where
  "token_char c \<longleftrightarrow> key_char c \<or> c = CHR ''.''"

definition past_word :: "string \<Rightarrow> string \<Rightarrow> string option" where
  "past_word w s = (if lower (take (length w) s) = w then Some (drop (length w) s) else None)"

definition match_named :: "string \<Rightarrow> string \<Rightarrow> string \<Rightarrow> (string \<times> nat) option" where
  "match_named w1 w2 s =
     (case past_word w1 s of
        None \<Rightarrow> None
      | Some a \<Rightarrow>
          (case past_word w2 (if a \<noteq> [] \<and> hd a \<in> {CHR ''_'', CHR '' '', CHR ''-''} then tl a else a) of
             None \<Rightarrow> None
           | Some b \<Rightarrow>
               (case dropWhile is_space b of
                  [] \<Rightarrow> None
                | c # rest \<Rightarrow>
                    let secret = dropWhile is_space rest; run = takeWhile token_char secret;
                        kept = take (length s - length secret) s
                    in if c \<in> {CHR '':'', CHR ''=''} \<and> 20 \<le> length run
                       then Some (kept, length kept + length run) else None)))"

fun redact :: "(string \<Rightarrow> (string \<times> nat) option) \<Rightarrow> string \<Rightarrow> string" where
  "redact m [] = []"
| "redact m (c # cs) =
     (case m (c # cs) of
        None \<Rightarrow> c # redact m cs
      | Some (kept, n) \<Rightarrow> kept @ ''[redacted]'' @ redact m (drop (n - 1) cs))"

definition STATUS_PATTERNS :: "(string \<Rightarrow> (string \<times> nat) option) list" where
  "STATUS_PATTERNS = [match_key, match_named ''access'' ''token'', match_named ''refresh'' ''token'', match_named ''api'' ''key'']"

definition sanitize_codex_limit_status_text :: "string option \<Rightarrow> nat \<Rightarrow> string" where
  "sanitize_codex_limit_status_text status_text max_chars =
     (let sanitized = strip (fold redact STATUS_PATTERNS (str_or status_text [])) in
      if max_chars < length sanitized
      then rstrip (take (max_chars - 20) sanitized) @ [CHR 0x0A] @ ''...[truncated]''
      else sanitized)"

text \<open>The status of an account, from what the status command printed.\<close>

record codex_status =
  cs_status_text :: string
  cs_usage :: dict
  cs_returncode :: int
  cs_stderr :: string

definition refresh_codex_limit_status :: "(string \<Rightarrow> json option) \<Rightarrow> int \<Rightarrow> string \<Rightarrow> string \<Rightarrow> codex_status" where
  "refresh_codex_limit_status load returncode out err =
     (let m = extract_last_message load out;
          raw_text = (if m \<noteq> [] then m else if strip out \<noteq> [] then strip out else strip err)
      in \<lparr>cs_status_text = sanitize_codex_limit_status_text (Some raw_text) 4000, cs_usage = extract_usage load out,
          cs_returncode = returncode, cs_stderr = sanitize_codex_limit_status_text (Some err) 1000\<rparr>)"

section \<open>The counters of an account\<close>

text \<open>\<open>dict(x or {})\<close>; a list of pairs, which Python takes too, is an error here.\<close>

definition copy_dict :: "json \<Rightarrow> py_error + dict" where
  "copy_dict j = (if \<not> truthy j then Inr [] else case j of JDict d \<Rightarrow> Inr d | _ \<Rightarrow> Inl TypeError)"

definition bump :: "string \<Rightarrow> int \<Rightarrow> dict \<Rightarrow> dict" where
  "bump k n d = AList.update k (JInt (coerce_tokens (dict_get d k) + n)) d"

definition counted :: "dict \<Rightarrow> dict \<Rightarrow> dict" where
  "counted usage_of_run d =
     fold (\<lambda>k. bump k (coerce_tokens (dict_get usage_of_run k))) TOKEN_KEYS (bump ''request_count'' 1 d)"

definition merge_codex_usage_metadata :: "string \<Rightarrow> dict \<Rightarrow> dict \<Rightarrow> string \<Rightarrow> py_error + dict" where
  "merge_codex_usage_metadata stamp metadata usage_of_run model_id =
     (case copy_dict (dict_get metadata ''usage'') of
        Inl e \<Rightarrow> Inl e
      | Inr usage \<Rightarrow>
          (case copy_dict (dict_get usage ''by_model'') of
             Inl e \<Rightarrow> Inl e
           | Inr by_model \<Rightarrow>
               (case copy_dict (dict_get by_model model_id) of
                  Inl e \<Rightarrow> Inl e
                | Inr model_usage \<Rightarrow>
                    let last_run = [(''model'', JStr model_id), (''at'', JStr stamp)] @
                          map (\<lambda>k. (k, JInt (coerce_tokens (dict_get usage_of_run k)))) TOKEN_KEYS
                    in Inr (AList.update ''usage''
                         (JDict (AList.update ''by_model''
                            (JDict (AList.update model_id (JDict (counted usage_of_run model_usage)) by_model))
                            (AList.update ''last_run'' (JDict last_run) (counted usage_of_run usage)))) metadata))))"

section \<open>The tokens that are billed\<close>

record provider_usage =
  pu_input :: int
  pu_cached :: int
  pu_output :: int
  pu_reasoning :: int
  pu_total :: int

record billable_usage =
  bu_input :: int
  bu_output :: int
  bu_source :: string
  bu_provider :: "provider_usage option"

definition field_or :: "dict \<Rightarrow> string \<Rightarrow> string \<Rightarrow> json" where
  "field_or d a b = (if dict_get d a \<noteq> JNull then dict_get d a else dict_get d b)"

definition log_input :: "dict \<Rightarrow> int" where
  "log_input d = coerce_tokens (field_or d ''input_tokens'' ''prompt_tokens'')"

definition log_output :: "dict \<Rightarrow> int" where
  "log_output d = coerce_tokens (field_or d ''output_tokens'' ''completion_tokens'')"

text \<open>The sums so far: of the command line, and the input and output of everything else.\<close>

definition add_log :: "json \<Rightarrow> provider_usage option \<times> int \<times> int \<Rightarrow> provider_usage option \<times> int \<times> int" where
  "add_log j acc =
     (case (j, acc) of
        (JDict d, seen, other_in, other_out) \<Rightarrow>
          if dict_get d ''usage_source'' = JStr ''codex_cli''
          then (let p = (case seen of None \<Rightarrow> \<lparr>pu_input = 0, pu_cached = 0, pu_output = 0, pu_reasoning = 0, pu_total = 0\<rparr>
                                    | Some p \<Rightarrow> p);
                    total = coerce_tokens (dict_get d ''total_tokens'')
                in (Some \<lparr>pu_input = pu_input p + log_input d,
                      pu_cached = pu_cached p + coerce_tokens (dict_get d ''cached_input_tokens''),
                      pu_output = pu_output p + log_output d,
                      pu_reasoning = pu_reasoning p + coerce_tokens (dict_get d ''reasoning_output_tokens''),
                      pu_total = pu_total p + (if total = 0 then log_input d + log_output d else total)\<rparr>,
                    other_in, other_out))
          else (seen, other_in + log_input d, other_out + log_output d)
      | _ \<Rightarrow> acc)"

definition calculate_codex_billable_usage :: "json list \<Rightarrow> json \<Rightarrow> json \<Rightarrow> billable_usage" where
  "calculate_codex_billable_usage usage_logs estimated_input default_output =
     (case fold add_log usage_logs (None, 0, 0) of
        (None, other_in, other_out) \<Rightarrow>
          \<lparr>bu_input = max 0 (coerce_tokens estimated_input) + other_in, bu_output = coerce_tokens default_output + other_out,
           bu_source = ''estimated'', bu_provider = None\<rparr>
      | (Some p, other_in, other_out) \<Rightarrow>
          \<lparr>bu_input = min (pu_input p) (max 0 (coerce_tokens estimated_input)) + other_in,
           bu_output = (if pu_output p = 0 then coerce_tokens default_output else pu_output p) + other_out,
           bu_source = ''codex_cli_billable_app_input'', bu_provider = Some p\<rparr>)"

section \<open>No key is shown\<close>

definition keeps_a_prefix :: "(string \<Rightarrow> (string \<times> nat) option) \<Rightarrow> bool" where
  "keeps_a_prefix m \<longleftrightarrow> (\<forall>s kept n. m s = Some (kept, n) \<longrightarrow> prefix kept s)"

lemma patterns_keep_a_prefix: "m \<in> set STATUS_PATTERNS \<Longrightarrow> keeps_a_prefix m"
  by (auto simp: STATUS_PATTERNS_def keeps_a_prefix_def match_key_def match_named_def Let_def take_is_prefix
      split: if_splits option.splits list.splits)

lemma prefix_redact:
  assumes "prefix mid (redact m s)" and "CHR ''['' \<notin> set mid" and "keeps_a_prefix m"
  shows "prefix mid s"
  using assms
proof (induction m s arbitrary: mid rule: redact.induct)
  case (2 m c cs)
  show ?case
  proof (cases "m (c # cs)")
    case None
    with 2 show ?thesis by (cases mid) auto
  next
    case (Some r)
    obtain kept n where r: "r = (kept, n)" by fastforce
    have "prefix mid (kept @ ''[redacted]'' @ redact m (drop (n - 1) cs))" using 2(3) Some r by simp
    then have "prefix mid kept" using 2(4) by (auto simp: prefix_append prefix_Cons)
    moreover have "prefix kept (c # cs)" using 2(5) Some r by (simp add: keeps_a_prefix_def)
    ultimately show ?thesis by (rule prefix_order.trans)
  qed
qed simp

lemma sublist_without:
  assumes "sublist mid (xs @ c # ys)" and "c \<notin> set mid"
  shows "sublist mid xs \<or> sublist mid ys"
  using assms by (auto simp: sublist_append sublist_Cons_right prefix_Cons)

lemma sublist_redact:
  assumes "sublist mid (redact m s)" and "keeps_a_prefix m" and "CHR ''['' \<notin> set mid" "CHR '']'' \<notin> set mid"
    and "8 < length mid"
  shows "sublist mid s"
  using assms
proof (induction m s rule: redact.induct)
  case (2 m c cs)
  show ?case
  proof (cases "m (c # cs)")
    case None
    then have "prefix mid (c # redact m cs) \<or> sublist mid (redact m cs)" using 2(3) by (simp add: sublist_Cons_right)
    then show ?thesis
    proof
      assume "prefix mid (c # redact m cs)"
      then have "prefix mid (redact m (c # cs))" using None by simp
      from prefix_redact [OF this 2(5,4)] show ?thesis by (rule prefix_imp_sublist)
    next
      assume "sublist mid (redact m cs)"
      from 2(1) [OF None this 2(4-7)] show ?thesis by (simp add: sublist_Cons_right)
    qed
  next
    case (Some r)
    obtain kept n where r: "r = (kept, n)" by fastforce
    have "sublist mid (kept @ CHR ''['' # ''redacted'' @ CHR '']'' # redact m (drop (n - 1) cs))"
      using 2(3) Some r by simp
    then have "sublist mid kept \<or> sublist mid ''redacted'' \<or> sublist mid (redact m (drop (n - 1) cs))"
      using sublist_without 2(5,6) by metis
    moreover have "\<not> sublist mid ''redacted''" using sublist_length_le [of mid "''redacted''"] 2(7) by auto
    moreover have "sublist kept (c # cs)" using 2(4) Some r by (auto simp: keeps_a_prefix_def intro: prefix_imp_sublist)
    moreover have "sublist mid (drop (n - 1) cs)" if "sublist mid (redact m (drop (n - 1) cs))"
      using 2(2) [OF Some r [symmetric] that 2(4-7)] .
    moreover have "sublist (drop (n - 1) cs) (c # cs)"
      by (metis append_Cons append_Nil append_take_drop_id sublist_Cons_right sublist_append_leftI)
    ultimately show ?thesis using sublist_order.order.trans by metis
  qed
qed simp

text \<open>A key: the prefix in any case and twenty characters.\<close>

definition is_key :: "string \<Rightarrow> bool" where
  "is_key s \<longleftrightarrow> list_all key_char s \<and> lower (take 3 s) = ''sk-'' \<and> 23 \<le> length s"

lemma key_has_no_bracket: "is_key s \<Longrightarrow> CHR ''['' \<notin> set s \<and> CHR '']'' \<notin> set s \<and> CHR 0x0A \<notin> set s \<and> 8 < length s"
  by (auto simp: is_key_def list_all_iff key_char_def is_letter_def is_digit_def Let_def)

lemma key_is_matched: "is_key mid \<Longrightarrow> prefix mid s \<Longrightarrow> match_key s \<noteq> None"
proof -
  assume mid: "is_key mid" and "prefix mid s"
  then obtain t where s: "s = mid @ t" by (auto simp: prefix_def)
  have "list_all key_char (drop 3 mid)" using mid by (auto simp: is_key_def list_all_iff dest: in_set_dropD)
  then have "takeWhile key_char (drop 3 mid @ t) = drop 3 mid @ takeWhile key_char t"
    by (simp add: list_all_iff)
  then have "20 \<le> length (takeWhile key_char (drop 3 s))" using mid by (auto simp: s is_key_def)
  with mid show "match_key s \<noteq> None" by (simp add: s match_key_def is_key_def)
qed

lemma redact_key_free: "is_key mid \<Longrightarrow> \<not> sublist mid (redact match_key s)"
proof (induction match_key s rule: redact.induct)
  case (2 c cs)
  note br = key_has_no_bracket [OF 2(3)]
  show ?case
  proof (cases "match_key (c # cs)")
    case None
    have "\<not> prefix mid (redact match_key (c # cs))"
      using prefix_redact [of mid match_key "c # cs"] patterns_keep_a_prefix [of match_key] br
        key_is_matched [OF 2(3), of "c # cs"] None by (auto simp: STATUS_PATTERNS_def)
    with 2(1) [OF None 2(3)] None show ?thesis by (simp add: sublist_Cons_right)
  next
    case (Some r)
    obtain n where r: "r = ([], n)" using Some by (auto simp: match_key_def Let_def split: if_splits)
    have "\<not> sublist mid ''redacted''" using sublist_length_le [of mid "''redacted''"] br by auto
    moreover have "\<not> sublist mid (redact match_key (drop (n - 1) cs))" using 2(2) [OF Some r [symmetric] 2(3)] .
    ultimately have "\<not> sublist mid ([] @ CHR ''['' # ''redacted'' @ CHR '']'' # redact match_key (drop (n - 1) cs))"
      using sublist_without br by (metis sublist_Nil_right list.size(3) not_less_zero)
    with Some r show ?thesis by simp
  qed
qed (auto simp: is_key_def)

lemma rstrip_sublist: "sublist (rstrip s) s" and strip_sublist: "sublist (strip s) s"
proof -
  have r: "prefix (rev (dropWhile is_space (rev t))) t" for t
    using suffix_dropWhile [of is_space "rev t"] by (simp add: suffix_to_prefix)
  then show "sublist (rstrip s) s" by (simp add: rstrip_def prefix_imp_sublist)
  have "sublist (dropWhile is_space s) s" by (simp add: suffix_dropWhile suffix_imp_sublist)
  with prefix_imp_sublist [OF r] show "sublist (strip s) s" unfolding strip_def by (rule sublist_order.order.trans)
qed

text \<open>
  C39. No key is shown: whatever Codex prints, and however it is cut, the status text that is stored
  holds no text of the form of a key.
\<close>

theorem no_key_is_shown:
  assumes "sublist mid (sanitize_codex_limit_status_text status_text max_chars)"
  shows "\<not> is_key mid"
proof
  assume mid: "is_key mid"
  note br = key_has_no_bracket [OF mid]
  have pass: "sublist mid s" if "sublist mid (fold redact ms s)" "set ms \<subseteq> set STATUS_PATTERNS" for ms s
    using that
  proof (induction ms arbitrary: s)
    case (Cons m ms)
    then show ?case using sublist_redact [of mid m s] patterns_keep_a_prefix [of m] br by auto
  qed simp
  let ?t = "str_or status_text []"
  define u where "u = fold redact STATUS_PATTERNS ?t"
  have "\<not> sublist mid u"
    using pass [of "tl STATUS_PATTERNS" "redact match_key ?t"] redact_key_free [OF mid]
    by (auto simp: u_def STATUS_PATTERNS_def)
  then have "\<not> sublist mid (strip u)" using strip_sublist sublist_order.order.trans by metis
  moreover from this have "\<not> sublist mid (rstrip (take (max_chars - 20) (strip u)))"
    using rstrip_sublist take_is_prefix prefix_imp_sublist sublist_order.order.trans by metis
  moreover have "\<not> sublist mid ''...[truncated]''"
    using sublist_length_le [of mid "''...[truncated]''"] mid by (auto simp: is_key_def)
  ultimately show False
    using assms sublist_without [of mid _ "CHR 0x0A"] br
    by (auto simp: sanitize_codex_limit_status_text_def Let_def u_def [symmetric] split: if_splits)
qed

theorem no_key_is_shown_witness:
  "sanitize_codex_limit_status_text (Some ''key: SK-ABCDEFGHIJKLMNOPQRSTU'') 4000 = ''key: [redacted]'' \<and> \<not> is_key ''key: [redacted]''"
proof -
  have shown: "sanitize_codex_limit_status_text (Some ''key: SK-ABCDEFGHIJKLMNOPQRSTU'') 4000 = ''key: [redacted]''" by code_simp
  then show ?thesis
    using no_key_is_shown [of "''key: [redacted]''" "Some ''key: SK-ABCDEFGHIJKLMNOPQRSTU''" 4000] by simp
qed

section \<open>The counters add up\<close>

text \<open>The runs of an account: when, the tokens, and the model.\<close>

fun record_runs :: "dict \<Rightarrow> (string \<times> dict \<times> string) list \<Rightarrow> py_error + dict" where
  "record_runs metadata [] = Inr metadata"
| "record_runs metadata ((stamp, usage_of_run, model_id) # runs) =
     (case merge_codex_usage_metadata stamp metadata usage_of_run model_id of
        Inl e \<Rightarrow> Inl e
      | Inr next_metadata \<Rightarrow> record_runs next_metadata runs)"

definition usage_of_account :: "dict \<Rightarrow> dict" where
  "usage_of_account md = dict_or_empty (dict_get md ''usage'')"

definition usage_of_model :: "dict \<Rightarrow> string \<Rightarrow> dict" where
  "usage_of_model md m = dict_or_empty (dict_get (dict_or_empty (dict_get (usage_of_account md) ''by_model'')) m)"

definition counter :: "dict \<Rightarrow> string \<Rightarrow> int" where
  "counter d k = coerce_tokens (dict_get d k)"

definition is_dict_or_null :: "json \<Rightarrow> bool" where
  "is_dict_or_null j \<longleftrightarrow> (case j of JNull \<Rightarrow> True | JDict _ \<Rightarrow> True | _ \<Rightarrow> False)"

definition metadata_ok :: "dict \<Rightarrow> bool" where
  "metadata_ok md \<longleftrightarrow> is_dict_or_null (dict_get md ''usage'') \<and>
     is_dict_or_null (dict_get (usage_of_account md) ''by_model'') \<and>
     (\<forall>m. is_dict_or_null (dict_get (dict_or_empty (dict_get (usage_of_account md) ''by_model'')) m))"

lemma dict_get_update [simp]: "dict_get (AList.update k v d) k' = (if k' = k then v else dict_get d k')"
  by (simp add: dict_get_def AList.update_conv)

lemma copy_of_dict: "is_dict_or_null j \<Longrightarrow> copy_dict j = Inr (dict_or_empty j)"
  by (cases j) (auto simp: is_dict_or_null_def copy_dict_def dict_or_empty_def)

lemma counter_bump: "counter (bump k n d) k' = counter d k' + (if k' = k then n else 0)"
  by (simp add: counter_def bump_def coerce_tokens_def)

lemma bump_other: "k' \<noteq> k \<Longrightarrow> dict_get (bump k n d) k' = dict_get d k'"
  by (simp add: bump_def)

lemma counter_counted:
  "map (counter (counted r d)) TOKEN_KEYS = map (\<lambda>k. counter d k + counter r k) TOKEN_KEYS"
  "counter (counted r d) ''request_count'' = counter d ''request_count'' + 1"
  "dict_get (counted r d) ''by_model'' = dict_get d ''by_model''"
  by (simp_all add: counted_def TOKEN_KEYS_def counter_bump bump_other counter_def [of r, symmetric])

lemma merged:
  assumes "metadata_ok md"
  shows "\<exists>md'. merge_codex_usage_metadata stamp md r m = Inr md' \<and> metadata_ok md' \<and>
    map (counter (usage_of_account md')) (''request_count'' # TOKEN_KEYS) =
      map (counter (counted r (usage_of_account md))) (''request_count'' # TOKEN_KEYS) \<and>
    (\<forall>n. usage_of_model md' n = (if n = m then counted r (usage_of_model md m) else usage_of_model md n))"
  using assms
  by (simp add: merge_codex_usage_metadata_def metadata_ok_def copy_of_dict usage_of_account_def usage_of_model_def Let_def)
     (simp add: dict_or_empty_def is_dict_or_null_def counter_def TOKEN_KEYS_def)

lemma record_runs_counters:
  assumes "metadata_ok md"
  shows "\<exists>md'. record_runs md runs = Inr md' \<and>
     map (counter (usage_of_account md')) TOKEN_KEYS =
       map (\<lambda>k. counter (usage_of_account md) k + (\<Sum>(_, r, _)\<leftarrow>runs. counter r k)) TOKEN_KEYS \<and>
     counter (usage_of_account md') ''request_count'' = counter (usage_of_account md) ''request_count'' + int (length runs) \<and>
     (\<forall>m. map (counter (usage_of_model md' m)) TOKEN_KEYS =
            map (\<lambda>k. counter (usage_of_model md m) k + (\<Sum>(_, r, _)\<leftarrow>filter (\<lambda>(_, _, n). n = m) runs. counter r k)) TOKEN_KEYS \<and>
          counter (usage_of_model md' m) ''request_count'' =
            counter (usage_of_model md m) ''request_count'' + int (length (filter (\<lambda>(_, _, n). n = m) runs)))"
  using assms
proof (induction runs arbitrary: md)
  case (Cons x runs)
  obtain stamp r m where x: "x = (stamp, r, m)" by (cases x)
  obtain md1 where md1: "merge_codex_usage_metadata stamp md r m = Inr md1" "metadata_ok md1"
    "map (counter (usage_of_account md1)) (''request_count'' # TOKEN_KEYS) =
      map (counter (counted r (usage_of_account md))) (''request_count'' # TOKEN_KEYS)"
    "\<And>n. usage_of_model md1 n = (if n = m then counted r (usage_of_model md m) else usage_of_model md n)"
    using merged [OF Cons.prems] by blast
  have "map (counter (usage_of_account md1)) TOKEN_KEYS =
      map (\<lambda>k. counter (usage_of_account md) k + counter r k) TOKEN_KEYS"
    "counter (usage_of_account md1) ''request_count'' = counter (usage_of_account md) ''request_count'' + 1"
    using md1(3) counter_counted(1) [of r "usage_of_account md"] counter_counted(2) [of r] by simp_all
  moreover have "map (counter (usage_of_model md1 n)) TOKEN_KEYS =
      map (\<lambda>k. counter (usage_of_model md n) k + (if n = m then counter r k else 0)) TOKEN_KEYS"
    "counter (usage_of_model md1 n) ''request_count'' =
      counter (usage_of_model md n) ''request_count'' + (if n = m then 1 else 0)" for n
    using md1(4) [of n] counter_counted(1) [of r "usage_of_model md m"] counter_counted(2) [of r] by simp_all
  moreover obtain md2 where "record_runs md1 runs = Inr md2"
    "map (counter (usage_of_account md2)) TOKEN_KEYS =
       map (\<lambda>k. counter (usage_of_account md1) k + (\<Sum>(_, r, _)\<leftarrow>runs. counter r k)) TOKEN_KEYS"
    "counter (usage_of_account md2) ''request_count'' = counter (usage_of_account md1) ''request_count'' + int (length runs)"
    "\<And>n. map (counter (usage_of_model md2 n)) TOKEN_KEYS =
       map (\<lambda>k. counter (usage_of_model md1 n) k + (\<Sum>(_, r, _)\<leftarrow>filter (\<lambda>(_, _, l). l = n) runs. counter r k)) TOKEN_KEYS"
    "\<And>n. counter (usage_of_model md2 n) ''request_count'' =
       counter (usage_of_model md1 n) ''request_count'' + int (length (filter (\<lambda>(_, _, l). l = n) runs))"
    using Cons.IH [OF md1(2)] by blast
  ultimately show ?case using md1(1)
    by (intro exI [of _ md2]) (simp add: x TOKEN_KEYS_def)
qed simp

text \<open>
  C38. The counters of an account: however many runs of whatever models are recorded, and whatever
  they report, every counter of the account is the sum over its runs, and every counter of a model
  the sum over the runs of that model; nothing raises.
\<close>

theorem codex_counters_add_up:
  "\<exists>md. record_runs [] runs = Inr md \<and>
     map (counter (usage_of_account md)) TOKEN_KEYS = map (\<lambda>k. \<Sum>(_, r, _)\<leftarrow>runs. counter r k) TOKEN_KEYS \<and>
     counter (usage_of_account md) ''request_count'' = int (length runs) \<and>
     (\<forall>m. map (counter (usage_of_model md m)) TOKEN_KEYS =
            map (\<lambda>k. \<Sum>(_, r, _)\<leftarrow>filter (\<lambda>(_, _, n). n = m) runs. counter r k) TOKEN_KEYS \<and>
          counter (usage_of_model md m) ''request_count'' = int (length (filter (\<lambda>(_, _, n). n = m) runs)))"
proof -
  have "metadata_ok []" "usage_of_account [] = []" "usage_of_model [] m = []" "counter [] k = 0" for m k
    by (simp_all add: metadata_ok_def usage_of_account_def usage_of_model_def dict_get_def dict_or_empty_def
        is_dict_or_null_def counter_def coerce_tokens_def)
  with record_runs_counters [of "[]" runs] show ?thesis by simp
qed

section \<open>What is billed\<close>

text \<open>The bill does not depend on the order of the logs.\<close>

lemma add_log_commute: "add_log a (add_log b acc) = add_log b (add_log a acc)"
  by (cases acc; cases a; cases b) (auto simp: add_log_def Let_def split: option.split)

lemma bill_of_any_order:
  assumes "mset logs = mset logs'"
  shows "calculate_codex_billable_usage logs n k = calculate_codex_billable_usage logs' n k"
proof -
  have "fold add_log logs = fold add_log logs'"
    by (rule fold_multiset_equiv) (use assms in \<open>auto simp: add_log_commute fun_eq_iff\<close>)
  then show ?thesis by (simp add: calculate_codex_billable_usage_def)
qed

text \<open>What the command line read on its own account is not billed: never more than the estimate of the application.\<close>

lemma billed_input_at_most_estimate:
  assumes "\<forall>j \<in> set logs. \<forall>d. j = JDict d \<longrightarrow> dict_get d ''usage_source'' = JStr ''codex_cli''"
  shows "bu_input (calculate_codex_billable_usage logs n k) \<le> max 0 (coerce_tokens n)"
proof -
  have "snd (fold add_log logs acc) = snd acc" if "\<forall>j \<in> set logs. \<forall>d. j = JDict d \<longrightarrow> dict_get d ''usage_source'' = JStr ''codex_cli''"
    for logs acc
    using that by (induction logs arbitrary: acc) (auto simp: add_log_def Let_def split: json.split prod.split)
  from this [OF assms, of "(None, 0, 0)"] show ?thesis
    by (cases "fold add_log logs (None, 0, 0)") (auto simp: calculate_codex_billable_usage_def split: option.split)
qed

section \<open>The process\<close>

text \<open>Of the environment of the platform Codex sees the named variables only.\<close>

lemma no_other_variable:
  "fst ` set (build_codex_process_env defpath environ codex_home) \<subseteq> set ALLOWED_ENV \<union> {''CODEX_HOME'', ''HOME''}"
  by (auto simp: build_codex_process_env_def Let_def dom_update ALLOWED_ENV_def)

lemma folder_name_is_plain:
  assumes "list_all name_char fresh"
  shows "list_all name_char (safe_suffix fresh s)"
proof -
  have "list_all name_char (underscored b s)" for b by (induction b s rule: underscored.induct) (auto simp: name_char_def)
  moreover have "set (strip_dots t) \<subseteq> set t" for t
    by (auto simp: strip_dots_def Let_def dest!: set_dropWhileD [of _ _ "rev _"] set_dropWhileD [of _ _ t])
  ultimately show ?thesis using assms by (auto simp: safe_suffix_def Let_def list_all_iff)
qed

text \<open>The words are searched inside the output: a refusal that mentions them counts as a login.\<close>

lemma not_logged_in_counts: "fst (check_codex_login_status 0 ''Not logged in'' [])"
  by code_simp

end
