(* ===== verification/Bot_Text.thy ===== *)
theory Bot_Text
  imports Payloads Tool_Requests Promo Usage Json_Values
begin

text \<open>
  Texts the bot reads and writes (\<open>bot.py\<close>): amounts and promo codes a user types, the phrases that call
  it in a group, the tokens a provider reports, and the division of a long answer into messages. A
  text is its UTF-8 bytes, of white space and digits only the ASCII ones and the Persian digits count.
\<close>

section \<open>Amounts\<close>

text \<open>The Persian digits are U+06F0 to U+06F9.\<close>

definition translate_digits :: "string \<Rightarrow> string" where
  "translate_digits s = fold (\<lambda>i. replace_text [CHR 0xDB, char_of (176 + i)] [char_of (48 + i)]) [0..<10 :: nat] s"

definition THOUSANDS :: string where "THOUSANDS = [CHR 0xD9, CHR 0xAC]"
definition DECIMAL_POINT :: string where "DECIMAL_POINT = [CHR 0xD9, CHR 0xAB]"

definition DOLLAR_WORD :: string where
  "DOLLAR_WORD = [CHR 0xD8, CHR 0xAF, CHR 0xD9, CHR 0x84, CHR 0xD8, CHR 0xA7, CHR 0xD8, CHR 0xB1]"

definition TOMAN_WORD :: string where
  "TOMAN_WORD = [CHR 0xD8, CHR 0xAA, CHR 0xD9, CHR 0x88, CHR 0xD9, CHR 0x85, CHR 0xD8, CHR 0xA7, CHR 0xD9, CHR 0x86]"

definition TOMAN_WORD_SPOKEN :: string where
  "TOMAN_WORD_SPOKEN = [CHR 0xD8, CHR 0xAA, CHR 0xD9, CHR 0x88, CHR 0xD9, CHR 0x85, CHR 0xD9, CHR 0x86]"

definition without :: "string list \<Rightarrow> string \<Rightarrow> string" where
  "without ws s = fold (\<lambda>w. replace_text w []) ws s"

definition parse_topup_usd_amount :: "string option \<Rightarrow> rat option" where
  "parse_topup_usd_amount typed =
     (let raw = strip (str_or typed []);
          pointed = replace_text DECIMAL_POINT ''.'' (lower (translate_digits raw));
          plain = filter (\<lambda>c. \<not> is_space c) (without [THOUSANDS, '','', ''$'', ''usd'', ''usdt'', DOLLAR_WORD] pointed)
      in if raw = [] \<or> plain = [] then None
         else case parse_decimal plain of
           None \<Rightarrow> None
         | Some x \<Rightarrow>
             if x \<le> 0 then None
             else let amount = quantize2 x in
               if amount < MIN_TOPUP_USD_AMOUNT \<or> MAX_TOPUP_USD_AMOUNT < amount then None else Some amount)"

definition parse_toman_amount :: "string option \<Rightarrow> int option" where
  "parse_toman_amount typed =
     (let raw = strip (str_or typed []);
          plain = filter (\<lambda>c. \<not> is_space c)
            (without [THOUSANDS, '','', TOMAN_WORD, TOMAN_WORD_SPOKEN, ''irt''] (lower (translate_digits raw)))
      in if raw = [] \<or> plain = [] \<or> \<not> list_all is_digit plain then None
         else case int_of_str plain of
           None \<Rightarrow> None
         | Some n \<Rightarrow> if n \<le> 0 \<or> 100000000 < n then None else Some n)"

section \<open>Reported tokens\<close>

fun reported_token :: "json \<Rightarrow> int" where
  "reported_token (JBool b) = (if b then 1 else 0)"
| "reported_token (JInt n) = max 0 n"
| "reported_token (JFloat x) = max 0 (trunc x)"
| "reported_token _ = 0"

text \<open>The first of the names that gives a number other than 0.\<close>

definition first_reported :: "dict \<Rightarrow> string list \<Rightarrow> int" where
  "first_reported d names =
     (case filter (\<lambda>n. n \<noteq> 0) (map (\<lambda>k. reported_token (dict_get d k)) names) of [] \<Rightarrow> 0 | n # _ \<Rightarrow> n)"

definition bot_usage_tokens :: "json \<Rightarrow> int \<times> int" where
  "bot_usage_tokens usage =
     (case usage of
        JDict d \<Rightarrow>
          (let inp = first_reported d [''prompt_tokens'', ''input_tokens'', ''prompt_token_count'', ''promptTokenCount''];
               out = first_reported d [''completion_tokens'', ''output_tokens'', ''candidates_token_count'', ''candidatesTokenCount''];
               total = first_reported d [''total_tokens'', ''totalTokenCount'']
           in (inp, if out = 0 \<and> inp < total then total - inp else out))
      | _ \<Rightarrow> (0, 0))"

definition bot_sum_usage_tokens :: "json list \<Rightarrow> int \<times> int" where
  "bot_sum_usage_tokens us = (\<Sum>u\<leftarrow>us. fst (bot_usage_tokens u), \<Sum>u\<leftarrow>us. snd (bot_usage_tokens u))"

section \<open>Calls in a group\<close>

text \<open>\<open>re.sub\<close> of white space by one blank; the flag tells that a blank was just written.\<close>

fun one_blank :: "bool \<Rightarrow> string \<Rightarrow> string" where
  "one_blank b [] = []"
| "one_blank b (c # cs) =
     (if is_space c then (if b then one_blank True cs else CHR '' '' # one_blank True cs) else c # one_blank False cs)"

definition normalize_group_trigger_phrase :: "string \<Rightarrow> string" where
  "normalize_group_trigger_phrase s = one_blank False (lower (strip s))"

text \<open>The length in characters: bytes that continue a character do not count.\<close>

definition char_count :: "string \<Rightarrow> nat" where
  "char_count s = length (filter (\<lambda>c. let n = (of_char c :: nat) in n < 128 \<or> 192 \<le> n) s)"

text \<open>The signs that may follow the phrase; two of them are Arabic, of two bytes.\<close>

fun skip_separators :: "string \<Rightarrow> string" where
  "skip_separators (c # d # cs) =
     (if (c, d) \<in> {(CHR 0xD8, CHR 0x8C), (CHR 0xD8, CHR 0x9F)} then skip_separators cs
      else if is_space c \<or> c \<in> {CHR '':'', CHR '','', CHR ''!'', CHR ''?'', CHR ''-''} then skip_separators (d # cs)
      else c # d # cs)"
| "skip_separators [c] =
     (if is_space c \<or> c \<in> {CHR '':'', CHR '','', CHR ''!'', CHR ''?'', CHR ''-''} then [] else [c])"
| "skip_separators [] = []"

definition after_trigger :: "string \<Rightarrow> string \<Rightarrow> string option" where
  "after_trigger trigger s =
     (if trigger = [] \<or> \<not> starts_with (lower s) trigger then None
      else let rest = drop (length trigger) s in
        if rest = [] \<or> skip_separators rest \<noteq> rest then Some (strip (skip_separators rest)) else None)"

definition extract_group_question :: "string \<Rightarrow> string list \<Rightarrow> (string \<times> string) option" where
  "extract_group_question text_value phrases =
     (let compact = one_blank False (strip text_value);
          triggers = sort_key (\<lambda>t. - int (char_count t)) (map normalize_group_trigger_phrase phrases)
      in case filter (\<lambda>t. after_trigger t compact \<noteq> None) triggers of
           [] \<Rightarrow> None
         | t # _ \<Rightarrow> map_option (Pair t) (after_trigger t compact))"

section \<open>Long answers\<close>

text \<open>Here a text is its code points, since lengths are counted; \<open>blank\<close> is \<open>str.isspace\<close>.\<close>

definition CHUNK_LIMIT :: nat where
  "CHUNK_LIMIT = 3900"

definition line_feed :: nat where
  "line_feed = 10"

definition blank :: "nat \<Rightarrow> bool" where
  "blank n \<longleftrightarrow> 9 \<le> n \<and> n \<le> 13 \<or> 28 \<le> n \<and> n \<le> 32 \<or> n \<in> {133, 160, 5760, 8232, 8233, 8239, 8287, 12288} \<or>
     8192 \<le> n \<and> n \<le> 8202"

definition rstrip_points :: "nat list \<Rightarrow> nat list" where
  "rstrip_points s = rev (dropWhile blank (rev s))"

text \<open>\<open>remaining.rfind('\n', 0, limit)\<close>: where the last line break of the first \<open>limit\<close> characters is.\<close>

definition rfind_newline :: "nat list \<Rightarrow> nat option" where
  "rfind_newline s =
     (let t = dropWhile (\<lambda>c. c \<noteq> line_feed) (rev (take CHUNK_LIMIT s)) in if t = [] then None else Some (length t - 1))"

definition chunk_cut :: "nat list \<Rightarrow> nat" where
  "chunk_cut s =
     (case rfind_newline s of None \<Rightarrow> CHUNK_LIMIT | Some i \<Rightarrow> if i < CHUNK_LIMIT div 2 then CHUNK_LIMIT else i)"

lemma chunk_cut_bounds: "0 < chunk_cut s" "chunk_cut s \<le> CHUNK_LIMIT"
proof -
  have "length (dropWhile P (rev (take CHUNK_LIMIT s))) \<le> CHUNK_LIMIT" for P
    using length_dropWhile_le [of P "rev (take CHUNK_LIMIT s)"] by simp
  then show "chunk_cut s \<le> CHUNK_LIMIT"
    by (auto simp: chunk_cut_def rfind_newline_def Let_def le_diff_conv le_SucI split: if_splits)
  show "0 < chunk_cut s" by (auto simp: chunk_cut_def CHUNK_LIMIT_def split: option.split)
qed

function chunks_of :: "nat list \<Rightarrow> nat list list" where
  "chunks_of remaining =
     (if CHUNK_LIMIT < length remaining
      then rstrip_points (take (chunk_cut remaining) remaining) #
           chunks_of (dropWhile (\<lambda>c. c = line_feed) (drop (chunk_cut remaining) remaining))
      else if remaining = [] then [] else [remaining])"
  by auto
termination
proof (relation "measure length")
  fix s :: "nat list"
  assume "CHUNK_LIMIT < length s"
  then have "s \<noteq> []" by auto
  then have "length (drop (chunk_cut s) s) < length s" using chunk_cut_bounds(1) [of s] by simp
  then show "(dropWhile (\<lambda>c. c = line_feed) (drop (chunk_cut s) s), s) \<in> measure length"
    using length_dropWhile_le [of "\<lambda>c. c = line_feed" "drop (chunk_cut s) s"] by simp
qed simp

declare chunks_of.simps [simp del]

definition chunk_text :: "nat list \<Rightarrow> nat list list" where
  "chunk_text s = (if length s \<le> CHUNK_LIMIT then [s] else chunks_of s)"

section \<open>What holds\<close>

text \<open>No message is too long, and nothing but white space is lost.\<close>

lemma visible_rstrip: "filter (\<lambda>c. \<not> blank c) (rstrip_points t) = filter (\<lambda>c. \<not> blank c) t"
proof -
  have "filter (\<lambda>c. \<not> blank c) (dropWhile blank u) = filter (\<lambda>c. \<not> blank c) u" for u by (induction u) auto
  then show ?thesis by (simp add: rstrip_points_def rev_filter [symmetric])
qed

lemma visible_drop_newlines: "filter (\<lambda>c. \<not> blank c) (dropWhile (\<lambda>c. c = line_feed) u) = filter (\<lambda>c. \<not> blank c) u"
  by (induction u) (auto simp: blank_def line_feed_def)

lemma chunks_complete: "concat (map (filter (\<lambda>c. \<not> blank c)) (chunk_text s)) = filter (\<lambda>c. \<not> blank c) s"
proof -
  have "concat (map (filter (\<lambda>c. \<not> blank c)) (chunks_of s)) = filter (\<lambda>c. \<not> blank c) s"
  proof (induction s rule: chunks_of.induct)
    case (1 s)
    then show ?case
      by (subst chunks_of.simps) (simp add: visible_rstrip visible_drop_newlines filter_append [symmetric] del: filter_append)
  qed
  then show ?thesis by (simp add: chunk_text_def)
qed

lemma chunks_short: "m \<in> set (chunk_text s) \<Longrightarrow> length m \<le> CHUNK_LIMIT"
proof -
  have short: "length (rstrip_points t) \<le> length t" for t
    using length_dropWhile_le [of blank "rev t"] by (simp add: rstrip_points_def)
  have "\<forall>m \<in> set (chunks_of s). length m \<le> CHUNK_LIMIT"
  proof (induction s rule: chunks_of.induct)
    case (1 s)
    have "length (rstrip_points (take (chunk_cut s) s)) \<le> CHUNK_LIMIT"
      using short [of "take (chunk_cut s) s"] chunk_cut_bounds(2) [of s] by simp
    with 1 show ?case by (subst chunks_of.simps) auto
  qed
  then show "m \<in> set (chunk_text s) \<Longrightarrow> length m \<le> CHUNK_LIMIT" by (auto simp: chunk_text_def split: if_splits)
qed

text \<open>Amounts keep to their limits.\<close>

lemma toman_amount_bounds: "parse_toman_amount typed = Some n \<Longrightarrow> 0 < n \<and> n \<le> 100000000"
  by (auto simp: parse_toman_amount_def Let_def split: if_splits option.splits)

text \<open>\<open>usd\<close> is taken out first and leaves the last letter of \<open>usdt\<close>: such an amount is refused.\<close>

lemma usdt_amount_refused: "parse_topup_usd_amount (Some ''10 usdt'') = None" "parse_topup_usd_amount (Some ''10 usd'') = Some 10"
  by code_simp+

text \<open>Reported tokens are never negative, and a total that is larger than the input decides the output.\<close>

lemma reported_nonneg: "0 \<le> first_reported d names"
proof -
  have "0 \<le> reported_token j" for j by (cases j) auto
  then have "0 \<le> n" if "filter (\<lambda>n. n \<noteq> 0) (map (\<lambda>k. reported_token (dict_get d k)) names) = n # ns" for n ns
  proof -
    have "n \<in> set (filter (\<lambda>n. n \<noteq> 0) (map (\<lambda>k. reported_token (dict_get d k)) names))" by (simp only: that list.set_intros)
    with \<open>\<And>j. 0 \<le> reported_token j\<close> show ?thesis by auto
  qed
  then show ?thesis unfolding first_reported_def by (auto split: list.split)
qed

lemma usage_tokens_nonneg: "0 \<le> fst (bot_usage_tokens u)" "0 \<le> snd (bot_usage_tokens u)"
  using reported_nonneg by (auto simp: bot_usage_tokens_def Let_def split: json.split)

text \<open>The bot bills by this reader and records by that of the usage service: they disagree on numbers written as texts.\<close>

lemma readers_disagree:
  "fst (bot_usage_tokens (JDict [(''prompt_tokens'', JStr ''7'')])) = 0"
  "input_tokens (extract_usage_tokens (JDict [(''prompt_tokens'', JStr ''7'')])) = 7"
  by code_simp+

text \<open>Of the phrases that fit the longest one counts.\<close>

lemma longest_phrase_counts:
  assumes "extract_group_question s phrases = Some (t, question)" and "u \<in> set phrases"
    and "after_trigger (normalize_group_trigger_phrase u) (one_blank False (strip s)) \<noteq> None"
  shows "char_count (normalize_group_trigger_phrase u) \<le> char_count t"
proof -
  define ts where "ts = sort_key (\<lambda>t. - int (char_count t)) (map normalize_group_trigger_phrase phrases)"
  define P where "P = (\<lambda>t. after_trigger t (one_blank False (strip s)) \<noteq> None)"
  have "sorted (map (\<lambda>t. - int (char_count t)) (filter P ts))"
    unfolding ts_def by (rule sorted_filter) simp
  moreover obtain us where "filter P ts = t # us"
    using assms(1) by (auto simp: extract_group_question_def Let_def P_def ts_def split: list.splits)
  moreover have "normalize_group_trigger_phrase u \<in> set (filter P ts)" using assms(2,3) by (simp add: P_def ts_def)
  ultimately show ?thesis by auto
qed

lemma toman_amount_typed: "parse_toman_amount (Some '' 3,0 IRT '') = Some 30"
  by code_simp

end
