(* ===== verification/Spec2Isabelle.thy ===== *)
theory Spec2Isabelle
  imports Promo Group_Billing Link_Codes Float64 Payment_Review User_Subscription Admin_Subscription
    Idempotency Projects Feedback Tips Payloads Bot_Payments Calculator Tool_Requests Model_Routing Platform
    Learning_Preferences Era_Spending Web_Login Codex_Usage
    Promo_Admin Bot_Text
begin

text \<open>
  The money, the subscriptions and the decisions of the BOZ platform: a FastAPI service and a
  Telegram bot over one SQLite database (\<open>src/pbozi/backend/app\<close>; paths below are relative to it
  where nothing else is said), and a web application (\<open>src/backend/open_webui\<close>) that shares the database.

  \<^bold>\<open>The program.\<close> A user is a row of \<open>UserPreference\<close>. Web routes, an administration, the Telegram
  bot and scheduled jobs each open a database session, call services and commit. Money is kept three
  times: in Toman (a gift and a paid balance, \<open>toman_billing_service.py\<close>), in micro-dollars (the
  wallets, \<open>wallet_service.py\<close> and \<open>bot.py\<close>) and as limits and free chats of a subscription
  (\<open>user_subscriptions\<close>). Money comes in through a payment provider (\<open>bot.py\<close>), through card
  payments an administrator approves (\<open>payment_routes.py\<close>), promo codes, gifts and trials; it goes out
  through purchases and through the use of language models. A subscription to a Codex plan takes a
  seat in a capacity pool. \<open>llm.py\<close> chooses the model, reads tool calls in its answers and evaluates
  arithmetic. The web application checks the limits of a user's plan before a chat, charges each
  answer to the same balances afterwards, and takes payment orders from a second bot.

  \<^bold>\<open>Foundations.\<close>
  \<^item> \<open>Prelude\<close>: the exception-and-state monad of a coroutine and its two calculi (triples with the
    collection \<open>hoare_rules\<close>, evaluation with \<open>run_simps\<close>); tables as lists of (key, row) with the
    interface \<open>row_store\<close>; the interface \<open>prepaid\<close> of a balance that pays; strings, rounding.
  \<^item> \<open>Models\<close>: \<open>models.py\<close>, one record per table, the database \<open>db\<close> and the \<open>session\<close> (the open
    transaction \<open>work\<close>, the committed state \<open>durable\<close>, the \<open>outbox\<close> of messages sent).
  \<^item> \<open>Float64\<close>: Python's float as the rational it stands for, \<open>fl\<close> the rounding to binary64.
    \<open>Json_Values\<close>: reading numbers, texts, lists and objects out of a JSON document.

  \<^bold>\<open>Money.\<close>
  \<^item> \<open>Toman_Billing\<close>, \<open>Toman_Usage\<close>: \<open>services/toman_billing_service.py\<close>, one definition per function.
    \<open>Toman_Books\<close> and \<open>Toman_Safety\<close>: the accounting invariant \<open>books\<close> and that every operation keeps
    it; \<open>Toman_Lemmas\<close>, \<open>Toman_Purchase\<close>: what the charges, the top-up and the purchase do. The account
    of a solvent user interprets \<open>prepaid\<close>.
  \<^item> \<open>Wallet\<close>: \<open>services/wallet_service.py\<close>, the second interpretation of \<open>prepaid\<close>.
  \<^item> \<open>Bot_Ledger\<close>, \<open>Payloads\<close>, \<open>Bot_Payments\<close>: the dollar charges, usage events, update claims, invoice
    payloads and payment handlers of \<open>bot.py\<close>.
  \<^item> \<open>Bot_Text\<close>: amounts and calls users type to \<open>bot.py\<close>, reported tokens, long answers in pieces.
  \<^item> \<open>Payments\<close>, \<open>Payment_Review\<close>: \<open>payment_routes.py\<close> and the life of a payment request.
  \<^item> \<open>Promo\<close>, \<open>Trial\<close>, \<open>Accounts\<close>: \<open>services/promo_code_service.py\<close>, \<open>trial_service.py\<close>,
    \<open>account_service.py\<close>.
  \<^item> \<open>Promo_Admin\<close>: the administration of promo codes in \<open>admin_routes.py\<close>.
  \<^item> \<open>Group_Billing\<close>: \<open>services/group_billing_service.py\<close>, the division of a group's cost.

  \<^bold>\<open>Subscriptions and usage.\<close>
  \<^item> \<open>Capacity\<close>: \<open>services/codex_capacity_service.py\<close>. \<open>User_Subscription\<close>, \<open>Admin_Subscription\<close>: the
    routes of those names. \<open>Usage\<close>: \<open>services/usage_metering.py\<close>, \<open>services/subscription_service.py\<close>.
  \<^item> \<open>Idempotency\<close>, \<open>Link_Codes\<close>, \<open>Feedback\<close>, \<open>Tips\<close>, \<open>Projects\<close>, \<open>Learning_Preferences\<close>:
    \<open>services/idempotency_service.py\<close>, \<open>link_code_routes.py\<close>, \<open>services/feedback_service.py\<close>,
    \<open>tips_logic.py\<close> with \<open>tips_scheduler.py\<close> and \<open>admin_tips_routes.py\<close>,
    \<open>services/project_sharing.py\<close>, \<open>services/learning_preferences_service.py\<close>.

  \<^bold>\<open>Language models\<close> (\<open>llm.py\<close>).
  \<^item> \<open>Calculator\<close>: the arithmetic evaluator over the syntax tree \<open>ast.parse\<close> returns.
  \<^item> \<open>Tool_Requests\<close>: tool calls written in the text of an answer.
  \<^item> \<open>Model_Routing\<close>: the configuration and the decisions of an automatic router.
  \<^item> \<open>Codex_Usage\<close>: \<open>services/codex_runtime.py\<close>, what is given to the Codex command line and read from it, the
    counters of an account and the tokens that are billed.

  \<^bold>\<open>The web application\<close> (\<open>src/backend/open_webui\<close>).
  \<^item> \<open>Web_Credits\<close>: \<open>models/user_credits.py\<close>, \<open>models/subscriptions.py\<close>, \<open>models/payment_orders.py\<close>,
    \<open>routers/billing.py\<close>, \<open>routers/subscriptions.py\<close>, \<open>routers/credits.py\<close>: its own database, the
    inductive \<open>web_reachable\<close> of the requests on it and their invariant. The credits interpret \<open>prepaid\<close>.
  \<^item> \<open>Era_Account\<close>: \<open>models/era_db.py\<close>, \<open>routers/account.py\<close> and the check before a chat in \<open>main.py\<close>,
    on the part of the shared database the web application sees.
  \<^item> \<open>Era_Spending\<close>: \<open>utils/spending.py\<close>, the charge of an answer, and the check and the charge together.
  \<^item> \<open>Web_Login\<close>: \<open>routers/otp_auth.py\<close>, \<open>routers/bot_auth.py\<close>, \<open>utils/telegram_auth.py\<close>, \<open>utils/bale_auth.py\<close>
    and the login codes of \<open>bot.py\<close>. The interface \<open>redis_server\<close> states what the code relies on of Redis; a
    store with expiry interprets it.

  \<^bold>\<open>The composition.\<close>
  \<^item> \<open>Ledger_Growth\<close>: no operation changes or removes a row of the Toman ledger.
  \<^item> \<open>Platform\<close>: \<open>operation\<close> is one request, job or update of any component, \<open>platform_step\<close> runs it in a
    session of its own, and a database is reachable by such steps. The interface \<open>safe_operation\<close> states
    what an operation owes to the whole. The platform keeps its books, and it refines \<open>bank\<close>, an abstract
    bank of users with two balances and a journal to which postings are appended.

  \<^bold>\<open>Conventions.\<close>
  \<^item> One operation reads the clock once: \<open>now\<close>, in microseconds, is an argument. Instants are naive.
  \<^item> A new row's key is one above the largest (SQLite's rowid). The session's autoflush is immediate.
  \<^item> A raise keeps the mutations made before it; \<open>run_request\<close> is a session per request, which drops what
    was not committed.
  \<^item> Decimals are exact rationals, floats go through \<open>fl\<close>; integers are unbounded, as Python's are.
  \<^item> A Persian text is a tag in angle brackets or English where it is only shown, its UTF-8 bytes where the
    code compares it.
  \<^item> Code outside the repository is an argument: \<open>json.loads\<close>, \<open>html.unescape\<close>, \<open>str\<close> of a container,
    the answers of language models, the clock, random draws. Where a property needs a law of one of
    them the law is a hypothesis and the witness gives a function that satisfies it.
  \<^item> Fuel: \<open>next_free\<close>, the search for an unused folder, gets one step more than there are folders, and
    \<open>destination_search_ends\<close> shows that this always finds one. Every other loop is structural.

  \<^bold>\<open>Not modelled.\<close> The calls of the providers over HTTP and the streaming of answers; the PDF, image, file,
  search and spreadsheet tools; the vector index (\<open>rag.py\<close>); the Codex processes themselves, their proxy
  and their files (\<open>codex_proxy.py\<close>, \<open>codex_app_server.py\<close>, parts of \<open>services/codex_runtime.py\<close>): input and
  output, processes and the network. The conversation of the bot (menus, texts, keyboards). The administration of models,
  prompts, tools and skills (\<open>admin_routes.py\<close>, \<open>admin_skills_routes.py\<close>): one table each, written as it
  was received. \<open>group_agent_logic.py\<close> cannot be imported. \<open>src/backend/open_webui\<close> is a fork of Open
  WebUI, of which only the files the fork adds are the platform's own; of these the listings for
  administrators and the bot's pages are not modelled.
\<close>

section \<open>The accounting of the whole billing service\<close>

text \<open>
  Whatever calls of the Toman billing service a session makes, in whatever order, and
  whatever they return or raise, every balance is the sum of its ledger deltas, no balance is
  negative, no user has two accounts and no idempotency key is used twice; in the open
  transaction and in the committed state.
\<close>

theorem reachable_sessions_balance:
  "billing_reachable s \<Longrightarrow> books (work s) \<and> books (durable s)"
  using reachable_in_books [of s] by (simp add: on_both_def)

text \<open>The hypothesis at work: a top-up of 50000 Toman in an empty database.\<close>

theorem reachable_sessions_balance_witness:
  "books (work (snd (apply_toman_topup 0 7 50000 None None True (open_session empty_db)))) \<and>
   map snd (toman_ledger (work (snd (apply_toman_topup 0 7 50000 None None True
     (open_session empty_db))))) \<noteq> []"
proof -
  have "billing_reachable (snd (apply_toman_topup 0 7 50000 None None True (open_session empty_db)))"
    by (rule billing_reachable.step [OF billing_reachable.start billing_step.topup])
       (simp_all add: open_session_def empty_db_def fresh_books_def)
  note b = reachable_sessions_balance [OF this]
  have "map snd (toman_ledger (work (snd (apply_toman_topup 0 7 50000 None None True
      (open_session empty_db))))) \<noteq> []" by code_simp
  with b show ?thesis by simp
qed

end
